(* ===== verification/Prelude.thy ===== *)
theory Prelude
  imports Main "HOL-Library.Word"
begin

text \<open>
  Vocabulary shared by every component of the gateway model: the names of the machine
  types, the ways an operation of the code can fail, the two sequencing combinators that
  the fallible operations use, and the generic lemmas and theorem collections that the
  component proofs share.

  A stateful object of the code is a record. A call that the code makes on an object whose
  class is not part of the repository (dispatcher, connection, download, queue, logger) is
  appended to the field \<open>out\<close> of the record of the calling object, so the order of these
  calls is part of the state an operation returns. A value such an object returns is an
  argument of the operation that uses it.
\<close>

section \<open>Machine types\<close>

type_synonym byte = "8 word"
type_synonym uint8 = "8 word"
type_synonym uint16 = "16 word"
type_synonym uint32 = "32 word"
type_synonym uint64 = "64 word"

text \<open>Durations and time points of \<open>std::chrono\<close>, as their number of nanoseconds or milliseconds.\<close>

type_synonym nanoseconds = int
type_synonym milliseconds = int

section \<open>Failures\<close>

text \<open>
  \<open>Fatal\<close> is a call of \<open>log::fatal\<close> (the process ends), \<open>Assertion\<close> a failed \<open>assert\<close> in a
  build that has them; the other constructors are the exceptions the code throws.
\<close>

datatype failure =
    Fatal string
  | Assertion string
  | NotReady
  | NotSupported
  | RuntimeError string
  | Rejected string
  | DecodeError

type_synonym 'a result = "failure + 'a"

definition andthen :: "'a result \<Rightarrow> ('a \<Rightarrow> 'b result) \<Rightarrow> 'b result" where
  "andthen r f = (case r of Inl e \<Rightarrow> Inl e | Inr a \<Rightarrow> f a)"

text \<open>A loop over a range whose body may fail: it stops at the first failure.\<close>

fun foldr_result :: "('x \<Rightarrow> 'a \<Rightarrow> 'a result) \<Rightarrow> 'x list \<Rightarrow> 'a \<Rightarrow> 'a result" where
  "foldr_result f [] a = Inr a"
| "foldr_result f (x # xs) a = andthen (f x a) (foldr_result f xs)"

definition ok_and :: "('a \<Rightarrow> bool) \<Rightarrow> 'a result \<Rightarrow> bool" where
  "ok_and P r = (case r of Inl e \<Rightarrow> True | Inr a \<Rightarrow> P a)"

named_theorems model_defs "definitions of the model that proofs unfold"
named_theorems inv_pres "operations that keep an invariant"

lemma andthen_simps [simp]:
  "andthen (Inl e) f = Inl e"
  "andthen (Inr a) f = f a"
  by (simp_all add: andthen_def)

lemma andthen_eq_Inr: "andthen r f = Inr b \<longleftrightarrow> (\<exists>a. r = Inr a \<and> f a = Inr b)"
  by (cases r) auto

lemma andthen_return [simp]: "andthen r Inr = r" "andthen r (foldr_result f []) = r"
  by (cases r; simp)+

lemma ok_and_simps [simp]:
  "ok_and P (Inl e)"
  "ok_and P (Inr a) = P a"
  by (simp_all add: ok_and_def)

lemma ok_and_andthen:
  "ok_and P r \<Longrightarrow> (\<And>a. P a \<Longrightarrow> ok_and Q (f a)) \<Longrightarrow> ok_and Q (andthen r f)"
  by (cases r) auto

lemma foldr_result_invariant:
  "P a \<Longrightarrow> (\<And>x a. P a \<Longrightarrow> ok_and P (f x a)) \<Longrightarrow> ok_and P (foldr_result f xs a)"
proof (induction xs arbitrary: a)
  case Nil
  then show ?case by simp
next
  case (Cons x xs)
  have "ok_and P (f x a)" using Cons.prems by simp
  then show ?case
    using Cons by (auto intro!: ok_and_andthen)
qed

lemma foldr_result_append:
  "foldr_result f (xs @ ys) a = andthen (foldr_result f xs a) (foldr_result f ys)"
proof (induction xs arbitrary: a)
  case Nil
  then show ?case by simp
next
  case (Cons x xs)
  then show ?case by (cases "f x a") auto
qed

section \<open>Lists\<close>

text \<open>\<open>std::map::emplace\<close> and its kin: an entry is stored only where the key has none.\<close>

definition emplace :: "'k \<Rightarrow> 'v \<Rightarrow> ('k \<rightharpoonup> 'v) \<Rightarrow> ('k \<rightharpoonup> 'v)" where
  "emplace k v m = (case m k of None \<Rightarrow> m(k \<mapsto> v) | Some w \<Rightarrow> m)"

lemma emplace_apply:
  "emplace k v m j = (if j = k then (case m k of None \<Rightarrow> Some v | Some w \<Rightarrow> Some w) else m j)"
  by (auto simp: emplace_def split: option.splits)

lemma emplace_new [simp]: "m k = None \<Longrightarrow> emplace k v m = m(k \<mapsto> v)"
  by (simp add: emplace_def)

lemma emplace_old [simp]: "m k = Some w \<Longrightarrow> emplace k v m = m"
  by (simp add: emplace_def)

lemma emplace_idem [simp]: "emplace k v (emplace k w m) = emplace k w m"
  by (cases "m k") auto

lemma dom_emplace [simp]: "dom (emplace k v m) = insert k (dom m)"
  by (auto simp: emplace_def split: option.splits)

section \<open>Decimal numbers\<close>

text \<open>The decimal text of an integer, as \<open>fmt\<close> and \<open>charconv\<close> print it.\<close>

definition digit :: "nat \<Rightarrow> char" where
  "digit d = char_of (48 + d)"

fun show_nat :: "nat \<Rightarrow> string" where
  "show_nat n = (if n < 10 then [digit n] else show_nat (n div 10) @ [digit (n mod 10)])"

declare show_nat.simps [simp del]

definition show_int :: "int \<Rightarrow> string" where
  "show_int i = (if i < 0 then CHR ''-'' # show_nat (nat (- i)) else show_nat (nat i))"

fun read_nat_from :: "nat \<Rightarrow> string \<Rightarrow> nat" where
  "read_nat_from a [] = a"
| "read_nat_from a (c # cs) = read_nat_from (10 * a + (of_char c - 48)) cs"

lemma read_nat_append: "read_nat_from a (s @ t) = read_nat_from (read_nat_from a s) t"
  by (induction s arbitrary: a) auto

lemma of_char_digit [simp]: "d < 10 \<Longrightarrow> (of_char (digit d) :: nat) = 48 + d"
  by (simp add: digit_def)

lemma read_show_nat: "read_nat_from 0 (show_nat n) = n"
proof (induction n rule: show_nat.induct)
  case (1 n)
  then show ?case by (subst show_nat.simps) (auto simp: read_nat_append)
qed

lemma show_nat_inj: "show_nat m = show_nat n \<Longrightarrow> m = n"
  by (metis read_show_nat)

lemma show_nat_nonempty [simp]: "show_nat n \<noteq> []"
  by (subst show_nat.simps) simp

lemma show_nat_digits: "c \<in> set (show_nat n) \<Longrightarrow> \<exists>d<10. c = digit d"
proof (induction n rule: show_nat.induct)
  case (1 n)
  then show ?case
    by (subst (asm) (2) show_nat.simps) (auto split: if_splits intro: exI [of _ "n mod 10"])
qed

section \<open>Joined texts\<close>

text \<open>\<open>fmt::join\<close>.\<close>

fun join_text :: "string \<Rightarrow> string list \<Rightarrow> string" where
  "join_text sep [] = []"
| "join_text sep [x] = x"
| "join_text sep (x # y # xs) = x @ sep @ join_text sep (y # xs)"

end
