(* ===== verification/Double.thy ===== *)
theory Double
  imports Prelude "HOL-Library.Log_Nat"
begin

unbundle bit_operations_syntax

text \<open>
  The \<open>double\<close> of the language: IEEE 754 binary64 bit patterns, with the classification
  functions of \<open>cmath\<close>, the comparisons and the arithmetic operators that the gateway
  uses, rounded to nearest with ties to even.

  The magnitude of a finite double is an integer number of units of \<open>2^(-1074)\<close>
  (\<open>f_units\<close>), so every operation is exact integer arithmetic followed by \<open>f_round\<close>.
\<close>

type_synonym double = "64 word"

definition f_sign :: "double \<Rightarrow> bool" where
  "f_sign x = bit x 63"

definition f_mag :: "double \<Rightarrow> nat" where
  "f_mag x = unat (take_bit 63 x)"

definition f_exp :: "double \<Rightarrow> nat" where
  "f_exp x = f_mag x div 2 ^ 52"

definition f_frac :: "double \<Rightarrow> nat" where
  "f_frac x = f_mag x mod 2 ^ 52"

definition isnan :: "double \<Rightarrow> bool" where
  "isnan x \<longleftrightarrow> f_exp x = 2047 \<and> f_frac x \<noteq> 0"

definition isinf :: "double \<Rightarrow> bool" where
  "isinf x \<longleftrightarrow> f_exp x = 2047 \<and> f_frac x = 0"

definition isfinite :: "double \<Rightarrow> bool" where
  "isfinite x \<longleftrightarrow> f_exp x < 2047"

definition f_make :: "bool \<Rightarrow> nat \<Rightarrow> double" where
  "f_make s m = (if s then set_bit 63 (word_of_nat m) else word_of_nat m)"

definition NaN :: double where
  "NaN = 0x7FF8000000000000"

definition f_inf :: "bool \<Rightarrow> double" where
  "f_inf s = f_make s (2047 * 2 ^ 52)"

definition f_one :: double where
  "f_one = 0x3FF0000000000000"

definition f_units :: "double \<Rightarrow> nat" where
  "f_units x = (if f_exp x = 0 then f_frac x else (2 ^ 52 + f_frac x) * 2 ^ (f_exp x - 1))"

definition round_half_even :: "nat \<Rightarrow> nat \<Rightarrow> nat" where
  "round_half_even n d =
     (let q = n div d; r = n mod d
      in if 2 * r < d \<or> (2 * r = d \<and> even q) then q else q + 1)"

text \<open>The double nearest to \<open>num / den\<close> units; beyond the largest finite one it is infinite.\<close>

definition f_round :: "bool \<Rightarrow> nat \<Rightarrow> nat \<Rightarrow> double" where
  "f_round s num den =
     (let k = floorlog 2 (num div den) - 53;
          m = k * 2 ^ 52 + round_half_even num (den * 2 ^ k)
      in f_make s (min m (2047 * 2 ^ 52)))"

definition fmul :: "double \<Rightarrow> double \<Rightarrow> double" where
  "fmul a b =
     (let s = (f_sign a \<noteq> f_sign b)
      in if isnan a \<or> isnan b then NaN
         else if isinf a \<or> isinf b
           then (if f_mag a = 0 \<or> f_mag b = 0 then NaN else f_inf s)
         else f_round s (f_units a * f_units b) (2 ^ 1074))"

definition fdiv :: "double \<Rightarrow> double \<Rightarrow> double" where
  "fdiv a b =
     (let s = (f_sign a \<noteq> f_sign b)
      in if isnan a \<or> isnan b then NaN
         else if isinf a then (if isinf b then NaN else f_inf s)
         else if isinf b then f_make s 0
         else if f_mag b = 0 then (if f_mag a = 0 then NaN else f_inf s)
         else f_round s (f_units a * 2 ^ 1074) (f_units b))"

definition f_signed_units :: "double \<Rightarrow> int" where
  "f_signed_units x = (if f_sign x then - int (f_units x) else int (f_units x))"

definition fadd :: "double \<Rightarrow> double \<Rightarrow> double" where
  "fadd a b =
     (if isnan a \<or> isnan b then NaN
      else if isinf a then (if isinf b \<and> f_sign a \<noteq> f_sign b then NaN else a)
      else if isinf b then b
      else let t = f_signed_units a + f_signed_units b
           in if t = 0 then f_make (f_sign a \<and> f_sign b) 0
              else f_round (t < 0) (nat \<bar>t\<bar>) 1)"

text \<open>The order of doubles is the order of their magnitudes as integers, with the sign.\<close>

definition f_key :: "double \<Rightarrow> int" where
  "f_key x = (if f_sign x then - int (f_mag x) else int (f_mag x))"

definition fless :: "double \<Rightarrow> double \<Rightarrow> bool" where
  "fless a b \<longleftrightarrow> \<not> isnan a \<and> \<not> isnan b \<and> f_key a < f_key b"

text \<open>\<open>std::max(a, b)\<close> returns \<open>b\<close> only where \<open>a < b\<close>.\<close>

definition fmax :: "double \<Rightarrow> double \<Rightarrow> double" where
  "fmax a b = (if fless a b then b else a)"

section \<open>Facts\<close>

lemma f_mag_bound: "f_mag x < 2 ^ 63"
  unfolding f_mag_def by (metis take_bit_nat_less_exp unsigned_take_bit_eq)

lemma f_exp_bound: "f_exp x < 2048"
  using f_mag_bound [of x] by (simp add: f_exp_def div_less_iff_less_mult)

lemma isnan_NaN [simp]: "isnan NaN"
  by (simp add: isnan_def f_exp_def f_frac_def f_mag_def NaN_def)

lemma not_isnan_one [simp]: "\<not> isnan f_one" "isfinite f_one" "\<not> isinf f_one" "\<not> f_sign f_one"
  by (simp_all add: isnan_def isfinite_def isinf_def f_exp_def f_frac_def f_mag_def f_one_def f_sign_def bit_iff_odd)

lemma isfinite_cases: "isfinite x \<longleftrightarrow> \<not> isnan x \<and> \<not> isinf x"
  using f_exp_bound [of x] by (auto simp: isfinite_def isnan_def isinf_def)

lemma isfinite_not_isnan: "isfinite x \<Longrightarrow> \<not> isnan x"
  by (simp add: isfinite_cases)

lemma not_isfinite_NaN [simp]: "\<not> isfinite NaN"
  by (simp add: isfinite_cases)

lemma f_make_sign_mag: "f_make (f_sign x) (f_mag x) = x"
proof (rule bit_word_eqI)
  fix n
  assume "n < LENGTH(64)"
  then show "bit (f_make (f_sign x) (f_mag x)) n = bit x n"
    by (cases "n = 63") (auto simp: f_make_def f_sign_def f_mag_def bit_simps)
qed

lemma f_mag_split: "f_mag x = f_exp x * 2 ^ 52 + f_frac x"
  by (simp add: f_exp_def f_frac_def)

lemma round_half_even_exact: "0 < d \<Longrightarrow> round_half_even (n * d) d = n"
  by (simp add: round_half_even_def)

lemma f_frac_bound: "f_frac x < 2 ^ 52"
  by (simp add: f_frac_def)

lemma floorlog_scaled:
  assumes "2 ^ 52 \<le> m" "m < 2 ^ 53"
  shows "floorlog 2 (m * 2 ^ e) = 53 + e"
proof -
  have "(2::nat) ^ (52 + e) \<le> m * 2 ^ e" using assms(1) by (simp add: power_add)
  moreover have "m * 2 ^ e < (2::nat) ^ (53 + e)" using assms(2) by (simp add: power_add)
  ultimately show ?thesis
    using floorlog_geI [of 2 "53 + e" "m * 2 ^ e"] by (intro antisym floorlog_leI) (simp_all add: add.commute)
qed

text \<open>
  Rounding is exact on every finite double: the units of \<open>x\<close>, scaled by any positive
  factor \<open>d\<close>, round back to the magnitude of \<open>x\<close>.
\<close>

lemma f_round_exact:
  assumes fin: "isfinite x" and d: "0 < d"
  shows "f_round s (f_units x * d) d = f_make s (f_mag x)"
proof (cases "f_exp x = 0")
  case True
  then have u: "f_units x = f_mag x" and m: "f_mag x < 2 ^ 52"
    using f_mag_split [of x] f_frac_bound [of x] by (simp_all add: f_units_def)
  then have "floorlog 2 (f_mag x) \<le> 53" by (intro floorlog_leI) simp_all
  then show ?thesis
    using d m by (simp add: f_round_def u round_half_even_exact)
next
  case False
  define m where "m = 2 ^ 52 + f_frac x"
  define e where "e = f_exp x - 1"
  have m: "2 ^ 52 \<le> m" "m < 2 ^ 53"
    using f_frac_bound [of x] by (simp_all add: m_def)
  have u: "f_units x = m * 2 ^ e" using False by (simp add: f_units_def m_def e_def)
  have k: "floorlog 2 (f_units x * d div d) - 53 = e"
    using d floorlog_scaled [OF m, of e] by (simp add: u)
  have "round_half_even (f_units x * d) (d * 2 ^ e) = m"
    using round_half_even_exact [of "d * 2 ^ e" m] d by (simp add: u mult_ac)
  moreover have "e * 2 ^ 52 + m = f_mag x"
    using False f_mag_split [of x] by (cases "f_exp x") (simp_all add: m_def e_def)
  moreover have "f_mag x \<le> 2047 * 2 ^ 52"
    using fin f_frac_bound [of x] by (simp add: f_mag_split [of x] isfinite_def)
  ultimately show ?thesis
    unfolding f_round_def k Let_def by simp
qed

lemma f_units_one: "f_units f_one = 2 ^ 1074"
  by (simp add: f_units_def f_exp_def f_frac_def f_mag_def f_one_def)

lemma f_mag_one: "f_mag f_one \<noteq> 0"
  by (simp add: f_mag_def f_one_def)

lemma fmul_one [simp]: "isfinite x \<Longrightarrow> fmul x f_one = x"
  using f_round_exact [of x "2 ^ 1074"] by (simp add: fmul_def isfinite_cases f_units_one f_make_sign_mag)

lemma fdiv_one [simp]: "isfinite x \<Longrightarrow> fdiv x f_one = x"
  using f_round_exact [of x "2 ^ 1074"]
  by (simp add: fdiv_def isfinite_cases f_units_one f_make_sign_mag f_mag_one)

lemma fmul_NaN [simp]: "fmul NaN x = NaN" "fmul x NaN = NaN"
  by (simp_all add: fmul_def)

lemma fless_irrefl [simp]: "\<not> fless a a"
  by (simp add: fless_def)

lemma fless_trans: "fless a b \<Longrightarrow> fless b c \<Longrightarrow> fless a c"
  by (auto simp: fless_def)

lemma fless_NaN [simp]: "\<not> fless NaN a" "\<not> fless a NaN"
  by (simp_all add: fless_def)

text \<open>The smallest result of \<open>std::max(0.0, x)\<close>: it is never below zero and never a NaN.\<close>

lemma fmax_zero_not_less: "\<not> fless (fmax 0 x) 0"
  by (auto simp: fmax_def fless_def)

lemma fmax_zero_not_nan: "\<not> isnan (fmax 0 x)"
proof -
  have "\<not> isnan 0" by (simp add: isnan_def f_exp_def f_mag_def)
  then show ?thesis by (auto simp: fmax_def fless_def)
qed

end
