(* ===== verification/Roq_Types.thy ===== *)
theory Roq_Types
  imports Double
begin

text \<open>
  The data that the gateway exchanges with the framework, with the constructors and the
  fields that the code of the gateway names. A field that every place of the code
  initialises with \<open>{}\<close> is left out of the records. Also here: the settings the code
  reads, the time stamps of a \<open>Trace\<close>, and the framework functions that are parameters
  of the model (record \<open>externals\<close>).
\<close>

section \<open>Enumerations\<close>

datatype side = Side_UNDEFINED | Side_BUY | Side_SELL

datatype trading_status = TradingStatus_UNDEFINED | TradingStatus_OPEN | TradingStatus_CLOSE

datatype liquidity = Liquidity_UNDEFINED | Liquidity_MAKER | Liquidity_TAKER

datatype update_type =
  UpdateType_UNDEFINED | UpdateType_SNAPSHOT | UpdateType_INCREMENTAL | UpdateType_STALE

datatype connection_status =
    CS_UNDEFINED | CS_CONNECTING | CS_LOGIN_SENT | CS_DOWNLOADING | CS_READY
  | CS_LOGGED_OUT | CS_DISCONNECTED

datatype request_type =
  RequestType_UNDEFINED | CREATE_ORDER | MODIFY_ORDER | CANCEL_ORDER

datatype request_status =
    RequestStatus_UNDEFINED | RequestStatus_FORWARDED | RequestStatus_ACCEPTED
  | RequestStatus_REJECTED | RequestStatus_ERROR

datatype error =
    Error_UNDEFINED | Error_UNKNOWN | TOO_LATE_TO_MODIFY_OR_CANCEL | SETTLEMENT_IN_PROGRESS
  | REQUEST_RATE_LIMIT_REACHED | INVALID_FILTER

datatype origin = Origin_EXCHANGE | Origin_GATEWAY

datatype security_type =
  SecurityType_UNDEFINED | SecurityType_FUTURES | SecurityType_SWAP | SecurityType_OPTION | SecurityType_SPOT

datatype option_type = OptionType_UNDEFINED | OptionType_CALL | OptionType_PUT

datatype statistics_type =
  PRE_OPEN_INTEREST | PRE_SETTLEMENT_PRICE | INDEX_VALUE | SETTLEMENT_PRICE

datatype margin_mode = MarginMode_UNDEFINED | MarginMode_CROSS | MarginMode_ISOLATED

datatype time_in_force = TimeInForce_UNDEFINED | TimeInForce_GTC | TimeInForce_IOC | TimeInForce_FOK

datatype support_type =
    ST_REFERENCE_DATA | ST_MARKET_STATUS | ST_TOP_OF_BOOK | ST_MARKET_BY_PRICE | ST_TRADE_SUMMARY
  | ST_STATISTICS | ST_CREATE_ORDER | ST_MODIFY_ORDER | ST_CANCEL_ORDER | ST_ORDER_ACK | ST_ORDER
  | ST_TRADE | ST_POSITION | ST_FUNDS

datatype transport = Transport_TCP | Transport_UDP

datatype wire_protocol = Protocol_FIX | Protocol_WS | Protocol_HTTP | Protocol_SBE

datatype execution_instruction = PARTICIPATE_DO_NOT_INITIATE | DO_NOT_INCREASE | EI_OTHER nat

section \<open>Messages\<close>

record trace_info =
  source_receive_time :: nanoseconds
  origin_create_time :: nanoseconds
  origin_create_time_utc :: nanoseconds

record stream_status =
  ss_stream_id :: uint16
  ss_account :: string
  ss_supports :: "support_type list"
  ss_transport :: transport
  ss_protocol :: wire_protocol
  ss_connection_status :: connection_status
  ss_reason :: string

record mbp_update =
  mbp_price :: double
  mbp_quantity :: double
  mbp_implied_quantity :: double

record layer =
  bid_price :: double
  bid_quantity :: double
  ask_price :: double
  ask_quantity :: double

record trade =
  trade_side :: side
  trade_price :: double
  trade_quantity :: double
  trade_id :: string
  taker_order_id :: string
  maker_order_id :: string

record market_by_price_update =
  mu_stream_id :: uint16
  mu_exchange :: string
  mu_symbol :: string
  mu_bids :: "mbp_update list"
  mu_asks :: "mbp_update list"
  mu_update_type :: update_type
  mu_exchange_time_utc :: nanoseconds
  mu_exchange_sequence :: uint64
  mu_sending_time_utc :: nanoseconds

record top_of_book =
  tob_stream_id :: uint16
  tob_exchange :: string
  tob_symbol :: string
  tob_layer :: layer
  tob_update_type :: update_type
  tob_exchange_time_utc :: nanoseconds

record trade_summary =
  ts_stream_id :: uint16
  ts_exchange :: string
  ts_symbol :: string
  ts_trades :: "trade list"
  ts_exchange_time_utc :: nanoseconds
  ts_sending_time_utc :: nanoseconds

section \<open>Settings\<close>

record settings =
  set_exchange :: string
  fix_ping_freq :: nanoseconds
  fix_request_timeout :: nanoseconds
  fix_cancel_on_disconnect :: bool
  fix_market_data_request_max_size :: nat
  fix_market_data_market_depth :: nat
  fix_continue_from_parse_exception :: bool
  fix_terminate_on_market_data_request_reject :: bool
  fix_test_order_disconnect :: nanoseconds
  fix_test_order_logon :: nanoseconds
  fix_test_market_data_disconnect :: nanoseconds
  misc_disable_deribit_143 :: bool
  misc_disable_master_account_check :: bool
  misc_use_fix_reference_data :: bool
  ws_disable_quote :: bool
  ws_ticker_interval :: string
  mbp_allow_price_inversion :: bool
  experimental_mbp_checksum :: bool
  multicast_local_interface :: string
  multicast_channel_ids :: "string list"
  multicast_config_file :: string
  multicast_timeout :: nanoseconds
  multicast_disable_top_of_book :: bool
  multicast_disable_market_by_price :: bool
  multicast_disable_trade_summary :: bool
  download_trades_lookback :: nanoseconds
  download_trades_lookback_on_restart :: nanoseconds
  download_time_series_lookback :: nanoseconds
  time_series_lookback :: milliseconds
  time_series_interval :: nanoseconds
  experimental_enable_rate_limit :: bool
  experimental_retry_logon :: bool
  experimental_allow_unknown_event_types :: bool

section \<open>Functions of the framework\<close>

text \<open>
  \<open>base_notify old new\<close>: whether \<open>Base::create_trace_and_dispatch_2\<close> forwards a change of
  the connection status to the stream; \<open>is_zero\<close>: \<open>utils::is_zero\<close>; \<open>discard_symbol\<close>:
  the dispatcher's symbol filter; \<open>fnv\<close>: \<open>utils::hash::FNV::compute\<close>.
\<close>

record externals =
  base_notify :: "connection_status \<Rightarrow> connection_status \<Rightarrow> bool"
  is_zero :: "double \<Rightarrow> bool"
  discard_symbol :: "string \<Rightarrow> bool"
  fnv :: "string \<Rightarrow> uint64"

section \<open>A concrete instance\<close>

definition default_settings :: settings where
  "default_settings =
    \<lparr>set_exchange = ''deribit'',
     fix_ping_freq = 30000000000,
     fix_request_timeout = 5000000000,
     fix_cancel_on_disconnect = False,
     fix_market_data_request_max_size = 10,
     fix_market_data_market_depth = 1,
     fix_continue_from_parse_exception = False,
     fix_terminate_on_market_data_request_reject = False,
     fix_test_order_disconnect = 0,
     fix_test_order_logon = 0,
     fix_test_market_data_disconnect = 0,
     misc_disable_deribit_143 = False,
     misc_disable_master_account_check = False,
     misc_use_fix_reference_data = False,
     ws_disable_quote = False,
     ws_ticker_interval = [],
     mbp_allow_price_inversion = False,
     experimental_mbp_checksum = False,
     multicast_local_interface = [],
     multicast_channel_ids = [],
     multicast_config_file = [],
     multicast_timeout = 5000000000,
     multicast_disable_top_of_book = False,
     multicast_disable_market_by_price = False,
     multicast_disable_trade_summary = False,
     download_trades_lookback = 0,
     download_trades_lookback_on_restart = 0,
     download_time_series_lookback = 0,
     time_series_lookback = 0,
     time_series_interval = 60000000000,
     experimental_enable_rate_limit = False,
     experimental_retry_logon = False,
     experimental_allow_unknown_event_types = False\<rparr>"

definition plain_externals :: externals where
  "plain_externals = \<lparr>base_notify = (\<lambda>a b. a \<noteq> b), is_zero = (\<lambda>x. f_mag x = 0),
     discard_symbol = (\<lambda>s. False), fnv = (\<lambda>s. fold (\<lambda>c h. h * 256 + of_char c) s 0)\<rparr>"

end
