(* ===== verification/Throttle.thy ===== *)
theory Throttle
  imports Roq_Types
begin

text \<open>
  The throttle of the REST connections (\<open>tools/throttle.cpp\<close>): it observes the headers and
  the end of every response and keeps the time until which requests are suspended. The
  clocks are arguments; the parser of numbers, the case mapping and \<open>utils::update\<close> of the
  framework are the record \<open>throttle_lib\<close>.
\<close>

record throttle_lib =
  tx_from_chars :: "string \<Rightarrow> int option"
  tx_lower :: "char \<Rightarrow> char"
  tx_update :: "int \<Rightarrow> int \<Rightarrow> bool \<times> int"

record throttle =
  th_enabled :: bool
  th_retry_after :: int
  th_suspend_until :: nanoseconds

datatype http_status = FORBIDDEN | TOO_MANY_REQUESTS | HS_OTHER nat

definition DEFAULT_BACKOFF :: nanoseconds where
  "DEFAULT_BACKOFF = 5 * 1000000000"

definition BLOCKED_BACKOFF :: nanoseconds where
  "BLOCKED_BACKOFF = 600 * 1000000000"

datatype header_kind = HK_UNKNOWN | RETRY_AFTER

definition parse_header :: "externals \<Rightarrow> throttle_lib \<Rightarrow> string \<Rightarrow> header_kind" where
  "parse_header x tx name =
     (if fnv x (map (tx_lower tx) name) = fnv x ''retry-after'' then RETRY_AFTER else HK_UNKNOWN)"

definition throttle_create :: "settings \<Rightarrow> throttle" where
  "throttle_create s =
     \<lparr>th_enabled = experimental_enable_rate_limit s, th_retry_after = 0, th_suspend_until = 0\<rparr>"

definition update_suspend_until :: "nanoseconds \<Rightarrow> nanoseconds \<Rightarrow> throttle \<Rightarrow> throttle" where
  "update_suspend_until now now_utc t =
     (if \<not> th_enabled t then t
      else let timestamp = th_retry_after t * 1000000
        in if now_utc < timestamp
           then t\<lparr>th_suspend_until := max (th_suspend_until t) (now + (timestamp - now_utc))\<rparr>
           else t\<lparr>th_suspend_until := max (th_suspend_until t) (now + DEFAULT_BACKOFF)\<rparr>)"

definition throttle_message_header ::
    "externals \<Rightarrow> throttle_lib \<Rightarrow> string \<Rightarrow> string \<Rightarrow> nanoseconds \<Rightarrow> nanoseconds \<Rightarrow> throttle \<Rightarrow> throttle result" where
  "throttle_message_header x tx name value now now_utc t =
     (case parse_header x tx name of
        HK_UNKNOWN \<Rightarrow> Inr t
      | RETRY_AFTER \<Rightarrow>
          (case tx_from_chars tx value of
             None \<Rightarrow> Inl (RuntimeError ''from_chars'')
           | Some v \<Rightarrow>
               (let (changed, v') = tx_update tx (th_retry_after t) v;
                    t' = t\<lparr>th_retry_after := v'\<rparr>
                in Inr (if changed then update_suspend_until now now_utc t' else t'))))"

definition throttle_message_end :: "http_status \<Rightarrow> nanoseconds \<Rightarrow> throttle \<Rightarrow> throttle" where
  "throttle_message_end status now t =
     (if \<not> th_enabled t then t
      else case status of
        FORBIDDEN \<Rightarrow> t\<lparr>th_suspend_until := max (th_suspend_until t) (now + BLOCKED_BACKOFF)\<rparr>
      | TOO_MANY_REQUESTS \<Rightarrow>
          if th_suspend_until t = 0 then t\<lparr>th_suspend_until := now + DEFAULT_BACKOFF\<rparr> else t
      | HS_OTHER n \<Rightarrow> t)"

definition plain_throttle_lib :: throttle_lib where
  "plain_throttle_lib = \<lparr>tx_from_chars = (\<lambda>s. Some (int (read_nat_from 0 s))), tx_lower = id,
     tx_update = (\<lambda>old new. (old \<noteq> new, new))\<rparr>"

section \<open>Runs\<close>

datatype throttle_event =
    Message_Header string string nanoseconds nanoseconds
  | Message_End http_status nanoseconds

fun event_now :: "throttle_event \<Rightarrow> nanoseconds" where
  "event_now (Message_Header name value now now_utc) = now"
| "event_now (Message_End status now) = now"

fun throttle_step :: "externals \<Rightarrow> throttle_lib \<Rightarrow> throttle_event \<Rightarrow> throttle \<Rightarrow> throttle result" where
  "throttle_step x tx (Message_Header name value now now_utc) t =
     throttle_message_header x tx name value now now_utc t"
| "throttle_step x tx (Message_End status now) t = Inr (throttle_message_end status now t)"

definition throttle_run :: "externals \<Rightarrow> throttle_lib \<Rightarrow> throttle_event list \<Rightarrow> throttle \<Rightarrow> throttle result" where
  "throttle_run x tx = foldr_result (throttle_step x tx)"

lemmas throttle_defs [model_defs] =
  update_suspend_until_def throttle_message_header_def throttle_message_end_def
  DEFAULT_BACKOFF_def BLOCKED_BACKOFF_def

lemma throttle_step_grows:
  "0 \<le> event_now e \<Longrightarrow> throttle_step x tx e t = Inr t' \<Longrightarrow>
   th_suspend_until t \<le> th_suspend_until t' \<and> th_enabled t' = th_enabled t"
  by (cases e) (auto simp: model_defs Let_def split: header_kind.splits option.splits prod.splits
      if_splits http_status.splits)

lemma throttle_run_grows:
  "\<forall>e\<in>set es. 0 \<le> event_now e \<Longrightarrow> throttle_run x tx es t = Inr t' \<Longrightarrow>
   th_suspend_until t \<le> th_suspend_until t' \<and> th_enabled t' = th_enabled t"
proof (induction es arbitrary: t)
  case Nil
  then show ?case by (simp add: throttle_run_def)
next
  case (Cons e es)
  then obtain t1 where "throttle_step x tx e t = Inr t1" "throttle_run x tx es t1 = Inr t'"
    by (auto simp: throttle_run_def andthen_eq_Inr)
  then show ?case using throttle_step_grows [of e x tx t t1] Cons by fastforce
qed

text \<open>
  C30: a response with status 403 suspends an enabled throttle for at least ten minutes, and
  nothing that arrives afterwards shortens the suspension.
\<close>

theorem forbidden_blocks:
  assumes "th_enabled t" "\<forall>e\<in>set es. 0 \<le> event_now e"
    and "throttle_run x tx (Message_End FORBIDDEN now # es) t = Inr t'"
  shows "now + 600 * 1000000000 \<le> th_suspend_until t' \<and> th_suspend_until t \<le> th_suspend_until t'"
proof -
  let ?t = "throttle_message_end FORBIDDEN now t"
  have "now + 600 * 1000000000 \<le> th_suspend_until ?t" "th_suspend_until t \<le> th_suspend_until ?t"
    using assms(1) by (simp_all add: model_defs)
  moreover have "throttle_run x tx es ?t = Inr t'"
    using assms(3) by (simp add: throttle_run_def)
  ultimately show ?thesis using throttle_run_grows [OF assms(2)] by fastforce
qed

theorem forbidden_blocks_witness:
  "7 + 600 * 1000000000 \<le> th_suspend_until (throttle_message_end TOO_MANY_REQUESTS 9
     (throttle_message_end FORBIDDEN 7 \<lparr>th_enabled = True, th_retry_after = 0, th_suspend_until = 0\<rparr>))"
  using forbidden_blocks [of "\<lparr>th_enabled = True, th_retry_after = 0, th_suspend_until = 0\<rparr>"
      "[Message_End TOO_MANY_REQUESTS 9]" plain_externals plain_throttle_lib 7]
  by (simp add: throttle_run_def)

text \<open>
  Status 429 only ever suspends a throttle that was never suspended: once a time is set,
  any further number of such responses leaves it as it is, also when it has long passed.
\<close>

theorem too_many_requests_ignored:
  assumes "th_suspend_until t \<noteq> 0"
  shows "throttle_run x tx (map (Message_End TOO_MANY_REQUESTS) nows) t = Inr t"
  using assms by (induction nows) (simp_all add: throttle_run_def model_defs)

theorem too_many_requests_ignored_witness:
  "throttle_run plain_externals plain_throttle_lib (map (Message_End TOO_MANY_REQUESTS) [1000000000000])
     \<lparr>th_enabled = True, th_retry_after = 0, th_suspend_until = 7\<rparr> =
   Inr \<lparr>th_enabled = True, th_retry_after = 0, th_suspend_until = 7\<rparr>"
  by (rule too_many_requests_ignored) simp

lemma retry_after_suspends:
  assumes "th_enabled t" "parse_header x tx name = RETRY_AFTER" "tx_from_chars tx value = Some v"
    and "tx_update tx (th_retry_after t) v = (True, v)"
  shows "\<exists>t'. throttle_message_header x tx name value now now_utc t = Inr t' \<and>
    th_suspend_until t \<le> th_suspend_until t' \<and>
    (now_utc < v * 1000000 \<longrightarrow> v * 1000000 - now_utc \<le> th_suspend_until t' - now)"
  using assms by (auto simp: model_defs Let_def max_def)

end
