(* ===== verification/Oms_Types.thy ===== *)
theory Oms_Types
  imports Roq_Types
begin

text \<open>
  The messages about orders, positions and funds that the streams of an account exchange
  with the framework's order management. The enumerations \<open>OrderType\<close> and
  \<open>OrderStatus\<close> of the framework are their numeric values: the code only passes them on.
  Fields that every place of the code initialises with \<open>{}\<close> are left out.
\<close>

type_synonym order_type = nat
type_synonym order_status = nat

record oms_order =
  oo_client_order_id :: string
  oo_symbol :: string
  oo_side :: side
  oo_order_type :: order_type

record ref_data =
  rd_quantity_precision :: nat
  rd_price_precision :: nat

record create_order =
  co_symbol :: string
  co_side :: side
  co_order_type :: order_type
  co_time_in_force :: time_in_force
  co_execution_instructions :: "execution_instruction list"
  co_quantity :: double
  co_price :: double
  co_stop_price :: double
  co_max_show_quantity :: double

record modify_order =
  mo_quantity :: double
  mo_price :: double

record cancel_all_orders =
  ca_order_id :: uint64
  ca_exchange :: string
  ca_symbol :: string
  ca_side :: side
  ca_strategy_id :: uint32

record cancel_all_ack =
  ck_stream_id :: uint16
  ck_account :: string
  ck_order_id :: uint64
  ck_exchange :: string
  ck_symbol :: string
  ck_side :: side
  ck_origin :: origin
  ck_request_status :: request_status
  ck_text :: string
  ck_request_id :: string
  ck_number_of_affected_orders :: uint32
  ck_strategy_id :: uint32

record oms_response =
  rs_request_type :: request_type
  rs_origin :: origin
  rs_request_status :: request_status
  rs_error :: error
  rs_text :: string
  rs_request_id :: string
  rs_external_order_id :: string
  rs_client_order_id :: string
  rs_quantity :: double
  rs_price :: double

record order_update =
  ou_account :: string
  ou_exchange :: string
  ou_symbol :: string
  ou_side :: side
  ou_max_show_quantity :: double
  ou_order_type :: order_type
  ou_time_in_force :: time_in_force
  ou_update_time_utc :: nanoseconds
  ou_external_order_id :: string
  ou_client_order_id :: string
  ou_order_status :: order_status
  ou_quantity :: double
  ou_price :: double
  ou_stop_price :: double
  ou_leverage :: double
  ou_remaining_quantity :: double
  ou_traded_quantity :: double
  ou_average_traded_price :: double
  ou_last_traded_quantity :: double
  ou_last_traded_price :: double
  ou_last_liquidity :: liquidity
  ou_update_type :: update_type
  ou_sending_time_utc :: nanoseconds

record fill =
  fl_exchange_time_utc :: nanoseconds
  fl_external_trade_id :: string
  fl_quantity :: double
  fl_price :: double
  fl_liquidity :: liquidity
  fl_commission_amount :: double
  fl_base_amount :: double
  fl_quote_amount :: double
  fl_profit_loss_amount :: double

record trade_update =
  tu_stream_id :: uint16
  tu_account :: string
  tu_order_id :: uint64
  tu_exchange :: string
  tu_symbol :: string
  tu_side :: side
  tu_create_time_utc :: nanoseconds
  tu_update_time_utc :: nanoseconds
  tu_external_order_id :: string
  tu_client_order_id :: string
  tu_fills :: "fill list"
  tu_update_type :: update_type
  tu_sending_time_utc :: nanoseconds
  tu_strategy_id :: uint32

record position_update =
  pu_stream_id :: uint16
  pu_account :: string
  pu_exchange :: string
  pu_symbol :: string
  pu_long_quantity :: double
  pu_short_quantity :: double
  pu_update_type :: update_type

end
