(* ===== verification/Fix_Utils.thy ===== *)
theory Fix_Utils
  imports Roq_Types
begin

text \<open>
  Mappings of FIX values (\<open>protocol/fix/utils.cpp\<close>, \<open>protocol/fix/adv_order_type.cpp\<close>). The
  switches over strings compare a hash of the value with the hashes of the cases; the hash
  is the parameter \<open>fnv\<close>.
\<close>

datatype adv_order_type = AO_UNKNOWN | IMPLIED_VOLATILITY_ORDER | USD_ORDER

definition enum_name_adv_order_type :: "adv_order_type \<Rightarrow> string" where
  "enum_name_adv_order_type v = (case v of
     IMPLIED_VOLATILITY_ORDER \<Rightarrow> ''IMPLIED_VOLATILITY_ORDER''
   | USD_ORDER \<Rightarrow> ''USD_ORDER''
   | AO_UNKNOWN \<Rightarrow> ''UNKNOWN'')"

definition parse_adv_order_type :: "string \<Rightarrow> adv_order_type" where
  "parse_adv_order_type v = (case v of
     [] \<Rightarrow> AO_UNKNOWN
   | c # cs \<Rightarrow> if c = CHR ''0'' then IMPLIED_VOLATILITY_ORDER
       else if c = CHR ''1'' then USD_ORDER else AO_UNKNOWN)"

definition map_security_type :: "externals \<Rightarrow> string \<Rightarrow> security_type" where
  "map_security_type x v =
     (if v = [] then SecurityType_UNDEFINED
      else if fnv x v = fnv x ''FUT'' then SecurityType_FUTURES
      else if fnv x v = fnv x ''OPT'' then SecurityType_OPTION
      else if fnv x v = fnv x ''FXSPOT'' then SecurityType_SPOT
      else SecurityType_UNDEFINED)"

definition map_error :: "externals \<Rightarrow> string \<Rightarrow> error" where
  "map_error x v =
     (if v = [] then Error_UNKNOWN
      else if fnv x v = fnv x ''already_cancelled'' then TOO_LATE_TO_MODIFY_OR_CANCEL
      else if fnv x v = fnv x ''canceled'' then Error_UNDEFINED
      else if fnv x v = fnv x ''not_found'' then TOO_LATE_TO_MODIFY_OR_CANCEL
      else if fnv x v = fnv x ''rejected: order is closed'' then TOO_LATE_TO_MODIFY_OR_CANCEL
      else if fnv x v = fnv x ''rejected: settlement_in_progress'' then SETTLEMENT_IN_PROGRESS
      else if fnv x v = fnv x ''success'' then Error_UNDEFINED
      else Error_UNKNOWN)"

definition map_execution_instructions :: "execution_instruction list \<Rightarrow> string result" where
  "map_execution_instructions e =
     (if e = [] then Inr []
      else if PARTICIPATE_DO_NOT_INITIATE \<in> set e then Inr ''6''
      else if DO_NOT_INCREASE \<in> set e then Inr ''E''
      else Inl (RuntimeError ''Not a supported execution instruction''))"

definition reject_to_error :: "string \<Rightarrow> string \<Rightarrow> error" where
  "reject_to_error reason txt =
     (if reason = [] \<and> txt = ''rate_limit_exceeded'' then REQUEST_RATE_LIMIT_REACHED else Error_UNDEFINED)"

text \<open>The table that the switch of \<open>map_error\<close> spells out.\<close>

definition error_table :: "(string \<times> error) list" where
  "error_table =
     [(''already_cancelled'', TOO_LATE_TO_MODIFY_OR_CANCEL), (''canceled'', Error_UNDEFINED),
      (''not_found'', TOO_LATE_TO_MODIFY_OR_CANCEL),
      (''rejected: order is closed'', TOO_LATE_TO_MODIFY_OR_CANCEL),
      (''rejected: settlement_in_progress'', SETTLEMENT_IN_PROGRESS), (''success'', Error_UNDEFINED)]"

text \<open>
  As long as the hash tells a text apart from the six known ones, the error of the text
  is the entry of the table, and unknown without one; so a text that collides with none is
  never taken for a success.
\<close>

theorem map_error_table:
  assumes "\<forall>k\<in>fst ` set error_table. fnv x v = fnv x k \<longrightarrow> v = k"
  shows "map_error x v = (case map_of error_table v of Some e \<Rightarrow> e | None \<Rightarrow> Error_UNKNOWN)"
proof -
  have "(fnv x v = fnv x k) = (v = k)" if "k \<in> fst ` set error_table" for k
    using assms that by blast
  then have "fnv x v = fnv x ''already_cancelled'' \<longleftrightarrow> v = ''already_cancelled''"
    "fnv x v = fnv x ''canceled'' \<longleftrightarrow> v = ''canceled''"
    "fnv x v = fnv x ''not_found'' \<longleftrightarrow> v = ''not_found''"
    "fnv x v = fnv x ''rejected: order is closed'' \<longleftrightarrow> v = ''rejected: order is closed''"
    "fnv x v = fnv x ''rejected: settlement_in_progress'' \<longleftrightarrow> v = ''rejected: settlement_in_progress''"
    "fnv x v = fnv x ''success'' \<longleftrightarrow> v = ''success''"
    by (simp_all add: error_table_def)
  then show ?thesis by (simp only: map_error_def error_table_def map_of.simps fst_conv snd_conv) auto
qed

theorem map_error_table_witness:
  "map_error (plain_externals\<lparr>fnv := (\<lambda>s. fold (\<lambda>c h. h * 31 + of_char c) s 7)\<rparr>) ''not_found'' =
   TOO_LATE_TO_MODIFY_OR_CANCEL"
  by (subst map_error_table) (simp_all add: error_table_def)

lemma parse_adv_order_type_range:
  "parse_adv_order_type [c] = IMPLIED_VOLATILITY_ORDER \<longleftrightarrow> c = CHR ''0''"
  "parse_adv_order_type [c] = USD_ORDER \<longleftrightarrow> c = CHR ''1''"
  by (auto simp: parse_adv_order_type_def)

end
