(* ===== verification/Sbe_Frame.thy ===== *)
theory Sbe_Frame
  imports Prelude
begin

unbundle bit_operations_syntax

text \<open>
  The frame that starts every multicast datagram (\<open>protocol/sbe/frame.hpp\<close>,
  \<open>protocol/sbe/frame.cpp\<close>): eight bytes, little endian.
\<close>

record frame =
  packet_length :: uint16
  channel_id :: uint16
  sequence_number :: uint32

definition frame_size :: nat where
  "frame_size = 8"

text \<open>\<open>memcpy\<close> into an integer followed by \<open>little_endian_to_host\<close>.\<close>

definition read_u16_le :: "byte list \<Rightarrow> nat \<Rightarrow> uint16" where
  "read_u16_le b i = ucast (b ! i) OR push_bit 8 (ucast (b ! (i + 1)))"

definition read_u32_le :: "byte list \<Rightarrow> nat \<Rightarrow> uint32" where
  "read_u32_le b i =
     ucast (b ! i) OR push_bit 8 (ucast (b ! (i + 1))) OR
     push_bit 16 (ucast (b ! (i + 2))) OR push_bit 24 (ucast (b ! (i + 3)))"

definition parse_helper :: "byte list \<Rightarrow> frame result" where
  "parse_helper buffer =
     (if length buffer < frame_size then Inl (Fatal ''Invalid message'')
      else Inr \<lparr>packet_length = read_u16_le buffer 0,
                channel_id = read_u16_le buffer 2,
                sequence_number = read_u32_le buffer 4\<rparr>)"

definition frame_parse :: "byte list \<Rightarrow> (frame \<Rightarrow> byte list \<Rightarrow> 'a result) \<Rightarrow> 'a result" where
  "frame_parse buffer callback =
     andthen (parse_helper buffer) (\<lambda>f. callback f (drop frame_size buffer))"

section \<open>The wire format as a specification\<close>

definition u16_le :: "uint16 \<Rightarrow> byte list" where
  "u16_le w = [ucast w, ucast (drop_bit 8 w)]"

definition u32_le :: "uint32 \<Rightarrow> byte list" where
  "u32_le w = [ucast w, ucast (drop_bit 8 w), ucast (drop_bit 16 w), ucast (drop_bit 24 w)]"

definition frame_bytes :: "frame \<Rightarrow> byte list" where
  "frame_bytes f = u16_le (packet_length f) @ u16_le (channel_id f) @ u32_le (sequence_number f)"

lemma length_frame_bytes [simp]: "length (frame_bytes f) = frame_size"
  by (simp add: frame_bytes_def u16_le_def u32_le_def frame_size_def)

lemma u16_le_join: "ucast (ucast (w :: uint16) :: byte) OR push_bit 8 (ucast (ucast (drop_bit 8 w) :: byte)) = w"
  by (rule bit_word_eqI) (auto simp: bit_simps)

lemma u32_le_join:
  "ucast (ucast (w :: uint32) :: byte) OR push_bit 8 (ucast (ucast (drop_bit 8 w) :: byte)) OR
   push_bit 16 (ucast (ucast (drop_bit 16 w) :: byte)) OR
   push_bit 24 (ucast (ucast (drop_bit 24 w) :: byte)) = w"
proof (rule bit_word_eqI)
  fix n
  assume "n < LENGTH(32)"
  then consider "n < 8" | "8 \<le> n" "n < 16" | "16 \<le> n" "n < 24" | "24 \<le> n" "n < 32"
    by fastforce
  then show "bit ((ucast (ucast w :: byte) :: uint32) OR push_bit 8 (ucast (ucast (drop_bit 8 w) :: byte)) OR
   push_bit 16 (ucast (ucast (drop_bit 16 w) :: byte)) OR
   push_bit 24 (ucast (ucast (drop_bit 24 w) :: byte))) n = bit w n"
    by cases (auto simp: bit_simps)
qed

lemma parse_helper_frame_bytes: "parse_helper (frame_bytes f @ rest) = Inr f"
  by (simp add: parse_helper_def frame_size_def frame_bytes_def read_u16_le_def read_u32_le_def
      u16_le_def u32_le_def u16_le_join u32_le_join)

lemma parse_helper_short: "length buffer < 8 \<Longrightarrow> parse_helper buffer = Inl (Fatal ''Invalid message'')"
  by (simp add: parse_helper_def frame_size_def)

lemma frame_parse_bytes: "frame_parse (frame_bytes f @ rest) callback = callback f rest"
  by (simp add: frame_parse_def parse_helper_frame_bytes)

lemma frame_bytes_inj: "frame_bytes f = frame_bytes g \<Longrightarrow> f = g"
  using parse_helper_frame_bytes [of f "[]"] parse_helper_frame_bytes [of g "[]"] by simp

end
