(* ===== verification/Crypto.thy ===== *)
theory Crypto
  imports Roq_Types Sbe_Frame
begin

text \<open>
  Signatures, nonces and passwords of an account (\<open>tools/crypto.cpp\<close>,
  \<open>gateway/account.cpp\<close>). The hash, the message authentication code and the encodings of
  the framework are the record \<open>crypto_lib\<close>; random draws are arguments.
\<close>

record crypto_lib =
  cx_hmac :: "string \<Rightarrow> string \<Rightarrow> byte list"
  cx_hex :: "byte list \<Rightarrow> string"
  cx_sha256 :: "string \<Rightarrow> byte list"
  cx_base64 :: "byte list \<Rightarrow> string"

record crypto =
  cr_secret :: string
  cr_timestamp :: milliseconds

definition RANDOM_BYTES :: nat where
  "RANDOM_BYTES = 32"

definition CHARSET_DATA :: string where
  "CHARSET_DATA = ''abcdefghijklmnopqrstuvwxyz0123456789''"

definition crypto_create :: "string \<Rightarrow> crypto result" where
  "crypto_create secret =
     (if secret = [] then Inl (Fatal ''The API secret key is required'')
      else Inr \<lparr>cr_secret = secret, cr_timestamp = 0\<rparr>)"

text \<open>\<open>draws\<close>: the values of the distribution over the indices of the character set.\<close>

definition create_nonce :: "nat list \<Rightarrow> string" where
  "create_nonce draws = map (\<lambda>d. CHARSET_DATA ! d) (take RANDOM_BYTES draws)"

definition get_sequence :: "milliseconds \<Rightarrow> crypto \<Rightarrow> int \<times> crypto" where
  "get_sequence t c =
     (let t' = (if cr_timestamp c < t then t else cr_timestamp c + 1)
      in (t', c\<lparr>cr_timestamp := t'\<rparr>))"

definition create_signature ::
    "crypto_lib \<Rightarrow> milliseconds \<Rightarrow> string \<Rightarrow> crypto \<Rightarrow> (string \<times> milliseconds) \<times> crypto" where
  "create_signature x t nonce c =
     (let (sequence, c') = get_sequence t c;
          message = show_int sequence @ [CHR 0x0A] @ nonce @ [CHR 0x0A]
      in ((cx_hex x (cx_hmac x (cr_secret c) message), sequence), c'))"

text \<open>The format \<open>{:013}\<close>.\<close>

definition pad_zero :: "nat \<Rightarrow> string \<Rightarrow> string" where
  "pad_zero w s = replicate (w - length s) (CHR ''0'') @ s"

definition show_int_013 :: "int \<Rightarrow> string" where
  "show_int_013 i =
     (if i < 0 then CHR ''-'' # pad_zero 12 (show_nat (nat (- i))) else pad_zero 13 (show_nat (nat i)))"

definition create_raw_data_nonce :: "milliseconds \<Rightarrow> string \<Rightarrow> crypto \<Rightarrow> string \<times> crypto" where
  "create_raw_data_nonce t nonce c =
     (let (sequence, c') = get_sequence t c in (show_int_013 sequence @ ''.'' @ nonce, c'))"

text \<open>The eight random words are read as bytes in the order of a little endian host.\<close>

definition create_raw_data :: "crypto_lib \<Rightarrow> milliseconds \<Rightarrow> uint32 list \<Rightarrow> crypto \<Rightarrow> string \<times> crypto" where
  "create_raw_data x t draws c =
     create_raw_data_nonce t (cx_base64 x (concat (map u32_le (take (RANDOM_BYTES div 4) draws)))) c"

definition create_password :: "crypto_lib \<Rightarrow> string \<Rightarrow> crypto \<Rightarrow> string" where
  "create_password x raw_data c = cx_base64 x (cx_sha256 x (raw_data @ cr_secret c))"

section \<open>Accounts\<close>

record account =
  ac_name :: string
  ac_key :: string
  ac_crypto :: crypto

text \<open>\<open>get_key\<close> and \<open>get_secret\<close> are the lookups of the configuration.\<close>

definition account_create ::
    "(string \<Rightarrow> string) \<Rightarrow> (string \<Rightarrow> string) \<Rightarrow> string \<Rightarrow> account result" where
  "account_create get_key get_secret nm =
     (if get_key nm = [] then Inl (Fatal (''Unexpected: missing key for name='' @ nm))
      else if get_secret nm = [] then Inl (Fatal (''Unexpected: missing secret for name='' @ nm))
      else andthen (crypto_create (get_secret nm)) (\<lambda>c.
        Inr \<lparr>ac_name = nm, ac_key = get_key nm, ac_crypto = c\<rparr>))"

text \<open>\<open>utils::safe_cast\<close> of the time stamp of the event to milliseconds truncates towards zero.\<close>

definition ms_of_ns :: "nanoseconds \<Rightarrow> milliseconds" where
  "ms_of_ns t = (if t < 0 then - ((- t) div 1000000) else t div 1000000)"

definition account_signature ::
    "crypto_lib \<Rightarrow> trace_info \<Rightarrow> string \<Rightarrow> account \<Rightarrow> (string \<times> milliseconds) \<times> account" where
  "account_signature x ti nonce a =
     (let (r, c) = create_signature x (ms_of_ns (origin_create_time_utc ti)) nonce (ac_crypto a)
      in (r, a\<lparr>ac_crypto := c\<rparr>))"

definition account_raw_data :: "crypto_lib \<Rightarrow> trace_info \<Rightarrow> uint32 list \<Rightarrow> account \<Rightarrow> string \<times> account" where
  "account_raw_data x ti draws a =
     (let (r, c) = create_raw_data x (ms_of_ns (origin_create_time_utc ti)) draws (ac_crypto a)
      in (r, a\<lparr>ac_crypto := c\<rparr>))"

definition account_password :: "crypto_lib \<Rightarrow> string \<Rightarrow> account \<Rightarrow> string" where
  "account_password x raw_data a = create_password x raw_data (ac_crypto a)"

section \<open>Sequences\<close>

text \<open>A use of the sequence: a signature or raw data, at some time.\<close>

datatype crypto_use = Sign milliseconds string | Raw milliseconds string

fun use_sequence :: "crypto_lib \<Rightarrow> crypto_use \<Rightarrow> crypto \<Rightarrow> int \<times> crypto" where
  "use_sequence x (Sign t nonce) c = (let ((s, n), c') = create_signature x t nonce c in (n, c'))"
| "use_sequence x (Raw t nonce) c =
     (let (s, c') = create_raw_data_nonce t nonce c in (cr_timestamp c', c'))"

fun use_sequences :: "crypto_lib \<Rightarrow> crypto_use list \<Rightarrow> crypto \<Rightarrow> int list \<times> crypto" where
  "use_sequences x [] c = ([], c)"
| "use_sequences x (u # us) c =
     (let (n, c') = use_sequence x u c; (ns, c'') = use_sequences x us c' in (n # ns, c''))"

fun use_time :: "crypto_use \<Rightarrow> milliseconds" where
  "use_time (Sign t nonce) = t"
| "use_time (Raw t nonce) = t"

lemma use_sequence_spec:
  "use_sequence x u c = (max (use_time u) (cr_timestamp c + 1),
     c\<lparr>cr_timestamp := max (use_time u) (cr_timestamp c + 1)\<rparr>)"
  by (cases u) (auto simp: create_signature_def create_raw_data_nonce_def get_sequence_def Let_def max_def)

lemma use_sequences_greater: "n \<in> set (fst (use_sequences x us c)) \<Longrightarrow> cr_timestamp c < n"
  by (induction us arbitrary: c) (fastforce simp: use_sequence_spec case_prod_beta Let_def)+

lemma length_use_sequences: "length (fst (use_sequences x us c)) = length us"
  by (induction us arbitrary: c) (auto simp: use_sequence_spec case_prod_beta Let_def)

text \<open>
  The sequence numbers that an account puts in its signatures and raw data are strictly
  increasing over any mixture of both and never behind the clock, even where the clock
  stands still or goes back.
\<close>

theorem sequences_strictly_increasing:
  "sorted_wrt (<) (fst (use_sequences x us c)) \<and>
   list_all2 (\<le>) (map use_time us) (fst (use_sequences x us c))"
proof (induction us arbitrary: c)
  case (Cons u us)
  let ?n = "max (use_time u) (cr_timestamp c + 1)"
  have "n \<in> set (fst (use_sequences x us (c\<lparr>cr_timestamp := ?n\<rparr>))) \<Longrightarrow> ?n < n" for n
    using use_sequences_greater [of n x us "c\<lparr>cr_timestamp := ?n\<rparr>"] by simp
  with Cons [of "c\<lparr>cr_timestamp := ?n\<rparr>"] show ?case
    by (simp add: use_sequence_spec case_prod_beta Let_def)
qed simp

section \<open>Raw data\<close>

lemma read_nat_zeros: "read_nat_from 0 (replicate k (CHR ''0'') @ s) = read_nat_from 0 s"
  by (induction k) auto

lemma digit_not_dot: "d < 10 \<Longrightarrow> digit d \<noteq> CHR ''.''"
proof
  assume "d < 10" "digit d = CHR ''.''"
  then have "(of_char (digit d) :: nat) = of_char (CHR ''.'')" by simp
  then show False using \<open>d < 10\<close> by simp
qed

lemma dot_notin_show_nat: "CHR ''.'' \<notin> set (show_nat n)"
  using show_nat_digits digit_not_dot by metis

lemma takeWhile_dot:
  "0 \<le> n \<Longrightarrow> takeWhile (\<lambda>c. c \<noteq> CHR ''.'') (show_int_013 n @ ''.'' @ s) = show_int_013 n"
  using dot_notin_show_nat by (subst takeWhile_append2) (auto simp: show_int_013_def pad_zero_def)

lemma read_show_int_013: "0 \<le> n \<Longrightarrow> read_nat_from 0 (show_int_013 n) = nat n"
  by (simp add: show_int_013_def pad_zero_def read_nat_zeros read_show_nat)

lemma show_int_013_inj:
  assumes "0 \<le> m" "0 \<le> n" "show_int_013 m = show_int_013 n"
  shows "m = n"
proof -
  have "nat m = nat n"
    using read_show_int_013 [OF assms(1)] read_show_int_013 [OF assms(2)] assms(3) by simp
  with assms(1,2) show ?thesis by simp
qed



lemma create_nonce_charset:
  "length draws = RANDOM_BYTES \<Longrightarrow> \<forall>d\<in>set draws. d < length CHARSET_DATA \<Longrightarrow>
   length (create_nonce draws) = 32 \<and> set (create_nonce draws) \<subseteq> set CHARSET_DATA"
  by (auto simp: create_nonce_def RANDOM_BYTES_def)

end
