(* ===== verification/Shared.thy ===== *)
theory Shared
  imports Roq_Types
begin

text \<open>
  The state that all streams of a gateway share (\<open>gateway/shared.hpp\<close>,
  \<open>gateway/shared.cpp\<close>), the instruments of the multicast feed
  (\<open>gateway/instrument.cpp\<close>), the contract multiplier (\<open>gateway/utils.hpp\<close>) and the paths
  of the REST interface (\<open>gateway/api.cpp\<close>). The message buffers of the class (fills,
  levels, trades, statistics) are cleared before each use and so are local lists of the
  operations that use them. The book sequencer of an instrument is a class of the framework:
  its state has the type \<open>'q\<close>.
\<close>

record 'q instrument =
  inst_symbol :: string
  inst_contract_size :: double
  inst_multiplier :: double
  inst_discard :: bool
  inst_sequencer :: 'q

record 'q shared =
  sh_settings :: settings
  all_currencies :: "string set"
  all_symbols :: "string set"
  sh_multiplier :: "string \<rightharpoonup> double"
  sh_request_id :: uint32
  sh_multicast :: bool
  instruments :: "uint32 \<rightharpoonup> 'q instrument"

definition compute_contracts_multiplier :: "externals \<Rightarrow> double \<Rightarrow> double" where
  "compute_contracts_multiplier x contract_size =
     (if is_zero x contract_size then f_one else fdiv f_one contract_size)"

definition create_instrument :: "string \<Rightarrow> double \<Rightarrow> double \<Rightarrow> bool \<Rightarrow> 'q \<Rightarrow> 'q instrument" where
  "create_instrument s c m d q =
     \<lparr>inst_symbol = s, inst_contract_size = c, inst_multiplier = m, inst_discard = d, inst_sequencer = q\<rparr>"

section \<open>Construction\<close>

definition get_multicast :: "settings \<Rightarrow> bool result" where
  "get_multicast s =
     (if multicast_local_interface s = [] then Inr False
      else if multicast_channel_ids s = [] then Inl (Fatal ''Unexpected: --channel_ids is empty'')
      else if multicast_config_file s = [] then Inl (Fatal ''Unexpected: --config_file is empty'')
      else Inr True)"

definition shared_create :: "settings \<Rightarrow> 'q shared result" where
  "shared_create s = andthen (get_multicast s) (\<lambda>m. Inr
     \<lparr>sh_settings = s, all_currencies = {}, all_symbols = {}, sh_multiplier = Map.empty,
      sh_request_id = 0, sh_multicast = m, instruments = Map.empty\<rparr>)"

definition empty_shared :: "settings \<Rightarrow> 'q shared" where
  "empty_shared s = \<lparr>sh_settings = s, all_currencies = {}, all_symbols = {}, sh_multiplier = Map.empty,
     sh_request_id = 0, sh_multicast = False, instruments = Map.empty\<rparr>"

lemma shared_create_websocket:
  "multicast_local_interface s = [] \<Longrightarrow> shared_create s = Inr (empty_shared s)"
  by (simp add: shared_create_def get_multicast_def empty_shared_def)

record api =
  api_currencies :: string
  api_instruments :: string
  api_chart_data :: string

definition api_create :: api where
  "api_create = \<lparr>api_currencies = ''/api/v2/public/get_currencies'',
     api_instruments = ''/api/v2/public/get_instruments'',
     api_chart_data = ''/api/v2/public/get_tradingview_chart_data''\<rparr>"

section \<open>Request identifiers\<close>

definition next_request_id :: "'q shared \<Rightarrow> string \<times> 'q shared" where
  "next_request_id sh =
     (let n = sh_request_id sh + 1 in (''roq-'' @ show_nat (unat n), sh\<lparr>sh_request_id := n\<rparr>))"

fun next_request_ids :: "nat \<Rightarrow> 'q shared \<Rightarrow> string list \<times> 'q shared" where
  "next_request_ids 0 sh = ([], sh)"
| "next_request_ids (Suc n) sh =
     (let (i, sh') = next_request_id sh; (is, sh'') = next_request_ids n sh' in (i # is, sh''))"

section \<open>Instruments\<close>

text \<open>
  \<open>find_instrument\<close> runs its callback on a known instrument that is not discarded; the
  callback changes the instrument in place and the object that called. It reports whether
  the instrument is known.
\<close>

definition find_instrument ::
    "uint32 \<Rightarrow> ('q instrument \<Rightarrow> 'x \<Rightarrow> 'q instrument \<times> 'x) \<Rightarrow> 'q shared \<Rightarrow> 'x \<Rightarrow> bool \<times> 'q shared \<times> 'x" where
  "find_instrument i callback sh x =
     (case instruments sh i of
        Some inst \<Rightarrow>
          if inst_discard inst then (True, sh, x)
          else (let (inst', x') = callback inst x
                in (True, sh\<lparr>instruments := (instruments sh)(i \<mapsto> inst')\<rparr>, x'))
      | None \<Rightarrow> (False, sh, x))"

definition maybe_create_instrument :: "uint32 \<Rightarrow> 'q instrument \<Rightarrow> 'q shared \<Rightarrow> 'q shared" where
  "maybe_create_instrument i inst sh =
     (case instruments sh i of
        Some j \<Rightarrow> sh
      | None \<Rightarrow> sh\<lparr>instruments := (instruments sh)(i \<mapsto> inst)\<rparr>)"

lemmas shared_defs [model_defs] =
  find_instrument_def maybe_create_instrument_def next_request_id_def create_instrument_def

text \<open>The static part of an instrument: what no update of its book may change.\<close>

definition inst_key :: "'q instrument \<Rightarrow> string \<times> double \<times> double \<times> bool" where
  "inst_key i = (inst_symbol i, inst_contract_size i, inst_multiplier i, inst_discard i)"

text \<open>
  The contract of the instrument cache for its clients (both UDP streams and the REST
  stream): what is known stays known, and the first creation of an identifier wins.
\<close>

locale instrument_cache =
  fixes lookup :: "'m \<Rightarrow> 'k \<Rightarrow> 'i option" and create :: "'k \<Rightarrow> 'i \<Rightarrow> 'm \<Rightarrow> 'm"
  assumes create_new: "lookup m k = None \<Longrightarrow> lookup (create k i m) = (lookup m)(k \<mapsto> i)"
    and create_old: "lookup m k = Some j \<Longrightarrow> create k i m = m"
begin

lemma create_stable: "lookup m k = Some j \<Longrightarrow> lookup (create k' i m) k = Some j"
  by (cases "lookup m k'") (auto simp: create_new create_old)

lemma create_known: "\<exists>j. lookup (create k i m) k = Some j"
  by (cases "lookup m k") (auto simp: create_new create_old)

lemma fold_create_stable:
  "lookup m k = Some j \<Longrightarrow> lookup (fold (\<lambda>(k, i). create k i) kis m) k = Some j"
  by (induction kis arbitrary: m) (auto simp: create_stable)

lemma fold_create_first:
  "lookup m k = None \<Longrightarrow> lookup (fold (\<lambda>(k, i). create k i) kis m) k = map_of kis k"
proof (induction kis arbitrary: m)
  case Nil
  then show ?case by simp
next
  case (Cons ki kis)
  obtain k' i where ki: "ki = (k', i)" by fastforce
  show ?case
  proof (cases "k' = k")
    case True
    then have "lookup (create k' i m) k = Some i" using Cons.prems by (simp add: create_new)
    then show ?thesis using ki True by (simp add: fold_create_stable)
  next
    case False
    then have "lookup (create k' i m) k = None"
      using Cons.prems by (cases "lookup m k'") (auto simp: create_new create_old)
    then show ?thesis using ki False Cons.IH by simp
  qed
qed

end

interpretation cache: instrument_cache instruments maybe_create_instrument
  by unfold_locales (auto simp: maybe_create_instrument_def)

text \<open>
  Creating instruments in any order, from any mixture of sources, an identifier keeps
  the first instrument that was created for it.
\<close>

theorem maybe_create_instrument_first_wins:
  "instruments (fold (\<lambda>(k, i). maybe_create_instrument k i) kis sh) k =
     (case instruments sh k of Some j \<Rightarrow> Some j | None \<Rightarrow> map_of kis k)"
  by (simp add: cache.fold_create_stable cache.fold_create_first split: option.split)

lemma find_instrument_found:
  "fst (find_instrument i cb sh x) \<longleftrightarrow> instruments sh i \<noteq> None"
  by (simp add: find_instrument_def split: option.splits prod.splits)

lemma find_instrument_frame:
  assumes "\<And>inst y. inst_key (fst (cb inst y)) = inst_key inst"
  shows "map_option inst_key (instruments (fst (snd (find_instrument i cb sh x))) j) =
    map_option inst_key (instruments sh j)"
  using assms by (auto simp: find_instrument_def split: option.splits prod.splits) (metis fst_conv)

section \<open>Uniqueness of request identifiers\<close>

lemma next_request_ids_eq:
  "next_request_ids n sh =
     (map (\<lambda>k. ''roq-'' @ show_nat (unat (sh_request_id sh + of_nat (Suc k)))) [0..<n],
      sh\<lparr>sh_request_id := sh_request_id sh + of_nat n\<rparr>)"
proof (induction n arbitrary: sh)
  case 0
  then show ?case by simp
next
  case (Suc n)
  show ?case
    by (simp add: Suc next_request_id_def Let_def upt_conv_Cons map_Suc_upt [symmetric] add_ac
        del: upt_Suc)
qed

lemma unat_add_inj:
  "j < 2 ^ 32 \<Longrightarrow> k < 2 ^ 32 \<Longrightarrow> (a :: uint32) + of_nat j = a + of_nat k \<Longrightarrow> j = k"
  by (simp add: word_of_nat_eq_iff take_bit_eq_mod)

text \<open>
  C14: the identifiers that \<open>next_request_id\<close> returns are pairwise different over any \<open>2^32\<close>
  calls, from any value of the counter, also across its wrap-around.
\<close>

theorem next_request_ids_distinct:
  assumes "n \<le> 2 ^ 32"
  shows "distinct (fst (next_request_ids n sh))"
proof -
  have "inj_on (\<lambda>k. ''roq-'' @ show_nat (unat (sh_request_id sh + of_nat (Suc k)))) {0..<n}"
  proof (rule inj_onI)
    fix j k
    assume jk: "j \<in> {0..<n}" "k \<in> {0..<n}"
      and eq: "''roq-'' @ show_nat (unat (sh_request_id sh + of_nat (Suc j))) =
        ''roq-'' @ show_nat (unat (sh_request_id sh + of_nat (Suc k)))"
    from eq have "unat (sh_request_id sh + of_nat (Suc j)) = unat (sh_request_id sh + of_nat (Suc k))"
      by (simp only: append_same_eq same_append_eq) (rule show_nat_inj)
    then have "sh_request_id sh + of_nat (Suc j) = sh_request_id sh + of_nat (Suc k)"
      by (simp only: word_unat_eq_iff)
    then have "(sh_request_id sh + 1) + of_nat j = (sh_request_id sh + 1) + of_nat k"
      by (simp add: add_ac)
    then show "j = k" by (rule unat_add_inj [rotated 2]) (use jk assms in auto)
  qed
  then show ?thesis by (simp add: next_request_ids_eq distinct_map)
qed

theorem next_request_ids_distinct_witness:
  "distinct (fst (next_request_ids 3 ((empty_shared default_settings :: nat shared)\<lparr>sh_request_id := 4294967294\<rparr>)))"
  by (rule next_request_ids_distinct) simp

end
