(* ===== verification/Fix_Types.thy ===== *)
theory Fix_Types
  imports Oms_Types Fix_Utils Crypto Shared
begin

text \<open>
  What the two FIX streams (order entry and market data) have in common: the messages they
  receive and send, with the fields the code reads and writes; the calls they make on the
  framework; the functions of the framework they use; and the contract of a FIX session. The
  FIX reader of the framework is the function \<open>reader\<close>: it answers the received bytes with
  the number of bytes it consumed and the complete messages in them.
\<close>

section \<open>Functions of the framework\<close>

datatype filter_item = Filter_ACCOUNT | Filter_EXCHANGE | Filter_SYMBOL | Filter_OTHER nat

datatype exec_type = ET_REJECTED | ET_CANCELED | ET_ORDER_STATUS | ET_OTHER nat

datatype ord_status = OS_NEW | OS_PARTIALLY_FILLED | OS_FILLED | OS_CANCELED | OS_OTHER nat

datatype fill_liquidity_ind = FLI_UNDEFINED | FLI_VALUE nat

datatype mass_status_req_type = MSR_UNDEFINED | MSR_ORDERS | MSR_OTHER nat

datatype mass_cancel_response = CANCEL_REQUEST_REJECTED | MCR_OTHER nat

datatype mass_cancel_request_type = CANCEL_ALL_ORDERS | CANCEL_ORDERS_FOR_SECURITY

datatype msg_type =
    NEW_ORDER_SINGLE | ORDER_CANCEL_REPLACE_REQUEST | ORDER_CANCEL_REQUEST
  | ORDER_MASS_CANCEL_REQUEST | MT_OTHER nat

datatype md_update_action =
    MDU_UNDEFINED | MDU_UNKNOWN | MDU_NEW | MDU_CHANGE | MDU_DELETE | MDU_DELETE_THRU
  | MDU_DELETE_FROM | MDU_OVERLAY

datatype md_entry_type =
  MDE_BID | MDE_OFFER | MDE_TRADE | MDE_INDEX_VALUE | MDE_SETTLEMENT_PRICE | MDE_OTHER nat

datatype md_update_type = INCREMENTAL_REFRESH | FULL_REFRESH | MDT_UNDEFINED

datatype subscription_request_type = SNAPSHOT_UPDATES | UNSUBSCRIBE

record fix_lib =
  fm_side :: "side \<Rightarrow> char"
  fm_ord_type :: "order_type \<Rightarrow> char"
  fm_time_in_force :: "time_in_force \<Rightarrow> char"
  fm_to_side :: "char \<Rightarrow> side"
  fm_to_order_type :: "char \<Rightarrow> order_type"
  fm_to_order_status :: "ord_status \<Rightarrow> order_status"
  fm_to_liquidity :: "fill_liquidity_ind \<Rightarrow> liquidity"
  fm_to_option_type :: "nat \<Rightarrow> option_type"
  fm_profit_loss :: "side \<Rightarrow> double \<Rightarrow> double \<Rightarrow> double \<Rightarrow> double"
  fm_create_filter :: "cancel_all_orders \<Rightarrow> filter_item list"
  fm_from_chars :: "string \<Rightarrow> uint64 option"
  fm_parse_time :: "string \<Rightarrow> milliseconds option"
  fm_safe_cast_u16 :: "int \<Rightarrow> uint16"

section \<open>Messages received\<close>

record fix_header =
  hd_msg_seq_num :: uint64
  hd_sending_time :: nanoseconds

record position_qty =
  pq_symbol :: string
  pq_long_qty :: double
  pq_short_qty :: double

record fix_fill =
  ff_fill_exec_id :: string
  ff_fill_px :: double
  ff_fill_qty :: double
  ff_fill_liquidity_ind :: fill_liquidity_ind

record execution_report =
  er_mass_status_req_type :: mass_status_req_type
  er_tot_num_reports :: int
  er_exec_type :: exec_type
  er_ord_status :: ord_status
  er_side :: char
  er_ord_type :: char
  er_symbol :: string
  er_order_id :: string
  er_orig_cl_ord_id :: string
  er_deribit_label :: string
  er_text :: string
  er_transact_time :: nanoseconds
  er_order_qty :: double
  er_price :: double
  er_stop_px :: double
  er_max_show :: double
  er_leaves_qty :: double
  er_cum_qty :: double
  er_avg_px :: double
  er_last_qty :: double
  er_last_px :: double
  er_no_fills :: "fix_fill list"

record order_cancel_reject =
  cj_orig_cl_ord_id :: string
  cj_deribit_label :: string
  cj_text :: string

record fix_reject =
  rj_ref_seq_num :: uint64
  rj_ref_msg_type :: msg_type
  rj_session_reject_reason :: string
  rj_text :: string

record order_mass_cancel_report =
  mc_cl_ord_id :: string
  mc_mass_cancel_response :: mass_cancel_response
  mc_total_affected_orders :: uint32
  mc_text :: string

record security =
  sy_symbol :: string
  sy_security_desc :: string
  sy_security_type :: string
  sy_put_or_call :: nat
  sy_underlying_symbol :: string
  sy_settl_currency :: string
  sy_currency :: string
  sy_comm_currency :: string
  sy_strike_currency :: string
  sy_min_price_increment :: double
  sy_contract_multiplier :: double
  sy_min_trade_vol :: double
  sy_strike_price :: double
  sy_issue_date :: milliseconds
  sy_maturity_date :: milliseconds
  sy_maturity_time :: string

record md_entry =
  me_type :: md_entry_type
  me_update_action :: md_update_action
  me_px :: double
  me_size :: double
  me_date :: nanoseconds
  me_side :: char
  me_deribit_trade_id :: string
  me_order_id :: string
  me_secondary_order_id :: string

record md_incremental =
  mi_symbol :: string
  mi_open_interest :: double
  mi_mark_price :: double
  mi_entries :: "md_entry list"

record md_snapshot =
  ms_symbol :: string
  ms_entries :: "md_entry list"

datatype fix_body =
    B_Heartbeat string
  | B_Logon
  | B_Logout
  | B_ResendRequest
  | B_TestRequest string
  | B_PositionReport "position_qty list"
  | B_ExecutionReport execution_report
  | B_OrderCancelReject order_cancel_reject
  | B_Reject fix_reject
  | B_OrderMassCancelReport order_mass_cancel_report
  | B_SecurityList "security list"
  | B_SecurityStatus
  | B_MarketDataIncrementalRefresh md_incremental
  | B_MarketDataRequestReject
  | B_MarketDataSnapshotFullRefresh md_snapshot
  | B_MarketDataRequest
  | B_Other
  | B_Undecodable

text \<open>
  What the framework answers while one message is handled: the clock (one reading
  stands for those of one message), the random draws, the
  keys of the order that a response matches (or the framework's constants for none), the
  multiplier of the symbol, whether the download is in its state \<open>ORDERS\<close>, and whether the dispatch of a book throws \<open>BadState\<close>.
\<close>

record order_keys =
  ok_user_id :: uint8
  ok_order_id :: uint64
  ok_strategy_id :: uint32

record fix_env =
  env_now :: nanoseconds
  env_draws :: "uint32 list"
  env_order :: order_keys
  env_multiplier :: double
  env_download_orders :: bool
  env_bad_state :: bool

record fix_message =
  fx_header :: fix_header
  fx_body :: fix_body
  fx_env :: fix_env

section \<open>Messages sent\<close>

type_synonym decimal = "double \<times> nat"

record fix_logon =
  lg_heart_bt_int :: uint16
  lg_raw_data_length :: uint32
  lg_raw_data :: string
  lg_username :: string
  lg_password :: string
  lg_cancel_on_disconnect :: bool
  lg_unsubscribe_execution_reports :: bool

record new_order_single =
  no_cl_ord_id :: string
  no_side :: char
  no_order_qty :: decimal
  no_price :: decimal
  no_symbol :: string
  no_exec_inst :: string
  no_ord_type :: char
  no_time_in_force :: char
  no_stop_px :: decimal
  no_deribit_label :: string

record order_cancel_replace_request =
  cr_deribit_label :: string
  cr_symbol :: string
  cr_side :: char
  cr_order_qty :: decimal
  cr_ord_type :: char
  cr_price :: decimal

record market_data_request =
  mr_md_req_id :: string
  mr_subscription_request_type :: subscription_request_type
  mr_market_depth :: nat
  mr_md_update_type :: md_update_type
  mr_md_entry_types :: "md_entry_type list"
  mr_related_sym :: "string list"

datatype fix_request =
    R_Logon fix_logon
  | R_Logout string
  | R_Heartbeat string
  | R_TestRequest string
  | R_RequestForPositions string
  | R_OrderMassStatusRequest string
  | R_NewOrderSingle new_order_single
  | R_OrderCancelReplaceRequest order_cancel_replace_request
  | R_OrderCancelRequest string string
  | R_OrderMassCancelRequest string mass_cancel_request_type string
  | R_SecurityListRequest string
  | R_MarketDataRequest market_data_request

section \<open>Calls\<close>

record reference_data =
  rf_stream_id :: uint16
  rf_exchange :: string
  rf_symbol :: string
  rf_description :: string
  rf_security_type :: security_type
  rf_market_segment :: string
  rf_base_currency :: string
  rf_quote_currency :: string
  rf_settlement_currency :: string
  rf_commission_currency :: string
  rf_tick_size :: double
  rf_multiplier :: double
  rf_min_trade_vol :: double
  rf_trade_vol_step_size :: double
  rf_option_type :: option_type
  rf_strike_currency :: string
  rf_strike_price :: double
  rf_underlying :: string
  rf_issue_date :: milliseconds
  rf_expiry_datetime :: milliseconds
  rf_expiry_datetime_utc :: milliseconds
  rf_discard :: bool

type_synonym statistics = "(statistics_type \<times> double) list"

record statistics_update =
  su_stream_id :: uint16
  su_exchange :: string
  su_symbol :: string
  su_statistics :: statistics
  su_update_type :: update_type
  su_exchange_time_utc :: nanoseconds
  su_sending_time_utc :: nanoseconds

datatype download_state = DS_POSITIONS | DS_ORDERS | DS_SECURITIES | DS_SUBSCRIBE | DS_DONE

datatype fix_call =
    Conn_Start
  | Conn_Stop
  | Conn_Close
  | Conn_Touch nanoseconds
  | Conn_Drain nat
  | Conn_Send uint64 nanoseconds fix_request
  | Download_Begin
  | Download_Reset
  | Download_Check download_state
  | Download_Update download_state int
  | Pub_StreamStatus stream_status
  | Pub_ExternalLatency uint16 string nanoseconds
  | Pub_PositionUpdate position_update bool
  | Pub_OrderUpdate oms_response order_update
  | Pub_Response oms_response
  | Pub_TradeUpdate trade_update uint8
  | Pub_CancelAllAck cancel_all_ack
  | Pub_ReferenceData reference_data
  | Pub_Symbols "string list"
  | Pub_MarketByPrice market_by_price_update bool
  | Pub_TradeSummary trade_summary bool
  | Pub_Statistics statistics_update

section \<open>Common operations\<close>

text \<open>An operation that may throw leaves the state it has reached.\<close>

type_synonym 's outcome = "'s \<times> failure option"

text \<open>\<open>std::chrono::duration_cast\<close> to seconds, and the division of a duration, truncate towards zero.\<close>

definition trunc_div :: "int \<Rightarrow> int \<Rightarrow> int" where
  "trunc_div a b = (if a < 0 then - ((- a) div b) else a div b)"

definition seconds_of_ns :: "nanoseconds \<Rightarrow> int" where
  "seconds_of_ns t = trunc_div t 1000000000"

text \<open>\<open>origin_create_time - send_time\<close>, halved: the one-way latency of a heartbeat.\<close>

definition one_way_latency :: "trace_info \<Rightarrow> uint64 \<Rightarrow> nanoseconds" where
  "one_way_latency ti send_time = trunc_div (origin_create_time ti - sint send_time) 2"

definition LOGOUT_RESPONSE :: string where
  "LOGOUT_RESPONSE = ''LOGOUT''"

text \<open>The messages of one call of the reader: the first exception ends them.\<close>

fun run_messages :: "(fix_message \<Rightarrow> 's \<Rightarrow> 's outcome) \<Rightarrow> fix_message list \<Rightarrow> 's \<Rightarrow> 's outcome" where
  "run_messages h [] s = (s, None)"
| "run_messages h (m # ms) s =
     (case h m s of (s', None) \<Rightarrow> run_messages h ms s' | (s', Some e) \<Rightarrow> (s', Some e))"

text \<open>The loop over the buffer of both streams; \<open>consumed\<close> is the variable \<open>total_bytes\<close>.\<close>

function read_loop ::
    "(fix_message \<Rightarrow> 's \<Rightarrow> 's outcome) \<Rightarrow> (byte list \<Rightarrow> nat \<times> fix_message list) \<Rightarrow> nat \<Rightarrow> byte list \<Rightarrow>
     's \<Rightarrow> nat \<times> 's outcome" where
  "read_loop h reader consumed buffer s =
     (if buffer = [] then (consumed, s, None)
      else let (n, ms) = reader buffer in
        (case run_messages h ms s of
           (s', Some e) \<Rightarrow> (consumed, s', Some e)
         | (s', None) \<Rightarrow> if n = 0 then (consumed, s', None)
             else read_loop h reader (consumed + n) (drop n buffer) s'))"
  by pat_completeness auto

termination
  by (relation "measure (\<lambda>(h, reader, consumed, buffer, s). length buffer)") auto

declare read_loop.simps [simp del]

lemma run_messages_keeps:
  assumes "\<And>m s. P s \<Longrightarrow> P (fst (h m s))"
  shows "P s \<Longrightarrow> P (fst (run_messages h ms s))"
proof (induction ms arbitrary: s)
  case (Cons m ms)
  then show ?case using assms [OF Cons.prems, of m] by (auto split: prod.splits option.splits)
qed simp

lemma read_loop_keeps:
  assumes h: "\<And>m s. P s \<Longrightarrow> P (fst (h m s))"
  shows "P s \<Longrightarrow> P (fst (snd (read_loop h reader n buffer s)))"
  using h
proof (induction h reader n buffer s rule: read_loop.induct)
  case (1 h reader n buffer s)
  show ?case
  proof (cases "buffer = []")
    case False
    obtain k ms where r: "reader buffer = (k, ms)" by fastforce
    obtain s' e where m: "run_messages h ms s = (s', e)" by fastforce
    have "P s'" using run_messages_keeps [of P h s ms, OF 1(3) 1(2)] m by simp
    then show ?thesis using 1 False r m
      by (subst read_loop.simps) (auto split: option.splits)
  qed (use 1 in \<open>simp add: read_loop.simps\<close>)
qed

text \<open>A reader that consumes at most what it is given: so does the loop.\<close>

lemma read_loop_bytes:
  "(\<And>b. fst (reader b) \<le> length b) \<Longrightarrow> fst (read_loop h reader n buffer s) \<le> n + length buffer"
proof (induction h reader n buffer s rule: read_loop.induct)
  case (1 h reader n buffer s)
  show ?case
  proof (cases "buffer = []")
    case False
    obtain k ms where r: "reader buffer = (k, ms)" by fastforce
    obtain s' e where m: "run_messages h ms s = (s', e)" by fastforce
    have k: "k \<le> length buffer" using 1(2) [of buffer] r by simp
    show ?thesis
    proof (cases "e = None \<and> k \<noteq> 0")
      case True
      have "fst (read_loop h reader (n + k) (drop k buffer) s') \<le> (n + k) + length (drop k buffer)"
        using 1(1) [OF False refl r [symmetric] m [symmetric] _ _ 1(2)] True by simp
      then show ?thesis using False r m True k by (subst read_loop.simps) simp
    next
      case no: False
      then show ?thesis using False r m by (subst read_loop.simps) (auto split: option.splits)
    qed
  qed (simp add: read_loop.simps)
qed

section \<open>The contract of a session\<close>

text \<open>
  The calls of the current session are those after the last reset of the download, which
  every stream makes when it loses its connection; \<open>sent_numbers\<close> are their sequence numbers.
\<close>

definition session_calls :: "fix_call list \<Rightarrow> fix_call list" where
  "session_calls cs = rev (takeWhile (\<lambda>c. c \<noteq> Download_Reset) (rev cs))"

fun sent_number :: "fix_call \<Rightarrow> uint64 list" where
  "sent_number (Conn_Send n t r) = [n]"
| "sent_number c = []"

definition sent_numbers :: "fix_call list \<Rightarrow> uint64 list" where
  "sent_numbers cs = concat (map sent_number (session_calls cs))"

lemma sent_numbers_Nil [simp]: "sent_numbers [] = []"
  by (simp add: sent_numbers_def session_calls_def)

lemma sent_numbers_snoc:
  "sent_numbers (cs @ [c]) = (if c = Download_Reset then [] else sent_numbers cs @ sent_number c)"
  by (simp add: sent_numbers_def session_calls_def)

text \<open>\<open>numbered n cs\<close>: the session has sent 1, 2, \<dots>, and \<open>n\<close> last, as 64-bit numbers.\<close>

definition numbered :: "uint64 \<Rightarrow> fix_call list \<Rightarrow> bool" where
  "numbered n cs \<longleftrightarrow> sent_numbers cs = map of_nat [1..<Suc (length (sent_numbers cs))] \<and>
     n = of_nat (length (sent_numbers cs))"

lemma numbered_Nil [simp]: "numbered 0 []"
  by (simp add: numbered_def)

lemma numbered_reset [simp]: "numbered 0 (cs @ [Download_Reset])"
  by (simp add: numbered_def sent_numbers_snoc)

lemma numbered_other:
  "c \<noteq> Download_Reset \<Longrightarrow> sent_number c = [] \<Longrightarrow> numbered n (cs @ [c]) = numbered n cs"
  by (simp add: numbered_def sent_numbers_snoc)

lemma numbered_others:
  "Download_Reset \<notin> set xs \<Longrightarrow> concat (map sent_number xs) = [] \<Longrightarrow> numbered n (cs @ xs) = numbered n cs"
proof (induction xs arbitrary: cs)
  case (Cons a xs)
  then show ?case using numbered_other [of a n cs] Cons.IH [of "cs @ [a]"] by auto
qed simp

lemma numbered_send: "numbered n cs \<Longrightarrow> numbered (n + 1) (cs @ [Conn_Send (n + 1) t r])"
  by (auto simp: numbered_def sent_numbers_snoc add.commute)

text \<open>
  A FIX session: how a client reads its outbound number and its calls, how it sends and how
  it makes another call. The law: sending uses the next number, and nothing else does.
\<close>

locale fix_session =
  fixes number :: "'s \<Rightarrow> uint64" and calls :: "'s \<Rightarrow> fix_call list"
    and send :: "nanoseconds \<Rightarrow> fix_request \<Rightarrow> 's \<Rightarrow> 's" and emit :: "fix_call \<Rightarrow> 's \<Rightarrow> 's"
  assumes send_number: "number (send t r s) = number s + 1"
    and send_calls: "calls (send t r s) = calls s @ [Conn_Send (number s + 1) t r]"
    and emit_number: "number (emit c s) = number s"
    and emit_calls: "calls (emit c s) = calls s @ [c]"
begin

definition in_order :: "'s \<Rightarrow> bool" where
  "in_order s \<longleftrightarrow> numbered (number s) (calls s)"

lemma send_in_order: "in_order s \<Longrightarrow> in_order (send t r s)"
  by (simp add: in_order_def send_number send_calls numbered_send)

lemma emit_in_order:
  "in_order s \<Longrightarrow> c \<noteq> Download_Reset \<Longrightarrow> sent_number c = [] \<Longrightarrow> in_order (emit c s)"
  by (simp add: in_order_def emit_number emit_calls numbered_other)

lemma in_order_cong: "number s = number s' \<Longrightarrow> calls s = calls s' \<Longrightarrow> in_order s = in_order s'"
  by (simp add: in_order_def)

lemma sends_in_order: "in_order s \<Longrightarrow> in_order (fold (\<lambda>r. send t r) rs s)"
  by (induction rs arbitrary: s) (auto simp: send_in_order)

end

end
