(* ===== verification/Gateway_Config.thy ===== *)
theory Gateway_Config
  imports Fix_Types Crypto
begin

text \<open>
  The configuration of the gateway (\<open>gateway/config.cpp\<close>): what the reader of the
  configuration file hands over, item by item, the look-up of the keys of an account, and
  what is dispatched to the server. Users, the symbols and rate limits belong to the
  framework: they are type parameters, the name of a rate limit is an argument.
\<close>

record account_config =
  cf_name :: string
  cf_login :: string
  cf_secret :: string
  cf_master :: bool

datatype request_id_type = RequestIdType_BASE64

record gateway_settings =
  gs_supports :: "support_type list"
  gs_mbp_tick_size_multiplier :: double
  gs_mbp_min_trade_vol_multiplier :: double
  gs_mbp_allow_remove_non_existing :: bool
  gs_mbp_allow_price_inversion :: bool
  gs_mbp_checksum :: bool
  gs_oms_request_id_type :: request_id_type
  gs_oms_cancel_all_orders :: "filter_item list"

definition SUPPORTS :: "support_type list" where
  "SUPPORTS = [ST_REFERENCE_DATA, ST_MARKET_STATUS, ST_TOP_OF_BOOK, ST_MARKET_BY_PRICE, ST_TRADE_SUMMARY,
     ST_STATISTICS, ST_CREATE_ORDER, ST_MODIFY_ORDER, ST_CANCEL_ORDER, ST_ORDER_ACK, ST_ORDER, ST_TRADE,
     ST_POSITION, ST_FUNDS]"

text \<open>\<open>1.0e-1\<close>.\<close>

definition MBP_TICK_SIZE_MULTIPLIER :: double where
  "MBP_TICK_SIZE_MULTIPLIER = 0x3FB999999999999A"

definition OMS_CANCEL_ALL_ORDERS :: "filter_item list" where
  "OMS_CANCEL_ALL_ORDERS = [Filter_ACCOUNT, Filter_EXCHANGE, Filter_SYMBOL]"

definition create_gateway_settings :: "settings \<Rightarrow> gateway_settings" where
  "create_gateway_settings st =
     \<lparr>gs_supports = SUPPORTS, gs_mbp_tick_size_multiplier = MBP_TICK_SIZE_MULTIPLIER,
      gs_mbp_min_trade_vol_multiplier = NaN, gs_mbp_allow_remove_non_existing = True,
      gs_mbp_allow_price_inversion = mbp_allow_price_inversion st, gs_mbp_checksum = experimental_mbp_checksum st,
      gs_oms_request_id_type = RequestIdType_BASE64, gs_oms_cancel_all_orders = OMS_CANCEL_ALL_ORDERS\<rparr>"

text \<open>A map with \<open>emplace\<close> and \<open>try_emplace\<close>, as the list of its entries: the first entry of a key stays.\<close>

definition assoc_emplace :: "'k \<Rightarrow> 'v \<Rightarrow> ('k \<times> 'v) list \<Rightarrow> ('k \<times> 'v) list" where
  "assoc_emplace k v xs = (if k \<in> fst ` set xs then xs else xs @ [(k, v)])"

record ('u, 's, 'r) config =
  cg_exchange :: string
  cg_gateway_settings :: gateway_settings
  cg_users :: "'u list"
  cg_symbols :: 's
  cg_accounts :: "(string \<times> account_config) list"
  cg_master_account :: string
  cg_rate_limits :: "(string \<times> 'r) list"

section \<open>Reading\<close>

datatype ('u, 's, 'r) config_item =
    CI_Symbols 's
  | CI_Account account_config
  | CI_User 'u
  | CI_RateLimit 'r
  | CI_RequestTemplate string
  | CI_Unexpected string

definition config_item ::
    "('r \<Rightarrow> string) \<Rightarrow> ('u, 's, 'r) config_item \<Rightarrow> ('u, 's, 'r) config \<Rightarrow> ('u, 's, 'r) config result" where
  "config_item rate_limit_name i c = (case i of
     CI_Symbols s \<Rightarrow> Inr (c\<lparr>cg_symbols := s\<rparr>)
   | CI_Account a \<Rightarrow>
       (let c1 = (if cf_master a then c\<lparr>cg_master_account := cf_name a\<rparr> else c)
        in Inr (c1\<lparr>cg_accounts := assoc_emplace (cf_name a) a (cg_accounts c1)\<rparr>))
   | CI_User u \<Rightarrow> Inr (c\<lparr>cg_users := cg_users c @ [u]\<rparr>)
   | CI_RateLimit r \<Rightarrow> Inr (c\<lparr>cg_rate_limits := assoc_emplace (rate_limit_name r) r (cg_rate_limits c)\<rparr>)
   | CI_RequestTemplate label \<Rightarrow> Inl (Fatal ''Unexpected: request templates not supported'')
   | CI_Unexpected key \<Rightarrow> Inr c)"

text \<open>\<open>no_symbols\<close>: the symbols before any have been read; \<open>items\<close>: what the file holds.\<close>

definition config_create ::
    "('r \<Rightarrow> string) \<Rightarrow> 's \<Rightarrow> settings \<Rightarrow> ('u, 's, 'r) config_item list \<Rightarrow> ('u, 's, 'r) config result" where
  "config_create rate_limit_name no_symbols st items =
     foldr_result (config_item rate_limit_name) items
       \<lparr>cg_exchange = set_exchange st, cg_gateway_settings = create_gateway_settings st, cg_users = [],
        cg_symbols = no_symbols, cg_accounts = [], cg_master_account = [], cg_rate_limits = []\<rparr>"

section \<open>Look-up and dispatch\<close>

definition config_find :: "('u, 's, 'r) config \<Rightarrow> string \<Rightarrow> account_config result" where
  "config_find c nm = (case map_of (cg_accounts c) nm of
     None \<Rightarrow> Inl (Fatal (''Unknown account='' @ nm))
   | Some a \<Rightarrow> Inr a)"

definition get_access_key :: "('u, 's, 'r) config \<Rightarrow> string \<Rightarrow> string result" where
  "get_access_key c nm = andthen (config_find c nm) (\<lambda>a. Inr (cf_login a))"

definition get_access_secret :: "('u, 's, 'r) config \<Rightarrow> string \<Rightarrow> string result" where
  "get_access_secret c nm = andthen (config_find c nm) (\<lambda>a. Inr (cf_secret a))"

datatype ('u, 's, 'r) config_call =
    CC_Exchange string
  | CC_Symbols 's
  | CC_Account account_config
  | CC_User 'u
  | CC_GatewaySettings gateway_settings
  | CC_RateLimit 'r

text \<open>The calls on the handler, in order.\<close>

definition config_dispatch :: "('u, 's, 'r) config \<Rightarrow> ('u, 's, 'r) config_call list" where
  "config_dispatch c =
     [CC_Exchange (cg_exchange c), CC_Symbols (cg_symbols c)] @
     map (\<lambda>(nm, a). CC_Account a) (cg_accounts c) @ map CC_User (cg_users c) @
     [CC_GatewaySettings (cg_gateway_settings c)] @ map (\<lambda>(nm, r). CC_RateLimit r) (cg_rate_limits c)"

section \<open>What a configuration holds\<close>

lemma assoc_emplace_distinct [simp]: "distinct (map fst xs) \<Longrightarrow> distinct (map fst (assoc_emplace k v xs))"
  by (auto simp: assoc_emplace_def)

lemma assoc_emplace_keys [simp]: "fst ` set (assoc_emplace k v xs) = insert k (fst ` set xs)"
  by (auto simp: assoc_emplace_def)

lemma assoc_emplace_entries: "p \<in> set (assoc_emplace k v xs) \<Longrightarrow> p \<in> set xs \<or> p = (k, v)"
  by (auto simp: assoc_emplace_def split: if_splits)

definition config_ok :: "('u, 's, 'r) config \<Rightarrow> bool" where
  "config_ok c \<longleftrightarrow> distinct (map fst (cg_accounts c)) \<and> (\<forall>p\<in>set (cg_accounts c). cf_name (snd p) = fst p) \<and>
     (cg_master_account c = [] \<or> cg_master_account c \<in> fst ` set (cg_accounts c))"

lemma config_ok_simps [simp]:
  "config_ok (c\<lparr>cg_symbols := sy\<rparr>) = config_ok c" "config_ok (c\<lparr>cg_users := us\<rparr>) = config_ok c"
  "config_ok (c\<lparr>cg_rate_limits := rs\<rparr>) = config_ok c"
  unfolding config_ok_def by simp_all

lemma config_item_ok:
  assumes "config_ok c" "config_item rn i c = Inr c'"
  shows "config_ok c'"
proof (cases i)
  case (CI_Account a)
  then have "cg_accounts c' = assoc_emplace (cf_name a) a (cg_accounts c)"
    "cg_master_account c' = (if cf_master a then cf_name a else cg_master_account c)"
    using assms(2) by (auto simp: config_item_def Let_def)
  then show ?thesis using assms(1) by (auto simp: config_ok_def dest!: assoc_emplace_entries)
qed (use assms in \<open>auto simp: config_item_def\<close>)

text \<open>
  A configuration that was read names every account once, under its own name, and its master
  is one of them.
\<close>

lemma config_create_ok:
  assumes "config_create rn no_symbols st items = Inr c"
  shows "config_ok c"
proof -
  have items: "config_ok c0 \<Longrightarrow> foldr_result (config_item rn) items c0 = Inr c \<Longrightarrow> config_ok c" for c0
    by (induction items arbitrary: c0) (auto simp: andthen_eq_Inr dest: config_item_ok)
  show ?thesis by (rule items [OF _ assms [unfolded config_create_def]]) (simp add: config_ok_def)
qed

end
