(* ===== verification/Order_Entry.thy ===== *)
theory Order_Entry
  imports Fix_Types
begin

text \<open>
  The order entry stream (\<open>gateway/order_entry.cpp\<close>): a FIX session that creates, modifies
  and cancels orders and translates the execution reports of the exchange. The download
  \<open>core::Download2\<close> belongs to the framework: the calls on it are recorded, always as the
  last action of a handler, and \<open>oe_download\<close> is the callback it runs.
\<close>

record 'q order_entry =
  oe_stream_id :: uint16
  oe_account :: account
  oe_shared :: "'q shared"
  oe_outbound :: uint64
  oe_inbound :: uint64
  oe_connection_status :: connection_status
  oe_ready :: bool
  oe_next_heartbeat :: nanoseconds
  oe_last_logon_or_heartbeat :: nanoseconds
  oe_requests :: "uint64 \<rightharpoonup> string"
  oe_test_disconnect_time :: nanoseconds
  oe_test_logon_time :: nanoseconds
  oe_out :: "fix_call list"

definition oe_supports :: "support_type list" where
  "oe_supports = [ST_POSITION, ST_CREATE_ORDER, ST_MODIFY_ORDER, ST_CANCEL_ORDER, ST_ORDER_ACK, ST_ORDER, ST_TRADE]"

definition oe_create :: "uint16 \<Rightarrow> account \<Rightarrow> 'q shared \<Rightarrow> 'q order_entry" where
  "oe_create sid a sh =
     \<lparr>oe_stream_id = sid, oe_account = a, oe_shared = sh, oe_outbound = 0, oe_inbound = 0,
      oe_connection_status = CS_UNDEFINED, oe_ready = False, oe_next_heartbeat = 0,
      oe_last_logon_or_heartbeat = 0, oe_requests = Map.empty, oe_test_disconnect_time = 0,
      oe_test_logon_time = 0, oe_out = []\<rparr>"

section \<open>Sending\<close>

definition oe_emit :: "fix_call \<Rightarrow> 'q order_entry \<Rightarrow> 'q order_entry" where
  "oe_emit c s = s\<lparr>oe_out := oe_out s @ [c]\<rparr>"

definition oe_send :: "nanoseconds \<Rightarrow> fix_request \<Rightarrow> 'q order_entry \<Rightarrow> 'q order_entry" where
  "oe_send now r s =
     (let n = oe_outbound s + 1
      in s\<lparr>oe_outbound := n, oe_out := oe_out s @ [Conn_Send n now r]\<rparr>)"

definition oe_check :: "fix_header \<Rightarrow> 'q order_entry \<Rightarrow> 'q order_entry" where
  "oe_check h s = s\<lparr>oe_inbound := hd_msg_seq_num h\<rparr>"

definition oe_send_logon ::
    "crypto_lib \<Rightarrow> trace_info \<Rightarrow> fix_env \<Rightarrow> 'q order_entry \<Rightarrow> 'q order_entry" where
  "oe_send_logon cx ti env s =
     (let st = sh_settings (oe_shared s);
          (raw_data, a) = account_raw_data cx ti (env_draws env) (oe_account s);
          password = account_password cx raw_data a;
          logon = \<lparr>lg_heart_bt_int = word_of_int (seconds_of_ns (fix_ping_freq st)),
            lg_raw_data_length = word_of_nat (length raw_data), lg_raw_data = raw_data,
            lg_username = ac_key a, lg_password = password,
            lg_cancel_on_disconnect = fix_cancel_on_disconnect st,
            lg_unsubscribe_execution_reports = False\<rparr>
      in (oe_send (env_now env) (R_Logon logon) (s\<lparr>oe_account := a\<rparr>))
           \<lparr>oe_last_logon_or_heartbeat := origin_create_time ti\<rparr>)"

definition oe_send_logout :: "string \<Rightarrow> fix_env \<Rightarrow> 'q order_entry \<Rightarrow> 'q order_entry" where
  "oe_send_logout t env s = oe_send (env_now env) (R_Logout t) s"

definition oe_send_heartbeat :: "string \<Rightarrow> fix_env \<Rightarrow> 'q order_entry \<Rightarrow> 'q order_entry" where
  "oe_send_heartbeat t env s = oe_send (env_now env) (R_Heartbeat t) s"

definition oe_send_test_request :: "trace_info \<Rightarrow> fix_env \<Rightarrow> 'q order_entry \<Rightarrow> 'q order_entry" where
  "oe_send_test_request ti env s =
     (let s1 = oe_send (env_now env) (R_TestRequest (show_int (origin_create_time ti))) s
      in if oe_last_logon_or_heartbeat s1 = 0
         then s1\<lparr>oe_last_logon_or_heartbeat := origin_create_time ti\<rparr> else s1)"

definition oe_subscribe_positions :: "fix_env \<Rightarrow> 'q order_entry \<Rightarrow> 'q order_entry" where
  "oe_subscribe_positions env s =
     (let (request_id, sh) = next_request_id (oe_shared s)
      in oe_send (env_now env) (R_RequestForPositions request_id) (s\<lparr>oe_shared := sh\<rparr>))"

definition oe_download_orders :: "fix_env \<Rightarrow> 'q order_entry \<Rightarrow> 'q order_entry" where
  "oe_download_orders env s =
     (let (request_id, sh) = next_request_id (oe_shared s)
      in oe_send (env_now env) (R_OrderMassStatusRequest request_id) (s\<lparr>oe_shared := sh\<rparr>))"

section \<open>Connection\<close>

definition oe_on_connection_status :: "connection_status \<Rightarrow> string \<Rightarrow> 'q order_entry \<Rightarrow> 'q order_entry" where
  "oe_on_connection_status cs reason s =
     oe_emit (Pub_StreamStatus \<lparr>ss_stream_id = oe_stream_id s, ss_account = ac_name (oe_account s),
         ss_supports = oe_supports, ss_transport = Transport_TCP, ss_protocol = Protocol_FIX,
         ss_connection_status = cs, ss_reason = reason\<rparr>)
       (s\<lparr>oe_connection_status := cs\<rparr>)"

definition oe_notify :: "externals \<Rightarrow> connection_status \<Rightarrow> string \<Rightarrow> 'q order_entry \<Rightarrow> 'q order_entry" where
  "oe_notify x cs reason s =
     (if base_notify x (oe_connection_status s) cs then oe_on_connection_status cs reason s else s)"

definition oe_is_ready :: "'q order_entry \<Rightarrow> bool" where
  "oe_is_ready s \<longleftrightarrow> oe_connection_status s = CS_READY"

definition oe_start :: "'q order_entry \<Rightarrow> 'q order_entry" where
  "oe_start s = oe_emit Conn_Start s"

definition oe_stop :: "'q order_entry \<Rightarrow> 'q order_entry" where
  "oe_stop s = oe_emit Conn_Stop s"

text \<open>\<open>refreshed\<close>: what \<open>ConnectionManager::refresh\<close> returned.\<close>

definition oe_timer ::
    "externals \<Rightarrow> crypto_lib \<Rightarrow> bool \<Rightarrow> trace_info \<Rightarrow> fix_env \<Rightarrow> nanoseconds \<Rightarrow> 'q order_entry \<Rightarrow> 'q order_entry" where
  "oe_timer x cx refreshed ti env now s =
     (let st = sh_settings (oe_shared s) in
      if \<not> refreshed then s
      else if oe_last_logon_or_heartbeat s \<noteq> 0 \<and> fix_request_timeout st \<noteq> 0 \<and>
              fix_request_timeout st < now - oe_last_logon_or_heartbeat s
      then oe_emit Conn_Close s
      else if oe_ready s then
        (if oe_test_disconnect_time s \<noteq> 0 \<and> oe_test_disconnect_time s < now
         then (if fix_test_order_disconnect st \<noteq> 0 then oe_emit Conn_Close s else s)
         else if oe_next_heartbeat s \<le> now
         then oe_send_test_request ti env (s\<lparr>oe_next_heartbeat := now + fix_ping_freq st\<rparr>)
         else s)
      else if oe_test_logon_time s \<noteq> 0 \<and> oe_test_logon_time s < now
      then oe_notify x CS_LOGIN_SENT [] (oe_send_logon cx ti env (s\<lparr>oe_test_logon_time := 0\<rparr>))
      else s)"

definition oe_connected :: "trace_info \<Rightarrow> 'q order_entry \<Rightarrow> 'q order_entry" where
  "oe_connected ti s =
     (let st = sh_settings (oe_shared s);
          s1 = s\<lparr>oe_test_logon_time := origin_create_time ti + fix_test_order_logon st\<rparr>
      in if fix_test_order_disconnect st \<noteq> 0
         then s1\<lparr>oe_test_disconnect_time := origin_create_time ti + fix_test_order_disconnect st\<rparr> else s1)"

definition oe_disconnected :: "externals \<Rightarrow> 'q order_entry \<Rightarrow> 'q order_entry" where
  "oe_disconnected x s =
     (let s1 = oe_notify x CS_DISCONNECTED []
            (s\<lparr>oe_outbound := 0, oe_inbound := 0, oe_ready := False, oe_next_heartbeat := 0\<rparr>)
      in (oe_emit Download_Reset s1)\<lparr>oe_last_logon_or_heartbeat := 0, oe_test_logon_time := 0,
            oe_test_disconnect_time := 0\<rparr>)"

text \<open>The callback of the download: the number of expected responses, and the new state.\<close>

definition oe_download ::
    "externals \<Rightarrow> download_state \<Rightarrow> fix_env \<Rightarrow> 'q order_entry \<Rightarrow> int \<times> 'q order_entry" where
  "oe_download x st env s = (case st of
     DS_POSITIONS \<Rightarrow> (1, oe_subscribe_positions env (oe_notify x CS_DOWNLOADING ''POSITIONS'' s))
   | DS_ORDERS \<Rightarrow> (1, oe_download_orders env (oe_notify x CS_DOWNLOADING ''ORDERS'' s))
   | DS_DONE \<Rightarrow> (0, (oe_notify x CS_READY [] s)\<lparr>oe_ready := True\<rparr>)
   | _ \<Rightarrow> (0, s))"

section \<open>Requests of clients\<close>

definition oe_remember :: "string \<Rightarrow> 'q order_entry \<Rightarrow> 'q order_entry" where
  "oe_remember request_id s = s\<lparr>oe_requests := emplace (oe_outbound s) request_id (oe_requests s)\<rparr>"

definition oe_create_order ::
    "fix_lib \<Rightarrow> create_order \<Rightarrow> ref_data \<Rightarrow> string \<Rightarrow> nanoseconds \<Rightarrow> 'q order_entry \<Rightarrow>
     (uint16 \<times> 'q order_entry) result" where
  "oe_create_order fl co rd request_id now s =
     (if \<not> oe_is_ready s then Inl NotReady
      else if isfinite (co_stop_price co) then Inl (RuntimeError ''stop_price not supported'')
      else if isfinite (co_max_show_quantity co) then Inl (RuntimeError ''max_show_quantity not supported'')
      else andthen (map_execution_instructions (co_execution_instructions co)) (\<lambda>exec_inst.
        let r = \<lparr>no_cl_ord_id = request_id, no_side = fm_side fl (co_side co),
              no_order_qty = (co_quantity co, rd_quantity_precision rd),
              no_price = (co_price co, rd_price_precision rd), no_symbol = co_symbol co,
              no_exec_inst = exec_inst, no_ord_type = fm_ord_type fl (co_order_type co),
              no_time_in_force = fm_time_in_force fl (co_time_in_force co),
              no_stop_px = (co_stop_price co, rd_price_precision rd), no_deribit_label = request_id\<rparr>
        in Inr (oe_stream_id s, oe_remember request_id (oe_send now (R_NewOrderSingle r) s))))"

definition oe_modify_order ::
    "fix_lib \<Rightarrow> modify_order \<Rightarrow> oms_order \<Rightarrow> ref_data \<Rightarrow> string \<Rightarrow> nanoseconds \<Rightarrow> 'q order_entry \<Rightarrow>
     (uint16 \<times> 'q order_entry) result" where
  "oe_modify_order fl mo order rd request_id now s =
     (if \<not> oe_is_ready s then Inl NotReady
      else let r = \<lparr>cr_deribit_label = oo_client_order_id order, cr_symbol = oo_symbol order,
              cr_side = fm_side fl (oo_side order), cr_order_qty = (mo_quantity mo, rd_quantity_precision rd),
              cr_ord_type = fm_ord_type fl (oo_order_type order),
              cr_price = (mo_price mo, rd_price_precision rd)\<rparr>
        in Inr (oe_stream_id s, oe_remember request_id (oe_send now (R_OrderCancelReplaceRequest r) s)))"

definition oe_cancel_order ::
    "oms_order \<Rightarrow> string \<Rightarrow> nanoseconds \<Rightarrow> 'q order_entry \<Rightarrow> (uint16 \<times> 'q order_entry) result" where
  "oe_cancel_order order request_id now s =
     (if \<not> oe_is_ready s then Inl NotReady
      else Inr (oe_stream_id s, oe_remember request_id
        (oe_send now (R_OrderCancelRequest (oo_client_order_id order) (oo_symbol order)) s)))"

definition oe_mass_cancel_request_type :: "filter_item list \<Rightarrow> mass_cancel_request_type result" where
  "oe_mass_cancel_request_type f =
     (if f = [] then Inr CANCEL_ALL_ORDERS
      else if Filter_SYMBOL \<in> set f \<and> set f \<subseteq> {Filter_EXCHANGE, Filter_SYMBOL}
      then Inr CANCEL_ORDERS_FOR_SECURITY
      else Inl (Rejected ''filter''))"

definition oe_cancel_all_orders ::
    "fix_lib \<Rightarrow> cancel_all_orders \<Rightarrow> string \<Rightarrow> nanoseconds \<Rightarrow> 'q order_entry \<Rightarrow>
     (uint16 \<times> 'q order_entry) result" where
  "oe_cancel_all_orders fl ca request_id now s =
     (if \<not> oe_is_ready s then Inl NotReady
      else andthen (oe_mass_cancel_request_type (filter (\<lambda>i. i \<noteq> Filter_ACCOUNT) (fm_create_filter fl ca)))
        (\<lambda>t. let ack = \<lparr>ck_stream_id = oe_stream_id s, ck_account = ac_name (oe_account s),
                 ck_order_id = ca_order_id ca, ck_exchange = ca_exchange ca, ck_symbol = ca_symbol ca,
                 ck_side = ca_side ca, ck_origin = Origin_GATEWAY, ck_request_status = RequestStatus_FORWARDED,
                 ck_text = [], ck_request_id = request_id, ck_number_of_affected_orders = 0,
                 ck_strategy_id = ca_strategy_id ca\<rparr>
          in Inr (oe_stream_id s, oe_emit (Pub_CancelAllAck ack)
               (oe_send now (R_OrderMassCancelRequest request_id t (ca_symbol ca)) s))))"

section \<open>Session messages\<close>

definition oe_heartbeat :: "fix_lib \<Rightarrow> trace_info \<Rightarrow> string \<Rightarrow> 'q order_entry \<Rightarrow> 'q order_entry outcome" where
  "oe_heartbeat fl ti test_req_id s =
     (let s1 = s\<lparr>oe_last_logon_or_heartbeat := 0\<rparr>
      in if test_req_id = [] then (s1, None)
         else case fm_from_chars fl test_req_id of
           None \<Rightarrow> (s1, Some (RuntimeError ''from_chars''))
         | Some send_time \<Rightarrow>
             (oe_emit (Pub_ExternalLatency (oe_stream_id s) (ac_name (oe_account s))
                 (one_way_latency ti send_time)) s1, None))"

definition oe_logon :: "'q order_entry \<Rightarrow> 'q order_entry" where
  "oe_logon s = oe_emit Download_Begin (s\<lparr>oe_last_logon_or_heartbeat := 0\<rparr>)"

definition oe_logout :: "fix_env \<Rightarrow> 'q order_entry \<Rightarrow> 'q order_entry" where
  "oe_logout env s = oe_emit Conn_Close (oe_send_logout LOGOUT_RESPONSE env (s\<lparr>oe_ready := False\<rparr>))"

definition oe_resend_request :: "'q order_entry \<Rightarrow> 'q order_entry" where
  "oe_resend_request s = oe_emit Conn_Close s"

definition oe_test_request :: "string \<Rightarrow> fix_env \<Rightarrow> 'q order_entry \<Rightarrow> 'q order_entry" where
  "oe_test_request test_req_id env s = oe_send_heartbeat test_req_id env s"

section \<open>Business messages\<close>

definition oe_position_update :: "'q order_entry \<Rightarrow> position_qty \<Rightarrow> position_update" where
  "oe_position_update s q =
     \<lparr>pu_stream_id = oe_stream_id s, pu_account = ac_name (oe_account s),
      pu_exchange = set_exchange (sh_settings (oe_shared s)), pu_symbol = pq_symbol q,
      pu_long_quantity = fmax 0 (pq_long_qty q), pu_short_quantity = fmax 0 (pq_short_qty q),
      pu_update_type = UpdateType_INCREMENTAL\<rparr>"

fun oe_publish_positions :: "position_qty list \<Rightarrow> 'q order_entry \<Rightarrow> 'q order_entry" where
  "oe_publish_positions [] s = s"
| "oe_publish_positions (q # qs) s =
     oe_publish_positions qs (oe_emit (Pub_PositionUpdate (oe_position_update s q) (qs = [])) s)"

definition oe_position_report :: "position_qty list \<Rightarrow> 'q order_entry \<Rightarrow> 'q order_entry" where
  "oe_position_report qs s = oe_emit (Download_Check DS_POSITIONS) (oe_publish_positions qs s)"

definition compute_request_type :: "exec_type \<Rightarrow> ord_status \<Rightarrow> request_type" where
  "compute_request_type e st = (case e of
     ET_REJECTED \<Rightarrow> RequestType_UNDEFINED
   | ET_CANCELED \<Rightarrow> RequestType_UNDEFINED
   | ET_ORDER_STATUS \<Rightarrow>
       (case st of
          OS_NEW \<Rightarrow> RequestType_UNDEFINED
        | OS_PARTIALLY_FILLED \<Rightarrow> RequestType_UNDEFINED
        | OS_CANCELED \<Rightarrow> RequestType_UNDEFINED
        | _ \<Rightarrow> RequestType_UNDEFINED)
   | ET_OTHER n \<Rightarrow> RequestType_UNDEFINED)"

definition compute_request_status :: "exec_type \<Rightarrow> ord_status \<Rightarrow> request_status" where
  "compute_request_status e st = (case e of
     ET_REJECTED \<Rightarrow> RequestStatus_REJECTED
   | ET_CANCELED \<Rightarrow> RequestStatus_ACCEPTED
   | ET_ORDER_STATUS \<Rightarrow>
       (case st of
          OS_NEW \<Rightarrow> RequestStatus_ACCEPTED
        | OS_PARTIALLY_FILLED \<Rightarrow> RequestStatus_ACCEPTED
        | OS_FILLED \<Rightarrow> RequestStatus_ACCEPTED
        | OS_CANCELED \<Rightarrow> RequestStatus_ACCEPTED
        | OS_OTHER n \<Rightarrow> RequestStatus_UNDEFINED)
   | ET_OTHER n \<Rightarrow> RequestStatus_UNDEFINED)"

text \<open>The loop of \<open>find_liquidity_ind\<close>, with its variables \<open>result\<close> and \<open>found\<close>.\<close>

fun find_liquidity_loop :: "fill_liquidity_ind \<Rightarrow> bool \<Rightarrow> fix_fill list \<Rightarrow> fill_liquidity_ind" where
  "find_liquidity_loop r found [] = r"
| "find_liquidity_loop r found (i # is) =
     (if ff_fill_liquidity_ind i \<noteq> FLI_UNDEFINED
      then (if \<not> found then find_liquidity_loop (ff_fill_liquidity_ind i) True is
            else if ff_fill_liquidity_ind i \<noteq> r then FLI_UNDEFINED
            else find_liquidity_loop r found is)
      else find_liquidity_loop r found is)"

definition find_liquidity_ind :: "fix_fill list \<Rightarrow> fill_liquidity_ind" where
  "find_liquidity_ind fills = find_liquidity_loop FLI_UNDEFINED False fills"

definition compute_last_traded ::
    "externals \<Rightarrow> double \<Rightarrow> double \<Rightarrow> fix_fill list \<Rightarrow> double \<times> double" where
  "compute_last_traded x last_quantity last_price fills =
     (if fills = [] then (last_quantity, last_price)
      else let sum_quantity = fold (\<lambda>i q. fadd q (ff_fill_qty i)) fills 0;
               sum_quantity_price = fold (\<lambda>i p. fadd p (fmul (ff_fill_qty i) (ff_fill_px i))) fills 0
        in (sum_quantity, if is_zero x sum_quantity then NaN else fdiv sum_quantity_price sum_quantity))"

definition oe_client_order_id :: "string \<Rightarrow> string \<Rightarrow> string" where
  "oe_client_order_id deribit_label orig_cl_ord_id = (if deribit_label = [] then orig_cl_ord_id else deribit_label)"

definition oe_average_traded_price :: "externals \<Rightarrow> execution_report \<Rightarrow> double" where
  "oe_average_traded_price x er =
     (if isnan (er_cum_qty er) \<or> is_zero x (er_cum_qty er) then NaN else er_avg_px er)"

definition oe_update_type :: "fix_env \<Rightarrow> update_type" where
  "oe_update_type env = (if \<not> env_download_orders env then UpdateType_INCREMENTAL else UpdateType_SNAPSHOT)"

definition oe_report_response :: "externals \<Rightarrow> execution_report \<Rightarrow> oms_response" where
  "oe_report_response x er =
     \<lparr>rs_request_type = compute_request_type (er_exec_type er) (er_ord_status er),
      rs_origin = Origin_EXCHANGE,
      rs_request_status = compute_request_status (er_exec_type er) (er_ord_status er),
      rs_error = map_error x (er_text er), rs_text = er_text er, rs_request_id = [],
      rs_external_order_id = er_order_id er,
      rs_client_order_id = oe_client_order_id (er_deribit_label er) (er_orig_cl_ord_id er),
      rs_quantity = er_order_qty er, rs_price = er_price er\<rparr>"

definition oe_order_update ::
    "externals \<Rightarrow> fix_lib \<Rightarrow> fix_env \<Rightarrow> fix_header \<Rightarrow> execution_report \<Rightarrow> 'q order_entry \<Rightarrow> order_update" where
  "oe_order_update x fl env h er s =
     (let (last_quantity, last_price) = compute_last_traded x (er_last_qty er) (er_last_px er) (er_no_fills er)
      in \<lparr>ou_account = ac_name (oe_account s), ou_exchange = set_exchange (sh_settings (oe_shared s)),
          ou_symbol = er_symbol er, ou_side = fm_to_side fl (er_side er),
          ou_max_show_quantity = er_max_show er, ou_order_type = fm_to_order_type fl (er_ord_type er),
          ou_time_in_force =
            (case oe_update_type env of UpdateType_SNAPSHOT \<Rightarrow> TimeInForce_GTC | _ \<Rightarrow> TimeInForce_UNDEFINED),
          ou_update_time_utc = er_transact_time er, ou_external_order_id = er_order_id er,
          ou_client_order_id = oe_client_order_id (er_deribit_label er) (er_orig_cl_ord_id er),
          ou_order_status = fm_to_order_status fl (er_ord_status er),
          ou_quantity = er_order_qty er, ou_price = er_price er, ou_stop_price = er_stop_px er,
          ou_leverage = NaN, ou_remaining_quantity = er_leaves_qty er, ou_traded_quantity = er_cum_qty er,
          ou_average_traded_price = oe_average_traded_price x er,
          ou_last_traded_quantity = last_quantity, ou_last_traded_price = last_price,
          ou_last_liquidity = fm_to_liquidity fl (find_liquidity_ind (er_no_fills er)),
          ou_update_type = oe_update_type env, ou_sending_time_utc = hd_sending_time h\<rparr>)"

definition oe_fill :: "fix_lib \<Rightarrow> fix_env \<Rightarrow> execution_report \<Rightarrow> fix_fill \<Rightarrow> fill" where
  "oe_fill fl env er i =
     \<lparr>fl_exchange_time_utc = er_transact_time er, fl_external_trade_id = ff_fill_exec_id i,
      fl_quantity = ff_fill_qty i, fl_price = ff_fill_px i,
      fl_liquidity = fm_to_liquidity fl (ff_fill_liquidity_ind i), fl_commission_amount = NaN,
      fl_base_amount = NaN, fl_quote_amount = NaN,
      fl_profit_loss_amount =
        fm_profit_loss fl (fm_to_side fl (er_side er)) (ff_fill_qty i) (ff_fill_px i) (env_multiplier env)\<rparr>"

definition oe_trade_update ::
    "fix_lib \<Rightarrow> fix_env \<Rightarrow> fix_header \<Rightarrow> execution_report \<Rightarrow> order_keys \<Rightarrow> 'q order_entry \<Rightarrow> trade_update" where
  "oe_trade_update fl env h er k s =
     \<lparr>tu_stream_id = oe_stream_id s, tu_account = ac_name (oe_account s), tu_order_id = ok_order_id k,
      tu_exchange = set_exchange (sh_settings (oe_shared s)), tu_symbol = er_symbol er,
      tu_side = fm_to_side fl (er_side er), tu_create_time_utc = er_transact_time er,
      tu_update_time_utc = er_transact_time er, tu_external_order_id = er_order_id er,
      tu_client_order_id = oe_client_order_id (er_deribit_label er) (er_orig_cl_ord_id er),
      tu_fills = map (oe_fill fl env er) (er_no_fills er), tu_update_type = oe_update_type env,
      tu_sending_time_utc = hd_sending_time h, tu_strategy_id = ok_strategy_id k\<rparr>"

definition oe_execution_report ::
    "externals \<Rightarrow> fix_lib \<Rightarrow> fix_env \<Rightarrow> fix_header \<Rightarrow> execution_report \<Rightarrow> 'q order_entry \<Rightarrow> 'q order_entry outcome" where
  "oe_execution_report x fl env h er s = (case er_mass_status_req_type er of
     MSR_ORDERS \<Rightarrow> (oe_emit (Download_Update DS_ORDERS (er_tot_num_reports er)) s, None)
   | MSR_OTHER n \<Rightarrow> (s, Some (Fatal ''Unexpected: mass_status_req_type''))
   | MSR_UNDEFINED \<Rightarrow>
       (if \<not> misc_disable_deribit_143 (sh_settings (oe_shared s)) \<and>
           er_exec_type er = ET_CANCELED \<and> er_ord_status er = OS_CANCELED
        then (s, None)
        else
          let s1 = oe_emit (Pub_OrderUpdate (oe_report_response x er) (oe_order_update x fl env h er s)) s;
              k = env_order env;
              s2 = (if er_no_fills er = [] then s1
                    else oe_emit (Pub_TradeUpdate (oe_trade_update fl env h er k s) (ok_user_id k)) s1)
          in (oe_emit (Download_Check DS_ORDERS) s2, None)))"

definition oe_order_cancel_reject ::
    "externals \<Rightarrow> order_cancel_reject \<Rightarrow> 'q order_entry \<Rightarrow> 'q order_entry" where
  "oe_order_cancel_reject x cj s =
     oe_emit (Pub_Response \<lparr>rs_request_type = RequestType_UNDEFINED, rs_origin = Origin_EXCHANGE,
       rs_request_status = RequestStatus_REJECTED, rs_error = map_error x (cj_text cj), rs_text = cj_text cj,
       rs_request_id = [], rs_external_order_id = [],
       rs_client_order_id = oe_client_order_id (cj_deribit_label cj) (cj_orig_cl_ord_id cj),
       rs_quantity = NaN, rs_price = NaN\<rparr>) s"

definition message_type_to_request_type :: "msg_type \<Rightarrow> request_type" where
  "message_type_to_request_type m = (case m of
     NEW_ORDER_SINGLE \<Rightarrow> CREATE_ORDER
   | ORDER_CANCEL_REPLACE_REQUEST \<Rightarrow> MODIFY_ORDER
   | ORDER_CANCEL_REQUEST \<Rightarrow> CANCEL_ORDER
   | _ \<Rightarrow> RequestType_UNDEFINED)"

definition oe_reject_response :: "fix_reject \<Rightarrow> string \<Rightarrow> oms_response" where
  "oe_reject_response rj rid =
     \<lparr>rs_request_type = message_type_to_request_type (rj_ref_msg_type rj), rs_origin = Origin_EXCHANGE,
      rs_request_status = RequestStatus_REJECTED,
      rs_error = reject_to_error (rj_session_reject_reason rj) (rj_text rj), rs_text = rj_text rj,
      rs_request_id = rid, rs_external_order_id = [], rs_client_order_id = [],
      rs_quantity = NaN, rs_price = NaN\<rparr>"

definition oe_reject :: "fix_reject \<Rightarrow> 'q order_entry \<Rightarrow> 'q order_entry outcome" where
  "oe_reject rj s =
     (if message_type_to_request_type (rj_ref_msg_type rj) \<noteq> RequestType_UNDEFINED
      then (case oe_requests s (rj_ref_seq_num rj) of
              Some rid \<Rightarrow> (oe_emit (Pub_Response (oe_reject_response rj rid)) s, None)
            | None \<Rightarrow> (s, None))
      else if rj_session_reject_reason rj = ''99'' \<and> rj_text rj = ''connection_too_slow''
      then (oe_emit Conn_Close s, None)
      else if rj_ref_msg_type rj = ORDER_MASS_CANCEL_REQUEST \<and> rj_text rj = ''rate_limit_exceeded''
      then (oe_emit Conn_Close s, None)
      else (s, Some (Fatal ''Unexpected: reject'')))"

definition oe_order_mass_cancel_report :: "order_mass_cancel_report \<Rightarrow> 'q order_entry \<Rightarrow> 'q order_entry" where
  "oe_order_mass_cancel_report mc s =
     oe_emit (Pub_CancelAllAck \<lparr>ck_stream_id = oe_stream_id s, ck_account = ac_name (oe_account s),
       ck_order_id = 0, ck_exchange = [], ck_symbol = [], ck_side = Side_UNDEFINED,
       ck_origin = Origin_EXCHANGE,
       ck_request_status = (case mc_mass_cancel_response mc of
           CANCEL_REQUEST_REJECTED \<Rightarrow> RequestStatus_REJECTED | _ \<Rightarrow> RequestStatus_ACCEPTED),
       ck_text = mc_text mc, ck_request_id = mc_cl_ord_id mc,
       ck_number_of_affected_orders = mc_total_affected_orders mc, ck_strategy_id = 0\<rparr>) s"

section \<open>Receiving\<close>

definition oe_parse ::
    "externals \<Rightarrow> fix_lib \<Rightarrow> trace_info \<Rightarrow> fix_message \<Rightarrow> 'q order_entry \<Rightarrow> 'q order_entry outcome" where
  "oe_parse x fl ti m s = (let env = fx_env m in case fx_body m of
     B_Heartbeat test_req_id \<Rightarrow> oe_heartbeat fl ti test_req_id s
   | B_Logon \<Rightarrow> (oe_logon s, None)
   | B_Logout \<Rightarrow> (oe_logout env s, None)
   | B_ResendRequest \<Rightarrow> (oe_resend_request s, None)
   | B_TestRequest test_req_id \<Rightarrow> (oe_test_request test_req_id env s, None)
   | B_PositionReport qs \<Rightarrow> (oe_position_report qs s, None)
   | B_ExecutionReport er \<Rightarrow> oe_execution_report x fl env (fx_header m) er s
   | B_OrderCancelReject cj \<Rightarrow> (oe_order_cancel_reject x cj s, None)
   | B_Reject rj \<Rightarrow> oe_reject rj s
   | B_OrderMassCancelReport mc \<Rightarrow> (oe_order_mass_cancel_report mc s, None)
   | B_Undecodable \<Rightarrow> (s, Some DecodeError)
   | _ \<Rightarrow> (s, None))"

text \<open>
  The callback on one message: an exception ends the reading unless the settings say to go
  on; \<open>log::fatal\<close> is not an exception and always ends it.
\<close>

definition oe_message ::
    "externals \<Rightarrow> fix_lib \<Rightarrow> trace_info \<Rightarrow> fix_message \<Rightarrow> 'q order_entry \<Rightarrow> 'q order_entry outcome" where
  "oe_message x fl ti m s = (case oe_parse x fl ti m (oe_check (fx_header m) s) of
     (s', None) \<Rightarrow> (s', None)
   | (s', Some e) \<Rightarrow>
       (case e of
          Fatal t \<Rightarrow> (s', Some e)
        | _ \<Rightarrow> if \<not> fix_continue_from_parse_exception (sh_settings (oe_shared s')) then (s', Some e)
               else (s', None)))"

definition oe_read ::
    "externals \<Rightarrow> fix_lib \<Rightarrow> trace_info \<Rightarrow> (byte list \<Rightarrow> nat \<times> fix_message list) \<Rightarrow> byte list \<Rightarrow>
     'q order_entry \<Rightarrow> 'q order_entry outcome" where
  "oe_read x fl ti reader buffer s = (case read_loop (oe_message x fl ti) reader 0 buffer s of
     (consumed, s', None) \<Rightarrow> (oe_emit (Conn_Drain consumed) s', None)
   | (consumed, s', Some e) \<Rightarrow> (s', Some e))"

lemmas oe_defs [model_defs] =
  oe_emit_def oe_send_def oe_check_def oe_notify_def oe_on_connection_status_def oe_remember_def
  oe_send_logout_def oe_send_heartbeat_def

section \<open>Runs\<close>

text \<open>
  One call of the framework or the gateway on the stream, with any arguments (\<open>oe_own\<close>). Between
  these calls other streams change the state and the account they share with it.
\<close>

inductive oe_own :: "'q order_entry \<Rightarrow> 'q order_entry \<Rightarrow> bool" where
  step_start: "oe_own s (oe_start s)"
| step_stop: "oe_own s (oe_stop s)"
| step_timer: "oe_own s (oe_timer x cx refreshed ti env now s)"
| step_connected: "oe_own s (oe_connected ti s)"
| step_disconnected: "oe_own s (oe_disconnected x s)"
| step_read: "oe_own s (fst (oe_read x fl ti reader buffer s))"
| step_download: "oe_own s (snd (oe_download x st env s))"
| step_create: "oe_create_order fl co rd rid now s = Inr (sid, s') \<Longrightarrow> oe_own s s'"
| step_modify: "oe_modify_order fl mo order rd rid now s = Inr (sid, s') \<Longrightarrow> oe_own s s'"
| step_cancel: "oe_cancel_order order rid now s = Inr (sid, s') \<Longrightarrow> oe_own s s'"
| step_cancel_all: "oe_cancel_all_orders fl ca rid now s = Inr (sid, s') \<Longrightarrow> oe_own s s'"

inductive oe_step :: "'q order_entry \<Rightarrow> 'q order_entry \<Rightarrow> bool" where
  own: "oe_own s s' \<Longrightarrow> oe_step s s'"
| shared: "oe_step s (s\<lparr>oe_shared := sh, oe_account := a\<rparr>)"

text \<open>
  What every handler keeps: the numbering of the session, and every entry of the map from
  sequence numbers to requests.
\<close>

interpretation oe: fix_session oe_outbound oe_out oe_send oe_emit
  by unfold_locales (simp_all add: oe_send_def oe_emit_def Let_def)

definition oe_ok :: "'q order_entry \<Rightarrow> 'q order_entry \<Rightarrow> bool" where
  "oe_ok s s' \<longleftrightarrow> (oe.in_order s \<longrightarrow> oe.in_order s') \<and> oe_requests s \<subseteq>\<^sub>m oe_requests s'"

lemma oe_ok_refl [inv_pres]: "oe_ok s s"
  by (simp add: oe_ok_def)

lemma oe_ok_trans: "oe_ok s t \<Longrightarrow> oe_ok t u \<Longrightarrow> oe_ok s u"
  by (auto simp: oe_ok_def intro: map_le_trans)

lemma oe_ok_send: "oe_ok s t \<Longrightarrow> oe_ok s (oe_send now r t)"
  using oe.send_in_order [of t now r] by (auto simp: oe_ok_def oe_send_def Let_def)

lemma oe_ok_emit: "oe_ok s t \<Longrightarrow> c \<noteq> Download_Reset \<Longrightarrow> sent_number c = [] \<Longrightarrow> oe_ok s (oe_emit c t)"
  using oe.emit_in_order [of t c] by (auto simp: oe_ok_def oe_emit_def)

lemma oe_ok_fields:
  "oe_ok s t \<Longrightarrow> oe_outbound t' = oe_outbound t \<Longrightarrow> oe_out t' = oe_out t \<Longrightarrow> oe_requests t' = oe_requests t \<Longrightarrow>
   oe_ok s t'"
  using oe.in_order_cong [of t t'] by (simp add: oe_ok_def)

lemma oe_ok_updates [simp]:
  "oe_ok s (t\<lparr>oe_account := a\<rparr>) = oe_ok s t"
  "oe_ok s (t\<lparr>oe_shared := sh\<rparr>) = oe_ok s t"
  "oe_ok s (t\<lparr>oe_inbound := n\<rparr>) = oe_ok s t"
  "oe_ok s (t\<lparr>oe_connection_status := cs\<rparr>) = oe_ok s t"
  "oe_ok s (t\<lparr>oe_ready := b\<rparr>) = oe_ok s t"
  "oe_ok s (t\<lparr>oe_next_heartbeat := w\<rparr>) = oe_ok s t"
  "oe_ok s (t\<lparr>oe_last_logon_or_heartbeat := w\<rparr>) = oe_ok s t"
  "oe_ok s (t\<lparr>oe_test_logon_time := w\<rparr>) = oe_ok s t"
  "oe_ok s (t\<lparr>oe_test_disconnect_time := w\<rparr>) = oe_ok s t"
  by (simp_all add: oe_ok_def oe.in_order_def)

lemma oe_ok_remember: "oe_ok s t \<Longrightarrow> oe_ok s (oe_remember rid t)"
proof -
  have "oe_requests t \<subseteq>\<^sub>m emplace (oe_outbound t) rid (oe_requests t)"
    by (auto simp: map_le_def emplace_apply split: option.splits)
  then show "oe_ok s t \<Longrightarrow> oe_ok s (oe_remember rid t)"
    by (auto simp: oe_ok_def oe_remember_def oe.in_order_def intro: map_le_trans)
qed

lemmas oe_ok_intros = oe_ok_send oe_ok_emit oe_ok_remember oe_ok_refl

lemma oe_ok_notify: "oe_ok s t \<Longrightarrow> oe_ok s (oe_notify x cs reason t)"
  by (simp add: oe_notify_def oe_on_connection_status_def oe_ok_emit)

lemma oe_ok_publish_positions: "oe_ok s t \<Longrightarrow> oe_ok s (oe_publish_positions qs t)"
  by (induction qs t rule: oe_publish_positions.induct) (simp_all add: oe_ok_emit)

lemma oe_ok_parse: "oe_ok s t \<Longrightarrow> oe_ok s (fst (oe_parse x fl ti m t))"
  by (auto simp: oe_parse_def oe_heartbeat_def oe_logon_def oe_logout_def oe_send_logout_def oe_resend_request_def
      oe_test_request_def oe_send_heartbeat_def oe_position_report_def oe_ok_publish_positions
      oe_execution_report_def oe_order_cancel_reject_def oe_reject_def oe_order_mass_cancel_report_def Let_def
      intro!: oe_ok_intros split: fix_body.splits option.splits mass_status_req_type.splits)

lemma oe_ok_message: "oe_ok s t \<Longrightarrow> oe_ok s (fst (oe_message x fl ti m t))"
  using oe_ok_parse [of s "oe_check (fx_header m) t" x fl ti m]
  by (auto simp: oe_message_def oe_check_def split: prod.splits option.splits failure.splits)

lemma oe_ok_read: "oe_ok s (fst (oe_read x fl ti reader buffer s))"
  using read_loop_keeps [of "oe_ok s" "oe_message x fl ti" s reader 0 buffer, OF oe_ok_message oe_ok_refl]
  by (auto simp: oe_read_def split: prod.splits option.splits intro: oe_ok_emit)

lemma oe_ok_send_logon: "oe_ok s t \<Longrightarrow> oe_ok s (oe_send_logon cx ti env t)"
  by (auto simp: oe_send_logon_def Let_def split: prod.splits intro!: oe_ok_send)

lemma oe_ok_send_test_request: "oe_ok s t \<Longrightarrow> oe_ok s (oe_send_test_request ti env t)"
  by (auto simp: oe_send_test_request_def Let_def intro!: oe_ok_send)

lemma oe_ok_timer: "oe_ok s (oe_timer x cx refreshed ti env now s)"
  by (auto simp: oe_timer_def Let_def oe_ok_refl
      intro!: oe_ok_emit oe_ok_notify oe_ok_send_logon oe_ok_send_test_request)

lemma oe_ok_download: "oe_ok s (snd (oe_download x st env s))"
  by (auto simp: oe_download_def oe_subscribe_positions_def oe_download_orders_def oe_ok_refl Let_def
      split: download_state.splits prod.splits intro!: oe_ok_send oe_ok_notify)

lemma oe_notify_fields [simp]:
  "oe_outbound (oe_notify x cs reason s) = oe_outbound s"
  "oe_requests (oe_notify x cs reason s) = oe_requests s"
  "oe_shared (oe_notify x cs reason s) = oe_shared s"
  "oe_ready (oe_notify x cs reason s) = oe_ready s"
  by (simp_all add: oe_notify_def oe_on_connection_status_def oe_emit_def)

lemma oe_disconnected_ok:
  "oe.in_order (oe_disconnected x s) \<and> oe_requests (oe_disconnected x s) = oe_requests s \<and>
   oe_outbound (oe_disconnected x s) = 0"
  by (simp add: oe_disconnected_def oe.in_order_def oe_emit_def Let_def)

lemma oe_own_ok: "oe_own s s' \<Longrightarrow> oe_ok s s'"
proof (induction rule: oe_own.induct)
  case (step_disconnected s x)
  then show ?case using oe_disconnected_ok [of x s] by (simp add: oe_ok_def)
next
  case (step_connected s ti)
  then show ?case by (simp add: oe_connected_def Let_def oe_ok_refl)
qed (auto simp: oe_start_def oe_stop_def oe_create_order_def oe_modify_order_def oe_cancel_order_def
    oe_cancel_all_orders_def andthen_eq_Inr Let_def split: if_splits
    intro!: oe_ok_intros oe_ok_timer oe_ok_read oe_ok_download)

lemma oe_step_ok: "oe_step s s' \<Longrightarrow> oe_ok s s'"
  by (cases rule: oe_step.cases) (auto simp: oe_ok_refl dest: oe_own_ok)

lemma oe_steps_ok: "oe_step\<^sup>*\<^sup>* s s' \<Longrightarrow> oe_ok s s'"
  by (induction rule: rtranclp_induct) (auto intro: oe_ok_refl oe_ok_trans dest: oe_step_ok)

section \<open>Properties\<close>

text \<open>
  Over any calls, in any order, with any messages received and any losses of the
  connection, the messages that the stream has sent since it was last connected carry the
  sequence numbers 1, 2, 3 and so on, without a gap or a repetition.
\<close>

theorem order_entry_numbers_consecutive:
  assumes "oe_step\<^sup>*\<^sup>* (oe_create sid a sh) s"
  shows "sent_numbers (oe_out s) = map of_nat [1..<Suc (length (sent_numbers (oe_out s)))] \<and>
    oe_outbound s = of_nat (length (sent_numbers (oe_out s)))"
proof -
  have "oe.in_order (oe_create sid a sh)" by (simp add: oe.in_order_def oe_create_def)
  then have "oe.in_order s" using oe_steps_ok [OF assms] by (simp add: oe_ok_def)
  then show ?thesis by (simp add: oe.in_order_def numbered_def)
qed

lemma oe_create_requests:
  assumes "oe_create_order fl co rd rid now s = Inr (sid, s1)" "oe_requests s (oe_outbound s + 1) = None"
  shows "oe_requests s1 (oe_outbound s + 1) = Some rid"
  using assms by (auto simp: oe_create_order_def andthen_eq_Inr Let_def oe_remember_def oe_send_def split: if_splits)

lemma oe_steps_requests: "oe_step\<^sup>*\<^sup>* s s' \<Longrightarrow> oe_requests s n = Some rid \<Longrightarrow> oe_requests s' n = Some rid"
  using oe_steps_ok [of s s'] by (auto simp: oe_ok_def map_le_def dom_def)

lemma oe_reject_known:
  "oe_requests s (rj_ref_seq_num rj) = Some rid \<Longrightarrow> rj_ref_msg_type rj = NEW_ORDER_SINGLE \<Longrightarrow>
   oe_reject rj s = (oe_emit (Pub_Response (oe_reject_response rj rid)) s, None)"
  by (simp add: oe_reject_def message_type_to_request_type_def)


text \<open>
  C22: the map from sequence numbers to requests outlives the connection although the
  numbers start again: after a reconnect, the reject of a new order is reported for the
  order of the earlier session that had the same sequence number.
\<close>

theorem reject_attributed_to_stale_request:
  assumes "oe_create_order fl co rd rid1 now s = Inr (sid, s1)" "oe_requests s (oe_outbound s + 1) = None"
    and "oe_step\<^sup>*\<^sup>* s1 s2" "oe_outbound s2 = oe_outbound s"
    and "oe_create_order fl co' rd' rid2 now' s2 = Inr (sid', s3)"
    and "rj_ref_seq_num rj = oe_outbound s2 + 1" "rj_ref_msg_type rj = NEW_ORDER_SINGLE"
  shows "oe_reject rj s3 = (oe_emit (Pub_Response (oe_reject_response rj rid1)) s3, None)"
proof -
  have "oe_step\<^sup>*\<^sup>* s1 s3" using assms(3) oe_step.own [OF step_create [OF assms(5)]] by simp
  then show ?thesis
    using oe_reject_known oe_steps_requests [OF _ oe_create_requests [OF assms(1,2)]] assms(4,6,7) by metis
qed

lemma find_liquidity_loop_True:
  "r \<noteq> FLI_UNDEFINED \<Longrightarrow> find_liquidity_loop r True is =
     (if \<forall>i\<in>set is. ff_fill_liquidity_ind i \<in> {FLI_UNDEFINED, r} then r else FLI_UNDEFINED)"
  by (induction "is") auto

lemma find_liquidity_loop_False:
  "find_liquidity_loop FLI_UNDEFINED False is = FLI_VALUE v \<longleftrightarrow>
     (\<exists>i\<in>set is. ff_fill_liquidity_ind i = FLI_VALUE v) \<and>
     (\<forall>i\<in>set is. ff_fill_liquidity_ind i \<in> {FLI_UNDEFINED, FLI_VALUE v})"
  by (induction "is") (auto simp: find_liquidity_loop_True)

text \<open>
  The liquidity of an update with several fills is the one that all fills with a known
  liquidity agree on, and undefined when they disagree or none is known.
\<close>

theorem find_liquidity_ind_agrees:
  "find_liquidity_ind fills = FLI_VALUE v \<longleftrightarrow>
     (\<exists>i\<in>set fills. ff_fill_liquidity_ind i = FLI_VALUE v) \<and>
     (\<forall>i\<in>set fills. ff_fill_liquidity_ind i \<in> {FLI_UNDEFINED, FLI_VALUE v})"
  unfolding find_liquidity_ind_def by (rule find_liquidity_loop_False)


text \<open>
  C24: a request to cancel orders is never widened: a mass cancel of all orders is sent only
  when nothing but the account is selected, a mass cancel of a symbol only when the symbol
  and at most the exchange are, and anything else is rejected without a message.
\<close>

theorem cancel_all_not_widened:
  assumes "oe_cancel_all_orders fl ca rid now s = Inr (sid, s')"
  shows "\<exists>t ack. oe_out s' = oe_out s @ [Conn_Send (oe_outbound s + 1) now (R_OrderMassCancelRequest rid t (ca_symbol ca)),
        Pub_CancelAllAck ack] \<and>
    (t = CANCEL_ALL_ORDERS \<longrightarrow> set (fm_create_filter fl ca) \<subseteq> {Filter_ACCOUNT}) \<and>
    (t = CANCEL_ORDERS_FOR_SECURITY \<longrightarrow> Filter_SYMBOL \<in> set (fm_create_filter fl ca) \<and>
       set (fm_create_filter fl ca) \<subseteq> {Filter_ACCOUNT, Filter_EXCHANGE, Filter_SYMBOL})"
  using assms
  by (auto simp: oe_cancel_all_orders_def andthen_eq_Inr oe_mass_cancel_request_type_def oe_emit_def oe_send_def
      Let_def filter_empty_conv split: if_splits)

text \<open>A run of timer events on a connection that the connection manager reports as up.\<close>

definition oe_ticks ::
    "externals \<Rightarrow> crypto_lib \<Rightarrow> (trace_info \<times> fix_env \<times> nanoseconds) list \<Rightarrow> 'q order_entry \<Rightarrow> 'q order_entry" where
  "oe_ticks x cx = fold (\<lambda>(ti, env, now). oe_timer x cx True ti env now)"

lemma oe_timer_waiting:
  assumes "oe_ready s" "oe_last_logon_or_heartbeat s \<noteq> 0"
  shows "oe_ready (oe_timer x cx True ti env now s) \<and>
    oe_last_logon_or_heartbeat (oe_timer x cx True ti env now s) = oe_last_logon_or_heartbeat s \<and>
    oe_shared (oe_timer x cx True ti env now s) = oe_shared s \<and>
    set (oe_out s) \<subseteq> set (oe_out (oe_timer x cx True ti env now s))"
  using assms by (auto simp: oe_timer_def oe_send_test_request_def oe_emit_def oe_send_def Let_def)

lemma oe_ticks_waiting:
  "oe_ready s \<Longrightarrow> oe_last_logon_or_heartbeat s \<noteq> 0 \<Longrightarrow> set (oe_out s) \<subseteq> set (oe_out (oe_ticks x cx ticks s))"
proof (induction ticks arbitrary: s)
  case (Cons t ticks)
  obtain ti env now where t: "t = (ti, env, now)" by (cases t)
  show ?case
    using Cons.IH [of "oe_timer x cx True ti env now s"] oe_timer_waiting [OF Cons.prems, of x cx ti env now]
      Cons.prems by (auto simp: oe_ticks_def t)
qed (simp add: oe_ticks_def)


lemma oe_publish_positions_out:
  "oe_out (oe_publish_positions qs s) =
     oe_out s @ map (\<lambda>i. Pub_PositionUpdate (oe_position_update s (qs ! i)) (Suc i = length qs)) [0..<length qs]"
proof (induction qs arbitrary: s)
  case (Cons q qs)
  let ?s = "oe_emit (Pub_PositionUpdate (oe_position_update s q) (qs = [])) s"
  have "oe_position_update ?s = oe_position_update s"
    by (intro ext) (simp add: oe_position_update_def oe_emit_def)
  then show ?case
    using Cons [of ?s] by (simp add: oe_emit_def map_upt_Suc del: upt_Suc)
qed simp

text \<open>
  A position report becomes one update for each position, in order, of which exactly the
  last is marked as such, with quantities that are never negative nor a NaN; then the
  download is checked, also when the report is empty.
\<close>

theorem position_report_published:
  "oe_out (oe_position_report qs s) = oe_out s @
     map (\<lambda>i. Pub_PositionUpdate (oe_position_update s (qs ! i)) (Suc i = length qs)) [0..<length qs] @
     [Download_Check DS_POSITIONS] \<and>
   \<not> fless (pu_long_quantity (oe_position_update s q)) 0 \<and> \<not> isnan (pu_long_quantity (oe_position_update s q)) \<and>
   \<not> fless (pu_short_quantity (oe_position_update s q)) 0 \<and> \<not> isnan (pu_short_quantity (oe_position_update s q))"
  by (simp add: oe_position_report_def oe_publish_positions_out oe_emit_def oe_position_update_def
      fmax_zero_not_less fmax_zero_not_nan)

text \<open>
  The logout of the exchange does not stop orders: the stream keeps the status \<open>READY\<close>
  until the connection is lost, so that a new order is still accepted and sent after the
  logout response and the request to close.
\<close>

theorem order_accepted_after_logout:
  assumes "oe_create_order fl co rd rid now s = Inr (sid, s1)"
  shows "\<exists>s2 r. oe_create_order fl co rd rid now (oe_logout env s) = Inr (sid, s2) \<and>
    oe_out s2 = oe_out s @ [Conn_Send (oe_outbound s + 1) (env_now env) (R_Logout LOGOUT_RESPONSE), Conn_Close,
      Conn_Send (oe_outbound s + 2) now (R_NewOrderSingle r)]"
  using assms
  by (auto simp: oe_create_order_def andthen_eq_Inr oe_logout_def oe_send_logout_def oe_send_def oe_emit_def
      oe_is_ready_def oe_remember_def Let_def split: if_splits)

lemma oe_read_drains:
  "(\<And>b. fst (reader b) \<le> length b) \<Longrightarrow> oe_read x fl ti reader buffer s = (s', None) \<Longrightarrow>
   \<exists>n\<le>length buffer. last (oe_out s') = Conn_Drain n"
  using read_loop_bytes [of reader "oe_message x fl ti" 0 buffer s]
  by (auto simp: oe_read_def oe_emit_def split: prod.splits option.splits)

section \<open>Concrete runs\<close>

definition plain_crypto :: crypto_lib where
  "plain_crypto = \<lparr>cx_hmac = (\<lambda>k m. []), cx_hex = (\<lambda>b. []), cx_sha256 = (\<lambda>m. []), cx_base64 = (\<lambda>b. ''x'')\<rparr>"

definition plain_fix_lib :: fix_lib where
  "plain_fix_lib = \<lparr>fm_side = (\<lambda>v. if v = Side_BUY then CHR ''1'' else CHR ''2''), fm_ord_type = (\<lambda>t. CHR ''2''),
     fm_time_in_force = (\<lambda>t. CHR ''1''), fm_to_side = (\<lambda>c. if c = CHR ''1'' then Side_BUY else Side_SELL),
     fm_to_order_type = (\<lambda>c. 0), fm_to_order_status = (\<lambda>c. 0), fm_to_liquidity = (\<lambda>i. Liquidity_UNDEFINED),
     fm_to_option_type = (\<lambda>n. OptionType_UNDEFINED), fm_profit_loss = (\<lambda>d q p m. 0),
     fm_create_filter = (\<lambda>ca. [Filter_ACCOUNT, Filter_SYMBOL]), fm_from_chars = (\<lambda>s. Some (of_nat (read_nat_from 0 s))),
     fm_parse_time = (\<lambda>s. Some 0), fm_safe_cast_u16 = word_of_int\<rparr>"

definition demo_account :: account where
  "demo_account = \<lparr>ac_name = ''A1'', ac_key = ''key'', ac_crypto = \<lparr>cr_secret = ''secret'', cr_timestamp = 0\<rparr>\<rparr>"

definition demo_env :: fix_env where
  "demo_env = \<lparr>env_now = 0, env_draws = [], env_order = \<lparr>ok_user_id = 1, ok_order_id = 2, ok_strategy_id = 3\<rparr>,
     env_multiplier = f_one, env_download_orders = False, env_bad_state = False\<rparr>"

definition demo_order_entry :: "nat order_entry" where
  "demo_order_entry = (oe_create 1 demo_account (empty_shared default_settings))\<lparr>oe_connection_status := CS_READY\<rparr>"

definition demo_create :: create_order where
  "demo_create = \<lparr>co_symbol = ''BTC-PERPETUAL'', co_side = Side_BUY, co_order_type = 0, co_time_in_force = TimeInForce_GTC,
     co_execution_instructions = [], co_quantity = f_one, co_price = f_one, co_stop_price = NaN, co_max_show_quantity = NaN\<rparr>"

definition demo_ref_data :: ref_data where
  "demo_ref_data = \<lparr>rd_quantity_precision = 0, rd_price_precision = 0\<rparr>"

definition demo_reject :: "uint64 \<Rightarrow> fix_reject" where
  "demo_reject n = \<lparr>rj_ref_seq_num = n, rj_ref_msg_type = NEW_ORDER_SINGLE, rj_session_reject_reason = [],
     rj_text = ''rate_limit_exceeded''\<rparr>"

text \<open>The state after a new order that is accepted.\<close>

definition after_create :: "string \<Rightarrow> nat order_entry \<Rightarrow> nat order_entry" where
  "after_create rid s = (case oe_create_order plain_fix_lib demo_create demo_ref_data rid 0 s of
     Inr (sid, s') \<Rightarrow> s' | Inl e \<Rightarrow> s)"

text \<open>The connection is lost and established again.\<close>

definition reconnected :: "nat order_entry \<Rightarrow> nat order_entry" where
  "reconnected s = snd (oe_download plain_externals DS_DONE demo_env (oe_disconnected plain_externals s))"

lemma after_create_eq:
  "oe_is_ready s \<Longrightarrow>
   oe_create_order plain_fix_lib demo_create demo_ref_data rid 0 s = Inr (oe_stream_id s, after_create rid s)"
  by (simp add: after_create_def oe_create_order_def demo_create_def map_execution_instructions_def Let_def)

lemma demo_ready: "oe_is_ready demo_order_entry"
  by (simp add: oe_is_ready_def demo_order_entry_def)

lemma reconnected_ready: "oe_is_ready (reconnected s) \<and> oe_outbound (reconnected s) = 0"
  by (simp add: reconnected_def oe_download_def oe_disconnected_def oe_is_ready_def plain_externals_def
      oe_notify_def oe_on_connection_status_def oe_emit_def Let_def)

lemma reconnected_steps: "oe_step\<^sup>*\<^sup>* s (reconnected s)"
proof -
  have "oe_step s (oe_disconnected plain_externals s)" by (rule oe_step.own) (rule step_disconnected)
  moreover have "oe_step (oe_disconnected plain_externals s) (reconnected s)"
    unfolding reconnected_def by (rule oe_step.own) (rule step_download)
  ultimately show ?thesis by simp
qed

lemma demo_fresh: "oe_requests demo_order_entry n = None" "oe_outbound demo_order_entry = 0"
  by (simp_all add: demo_order_entry_def oe_create_def)

lemma demo_reject_fields:
  "rj_ref_seq_num (demo_reject n) = n" "rj_ref_msg_type (demo_reject n) = NEW_ORDER_SINGLE"
  by (simp_all add: demo_reject_def)

theorem order_entry_numbers_consecutive_witness:
  "sent_numbers (oe_out (oe_start (oe_create 1 demo_account (empty_shared default_settings :: nat shared)))) =
   map of_nat [1..<Suc (length (sent_numbers (oe_out (oe_start (oe_create 1 demo_account
     (empty_shared default_settings :: nat shared))))))]"
  by (rule order_entry_numbers_consecutive [THEN conjunct1, of 1 demo_account "empty_shared default_settings"])
    (rule r_into_rtranclp, rule oe_step.own, rule step_start)


theorem reject_attributed_to_stale_request_witness:
  "oe_reject (demo_reject 1) (after_create ''r2'' (reconnected (after_create ''r1'' demo_order_entry))) =
   (oe_emit (Pub_Response (oe_reject_response (demo_reject 1) ''r1''))
     (after_create ''r2'' (reconnected (after_create ''r1'' demo_order_entry))), None)"
  by (rule reject_attributed_to_stale_request [OF after_create_eq [OF demo_ready] _ reconnected_steps _
        after_create_eq [OF reconnected_ready [THEN conjunct1]]])
    (simp_all add: demo_fresh demo_reject_fields reconnected_ready)

definition demo_report :: execution_report where
  "demo_report = \<lparr>er_mass_status_req_type = MSR_UNDEFINED, er_tot_num_reports = 0, er_exec_type = ET_ORDER_STATUS,
     er_ord_status = OS_FILLED, er_side = CHR ''1'', er_ord_type = CHR ''2'', er_symbol = ''BTC-PERPETUAL'',
     er_order_id = ''7'', er_orig_cl_ord_id = ''o'', er_deribit_label = ''l'', er_text = ''success'',
     er_transact_time = 0, er_order_qty = f_one, er_price = f_one, er_stop_px = NaN, er_max_show = NaN,
     er_leaves_qty = 0, er_cum_qty = f_one, er_avg_px = f_one, er_last_qty = f_one, er_last_px = f_one,
     er_no_fills = [\<lparr>ff_fill_exec_id = ''t1'', ff_fill_px = f_one, ff_fill_qty = f_one, ff_fill_liquidity_ind = FLI_VALUE 1\<rparr>]\<rparr>"

lemma demo_report_fields:
  "er_mass_status_req_type demo_report = MSR_UNDEFINED" "er_exec_type demo_report = ET_ORDER_STATUS"
  "er_no_fills demo_report \<noteq> []"
  by (simp_all add: demo_report_def)

definition demo_header :: fix_header where
  "demo_header = \<lparr>hd_msg_seq_num = 1, hd_sending_time = 0\<rparr>"


definition demo_cancel_all :: cancel_all_orders where
  "demo_cancel_all = \<lparr>ca_order_id = 0, ca_exchange = [], ca_symbol = ''BTC-PERPETUAL'', ca_side = Side_UNDEFINED,
     ca_strategy_id = 0\<rparr>"

lemma oe_cancel_all_symbol:
  "oe_is_ready s \<Longrightarrow> \<exists>s'. oe_cancel_all_orders plain_fix_lib ca rid now s = Inr (oe_stream_id s, s')"
  by (simp add: oe_cancel_all_orders_def plain_fix_lib_def oe_mass_cancel_request_type_def Let_def)

theorem find_liquidity_ind_agrees_witness:
  "find_liquidity_ind
     [\<lparr>ff_fill_exec_id = ''1'', ff_fill_px = f_one, ff_fill_qty = f_one, ff_fill_liquidity_ind = FLI_UNDEFINED\<rparr>,
      \<lparr>ff_fill_exec_id = ''2'', ff_fill_px = f_one, ff_fill_qty = f_one, ff_fill_liquidity_ind = FLI_VALUE 1\<rparr>] = FLI_VALUE 1"
  by (simp add: find_liquidity_ind_agrees)

theorem cancel_all_not_widened_witness:
  "\<exists>(s' :: nat order_entry) t ack. oe_out s' = oe_out demo_order_entry @
      [Conn_Send (oe_outbound demo_order_entry + 1) 0 (R_OrderMassCancelRequest ''r'' t (ca_symbol demo_cancel_all)),
       Pub_CancelAllAck ack]"
proof -
  obtain s' where "oe_cancel_all_orders plain_fix_lib demo_cancel_all ''r'' 0 demo_order_entry =
      Inr (oe_stream_id demo_order_entry, s')"
    using oe_cancel_all_symbol [OF demo_ready] by blast
  from cancel_all_not_widened [OF this] show ?thesis by (intro exI [of _ s']) auto
qed


theorem order_accepted_after_logout_witness:
  "\<exists>s2. oe_create_order plain_fix_lib demo_create demo_ref_data ''r'' 0 (oe_logout demo_env demo_order_entry) =
     Inr (oe_stream_id demo_order_entry, s2)"
proof -
  have "oe_create_order plain_fix_lib demo_create demo_ref_data ''r'' 0 demo_order_entry =
      Inr (oe_stream_id demo_order_entry, after_create ''r'' demo_order_entry)"
    by (rule after_create_eq [OF demo_ready])
  from order_accepted_after_logout [OF this, of demo_env] show ?thesis by blast
qed

end
