(* ===== verification/Market_Data.thy ===== *)
theory Market_Data
  imports Fix_Types
begin

text \<open>
  The FIX market data stream (\<open>gateway/market_data.cpp\<close>): the session, the list of
  securities, the subscriptions in requests of bounded size, and the translation of book
  updates with the latch of a symbol whose book is broken. The controller is called back
  in the middle of the handler of the list of securities; what it does to this stream is
  the argument \<open>react\<close>. The symbols of a slice are an argument: \<open>core::Symbols\<close> belongs to the
  framework.
\<close>

record 'q market_data =
  mk_stream_id :: uint16
  mk_master :: bool
  mk_publish_market_by_price :: bool
  mk_publish_trade_summary :: bool
  mk_supports :: "support_type list"
  mk_account :: account
  mk_shared :: "'q shared"
  mk_outbound :: uint64
  mk_inbound :: uint64
  mk_ready :: bool
  mk_next_heartbeat :: nanoseconds
  mk_connection_status :: connection_status
  mk_last_logon_or_heartbeat :: nanoseconds
  mk_latch :: "string set"
  mk_test_disconnect_time :: nanoseconds
  mk_out :: "fix_call list"

section \<open>Construction\<close>

definition mk_get_publish_market_by_price :: "'q shared \<Rightarrow> bool" where
  "mk_get_publish_market_by_price sh \<longleftrightarrow> \<not> sh_multicast sh \<or> multicast_disable_market_by_price (sh_settings sh)"

definition mk_get_publish_trade_summary :: "'q shared \<Rightarrow> bool" where
  "mk_get_publish_trade_summary sh \<longleftrightarrow> \<not> sh_multicast sh \<or> multicast_disable_trade_summary (sh_settings sh)"

definition mk_get_supports :: "bool \<Rightarrow> bool \<Rightarrow> bool \<Rightarrow> support_type list" where
  "mk_get_supports master mbp ts =
     (if master then [ST_REFERENCE_DATA] else []) @ (if mbp then [ST_MARKET_BY_PRICE] else []) @
     (if ts then [ST_TRADE_SUMMARY] else [])"

definition mk_create :: "uint16 \<Rightarrow> account \<Rightarrow> 'q shared \<Rightarrow> bool \<Rightarrow> 'q market_data" where
  "mk_create sid a sh master =
     (let mbp = mk_get_publish_market_by_price sh; ts = mk_get_publish_trade_summary sh
      in \<lparr>mk_stream_id = sid, mk_master = master, mk_publish_market_by_price = mbp,
          mk_publish_trade_summary = ts, mk_supports = mk_get_supports master mbp ts,
          mk_account = a, mk_shared = sh, mk_outbound = 0, mk_inbound = 0, mk_ready = False,
          mk_next_heartbeat = 0, mk_connection_status = CS_UNDEFINED, mk_last_logon_or_heartbeat = 0,
          mk_latch = {}, mk_test_disconnect_time = 0, mk_out = []\<rparr>)"

definition mk_exchange :: "'q market_data \<Rightarrow> string" where
  "mk_exchange s = set_exchange (sh_settings (mk_shared s))"

section \<open>Sending\<close>

definition mk_emit :: "fix_call \<Rightarrow> 'q market_data \<Rightarrow> 'q market_data" where
  "mk_emit c s = s\<lparr>mk_out := mk_out s @ [c]\<rparr>"

definition mk_send :: "nanoseconds \<Rightarrow> fix_request \<Rightarrow> 'q market_data \<Rightarrow> 'q market_data" where
  "mk_send now r s =
     (let n = mk_outbound s + 1
      in s\<lparr>mk_outbound := n, mk_out := mk_out s @ [Conn_Send n now r]\<rparr>)"

definition mk_check :: "fix_header \<Rightarrow> 'q market_data \<Rightarrow> 'q market_data" where
  "mk_check h s = s\<lparr>mk_inbound := hd_msg_seq_num h\<rparr>"

definition mk_send_logon ::
    "crypto_lib \<Rightarrow> fix_lib \<Rightarrow> trace_info \<Rightarrow> fix_env \<Rightarrow> 'q market_data \<Rightarrow> 'q market_data" where
  "mk_send_logon cx fl ti env s =
     (let st = sh_settings (mk_shared s);
          heart_bt_int = seconds_of_ns (fix_ping_freq st);
          (raw_data, a) = account_raw_data cx ti (env_draws env) (mk_account s);
          password = account_password cx raw_data a;
          logon = \<lparr>lg_heart_bt_int = fm_safe_cast_u16 fl heart_bt_int,
            lg_raw_data_length = word_of_nat (length raw_data), lg_raw_data = raw_data,
            lg_username = ac_key a, lg_password = password,
            lg_cancel_on_disconnect = fix_cancel_on_disconnect st,
            lg_unsubscribe_execution_reports = True\<rparr>
      in (mk_send (env_now env) (R_Logon logon) (s\<lparr>mk_account := a\<rparr>))
           \<lparr>mk_last_logon_or_heartbeat := origin_create_time ti\<rparr>)"

definition mk_send_logout :: "string \<Rightarrow> fix_env \<Rightarrow> 'q market_data \<Rightarrow> 'q market_data" where
  "mk_send_logout t env s = mk_send (env_now env) (R_Logout t) s"

definition mk_send_heartbeat :: "string \<Rightarrow> fix_env \<Rightarrow> 'q market_data \<Rightarrow> 'q market_data" where
  "mk_send_heartbeat t env s = mk_send (env_now env) (R_Heartbeat t) s"

definition mk_send_test_request :: "trace_info \<Rightarrow> fix_env \<Rightarrow> 'q market_data \<Rightarrow> 'q market_data" where
  "mk_send_test_request ti env s =
     (let s1 = mk_send (env_now env) (R_TestRequest (show_int (origin_create_time ti))) s
      in if mk_last_logon_or_heartbeat s1 = 0
         then s1\<lparr>mk_last_logon_or_heartbeat := origin_create_time ti\<rparr> else s1)"

definition mk_download_securities :: "fix_env \<Rightarrow> 'q market_data \<Rightarrow> 'q market_data" where
  "mk_download_securities env s =
     (let (rid, sh) = next_request_id (mk_shared s)
      in mk_send (env_now env) (R_SecurityListRequest rid) (s\<lparr>mk_shared := sh\<rparr>))"

section \<open>Subscriptions\<close>

text \<open>
  The loop of \<open>subscribe\<close> and \<open>unsubscribe\<close> over the offsets; \<open>max_size\<close> is only zero where
  there is no symbol, and then the loop ends at once.
\<close>

function mk_request_loop ::
    "(string \<Rightarrow> string list \<Rightarrow> market_data_request) \<Rightarrow> nanoseconds \<Rightarrow> nat \<Rightarrow> string list \<Rightarrow> nat \<Rightarrow>
     'q market_data \<Rightarrow> 'q market_data" where
  "mk_request_loop mk now max_size symbols offset s =
     (if length symbols \<le> offset \<or> max_size = 0 then s
      else let n = min (length symbols - offset) max_size;
               related_sym = take n (drop offset symbols);
               (rid, sh) = next_request_id (mk_shared s)
        in mk_request_loop mk now max_size symbols (offset + max_size)
             (mk_send now (R_MarketDataRequest (mk rid related_sym)) (s\<lparr>mk_shared := sh\<rparr>)))"
  by pat_completeness auto

termination
  by (relation "measure (\<lambda>(mk, now, max_size, symbols, offset, s). length symbols - offset)") auto

declare mk_request_loop.simps [simp del]

definition mk_max_size :: "string list \<Rightarrow> 'q market_data \<Rightarrow> nat" where
  "mk_max_size symbols s =
     (let m = fix_market_data_request_max_size (sh_settings (mk_shared s))
      in if m \<noteq> 0 then m else length symbols)"

definition mk_subscribe :: "nanoseconds \<Rightarrow> string list \<Rightarrow> 'q market_data \<Rightarrow> 'q market_data" where
  "mk_subscribe now symbols s =
     (if symbols = [] then s
      else let market_depth = fix_market_data_market_depth (sh_settings (mk_shared s));
               request = (\<lambda>rid related_sym.
                 \<lparr>mr_md_req_id = rid, mr_subscription_request_type = SNAPSHOT_UPDATES,
                  mr_market_depth = market_depth,
                  mr_md_update_type = (if market_depth \<noteq> 0 then INCREMENTAL_REFRESH else FULL_REFRESH),
                  mr_md_entry_types = [MDE_BID, MDE_OFFER, MDE_TRADE], mr_related_sym = related_sym\<rparr>)
        in mk_request_loop request now (mk_max_size symbols s) symbols 0 s)"

definition mk_unsubscribe :: "nanoseconds \<Rightarrow> string list \<Rightarrow> 'q market_data \<Rightarrow> 'q market_data" where
  "mk_unsubscribe now symbols s =
     (let request = (\<lambda>rid related_sym.
            \<lparr>mr_md_req_id = rid, mr_subscription_request_type = UNSUBSCRIBE, mr_market_depth = 0,
             mr_md_update_type = MDT_UNDEFINED,
             mr_md_entry_types = [MDE_BID, MDE_OFFER, MDE_TRADE], mr_related_sym = related_sym\<rparr>)
      in mk_request_loop request now (mk_max_size symbols s) symbols 0 s)"

definition mk_resubscribe :: "nanoseconds \<Rightarrow> string \<Rightarrow> 'q market_data \<Rightarrow> 'q market_data" where
  "mk_resubscribe now symbol s =
     (if symbol \<in> mk_latch s then s
      else mk_subscribe now [symbol]
             (mk_unsubscribe now [symbol] (s\<lparr>mk_latch := insert symbol (mk_latch s)\<rparr>)))"

text \<open>The slice of the symbols of this stream from an offset on.\<close>

definition mk_subscribe_slice :: "nanoseconds \<Rightarrow> string list \<Rightarrow> 'q market_data \<Rightarrow> 'q market_data" where
  "mk_subscribe_slice now symbols s = (if mk_ready s then mk_subscribe now symbols s else s)"

section \<open>Connection\<close>

definition mk_on_connection_status :: "connection_status \<Rightarrow> string \<Rightarrow> 'q market_data \<Rightarrow> 'q market_data" where
  "mk_on_connection_status cs reason s =
     mk_emit (Pub_StreamStatus \<lparr>ss_stream_id = mk_stream_id s, ss_account = [],
         ss_supports = mk_supports s, ss_transport = Transport_TCP, ss_protocol = Protocol_FIX,
         ss_connection_status = cs, ss_reason = reason\<rparr>)
       (s\<lparr>mk_connection_status := cs\<rparr>)"

definition mk_notify :: "externals \<Rightarrow> connection_status \<Rightarrow> string \<Rightarrow> 'q market_data \<Rightarrow> 'q market_data" where
  "mk_notify x cs reason s =
     (if base_notify x (mk_connection_status s) cs then mk_on_connection_status cs reason s else s)"

definition mk_start :: "'q market_data \<Rightarrow> 'q market_data" where
  "mk_start s = mk_emit Conn_Start s"

definition mk_stop :: "'q market_data \<Rightarrow> 'q market_data" where
  "mk_stop s = mk_emit Conn_Stop s"

definition mk_timer :: "bool \<Rightarrow> trace_info \<Rightarrow> fix_env \<Rightarrow> nanoseconds \<Rightarrow> 'q market_data \<Rightarrow> 'q market_data" where
  "mk_timer refreshed ti env now s =
     (let st = sh_settings (mk_shared s) in
      if \<not> refreshed then s
      else if mk_last_logon_or_heartbeat s \<noteq> 0 \<and> fix_request_timeout st \<noteq> 0 \<and>
              fix_request_timeout st < now - mk_last_logon_or_heartbeat s
      then mk_emit Conn_Close s
      else if mk_connection_status s = CS_READY then
        (if mk_test_disconnect_time s \<noteq> 0 \<and> mk_test_disconnect_time s < now
         then (if fix_test_market_data_disconnect st \<noteq> 0 then mk_emit Conn_Close s else s)
         else if mk_next_heartbeat s \<le> now
         then mk_send_test_request ti env (s\<lparr>mk_next_heartbeat := now + fix_ping_freq st\<rparr>)
         else s)
      else s)"

definition mk_connected ::
    "externals \<Rightarrow> crypto_lib \<Rightarrow> fix_lib \<Rightarrow> trace_info \<Rightarrow> fix_env \<Rightarrow> 'q market_data \<Rightarrow> 'q market_data" where
  "mk_connected x cx fl ti env s = mk_notify x CS_LOGIN_SENT [] (mk_send_logon cx fl ti env s)"

definition mk_disconnected :: "externals \<Rightarrow> 'q market_data \<Rightarrow> 'q market_data" where
  "mk_disconnected x s =
     (let s1 = mk_notify x CS_DISCONNECTED []
            (s\<lparr>mk_outbound := 0, mk_inbound := 0, mk_ready := False, mk_next_heartbeat := 0\<rparr>)
      in (mk_emit Download_Reset s1)\<lparr>mk_test_disconnect_time := 0\<rparr>)"

definition mk_download ::
    "externals \<Rightarrow> trace_info \<Rightarrow> download_state \<Rightarrow> fix_env \<Rightarrow> string list \<Rightarrow> 'q market_data \<Rightarrow> int \<times> 'q market_data" where
  "mk_download x ti st env symbols s = (case st of
     DS_SECURITIES \<Rightarrow>
       if mk_master s
       then (1, mk_download_securities env (mk_notify x CS_DOWNLOADING ''SECURITIES'' s))
       else (0, s)
   | DS_SUBSCRIBE \<Rightarrow> (0, mk_subscribe_slice (env_now env) symbols (s\<lparr>mk_ready := True\<rparr>))
   | DS_DONE \<Rightarrow>
       (let s1 = mk_notify x CS_READY [] s;
            d = fix_test_market_data_disconnect (sh_settings (mk_shared s))
        in (0, if d \<noteq> 0 then s1\<lparr>mk_test_disconnect_time := origin_create_time ti + d\<rparr> else s1))
   | _ \<Rightarrow> (0, s))"

section \<open>Session messages\<close>

definition mk_heartbeat :: "fix_lib \<Rightarrow> trace_info \<Rightarrow> string \<Rightarrow> 'q market_data \<Rightarrow> 'q market_data outcome" where
  "mk_heartbeat fl ti test_req_id s =
     (let s1 = s\<lparr>mk_last_logon_or_heartbeat := 0\<rparr>
      in if test_req_id = [] then (s1, None)
         else case fm_from_chars fl test_req_id of
           None \<Rightarrow> (s1, Some (RuntimeError ''from_chars''))
         | Some send_time \<Rightarrow>
             (mk_emit (Pub_ExternalLatency (mk_stream_id s) [] (one_way_latency ti send_time)) s1, None))"

definition mk_logon :: "'q market_data \<Rightarrow> 'q market_data" where
  "mk_logon s = mk_emit Download_Begin s"

definition mk_logout :: "externals \<Rightarrow> fix_env \<Rightarrow> 'q market_data \<Rightarrow> 'q market_data" where
  "mk_logout x env s =
     mk_emit Conn_Close (mk_send_logout LOGOUT_RESPONSE env ((mk_notify x CS_LOGGED_OUT [] s)\<lparr>mk_ready := False\<rparr>))"

definition mk_resend_request :: "'q market_data \<Rightarrow> 'q market_data" where
  "mk_resend_request s = mk_emit Conn_Close s"

definition mk_test_request :: "string \<Rightarrow> fix_env \<Rightarrow> 'q market_data \<Rightarrow> 'q market_data" where
  "mk_test_request test_req_id env s = mk_send_heartbeat test_req_id env s"

section \<open>Securities\<close>

definition milliseconds_max :: milliseconds where
  "milliseconds_max = 2 ^ 63 - 1"

definition combine :: "milliseconds \<Rightarrow> milliseconds \<Rightarrow> milliseconds" where
  "combine date_part time_part =
     (if date_part < milliseconds_max then date_part + time_part else milliseconds_max)"

definition mk_reference_data ::
    "externals \<Rightarrow> fix_lib \<Rightarrow> security \<Rightarrow> bool \<Rightarrow> milliseconds \<Rightarrow> 'q market_data \<Rightarrow> reference_data" where
  "mk_reference_data x fl i discard expiry_time s =
     (let expiry_datetime = combine (sy_maturity_date i) expiry_time
      in \<lparr>rf_stream_id = mk_stream_id s, rf_exchange = mk_exchange s, rf_symbol = sy_symbol i,
          rf_description = sy_security_desc i, rf_security_type = map_security_type x (sy_security_type i),
          rf_market_segment = sy_underlying_symbol i, rf_base_currency = sy_settl_currency i,
          rf_quote_currency = sy_currency i, rf_settlement_currency = sy_settl_currency i,
          rf_commission_currency = sy_comm_currency i, rf_tick_size = sy_min_price_increment i,
          rf_multiplier = sy_contract_multiplier i, rf_min_trade_vol = sy_min_trade_vol i,
          rf_trade_vol_step_size = sy_min_trade_vol i, rf_option_type = fm_to_option_type fl (sy_put_or_call i),
          rf_strike_currency = sy_strike_currency i, rf_strike_price = sy_strike_price i,
          rf_underlying = sy_underlying_symbol i, rf_issue_date = sy_issue_date i,
          rf_expiry_datetime = expiry_datetime, rf_expiry_datetime_utc = expiry_datetime,
          rf_discard = discard\<rparr>)"

text \<open>The reference data of a security; \<open>None\<close> when its maturity time cannot be parsed.\<close>

definition mk_publish_security ::
    "externals \<Rightarrow> fix_lib \<Rightarrow> security \<Rightarrow> 'q market_data \<Rightarrow> 'q market_data option" where
  "mk_publish_security x fl i s =
     (if misc_use_fix_reference_data (sh_settings (mk_shared s))
      then (case fm_parse_time fl (sy_maturity_time i) of
              None \<Rightarrow> None
            | Some expiry_time \<Rightarrow> Some (mk_emit (Pub_ReferenceData
                (mk_reference_data x fl i (discard_symbol x (sy_symbol i)) expiry_time s)) s))
      else Some s)"

text \<open>The multiplier of a security, and its symbol when it is new and not discarded.\<close>

definition mk_register_security ::
    "externals \<Rightarrow> security \<Rightarrow> string list \<Rightarrow> 'q market_data \<Rightarrow> 'q market_data \<times> string list" where
  "mk_register_security x i symbols s =
     (let symbol = sy_symbol i;
          m = compute_contracts_multiplier x (sy_contract_multiplier i);
          sh = (mk_shared s)\<lparr>sh_multiplier := (sh_multiplier (mk_shared s))(symbol \<mapsto> m)\<rparr>
      in if discard_symbol x symbol then (s\<lparr>mk_shared := sh\<rparr>, symbols)
         else (s\<lparr>mk_shared := sh\<lparr>all_symbols := insert symbol (all_symbols sh)\<rparr>\<rparr>,
               if symbol \<in> all_symbols sh then symbols else symbols @ [symbol]))"

text \<open>The loop over the securities, with the variable \<open>symbols\<close>.\<close>

fun mk_securities ::
    "externals \<Rightarrow> fix_lib \<Rightarrow> security list \<Rightarrow> string list \<Rightarrow> 'q market_data \<Rightarrow>
     ('q market_data \<times> string list) \<times> failure option" where
  "mk_securities x fl [] symbols s = ((s, symbols), None)"
| "mk_securities x fl (i # is) symbols s =
     (case mk_publish_security x fl i s of
        None \<Rightarrow> ((s, symbols), Some (RuntimeError ''from_chars''))
      | Some s1 \<Rightarrow> (let (s2, symbols') = mk_register_security x i symbols s1
                     in mk_securities x fl is symbols' s2))"

definition mk_security_list ::
    "externals \<Rightarrow> fix_lib \<Rightarrow> (string list \<Rightarrow> 'q market_data \<Rightarrow> 'q market_data) \<Rightarrow> trace_info \<Rightarrow> security list \<Rightarrow>
     'q market_data \<Rightarrow> 'q market_data outcome" where
  "mk_security_list x fl react ti is s =
     (case mk_securities x fl is [] (mk_emit (Conn_Touch (source_receive_time ti)) s) of
        ((s1, symbols), Some e) \<Rightarrow> (s1, Some e)
      | ((s1, symbols), None) \<Rightarrow>
          (mk_emit (Download_Check DS_SECURITIES)
             (if symbols = [] then s1 else react symbols (mk_emit (Pub_Symbols symbols) s1)), None))"

section \<open>Market data\<close>

definition mk_validate :: "md_entry \<Rightarrow> bool" where
  "mk_validate i = (case me_update_action i of
     MDU_UNDEFINED \<Rightarrow> True
   | MDU_UNKNOWN \<Rightarrow> True
   | MDU_NEW \<Rightarrow> True
   | MDU_CHANGE \<Rightarrow> True
   | MDU_DELETE \<Rightarrow> True
   | MDU_DELETE_THRU \<Rightarrow> False
   | MDU_DELETE_FROM \<Rightarrow> False
   | MDU_OVERLAY \<Rightarrow> False)"

definition mk_level :: "md_entry \<Rightarrow> mbp_update" where
  "mk_level i = \<lparr>mbp_price = me_px i, mbp_quantity = me_size i, mbp_implied_quantity = NaN\<rparr>"

definition mk_trade :: "fix_lib \<Rightarrow> md_entry \<Rightarrow> trade" where
  "mk_trade fl i =
     \<lparr>trade_side = fm_to_side fl (me_side i), trade_price = me_px i, trade_quantity = me_size i,
      trade_id = me_deribit_trade_id i, taker_order_id = me_order_id i,
      maker_order_id = me_secondary_order_id i\<rparr>"

text \<open>The local lists of the handlers of book updates, and their loops over the entries.\<close>

record md_lists =
  ml_bids :: "mbp_update list"
  ml_asks :: "mbp_update list"
  ml_trades :: "trade list"
  ml_statistics :: statistics
  ml_time :: nanoseconds

definition mk_entry :: "fix_lib \<Rightarrow> bool \<Rightarrow> md_entry \<Rightarrow> md_lists \<Rightarrow> md_lists result" where
  "mk_entry fl keep_trades i l0 =
     (let l = (if ml_time l0 < me_date i then l0\<lparr>ml_time := me_date i\<rparr> else l0)
      in case me_type i of
           MDE_BID \<Rightarrow> if mk_validate i then Inr (l\<lparr>ml_bids := ml_bids l @ [mk_level i]\<rparr>)
             else Inl (Fatal ''MDUpdateAction not supported'')
         | MDE_OFFER \<Rightarrow> if mk_validate i then Inr (l\<lparr>ml_asks := ml_asks l @ [mk_level i]\<rparr>)
             else Inl (Fatal ''MDUpdateAction not supported'')
         | MDE_TRADE \<Rightarrow> Inr (if keep_trades then l\<lparr>ml_trades := ml_trades l @ [mk_trade fl i]\<rparr> else l)
         | MDE_INDEX_VALUE \<Rightarrow> Inr (l\<lparr>ml_statistics := ml_statistics l @ [(INDEX_VALUE, me_px i)]\<rparr>)
         | MDE_SETTLEMENT_PRICE \<Rightarrow> Inr (l\<lparr>ml_statistics := ml_statistics l @ [(SETTLEMENT_PRICE, me_px i)]\<rparr>)
         | MDE_OTHER n \<Rightarrow> Inr l)"

definition mk_book ::
    "update_type \<Rightarrow> string \<Rightarrow> fix_header \<Rightarrow> md_lists \<Rightarrow> 'q market_data \<Rightarrow> market_by_price_update" where
  "mk_book ut symbol h l s =
     \<lparr>mu_stream_id = mk_stream_id s, mu_exchange = mk_exchange s, mu_symbol = symbol, mu_bids = ml_bids l,
      mu_asks = ml_asks l, mu_update_type = ut, mu_exchange_time_utc = ml_time l, mu_exchange_sequence = 0,
      mu_sending_time_utc = hd_sending_time h\<rparr>"

definition mk_statistics_update ::
    "update_type \<Rightarrow> string \<Rightarrow> fix_header \<Rightarrow> md_lists \<Rightarrow> 'q market_data \<Rightarrow> statistics_update" where
  "mk_statistics_update ut symbol h l s =
     \<lparr>su_stream_id = mk_stream_id s, su_exchange = mk_exchange s, su_symbol = symbol,
      su_statistics = ml_statistics l, su_update_type = ut, su_exchange_time_utc = ml_time l,
      su_sending_time_utc = hd_sending_time h\<rparr>"

definition mk_trade_summary :: "string \<Rightarrow> fix_header \<Rightarrow> md_lists \<Rightarrow> 'q market_data \<Rightarrow> trade_summary" where
  "mk_trade_summary symbol h l s =
     \<lparr>ts_stream_id = mk_stream_id s, ts_exchange = mk_exchange s, ts_symbol = symbol, ts_trades = ml_trades l,
      ts_exchange_time_utc = ml_time l, ts_sending_time_utc = hd_sending_time h\<rparr>"

text \<open>\<open>env_bad_state\<close>: the dispatch of the book throws \<open>BadState\<close>.\<close>

definition mk_incremental ::
    "fix_lib \<Rightarrow> trace_info \<Rightarrow> fix_env \<Rightarrow> fix_header \<Rightarrow> md_incremental \<Rightarrow> 'q market_data \<Rightarrow> 'q market_data outcome" where
  "mk_incremental fl ti env h m s =
     (let s1 = mk_emit (Conn_Touch (source_receive_time ti)) s;
          symbol = mi_symbol m;
          l0 = \<lparr>ml_bids = [], ml_asks = [], ml_trades = [],
                ml_statistics = [(PRE_OPEN_INTEREST, mi_open_interest m), (PRE_SETTLEMENT_PRICE, mi_mark_price m)],
                ml_time = 0\<rparr>
      in case foldr_result (mk_entry fl True) (mi_entries m) l0 of
           Inl e \<Rightarrow> (s1, Some e)
         | Inr l \<Rightarrow>
             (let s2 = (if \<not> (ml_bids l = [] \<and> ml_asks l = []) \<and> mk_publish_market_by_price s1 \<and> symbol \<notin> mk_latch s1
                    then (let is_last = (ml_statistics l = [] \<and> ml_trades l = []);
                              p = mk_emit (Pub_MarketByPrice (mk_book UpdateType_INCREMENTAL symbol h l s1) is_last) s1
                          in if env_bad_state env then mk_resubscribe (env_now env) symbol p else p)
                    else s1);
                  s3 = (if ml_trades l \<noteq> [] \<and> mk_publish_trade_summary s2
                    then mk_emit (Pub_TradeSummary (mk_trade_summary symbol h l s2) (ml_statistics l = [])) s2 else s2);
                  s4 = (if ml_statistics l \<noteq> []
                    then mk_emit (Pub_Statistics (mk_statistics_update UpdateType_INCREMENTAL symbol h l s3)) s3 else s3)
              in (s4, None)))"

definition mk_snapshot ::
    "fix_lib \<Rightarrow> trace_info \<Rightarrow> fix_env \<Rightarrow> fix_header \<Rightarrow> md_snapshot \<Rightarrow> 'q market_data \<Rightarrow> 'q market_data outcome" where
  "mk_snapshot fl ti env h m s =
     (let symbol = ms_symbol m;
          s1 = (mk_emit (Conn_Touch (source_receive_time ti)) s)\<lparr>mk_latch := mk_latch s - {symbol}\<rparr>;
          l0 = \<lparr>ml_bids = [], ml_asks = [], ml_trades = [], ml_statistics = [], ml_time = 0\<rparr>
      in case foldr_result (mk_entry fl False) (ms_entries m) l0 of
           Inl e \<Rightarrow> (s1, Some e)
         | Inr l \<Rightarrow>
             (let book = \<not> (ml_bids l = [] \<and> ml_asks l = []) \<and> mk_publish_market_by_price s1;
                  s2 = (if book then mk_emit (Pub_MarketByPrice (mk_book UpdateType_SNAPSHOT symbol h l s1)
                          (ml_statistics l = [])) s1 else s1);
                  s3 = (if ml_statistics l \<noteq> []
                    then mk_emit (Pub_Statistics (mk_statistics_update UpdateType_SNAPSHOT symbol h l s2)) s2 else s2)
              in if book \<and> env_bad_state env then (s2, Some (Fatal ''BAD SNAPSHOT'')) else (s3, None)))"

definition mk_request_reject :: "'q market_data \<Rightarrow> 'q market_data outcome" where
  "mk_request_reject s =
     (if fix_terminate_on_market_data_request_reject (sh_settings (mk_shared s))
      then (s, Some (Fatal ''Unexpected'')) else (s, None))"

section \<open>Receiving\<close>

definition mk_parse ::
    "externals \<Rightarrow> fix_lib \<Rightarrow> (string list \<Rightarrow> 'q market_data \<Rightarrow> 'q market_data) \<Rightarrow> trace_info \<Rightarrow> fix_message \<Rightarrow>
     'q market_data \<Rightarrow> 'q market_data outcome" where
  "mk_parse x fl react ti m s = (let env = fx_env m; h = fx_header m in case fx_body m of
     B_Heartbeat test_req_id \<Rightarrow> mk_heartbeat fl ti test_req_id s
   | B_Logon \<Rightarrow> (mk_logon s, None)
   | B_Logout \<Rightarrow> (mk_logout x env s, None)
   | B_ResendRequest \<Rightarrow> (mk_resend_request s, None)
   | B_TestRequest test_req_id \<Rightarrow> (mk_test_request test_req_id env s, None)
   | B_Reject rj \<Rightarrow> (s, None)
   | B_MarketDataIncrementalRefresh i \<Rightarrow> mk_incremental fl ti env h i s
   | B_MarketDataRequestReject \<Rightarrow> mk_request_reject s
   | B_MarketDataSnapshotFullRefresh n \<Rightarrow> mk_snapshot fl ti env h n s
   | B_SecurityList is \<Rightarrow> mk_security_list x fl react ti is s
   | B_SecurityStatus \<Rightarrow> (s, None)
   | B_MarketDataRequest \<Rightarrow> (s, None)
   | B_Undecodable \<Rightarrow> (s, Some DecodeError)
   | _ \<Rightarrow> (s, None))"

definition mk_message ::
    "externals \<Rightarrow> fix_lib \<Rightarrow> (string list \<Rightarrow> 'q market_data \<Rightarrow> 'q market_data) \<Rightarrow> trace_info \<Rightarrow> fix_message \<Rightarrow>
     'q market_data \<Rightarrow> 'q market_data outcome" where
  "mk_message x fl react ti m s = mk_parse x fl react ti m (mk_check (fx_header m) s)"

definition mk_read ::
    "externals \<Rightarrow> fix_lib \<Rightarrow> (string list \<Rightarrow> 'q market_data \<Rightarrow> 'q market_data) \<Rightarrow> trace_info \<Rightarrow>
     (byte list \<Rightarrow> nat \<times> fix_message list) \<Rightarrow> byte list \<Rightarrow> 'q market_data \<Rightarrow> 'q market_data outcome" where
  "mk_read x fl react ti reader buffer s = (case read_loop (mk_message x fl react ti) reader 0 buffer s of
     (consumed, s', None) \<Rightarrow> (mk_emit (Conn_Drain consumed) s', None)
   | (consumed, s', Some e) \<Rightarrow> (s', Some e))"

lemmas mk_defs [model_defs] =
  mk_emit_def mk_send_def mk_check_def mk_notify_def mk_on_connection_status_def
  mk_send_logout_def mk_send_heartbeat_def

section \<open>Runs\<close>

text \<open>
  What the controller may do to this stream while it handles the symbols of a list: it uses
  the shared state and asks for the subscription of a slice.
\<close>

definition react_ok :: "(string list \<Rightarrow> 'q market_data \<Rightarrow> 'q market_data) \<Rightarrow> bool" where
  "react_ok react \<longleftrightarrow> (\<forall>syms s. \<exists>now symbols sh. react syms s = mk_subscribe_slice now symbols (s\<lparr>mk_shared := sh\<rparr>))"

text \<open>
  One call of the framework or the gateway on the stream, reading apart (\<open>mk_own\<close>). Reading is
  seen as a whole, message by message, and as the parts between which the gateway reacts to
  the symbols of a list. Between the calls other streams change the state and the account
  they share with this one.
\<close>

inductive mk_own :: "'q market_data \<Rightarrow> 'q market_data \<Rightarrow> bool" where
  step_start: "mk_own s (mk_start s)"
| step_stop: "mk_own s (mk_stop s)"
| step_timer: "mk_own s (mk_timer refreshed ti env now s)"
| step_connected: "mk_own s (mk_connected x cx fl ti env s)"
| step_disconnected: "mk_own s (mk_disconnected x s)"
| step_download: "mk_own s (snd (mk_download x ti st env symbols s))"
| step_subscribe: "mk_own s (mk_subscribe_slice now symbols s)"

inductive mk_step :: "'q market_data \<Rightarrow> 'q market_data \<Rightarrow> bool" where
  own: "mk_own s s' \<Longrightarrow> mk_step s s'"
| step_read: "react_ok react \<Longrightarrow> mk_step s (fst (mk_read x fl react ti reader buffer s))"
| step_message: "react_ok react \<Longrightarrow> mk_step s (fst (mk_message x fl react ti m s))"
| step_header: "mk_step s (mk_check h s)"
| step_touch: "mk_step s (mk_emit (Conn_Touch t) s)"
| step_securities: "mk_step s (fst (fst (mk_securities x fl is symbols s)))"
| step_symbols: "mk_step s (mk_emit (Pub_Symbols symbols) s)"
| step_check: "mk_step s (mk_emit (Download_Check st) s)"
| step_drain: "mk_step s (mk_emit (Conn_Drain n) s)"
| shared: "mk_step s (s\<lparr>mk_shared := sh, mk_account := a\<rparr>)"

interpretation mk: fix_session mk_outbound mk_out mk_send mk_emit
  by unfold_locales (simp_all add: mk_send_def mk_emit_def Let_def)

lemma mk_in_order_updates [simp]:
  "mk.in_order (t\<lparr>mk_account := a\<rparr>) = mk.in_order t"
  "mk.in_order (t\<lparr>mk_shared := sh\<rparr>) = mk.in_order t"
  "mk.in_order (t\<lparr>mk_inbound := n\<rparr>) = mk.in_order t"
  "mk.in_order (t\<lparr>mk_connection_status := cs\<rparr>) = mk.in_order t"
  "mk.in_order (t\<lparr>mk_ready := b\<rparr>) = mk.in_order t"
  "mk.in_order (t\<lparr>mk_next_heartbeat := w\<rparr>) = mk.in_order t"
  "mk.in_order (t\<lparr>mk_last_logon_or_heartbeat := w\<rparr>) = mk.in_order t"
  "mk.in_order (t\<lparr>mk_latch := l\<rparr>) = mk.in_order t"
  "mk.in_order (t\<lparr>mk_test_disconnect_time := w\<rparr>) = mk.in_order t"
  by (simp_all add: mk.in_order_def)

lemmas mk_in_order_intros = mk.send_in_order mk.emit_in_order

lemma mk_in_order_notify: "mk.in_order t \<Longrightarrow> mk.in_order (mk_notify x cs reason t)"
  by (simp add: mk_notify_def mk_on_connection_status_def mk.emit_in_order)

lemma mk_in_order_request_loop: "mk.in_order s \<Longrightarrow> mk.in_order (mk_request_loop mkr now k symbols n s)"
proof (induction mkr now k symbols n s rule: mk_request_loop.induct)
  case (1 mkr now k symbols n s)
  show ?case
    by (subst mk_request_loop.simps)
      (auto simp: Let_def split: prod.splits intro!: 1 mk.send_in_order)
qed

lemma mk_in_order_subscribe: "mk.in_order s \<Longrightarrow> mk.in_order (mk_subscribe now symbols s)"
  by (simp add: mk_subscribe_def mk_in_order_request_loop Let_def)

lemma mk_in_order_subscribe_slice: "mk.in_order s \<Longrightarrow> mk.in_order (mk_subscribe_slice now symbols s)"
  by (simp add: mk_subscribe_slice_def mk_in_order_subscribe)

lemma mk_in_order_resubscribe: "mk.in_order s \<Longrightarrow> mk.in_order (mk_resubscribe now symbol s)"
  by (simp add: mk_resubscribe_def mk_unsubscribe_def mk_in_order_subscribe mk_in_order_request_loop Let_def)

lemma mk_in_order_react:
  assumes "react_ok react" "mk.in_order s"
  shows "mk.in_order (react syms s)"
proof -
  obtain now symbols sh where "react syms s = mk_subscribe_slice now symbols (s\<lparr>mk_shared := sh\<rparr>)"
    using assms(1) unfolding react_ok_def by blast
  then show ?thesis using assms(2) by (simp add: mk_in_order_subscribe_slice)
qed

lemma mk_in_order_publish: "mk.in_order s \<Longrightarrow> mk_publish_security x fl i s = Some s1 \<Longrightarrow> mk.in_order s1"
  by (auto simp: mk_publish_security_def split: if_splits option.splits intro!: mk.emit_in_order)

lemma mk_in_order_register: "mk.in_order s \<Longrightarrow> mk.in_order (fst (mk_register_security x i symbols s))"
  by (simp add: mk_register_security_def Let_def)

lemma mk_in_order_securities:
  "mk.in_order s \<Longrightarrow> mk.in_order (fst (fst (mk_securities x fl is symbols s)))"
proof (induction "is" arbitrary: symbols s)
  case (Cons i "is")
  show ?case
  proof (cases "mk_publish_security x fl i s")
    case (Some s1)
    obtain s2 symbols' where r: "mk_register_security x i symbols s1 = (s2, symbols')" by fastforce
    have "mk.in_order s2"
      using mk_in_order_register [OF mk_in_order_publish [OF Cons.prems Some], of x i symbols] r by simp
    then show ?thesis using Cons.IH Some r by simp
  qed (use Cons.prems in simp)
qed simp

lemma mk_in_order_security_list:
  assumes "react_ok react" "mk.in_order s"
  shows "mk.in_order (fst (mk_security_list x fl react ti is s))"
  using mk_in_order_securities [OF mk.emit_in_order [OF assms(2)], of "Conn_Touch (source_receive_time ti)" x fl "is" "[]"]
  by (auto simp: mk_security_list_def split: prod.splits option.splits
      intro!: mk.emit_in_order mk_in_order_react [OF assms(1)])

lemma mk_in_order_incremental: "mk.in_order s \<Longrightarrow> mk.in_order (fst (mk_incremental fl ti env h m s))"
  by (auto simp: mk_incremental_def Let_def split: sum.splits
      intro!: mk.emit_in_order mk_in_order_resubscribe)

lemma mk_in_order_snapshot: "mk.in_order s \<Longrightarrow> mk.in_order (fst (mk_snapshot fl ti env h m s))"
  by (auto simp: mk_snapshot_def Let_def split: sum.splits intro!: mk.emit_in_order)

lemma mk_in_order_message:
  assumes "react_ok react" "mk.in_order s"
  shows "mk.in_order (fst (mk_message x fl react ti m s))"
  using assms(2)
  by (auto simp: mk_message_def mk_parse_def mk_check_def mk_heartbeat_def mk_logon_def mk_logout_def mk_send_logout_def
      mk_resend_request_def mk_test_request_def mk_send_heartbeat_def mk_request_reject_def Let_def
      split: fix_body.splits option.splits
      intro!: mk_in_order_intros mk_in_order_notify mk_in_order_incremental mk_in_order_snapshot
        mk_in_order_security_list assms(1))

lemma mk_in_order_read:
  assumes "react_ok react" "mk.in_order s"
  shows "mk.in_order (fst (mk_read x fl react ti reader buffer s))"
  using read_loop_keeps [of mk.in_order "mk_message x fl react ti" s reader 0 buffer,
      OF mk_in_order_message [OF assms(1)] assms(2)]
  by (auto simp: mk_read_def split: prod.splits option.splits intro: mk.emit_in_order)

lemma mk_notify_fields [simp]:
  "mk_outbound (mk_notify x cs reason s) = mk_outbound s"
  "mk_latch (mk_notify x cs reason s) = mk_latch s"
  by (simp_all add: mk_notify_def mk_on_connection_status_def mk_emit_def)

lemma mk_own_in_order: "mk_own s s' \<Longrightarrow> mk.in_order s \<Longrightarrow> mk.in_order s'"
proof (induction rule: mk_own.induct)
  case (step_disconnected s x)
  then show ?case by (simp add: mk_disconnected_def mk.in_order_def mk_emit_def Let_def)
qed (auto simp: mk_start_def mk_stop_def mk_timer_def mk_send_test_request_def mk_connected_def mk_send_logon_def
    mk_download_def mk_download_securities_def Let_def
    split: prod.splits download_state.splits
    intro!: mk_in_order_intros mk_in_order_notify mk_in_order_subscribe_slice)

lemma mk_step_in_order: "mk_step s s' \<Longrightarrow> mk.in_order s \<Longrightarrow> mk.in_order s'"
  by (cases rule: mk_step.cases)
    (auto simp: mk_check_def mk_in_order_read mk_in_order_message mk_in_order_securities intro: mk_own_in_order mk.emit_in_order)

section \<open>Properties\<close>

text \<open>
  The messages that the market data stream has sent since it was last connected carry
  the sequence numbers 1, 2, 3 and so on, over any calls in any order.
\<close>

theorem market_data_numbers_consecutive:
  assumes "mk_step\<^sup>*\<^sup>* (mk_create sid a sh master) s"
  shows "sent_numbers (mk_out s) = map of_nat [1..<Suc (length (sent_numbers (mk_out s)))] \<and>
    mk_outbound s = of_nat (length (sent_numbers (mk_out s)))"
proof -
  from assms have "mk.in_order s"
  proof (induction rule: rtranclp_induct)
    case base
    then show ?case by (simp add: mk.in_order_def mk_create_def Let_def)
  qed (auto dest: mk_step_in_order)
  then show ?thesis by (simp add: mk.in_order_def numbered_def)
qed

text \<open>The symbols of the market data requests among some calls.\<close>

fun requested :: "fix_call list \<Rightarrow> string list list" where
  "requested [] = []"
| "requested (Conn_Send n t (R_MarketDataRequest r) # cs) = mr_related_sym r # requested cs"
| "requested (c # cs) = requested cs"

lemma requested_append [simp]: "requested (xs @ ys) = requested xs @ requested ys"
  by (induction xs rule: requested.induct) auto

lemma mk_request_loop_covers:
  "(\<And>rid l. mr_related_sym (mkr rid l) = l) \<Longrightarrow> 0 < k \<Longrightarrow>
   \<exists>new. mk_out (mk_request_loop mkr now k symbols n s) = mk_out s @ new \<and>
     concat (requested new) = drop n symbols \<and>
     (\<forall>r\<in>set (requested new). r \<noteq> [] \<and> length r \<le> k)"
proof (induction mkr now k symbols n s rule: mk_request_loop.induct)
  case (1 mkr now k symbols n s)
  show ?case
  proof (cases "length symbols \<le> n")
    case True
    then show ?thesis by (subst mk_request_loop.simps) simp
  next
    case False
    let ?l = "take (min (length symbols - n) k) (drop n symbols)"
    obtain rid sh where rid: "next_request_id (mk_shared s) = (rid, sh)" by fastforce
    let ?s = "mk_send now (R_MarketDataRequest (mkr rid ?l)) (s\<lparr>mk_shared := sh\<rparr>)"
    have out: "mk_out ?s = mk_out s @ [Conn_Send (mk_outbound s + 1) now (R_MarketDataRequest (mkr rid ?l))]"
      by (simp add: mk_send_def Let_def)
    obtain new where new: "mk_out (mk_request_loop mkr now k symbols (n + k) ?s) = mk_out ?s @ new"
      "concat (requested new) = drop (n + k) symbols" "\<forall>r\<in>set (requested new). r \<noteq> [] \<and> length r \<le> k"
      using 1(1) [OF _ refl refl rid [symmetric] refl 1(2) 1(3)] False 1(3) by auto
    have "?l = take k (drop n symbols)" by (simp add: min_def)
    then have split: "?l @ drop (n + k) symbols = drop n symbols"
      by (metis append_take_drop_id drop_drop add.commute)
    have "mk_request_loop mkr now k symbols n s = mk_request_loop mkr now k symbols (n + k) ?s"
      using False 1(3) rid by (subst mk_request_loop.simps) (simp add: Let_def)
    then show ?thesis
      using new out split False 1(2,3)
      by (intro exI [of _ "Conn_Send (mk_outbound s + 1) now (R_MarketDataRequest (mkr rid ?l)) # new"]) auto
  qed
qed

text \<open>
  Subscribing asks for every symbol exactly once and in order, in requests that are not
  empty and never larger than the configured size, whatever the size and the symbols are.
\<close>

theorem subscribe_covers_symbols:
  "\<exists>new. mk_out (mk_subscribe now symbols s) = mk_out s @ new \<and> concat (requested new) = symbols \<and>
     (\<forall>r\<in>set (requested new). r \<noteq> [] \<and> length r \<le> mk_max_size symbols s)"
proof (cases "symbols = []")
  case False
  then have "0 < mk_max_size symbols s" by (simp add: mk_max_size_def Let_def)
  moreover have "mk_subscribe now symbols s = mk_request_loop (\<lambda>rid related_sym.
       \<lparr>mr_md_req_id = rid, mr_subscription_request_type = SNAPSHOT_UPDATES,
        mr_market_depth = fix_market_data_market_depth (sh_settings (mk_shared s)),
        mr_md_update_type = (if fix_market_data_market_depth (sh_settings (mk_shared s)) \<noteq> 0
          then INCREMENTAL_REFRESH else FULL_REFRESH),
        mr_md_entry_types = [MDE_BID, MDE_OFFER, MDE_TRADE], mr_related_sym = related_sym\<rparr>)
       now (mk_max_size symbols s) symbols 0 s"
    using False by (simp add: mk_subscribe_def Let_def)
  ultimately show ?thesis by (metis (no_types, lifting) mk_request_loop_covers market_data_request.select_convs(6) drop_0)
qed (simp add: mk_subscribe_def)

text \<open>The new symbols of a list of securities.\<close>

lemma mk_publish_security_symbols:
  "mk_publish_security x fl i s = Some s1 \<Longrightarrow> all_symbols (mk_shared s1) = all_symbols (mk_shared s)"
  by (auto simp: mk_publish_security_def mk_emit_def split: if_splits option.splits)

lemma mk_register_security_symbols:
  "mk_register_security x i symbols s = (s', symbols') \<Longrightarrow>
   all_symbols (mk_shared s') = all_symbols (mk_shared s) \<union> {sy_symbol j | j. j = i \<and> \<not> discard_symbol x (sy_symbol j)} \<and>
   symbols' = symbols @ (if discard_symbol x (sy_symbol i) \<or> sy_symbol i \<in> all_symbols (mk_shared s) then []
                         else [sy_symbol i])"
  by (auto simp: mk_register_security_def Let_def split: if_splits)

lemma mk_securities_symbols:
  "mk_securities x fl is symbols s = ((s', symbols'), None) \<Longrightarrow>
   \<exists>new. symbols' = symbols @ new \<and> distinct new \<and> set new \<inter> all_symbols (mk_shared s) = {} \<and>
     all_symbols (mk_shared s') = all_symbols (mk_shared s) \<union> set new \<and>
     all_symbols (mk_shared s') = all_symbols (mk_shared s) \<union>
       {sy_symbol i | i. i \<in> set is \<and> \<not> discard_symbol x (sy_symbol i)}"
proof (induction "is" arbitrary: symbols s)
  case (Cons i "is")
  obtain s1 where s1: "mk_publish_security x fl i s = Some s1"
    using Cons.prems by (auto split: option.splits)
  obtain s2 symbols2 where s2: "mk_register_security x i symbols s1 = (s2, symbols2)" by fastforce
  have rest: "mk_securities x fl is symbols2 s2 = ((s', symbols'), None)"
    using Cons.prems s1 s2 by simp
  note r = mk_register_security_symbols [OF s2]
  obtain new where new: "symbols' = symbols2 @ new" "distinct new" "set new \<inter> all_symbols (mk_shared s2) = {}"
    "all_symbols (mk_shared s') = all_symbols (mk_shared s2) \<union> set new"
    "all_symbols (mk_shared s') = all_symbols (mk_shared s2) \<union>
       {sy_symbol i | i. i \<in> set is \<and> \<not> discard_symbol x (sy_symbol i)}"
    using Cons.IH [OF rest] by blast
  show ?case
    using r new mk_publish_security_symbols [OF s1]
    by (intro exI [of _ "(if discard_symbol x (sy_symbol i) \<or> sy_symbol i \<in> all_symbols (mk_shared s1) then []
                         else [sy_symbol i]) @ new"]) (auto split: if_splits)
qed simp


section \<open>The latch\<close>

text \<open>A call that publishes an incremental book update, or a book snapshot, of a symbol.\<close>

definition book_of :: "string \<Rightarrow> fix_call \<Rightarrow> bool" where
  "book_of symbol c = (case c of Pub_MarketByPrice u b \<Rightarrow> mu_symbol u = symbol | _ \<Rightarrow> False)"

text \<open>\<open>quiet\<close>: nothing about the book of the symbol is published, and its latch stays as it is.\<close>

definition quiet :: "string \<Rightarrow> 'q market_data \<Rightarrow> 'q market_data \<Rightarrow> bool" where
  "quiet symbol s s' \<longleftrightarrow> (symbol \<in> mk_latch s \<longrightarrow> symbol \<in> mk_latch s' \<and>
     filter (book_of symbol) (mk_out s') = filter (book_of symbol) (mk_out s))"

lemma quiet_refl: "quiet symbol s s"
  by (simp add: quiet_def)

lemma quiet_trans: "quiet symbol s t \<Longrightarrow> quiet symbol t u \<Longrightarrow> quiet symbol s u"
  by (auto simp: quiet_def)

lemma quiet_emit: "quiet symbol s t \<Longrightarrow> \<not> book_of symbol c \<Longrightarrow> quiet symbol s (mk_emit c t)"
  by (simp add: quiet_def mk_emit_def)

lemma quiet_send: "quiet symbol s t \<Longrightarrow> quiet symbol s (mk_send now r t)"
  by (simp add: quiet_def mk_send_def book_of_def Let_def)

lemma quiet_updates [simp]:
  "quiet symbol s (t\<lparr>mk_account := a\<rparr>) = quiet symbol s t"
  "quiet symbol s (t\<lparr>mk_shared := sh\<rparr>) = quiet symbol s t"
  "quiet symbol s (t\<lparr>mk_inbound := n\<rparr>) = quiet symbol s t"
  "quiet symbol s (t\<lparr>mk_connection_status := cs\<rparr>) = quiet symbol s t"
  "quiet symbol s (t\<lparr>mk_ready := b\<rparr>) = quiet symbol s t"
  "quiet symbol s (t\<lparr>mk_last_logon_or_heartbeat := w\<rparr>) = quiet symbol s t"
  by (simp_all add: quiet_def)

lemma quiet_notify: "quiet symbol s t \<Longrightarrow> quiet symbol s (mk_notify x cs reason t)"
  by (simp add: mk_notify_def mk_on_connection_status_def quiet_emit book_of_def)

lemma quiet_request_loop: "quiet symbol s t \<Longrightarrow> quiet symbol s (mk_request_loop mkr now k symbols n t)"
proof (induction mkr now k symbols n t rule: mk_request_loop.induct)
  case (1 mkr now k symbols n t)
  show ?case
    by (subst mk_request_loop.simps)
      (auto simp: Let_def split: prod.splits intro!: 1 quiet_send)
qed

lemma quiet_subscribe: "quiet symbol s t \<Longrightarrow> quiet symbol s (mk_subscribe now symbols t)"
  by (simp add: mk_subscribe_def quiet_request_loop Let_def)

lemma quiet_resubscribe: "quiet symbol s t \<Longrightarrow> quiet symbol s (mk_resubscribe now symbol' t)"
proof -
  assume "quiet symbol s t"
  then have "quiet symbol s (t\<lparr>mk_latch := insert symbol' (mk_latch t)\<rparr>)" by (simp add: quiet_def)
  then show ?thesis
    using \<open>quiet symbol s t\<close>
    by (simp add: mk_resubscribe_def mk_unsubscribe_def quiet_subscribe quiet_request_loop Let_def)
qed

lemma quiet_react: "react_ok react \<Longrightarrow> quiet symbol s t \<Longrightarrow> quiet symbol s (react syms t)"
proof -
  assume r: "react_ok react" and q: "quiet symbol s t"
  obtain now symbols sh where "react syms t = mk_subscribe_slice now symbols (t\<lparr>mk_shared := sh\<rparr>)"
    using r unfolding react_ok_def by blast
  then show ?thesis using q by (simp add: mk_subscribe_slice_def quiet_subscribe)
qed

lemma quiet_securities: "quiet symbol s t \<Longrightarrow> quiet symbol s (fst (fst (mk_securities x fl is symbols t)))"
proof (induction "is" arbitrary: symbols t)
  case (Cons i "is")
  show ?case
  proof (cases "mk_publish_security x fl i t")
    case (Some s1)
    obtain s2 symbols' where r: "mk_register_security x i symbols s1 = (s2, symbols')" by fastforce
    have "quiet symbol s s1"
      using Cons.prems Some
      by (auto simp: mk_publish_security_def book_of_def split: if_splits option.splits intro!: quiet_emit)
    then have "quiet symbol s s2"
      using r by (auto simp: mk_register_security_def Let_def split: if_splits)
    then show ?thesis using Cons.IH Some r by simp
  qed (use Cons.prems in simp)
qed simp

lemma quiet_security_list:
  assumes "react_ok react"
  shows "quiet symbol s (fst (mk_security_list x fl react ti is s))"
proof -
  have "quiet symbol s (mk_emit (Conn_Touch (source_receive_time ti)) s)"
    by (intro quiet_emit quiet_refl) (simp add: book_of_def)
  from quiet_securities [OF this, of x fl "is" "[]"] show ?thesis
    by (auto simp: mk_security_list_def book_of_def split: prod.splits option.splits
        intro!: quiet_emit quiet_react [OF assms])
qed

lemma mk_book_symbol: "mu_symbol (mk_book ut symbol h l s) = symbol"
  by (simp add: mk_book_def)

lemma quiet_other: "\<not> book_of symbol c \<Longrightarrow> quiet symbol s t \<Longrightarrow> quiet symbol s (if b then mk_emit c t else t)"
  by (simp add: quiet_emit)

lemma quiet_incremental: "quiet symbol s (fst (mk_incremental fl ti env h m s))"
proof (cases "symbol \<in> mk_latch s")
  case True
  let ?s1 = "mk_emit (Conn_Touch (source_receive_time ti)) s"
  have q: "quiet symbol s ?s1" by (intro quiet_emit quiet_refl) (simp add: book_of_def)
  have latch: "mk_latch ?s1 = mk_latch s" by (simp add: mk_emit_def)
  show ?thesis
    using q True by (auto simp: mk_incremental_def latch Let_def book_of_def mk_book_symbol split: sum.splits
        intro!: quiet_emit quiet_resubscribe)
qed (simp add: quiet_def)

definition snapshot_of :: "string \<Rightarrow> fix_message \<Rightarrow> bool" where
  "snapshot_of symbol m = (case fx_body m of B_MarketDataSnapshotFullRefresh n \<Rightarrow> ms_symbol n = symbol | _ \<Rightarrow> False)"

lemma quiet_snapshot: "ms_symbol n \<noteq> symbol \<Longrightarrow> quiet symbol s (fst (mk_snapshot fl ti env h n s))"
proof -
  assume other: "ms_symbol n \<noteq> symbol"
  let ?s1 = "(mk_emit (Conn_Touch (source_receive_time ti)) s)\<lparr>mk_latch := mk_latch s - {ms_symbol n}\<rparr>"
  have "quiet symbol s ?s1" using other by (simp add: quiet_def mk_emit_def book_of_def)
  then show ?thesis
    using other by (auto simp: mk_snapshot_def Let_def book_of_def mk_book_def split: sum.splits intro!: quiet_emit)
qed

lemma quiet_message:
  assumes "react_ok react" "\<not> snapshot_of symbol m"
  shows "quiet symbol s (fst (mk_message x fl react ti m s))"
proof -
  let ?s = "mk_check (fx_header m) s"
  have "quiet symbol ?s (fst (mk_parse x fl react ti m ?s))"
    using assms(2)
    by (auto simp: mk_parse_def mk_heartbeat_def mk_logon_def mk_logout_def mk_send_logout_def
        mk_resend_request_def mk_test_request_def mk_send_heartbeat_def mk_request_reject_def Let_def
        snapshot_of_def book_of_def quiet_refl
        split: fix_body.splits option.splits
        intro!: quiet_emit quiet_send quiet_notify quiet_incremental quiet_snapshot
          quiet_security_list [OF assms(1)])
  moreover have "quiet symbol s ?s" by (simp add: mk_check_def quiet_refl)
  ultimately show ?thesis unfolding mk_message_def using quiet_trans by blast
qed

text \<open>
  C26: once the book of a symbol is found to be broken and the symbol is latched, nothing
  about its book is published until a full snapshot of it arrives, whatever else is
  received.
\<close>

theorem latched_until_snapshot:
  assumes "react_ok react" "symbol \<in> mk_latch s" "\<forall>m\<in>set ms. \<not> snapshot_of symbol m"
  shows "symbol \<in> mk_latch (fst (run_messages (mk_message x fl react ti) ms s)) \<and>
    filter (book_of symbol) (mk_out (fst (run_messages (mk_message x fl react ti) ms s))) =
    filter (book_of symbol) (mk_out s)"
  using assms(2,3)
proof (induction ms arbitrary: s)
  case (Cons m ms)
  obtain s1 e where m: "mk_message x fl react ti m s = (s1, e)" by fastforce
  have q: "quiet symbol s s1" using quiet_message [OF assms(1), of symbol m s x fl ti] Cons.prems(2) m by simp
  then have "symbol \<in> mk_latch s1" "filter (book_of symbol) (mk_out s1) = filter (book_of symbol) (mk_out s)"
    using Cons.prems(1) by (simp_all add: quiet_def)
  then show ?case using Cons.IH [of s1] Cons.prems(2) m by (cases e) simp_all
qed simp

lemma mk_request_loop_single:
  "0 < k \<Longrightarrow> \<exists>rid sh. mk_request_loop mkr now k [symbol] 0 s =
     mk_send now (R_MarketDataRequest (mkr rid [symbol])) (s\<lparr>mk_shared := sh\<rparr>)"
  by (intro exI [of _ "fst (next_request_id (mk_shared s))"] exI [of _ "snd (next_request_id (mk_shared s))"],
      subst mk_request_loop.simps, subst mk_request_loop.simps) (simp add: min_def case_prod_beta Let_def)

text \<open>
  A broken book is subscribed again once: the symbol is latched, unsubscribed and
  subscribed, each with one request for this symbol alone, and doing it again while the
  symbol is latched does nothing.
\<close>

theorem resubscribe_once:
  "mk_resubscribe now symbol (mk_resubscribe now symbol s) = mk_resubscribe now symbol s \<and>
   (\<exists>new. mk_out (mk_resubscribe now symbol s) = mk_out s @ new \<and>
      requested new = (if symbol \<in> mk_latch s then [] else [[symbol], [symbol]]))"
proof -
  have latched: "symbol \<in> mk_latch (mk_resubscribe now symbol s)"
  proof (cases "symbol \<in> mk_latch s")
    case False
    have "quiet symbol (s\<lparr>mk_latch := insert symbol (mk_latch s)\<rparr>) (mk_resubscribe now symbol s)"
      using False by (simp add: mk_resubscribe_def mk_unsubscribe_def quiet_subscribe quiet_request_loop quiet_refl Let_def)
    then show ?thesis by (simp add: quiet_def)
  qed (simp add: mk_resubscribe_def)
  moreover have "\<exists>new. mk_out (mk_resubscribe now symbol s) = mk_out s @ new \<and>
      requested new = (if symbol \<in> mk_latch s then [] else [[symbol], [symbol]])"
  proof (cases "symbol \<in> mk_latch s")
    case False
    let ?s = "s\<lparr>mk_latch := insert symbol (mk_latch s)\<rparr>"
    have pos: "0 < mk_max_size [symbol] t" for t :: "'a market_data" by (simp add: mk_max_size_def Let_def)
    obtain r sh where u: "mk_unsubscribe now [symbol] ?s = mk_send now (R_MarketDataRequest r) (?s\<lparr>mk_shared := sh\<rparr>)"
      "mr_related_sym r = [symbol]"
      using mk_request_loop_single [OF pos] unfolding mk_unsubscribe_def Let_def by fastforce
    obtain r' sh' where v: "mk_subscribe now [symbol] (mk_unsubscribe now [symbol] ?s) =
        mk_send now (R_MarketDataRequest r') ((mk_unsubscribe now [symbol] ?s)\<lparr>mk_shared := sh'\<rparr>)"
      "mr_related_sym r' = [symbol]"
      using mk_request_loop_single [OF pos] unfolding mk_subscribe_def Let_def by fastforce
    show ?thesis using False u v
      by (simp add: mk_resubscribe_def mk_send_def Let_def)
  qed (simp add: mk_resubscribe_def)
  ultimately show ?thesis by (simp add: mk_resubscribe_def [of now symbol "mk_resubscribe now symbol s"])
qed

section \<open>The content of updates\<close>

lemma mk_entries_spec:
  "foldr_result (mk_entry fl keep) is l0 = Inr l \<Longrightarrow>
   ml_bids l = ml_bids l0 @ map mk_level (filter (\<lambda>i. me_type i = MDE_BID) is) \<and>
   ml_asks l = ml_asks l0 @ map mk_level (filter (\<lambda>i. me_type i = MDE_OFFER) is) \<and>
   ml_trades l = ml_trades l0 @ (if keep then map (mk_trade fl) (filter (\<lambda>i. me_type i = MDE_TRADE) is) else []) \<and>
   (\<exists>t. ml_statistics l = ml_statistics l0 @ t) \<and>
   ml_time l = fold (\<lambda>i t. max t (me_date i)) is (ml_time l0)"
proof (induction "is" arbitrary: l0)
  case (Cons i "is")
  then obtain l1 where l1: "mk_entry fl keep i l0 = Inr l1" "foldr_result (mk_entry fl keep) is l1 = Inr l"
    by (auto simp: andthen_eq_Inr)
  then show ?case
    using Cons.IH [OF l1(2)] by (auto simp: mk_entry_def Let_def max_def split: md_entry_type.splits if_splits)
qed simp


section \<open>Concrete runs\<close>

definition mk_demo :: "nat market_data" where
  "mk_demo = mk_create 2 \<lparr>ac_name = ''A1'', ac_key = ''key'', ac_crypto = \<lparr>cr_secret = ''s'', cr_timestamp = 0\<rparr>\<rparr>
     (empty_shared default_settings) True"

definition mk_demo_lib :: fix_lib where
  "mk_demo_lib = \<lparr>fm_side = (\<lambda>v. CHR ''1''), fm_ord_type = (\<lambda>t. CHR ''2''),
     fm_time_in_force = (\<lambda>t. CHR ''1''), fm_to_side = (\<lambda>c. if c = CHR ''1'' then Side_BUY else Side_SELL),
     fm_to_order_type = (\<lambda>c. 0), fm_to_order_status = (\<lambda>c. 0), fm_to_liquidity = (\<lambda>i. Liquidity_UNDEFINED),
     fm_to_option_type = (\<lambda>n. OptionType_UNDEFINED), fm_profit_loss = (\<lambda>d q p m. 0),
     fm_create_filter = (\<lambda>ca. []), fm_from_chars = (\<lambda>s. Some 0), fm_parse_time = (\<lambda>s. Some 0),
     fm_safe_cast_u16 = word_of_int\<rparr>"

definition mk_demo_security :: "string \<Rightarrow> security" where
  "mk_demo_security nm = \<lparr>sy_symbol = nm, sy_security_desc = [], sy_security_type = ''FUT'', sy_put_or_call = 0,
     sy_underlying_symbol = [], sy_settl_currency = ''USD'', sy_currency = ''USD'', sy_comm_currency = ''BTC'',
     sy_strike_currency = [], sy_min_price_increment = f_one, sy_contract_multiplier = f_one, sy_min_trade_vol = f_one,
     sy_strike_price = NaN, sy_issue_date = 0, sy_maturity_date = 0, sy_maturity_time = []\<rparr>"

definition mk_demo_env :: fix_env where
  "mk_demo_env = \<lparr>env_now = 0, env_draws = [], env_order = \<lparr>ok_user_id = 0, ok_order_id = 0, ok_strategy_id = 0\<rparr>,
     env_multiplier = f_one, env_download_orders = False, env_bad_state = False\<rparr>"

definition mk_demo_trace :: trace_info where
  "mk_demo_trace = \<lparr>source_receive_time = 0, origin_create_time = 0, origin_create_time_utc = 0\<rparr>"

definition mk_demo_header :: fix_header where
  "mk_demo_header = \<lparr>hd_msg_seq_num = 1, hd_sending_time = 0\<rparr>"

definition mk_demo_refresh :: md_incremental where
  "mk_demo_refresh = \<lparr>mi_symbol = ''BTC-PERPETUAL'', mi_open_interest = f_one, mi_mark_price = f_one,
     mi_entries = [\<lparr>me_type = MDE_BID, me_update_action = MDU_NEW, me_px = f_one, me_size = f_one, me_date = 5,
       me_side = CHR ''1'', me_deribit_trade_id = [], me_order_id = [], me_secondary_order_id = []\<rparr>]\<rparr>"

theorem market_data_numbers_consecutive_witness:
  "sent_numbers (mk_out (mk_start mk_demo)) = map of_nat [1..<Suc (length (sent_numbers (mk_out (mk_start mk_demo))))]"
  unfolding mk_demo_def
  by (rule market_data_numbers_consecutive [THEN conjunct1]) (rule r_into_rtranclp, rule mk_step.own, rule mk_own.step_start)


theorem subscribe_covers_symbols_witness:
  "\<exists>new. mk_out (mk_subscribe 7 [''A'', ''B''] mk_demo) = mk_out mk_demo @ new \<and> concat (requested new) = [''A'', ''B'']"
  using subscribe_covers_symbols [of 7 "[''A'', ''B'']" mk_demo] by blast

theorem latched_until_snapshot_witness:
  "''X'' \<in> mk_latch (fst (run_messages (mk_message plain_externals mk_demo_lib (\<lambda>syms s. mk_subscribe_slice 0 syms s) mk_demo_trace)
     [\<lparr>fx_header = mk_demo_header, fx_body = B_Logon, fx_env = mk_demo_env\<rparr>] (mk_demo\<lparr>mk_latch := {''X''}\<rparr>)))"
proof (rule latched_until_snapshot [THEN conjunct1])
  show "react_ok (\<lambda>syms s. mk_subscribe_slice 0 syms (s :: nat market_data))"
    unfolding react_ok_def
  proof (intro allI)
    fix syms and s :: "nat market_data"
    show "\<exists>now symbols sh. mk_subscribe_slice 0 syms s = mk_subscribe_slice now symbols (s\<lparr>mk_shared := sh\<rparr>)"
      by (intro exI [of _ 0] exI [of _ syms] exI [of _ "mk_shared s"]) simp
  qed
qed (simp_all add: snapshot_of_def)


end
