(* ===== verification/Json_Types.thy ===== *)
theory Json_Types
  imports Roq_Types
begin

text \<open>
  The JSON messages of the REST and web socket interfaces, with the fields that the code
  reads, the mappings of their enumerations (\<open>protocol/json/map.cpp\<close>), and the values of
  the JSON reader. The classes of the messages and enumerations are generated from the
  schema files in \<open>protocol/json\<close>; a generated enumeration has the values of its schema and
  the two values \<open>UNDEFINED_INTERNAL\<close> (no text) and \<open>UNKNOWN_INTERNAL\<close> (a text the schema
  does not have).
\<close>

section \<open>Enumerations\<close>

datatype json_direction = JD_UNDEFINED_INTERNAL | JD_UNKNOWN_INTERNAL | JD_BUY | JD_SELL | JD_ZERO

datatype json_liquidity = JL_UNDEFINED_INTERNAL | JL_UNKNOWN_INTERNAL | JL_MAKER | JL_TAKER

datatype json_state =
    JS_UNDEFINED_INTERNAL | JS_UNKNOWN_INTERNAL | JS_CLOSED | JS_OPEN | JS_CREATED | JS_SETTLED
  | JS_TERMINATED | JS_INACTIVE | JS_DEACTIVATED | JS_STARTED | JS_SETTLEMENT | JS_DELIVERED
  | JS_LOCKED | JS_HALTED

datatype json_kind =
    JK_UNDEFINED_INTERNAL | JK_UNKNOWN_INTERNAL | JK_FUTURE | JK_OPTION | JK_FUTURE_COMBO
  | JK_OPTION_COMBO | JK_SPOT

datatype json_settlement_period =
    SP_UNDEFINED_INTERNAL | SP_UNKNOWN_INTERNAL | SP_PERPETUAL | SP_DAY | SP_WEEK | SP_MONTH | SP_HOUR

datatype json_option_type = JO_UNDEFINED_INTERNAL | JO_UNKNOWN_INTERNAL | JO_CALL | JO_PUT

datatype json_request_type =
    RT_UNDEFINED_INTERNAL | RT_UNKNOWN_INTERNAL | RT_AUTH | RT_SUBSCRIBE_PLATFORM_STATE
  | RT_SUBSCRIBE_INSTRUMENT_STATE | RT_SUBSCRIBE_QUOTE | RT_SUBSCRIBE_TICKER | RT_SUBSCRIBE_CHART_TRADES
  | RT_SUBSCRIBE_USER_PORTFOLIO | RT_SUBSCRIBE_USER_CHANGES | RT_SUBSCRIBE_USER_ORDERS
  | RT_SUBSCRIBE_USER_TRADES | RT_GET_ACCOUNT_SUMMARY | RT_GET_USER_TRADES_BY_CURRENCY

datatype json_channel =
    CH_UNDEFINED_INTERNAL | CH_UNKNOWN_INTERNAL | CH_CHANGES | CH_INSTRUMENT_STATE | CH_PLATFORM_STATE
  | CH_PORTFOLIO | CH_QUOTE | CH_TICKER | CH_CHART_TRADES | CH_ORDERS | CH_TRADES

definition json_map_direction :: "json_direction \<Rightarrow> side option" where
  "json_map_direction v = (case v of
     JD_UNDEFINED_INTERNAL \<Rightarrow> Some Side_UNDEFINED
   | JD_UNKNOWN_INTERNAL \<Rightarrow> Some Side_UNDEFINED
   | JD_BUY \<Rightarrow> Some Side_BUY
   | JD_SELL \<Rightarrow> Some Side_SELL
   | JD_ZERO \<Rightarrow> Some Side_UNDEFINED)"

definition json_map_liquidity :: "json_liquidity \<Rightarrow> liquidity option" where
  "json_map_liquidity v = (case v of
     JL_UNDEFINED_INTERNAL \<Rightarrow> Some Liquidity_UNDEFINED
   | JL_UNKNOWN_INTERNAL \<Rightarrow> Some Liquidity_UNDEFINED
   | JL_MAKER \<Rightarrow> Some Liquidity_MAKER
   | JL_TAKER \<Rightarrow> Some Liquidity_TAKER)"

definition json_map_state :: "json_state \<Rightarrow> trading_status option" where
  "json_map_state v = (case v of
     JS_UNDEFINED_INTERNAL \<Rightarrow> Some TradingStatus_UNDEFINED
   | JS_UNKNOWN_INTERNAL \<Rightarrow> Some TradingStatus_UNDEFINED
   | JS_CLOSED \<Rightarrow> Some TradingStatus_CLOSE
   | JS_OPEN \<Rightarrow> Some TradingStatus_OPEN
   | JS_CREATED \<Rightarrow> Some TradingStatus_UNDEFINED
   | JS_SETTLED \<Rightarrow> Some TradingStatus_UNDEFINED
   | JS_TERMINATED \<Rightarrow> Some TradingStatus_UNDEFINED
   | JS_INACTIVE \<Rightarrow> Some TradingStatus_UNDEFINED
   | JS_DEACTIVATED \<Rightarrow> Some TradingStatus_UNDEFINED
   | JS_STARTED \<Rightarrow> Some TradingStatus_UNDEFINED
   | JS_SETTLEMENT \<Rightarrow> Some TradingStatus_UNDEFINED
   | JS_DELIVERED \<Rightarrow> Some TradingStatus_UNDEFINED
   | JS_LOCKED \<Rightarrow> Some TradingStatus_UNDEFINED
   | JS_HALTED \<Rightarrow> Some TradingStatus_CLOSE)"

lemmas json_map_defs [model_defs] = json_map_direction_def json_map_liquidity_def json_map_state_def

text \<open>\<open>get\<close> of a mapping: every value has one, so the default is never used.\<close>

definition get_mapped :: "'a \<Rightarrow> 'a option \<Rightarrow> 'a" where
  "get_mapped d v = (case v of Some a \<Rightarrow> a | None \<Rightarrow> d)"

lemma json_maps_total:
  "json_map_direction d \<noteq> None" "json_map_liquidity l \<noteq> None" "json_map_state s \<noteq> None"
  by (cases d; cases l; cases s; simp add: model_defs)+

section \<open>Messages\<close>

record json_error =
  je_code :: int
  je_message :: string

record platform_state =
  ps_price_index :: string
  ps_locked :: bool
  ps_maintenance :: bool

record json_quote =
  jq_instrument_name :: string
  jq_best_bid_price :: double
  jq_best_bid_amount :: double
  jq_best_ask_price :: double
  jq_best_ask_amount :: double
  jq_timestamp :: nanoseconds

record json_ticker =
  jt_instrument_name :: string
  jt_state :: json_state

record user_portfolio =
  up_currency :: string
  up_balance :: double
  up_cross_collateral_enabled :: bool
  up_creation_timestamp :: nanoseconds

record json_trade =
  jr_instrument_name :: string
  jr_direction :: json_direction
  jr_amount :: double
  jr_price :: double
  jr_liquidity :: json_liquidity
  jr_fee :: double
  jr_fee_currency :: string
  jr_timestamp :: nanoseconds
  jr_trade_seq :: int
  jr_order_id :: string
  jr_label :: string

record json_tick_size_step =
  tz_above_price :: double
  tz_tick_size :: double

record json_instrument =
  ji_instrument_id :: int
  ji_instrument_name :: string
  ji_contract_size :: double
  ji_kind :: json_kind
  ji_settlement_period :: json_settlement_period
  ji_option_type :: json_option_type
  ji_min_trade_amount :: double
  ji_tick_size :: double
  ji_tick_size_steps :: "json_tick_size_step list"
  ji_strike :: double
  ji_price_index :: string
  ji_base_currency :: string
  ji_quote_currency :: string
  ji_settlement_currency :: string
  ji_creation_timestamp :: milliseconds
  ji_expiration_timestamp :: milliseconds

record chart_data =
  cd_ticks :: "int list"
  cd_open :: "double list"
  cd_high :: "double list"
  cd_low :: "double list"
  cd_close :: "double list"
  cd_volume :: "double list"

text \<open>What the reader of the web sockets hands to its handler.\<close>

datatype json_event =
    JE_Auth int
  | JE_SubscribeAck int
  | JE_PlatformState platform_state
  | JE_InstrumentState
  | JE_Quote json_quote
  | JE_Ticker json_ticker
  | JE_ChartTrades string uint32
  | JE_UserPortfolio user_portfolio
  | JE_UserChanges "json_trade list"
  | JE_UserOrders
  | JE_UserTrades "json_trade list"
  | JE_GetAccountSummaryAck
  | JE_GetUserTradesByCurrencyAck

section \<open>The reader\<close>

text \<open>
  A value of the JSON reader of the framework: the code asks for texts and objects only.
\<close>

datatype json_value = JString string | JObject "(string \<times> json_value) list" | JOther

text \<open>
  The parts that are not in the repository: the reader (\<open>jx_members\<close>: the members of a
  message in the order of the text; \<open>jx_stops\<close>: whether it stops at a member whose
  callback returns true), the generated enumerations (\<open>jx_request_type\<close>, \<open>jx_channel\<close>
  and \<open>jx_request_text\<close>, the raw text of a request type) and the generated decoders: each
  reads the whole message again and gives nothing where it throws. The decoders of
  \<open>Auth\<close> and \<open>SubscribeAck\<close> give the code of the error.
\<close>

record json_lib =
  jx_members :: "string \<Rightarrow> (string \<times> json_value) list"
  jx_stops :: bool
  jx_request_type :: "string \<Rightarrow> json_request_type"
  jx_request_text :: "json_request_type \<Rightarrow> string"
  jx_channel :: "string \<Rightarrow> json_channel"
  jx_auth :: "string \<Rightarrow> int option"
  jx_subscribe_ack :: "string \<Rightarrow> int option"
  jx_platform_state :: "string \<Rightarrow> platform_state option"
  jx_instrument_state :: "string \<Rightarrow> unit option"
  jx_quote :: "string \<Rightarrow> json_quote option"
  jx_ticker :: "string \<Rightarrow> json_ticker option"
  jx_chart_trades :: "string \<Rightarrow> unit option"
  jx_user_portfolio :: "string \<Rightarrow> user_portfolio option"
  jx_user_changes :: "string \<Rightarrow> json_trade list option"
  jx_user_orders :: "string \<Rightarrow> unit option"
  jx_user_trades :: "string \<Rightarrow> json_trade list option"
  jx_account_summary :: "string \<Rightarrow> unit option"
  jx_user_trades_by_currency :: "string \<Rightarrow> unit option"

end
