(* ===== verification/Json_Parser.thy ===== *)
theory Json_Parser
  imports Json_Types
begin

text \<open>
  The dispatch of a web socket message (\<open>protocol/json/parser.cpp\<close>): the name of a channel
  is reduced to a token, and the member that names the request or the channel decides which
  decoder reads the message. The handler is an argument.
\<close>

section \<open>Channels\<close>

definition KEY_JSONRPC :: string where "KEY_JSONRPC = ''jsonrpc''"
definition KEY_ID :: string where "KEY_ID = ''id''"
definition KEY_ERROR :: string where "KEY_ERROR = ''error''"
definition KEY_RESULT :: string where "KEY_RESULT = ''result''"
definition KEY_METHOD :: string where "KEY_METHOD = ''method''"
definition KEY_PARAMS :: string where "KEY_PARAMS = ''params''"
definition KEY_CHANNEL :: string where "KEY_CHANNEL = ''channel''"

text \<open>\<open>find_first_of('.', pos)\<close>; \<open>None\<close> is \<open>npos\<close>.\<close>

definition find_dot :: "string \<Rightarrow> nat \<Rightarrow> nat option" where
  "find_dot s pos =
     (let k = pos + length (takeWhile (\<lambda>c. c \<noteq> CHR ''.'') (drop pos s))
      in if k < length s then Some k else None)"

text \<open>The part between the delimiter at \<open>d\<close> and the next one, or the end.\<close>

definition part_after :: "string \<Rightarrow> nat \<Rightarrow> string" where
  "part_after s d = (case find_dot s (d + 1) of
     None \<Rightarrow> drop (d + 1) s
   | Some d2 \<Rightarrow> take (d2 - (d + 1)) (drop (d + 1) s))"

definition get_token :: "string \<Rightarrow> string" where
  "get_token s = (case find_dot s 0 of
     None \<Rightarrow> s
   | Some d \<Rightarrow>
       let part = take d s in
         if part = ''user'' then part_after s d
         else if part = ''instrument'' then (if part_after s d = ''state'' then ''instrument_state'' else [])
         else if part = ''chart'' then (if part_after s d = ''trades'' then ''chart_trades'' else [])
         else part)"

text \<open>The symbol of a chart channel; \<open>interval\<close> stays zero.\<close>

definition chart_symbol :: "string \<Rightarrow> string" where
  "chart_symbol s = (case find_dot s 0 of
     None \<Rightarrow> []
   | Some d1 \<Rightarrow> (case find_dot s (d1 + 1) of
       None \<Rightarrow> []
     | Some d2 \<Rightarrow> (case find_dot s (d2 + 1) of
         None \<Rightarrow> []
       | Some d3 \<Rightarrow> take (d3 - d2 - 1) (drop (d2 + 1) s))))"

definition parse_channel :: "json_lib \<Rightarrow> string \<Rightarrow> json_channel \<times> string \<times> uint32" where
  "parse_channel x s =
     (let token = get_token s in
      if token = [] then (CH_UNKNOWN_INTERNAL, [], 0)
      else let result = jx_channel x token
        in (result, if result = CH_CHART_TRADES then chart_symbol s else [], 0))"

section \<open>Dispatch\<close>

text \<open>The decoder of a channel; \<open>None\<close> where the switch has no decoder for it.\<close>

definition channel_decoder :: "json_lib \<Rightarrow> json_channel \<times> string \<times> uint32 \<Rightarrow> (string \<Rightarrow> json_event option) option" where
  "channel_decoder x c = (case c of (ch, symbol, interval) \<Rightarrow> (case ch of
     CH_UNDEFINED_INTERNAL \<Rightarrow> None
   | CH_UNKNOWN_INTERNAL \<Rightarrow> None
   | CH_PLATFORM_STATE \<Rightarrow> Some (\<lambda>m. map_option JE_PlatformState (jx_platform_state x m))
   | CH_INSTRUMENT_STATE \<Rightarrow> Some (\<lambda>m. map_option (\<lambda>u. JE_InstrumentState) (jx_instrument_state x m))
   | CH_QUOTE \<Rightarrow> Some (\<lambda>m. map_option JE_Quote (jx_quote x m))
   | CH_TICKER \<Rightarrow> Some (\<lambda>m. map_option JE_Ticker (jx_ticker x m))
   | CH_CHART_TRADES \<Rightarrow> Some (\<lambda>m. map_option (\<lambda>u. JE_ChartTrades symbol interval) (jx_chart_trades x m))
   | CH_PORTFOLIO \<Rightarrow> Some (\<lambda>m. map_option JE_UserPortfolio (jx_user_portfolio x m))
   | CH_CHANGES \<Rightarrow> Some (\<lambda>m. map_option JE_UserChanges (jx_user_changes x m))
   | CH_ORDERS \<Rightarrow> Some (\<lambda>m. map_option (\<lambda>u. JE_UserOrders) (jx_user_orders x m))
   | CH_TRADES \<Rightarrow> Some (\<lambda>m. map_option JE_UserTrades (jx_user_trades x m))))"

definition request_decoder :: "json_lib \<Rightarrow> json_request_type \<Rightarrow> (string \<Rightarrow> json_event option) option" where
  "request_decoder x t = (case t of
     RT_UNDEFINED_INTERNAL \<Rightarrow> None
   | RT_UNKNOWN_INTERNAL \<Rightarrow> None
   | RT_AUTH \<Rightarrow> Some (\<lambda>m. map_option JE_Auth (jx_auth x m))
   | RT_GET_ACCOUNT_SUMMARY \<Rightarrow> Some (\<lambda>m. map_option (\<lambda>u. JE_GetAccountSummaryAck) (jx_account_summary x m))
   | RT_GET_USER_TRADES_BY_CURRENCY \<Rightarrow>
       Some (\<lambda>m. map_option (\<lambda>u. JE_GetUserTradesByCurrencyAck) (jx_user_trades_by_currency x m))
   | _ \<Rightarrow> Some (\<lambda>m. map_option JE_SubscribeAck (jx_subscribe_ack x m)))"

text \<open>
  A callback gets a member, the state of the handler and the variable \<open>result\<close>; it gives
  them back with the value it returns, or the exception that leaves it. \<open>None\<close> of the
  state's outcome means no exception.
\<close>

type_synonym 's visit = "('s \<times> bool) \<times> (failure + bool)"

definition json_dispatch_helper ::
    "(json_event \<Rightarrow> 's \<Rightarrow> 's \<times> failure option) \<Rightarrow> (string \<Rightarrow> json_event option) \<Rightarrow> string \<Rightarrow> 's \<Rightarrow> bool \<Rightarrow> 's visit" where
  "json_dispatch_helper h decode message s result = (case decode message of
     None \<Rightarrow> ((s, result), Inl DecodeError)
   | Some e \<Rightarrow> (case h e s of
       (s', Some err) \<Rightarrow> ((s', result), Inl err)
     | (s', None) \<Rightarrow> ((s', True), Inr True)))"

text \<open>The members of an object, in order, until an exception or a stop.\<close>

fun visit_members ::
    "bool \<Rightarrow> (string \<times> json_value \<Rightarrow> 's \<Rightarrow> bool \<Rightarrow> 's visit) \<Rightarrow> (string \<times> json_value) list \<Rightarrow> 's \<Rightarrow> bool \<Rightarrow>
     ('s \<times> bool) \<times> failure option" where
  "visit_members stops f [] s result = ((s, result), None)"
| "visit_members stops f (kv # kvs) s result = (case f kv s result of
     ((s', result'), Inl e) \<Rightarrow> ((s', result'), Some e)
   | ((s', result'), Inr b) \<Rightarrow>
       if stops \<and> b then ((s', result'), None) else visit_members stops f kvs s' result')"

text \<open>\<open>std::get\<close> of the wrong alternative throws.\<close>

definition bad_variant :: failure where
  "bad_variant = RuntimeError ''bad_variant_access''"

definition helper_params ::
    "externals \<Rightarrow> json_lib \<Rightarrow> (json_event \<Rightarrow> 's \<Rightarrow> 's \<times> failure option) \<Rightarrow> string \<Rightarrow> string \<times> json_value \<Rightarrow>
     's \<Rightarrow> bool \<Rightarrow> 's visit" where
  "helper_params x jx h message kv s result =
     (let (key, val) = kv in
      if fnv x key = fnv x KEY_CHANNEL
      then (case val of
              JString nm \<Rightarrow> (case channel_decoder jx (parse_channel jx nm) of
                None \<Rightarrow> ((s, result), Inr True)
              | Some decode \<Rightarrow> json_dispatch_helper h decode message s result)
            | _ \<Rightarrow> ((s, result), Inl bad_variant))
      else ((s, result), Inr result))"

definition json_helper ::
    "externals \<Rightarrow> json_lib \<Rightarrow> (json_event \<Rightarrow> 's \<Rightarrow> 's \<times> failure option) \<Rightarrow> string \<Rightarrow> string \<times> json_value \<Rightarrow>
     's \<Rightarrow> bool \<Rightarrow> 's visit" where
  "json_helper x jx h message kv s result =
     (let (key, val) = kv; k = fnv x key in
      if k = fnv x KEY_JSONRPC then ((s, result), Inr result)
      else if k = fnv x KEY_ID
      then (case val of
              JString t \<Rightarrow> (case jx_request_type jx t of
                RT_UNDEFINED_INTERNAL \<Rightarrow> ((s, result), Inr result)
              | RT_UNKNOWN_INTERNAL \<Rightarrow> ((s, result), Inr True)
              | rt \<Rightarrow> (case request_decoder jx rt of
                  None \<Rightarrow> ((s, result), Inr result)
                | Some decode \<Rightarrow> json_dispatch_helper h decode message s result))
            | _ \<Rightarrow> ((s, result), Inl bad_variant))
      else if k = fnv x KEY_ERROR then ((s, result), Inr result)
      else if k = fnv x KEY_RESULT then ((s, result), Inr result)
      else if k = fnv x KEY_METHOD
      then (case val of
              JString m \<Rightarrow> if m \<noteq> ''subscription'' then ((s, result), Inl (Fatal (''Unexpected: '' @ message)))
                else ((s, result), Inr result)
            | _ \<Rightarrow> ((s, result), Inl bad_variant))
      else if k = fnv x KEY_PARAMS
      then (case val of
              JObject kvs \<Rightarrow> (case visit_members (jx_stops jx) (helper_params x jx h message) kvs s result of
                (sr, Some e) \<Rightarrow> (sr, Inl e)
              | (sr, None) \<Rightarrow> (sr, Inr True))
            | _ \<Rightarrow> ((s, result), Inl bad_variant))
      else ((s, result), Inr result))"

definition json_dispatch ::
    "externals \<Rightarrow> json_lib \<Rightarrow> bool \<Rightarrow> (json_event \<Rightarrow> 's \<Rightarrow> 's \<times> failure option) \<Rightarrow> string \<Rightarrow> 's \<Rightarrow> ('s \<times> bool) \<times> failure option" where
  "json_dispatch x jx allow_unknown_event_types h message s =
     (case visit_members (jx_stops jx) (json_helper x jx h message) (jx_members jx message) s False of
        ((s', result), Some e) \<Rightarrow> ((s', result), Some e)
      | ((s', result), None) \<Rightarrow>
          if result \<or> allow_unknown_event_types then ((s', result), None)
          else ((s', result), Some (Fatal (''Unexpected: message='' @ message))))"

section \<open>The tokens of channels\<close>

text \<open>The checks that the code makes when it is compiled.\<close>

lemma get_token_checks:
  "get_token ''ticker'' = ''ticker''" "get_token ''ticker.123'' = ''ticker''"
  "get_token ''user.changes'' = ''changes''" "get_token ''user.changes.123'' = ''changes''"
  "get_token ''instrument.state'' = ''instrument_state''" "get_token ''instrument.state.123'' = ''instrument_state''"
  "get_token ''chart.trades'' = ''chart_trades''" "get_token ''chart.trades.123'' = ''chart_trades''"
  by (simp_all add: get_token_def find_dot_def part_after_def Let_def)

lemma takeWhile_no_dot:
  "CHR ''.'' \<notin> set a \<Longrightarrow> takeWhile (\<lambda>c. c \<noteq> CHR ''.'') a = a"
  "CHR ''.'' \<notin> set a \<Longrightarrow> takeWhile (\<lambda>c. c \<noteq> CHR ''.'') (a @ CHR ''.'' # b) = a"
  by (induction a) auto

lemma find_dot_append:
  "CHR ''.'' \<notin> set a \<Longrightarrow> find_dot (p @ a @ CHR ''.'' # b) (length p) = Some (length p + length a)"
  by (simp add: find_dot_def takeWhile_no_dot Let_def)

lemma find_dot_append_none:
  "CHR ''.'' \<notin> set a \<Longrightarrow> find_dot (p @ a) (length p) = None"
  by (simp add: find_dot_def takeWhile_no_dot Let_def)

text \<open>A channel with a dot of its own family goes by its first part, whatever follows.\<close>

lemma get_token_plain:
  assumes "CHR ''.'' \<notin> set a" "a \<notin> {''user'', ''instrument'', ''chart''}"
  shows "get_token (a @ CHR ''.'' # b) = a" "get_token a = a"
  using assms find_dot_append [of a "[]" b] find_dot_append_none [of a "[]"] by (simp_all add: get_token_def Let_def)

lemma get_token_user:
  "CHR ''.'' \<notin> set a \<Longrightarrow> get_token (''user.'' @ a @ CHR ''.'' # b) = a"
  "CHR ''.'' \<notin> set a \<Longrightarrow> get_token (''user.'' @ a) = a"
  using find_dot_append [of "''user''" "[]" "a @ CHR ''.'' # b"] find_dot_append [of "''user''" "[]" a]
    find_dot_append [of a "''user.''" b] find_dot_append_none [of a "''user.''"]
  by (simp_all add: get_token_def part_after_def Let_def)

lemma chart_symbol_channel:
  assumes "CHR ''.'' \<notin> set nm"
  shows "chart_symbol (''chart.trades.'' @ nm @ CHR ''.'' # b) = nm"
  using find_dot_append [of "''chart''" "[]" "''trades.'' @ nm @ CHR ''.'' # b"]
    find_dot_append [of "''trades''" "''chart.''" "nm @ CHR ''.'' # b"]
    find_dot_append [of nm "''chart.trades.''" b] assms
  by (simp add: chart_symbol_def)

section \<open>Routing\<close>

definition KNOWN_KEYS :: "string list" where
  "KNOWN_KEYS = [KEY_JSONRPC, KEY_ID, KEY_ERROR, KEY_RESULT, KEY_METHOD, KEY_PARAMS, KEY_CHANNEL]"

text \<open>The hash tells the keys \<open>ks\<close> apart from the known ones, and these from each other.\<close>

definition separates :: "externals \<Rightarrow> string list \<Rightarrow> bool" where
  "separates x ks \<longleftrightarrow> (\<forall>k\<in>set (KNOWN_KEYS @ ks). \<forall>c\<in>set KNOWN_KEYS. fnv x k = fnv x c \<longrightarrow> k = c)"

fun inner_keys :: "json_value \<Rightarrow> string list" where
  "inner_keys (JObject kvs) = map fst kvs"
| "inner_keys v = []"

definition all_keys :: "(string \<times> json_value) list \<Rightarrow> string list" where
  "all_keys kvs = map fst kvs @ concat (map (inner_keys \<circ> snd) kvs)"

text \<open>A member that names neither a request nor a channel.\<close>

definition plain_member :: "string \<times> json_value \<Rightarrow> bool" where
  "plain_member kv \<longleftrightarrow> fst kv \<notin> {KEY_ID, KEY_PARAMS} \<and> (fst kv = KEY_METHOD \<longrightarrow> snd kv = JString ''subscription'')"

text \<open>The member that addresses a message, and the decoder that it selects.\<close>

inductive addresses :: "json_lib \<Rightarrow> string \<times> json_value \<Rightarrow> (string \<Rightarrow> json_event option) \<Rightarrow> bool" for jx where
  response: "request_decoder jx (jx_request_type jx t) = Some d \<Longrightarrow> addresses jx (KEY_ID, JString t) d"
| notification: "channel_decoder jx (parse_channel jx nm) = Some d \<Longrightarrow>
    KEY_CHANNEL \<notin> fst ` set pre \<Longrightarrow> KEY_CHANNEL \<notin> fst ` set post \<Longrightarrow>
    addresses jx (KEY_PARAMS, JObject (pre @ (KEY_CHANNEL, JString nm) # post)) d"

lemma known_keys_distinct:
  "distinct KNOWN_KEYS"
  by (simp add: KNOWN_KEYS_def KEY_JSONRPC_def KEY_ID_def KEY_ERROR_def KEY_RESULT_def KEY_METHOD_def
      KEY_PARAMS_def KEY_CHANNEL_def)

lemma visit_members_skip:
  "(\<And>kv. kv \<in> set pre \<Longrightarrow> f kv s r = ((s, r), Inr r)) \<Longrightarrow> \<not> r \<Longrightarrow>
   visit_members stops f (pre @ kvs) s r = visit_members stops f kvs s r"
  by (induction pre) auto

lemma visit_members_rest:
  "(\<And>kv. kv \<in> set post \<Longrightarrow> f kv s True = ((s, True), Inr True)) \<Longrightarrow>
   visit_members stops f post s True = ((s, True), None)"
  by (induction post) auto

lemma visit_members_one:
  assumes "\<And>kv s r. kv \<in> set (pre @ post) \<Longrightarrow> f kv s r = ((s, r), Inr r)"
    and "f m s False = ((s', True), Inr True)"
  shows "visit_members stops f (pre @ m # post) s False = ((s', True), None)"
  using assms by (simp add: visit_members_skip visit_members_rest)

lemma separates_key:
  assumes "separates x ks" "k \<in> set ks" "c \<in> set KNOWN_KEYS"
  shows "fnv x k = fnv x c \<longleftrightarrow> k = c"
  using assms by (auto simp: separates_def)

lemma separates_known:
  assumes "separates x ks" "k \<in> set KNOWN_KEYS" "c \<in> set KNOWN_KEYS"
  shows "fnv x k = fnv x c \<longleftrightarrow> k = c"
  using assms by (auto simp: separates_def)

lemma separates_mono: "separates x ks \<Longrightarrow> set ks' \<subseteq> set ks \<Longrightarrow> separates x ks'"
  by (auto simp: separates_def)

lemma in_known_keys:
  "KEY_JSONRPC \<in> set KNOWN_KEYS" "KEY_ID \<in> set KNOWN_KEYS" "KEY_ERROR \<in> set KNOWN_KEYS"
  "KEY_RESULT \<in> set KNOWN_KEYS" "KEY_METHOD \<in> set KNOWN_KEYS" "KEY_PARAMS \<in> set KNOWN_KEYS"
  "KEY_CHANNEL \<in> set KNOWN_KEYS"
  by (simp_all add: KNOWN_KEYS_def)

lemma distinct_keys:
  "KEY_ID \<noteq> KEY_JSONRPC" "KEY_PARAMS \<noteq> KEY_JSONRPC" "KEY_PARAMS \<noteq> KEY_ID" "KEY_PARAMS \<noteq> KEY_ERROR"
  "KEY_PARAMS \<noteq> KEY_RESULT" "KEY_PARAMS \<noteq> KEY_METHOD"
  by (simp_all add: KEY_JSONRPC_def KEY_ID_def KEY_ERROR_def KEY_RESULT_def KEY_METHOD_def KEY_PARAMS_def)

lemma json_helper_plain:
  assumes "separates x ks" "fst kv \<in> set ks" "plain_member kv"
  shows "json_helper x jx h message kv s r = ((s, r), Inr r)"
  using assms by (cases kv)
    (auto simp: json_helper_def plain_member_def separates_key in_known_keys Let_def)

lemma helper_params_plain:
  assumes "separates x ks" "fst kv \<in> set ks" "fst kv \<noteq> KEY_CHANNEL"
  shows "helper_params x jx h message kv s r = ((s, r), Inr r)"
  using assms by (cases kv) (simp add: helper_params_def separates_key in_known_keys)

lemma json_helper_addresses:
  assumes "addresses jx kv d" "separates x (fst kv # inner_keys (snd kv))" "d message = Some e" "h e s = (s', None)"
  shows "json_helper x jx h message kv s False = ((s', True), Inr True)"
  using assms
proof cases
  case (response t)
  then have "json_helper x jx h message kv s False = json_dispatch_helper h d message s False"
    using assms(2) by (auto simp: json_helper_def separates_known in_known_keys distinct_keys request_decoder_def
        split: json_request_type.splits)
  then show ?thesis using assms(3,4) by (simp add: json_dispatch_helper_def)
next
  case (notification nm pre post)
  let ?f = "helper_params x jx h message"
  have "?f m t r = ((t, r), Inr r)" if "m \<in> set (pre @ post)" for m t r
    by (rule helper_params_plain [OF assms(2)]) (use that notification in force)+
  moreover have "?f (KEY_CHANNEL, JString nm) s False = ((s', True), Inr True)"
    using notification assms(3,4) by (simp add: helper_params_def json_dispatch_helper_def)
  ultimately have "visit_members (jx_stops jx) ?f (pre @ (KEY_CHANNEL, JString nm) # post) s False = ((s', True), None)"
    by (rule visit_members_one)
  then show ?thesis
    using notification assms(2) by (simp add: json_helper_def separates_known in_known_keys distinct_keys)
qed


section \<open>The contract of a handler\<close>

text \<open>
  A client of the parser: a handler of the messages that keeps an invariant. Whatever the
  text is, the dispatch keeps it, also where it ends with an exception.
\<close>

locale json_stream =
  fixes handle :: "json_event \<Rightarrow> 's \<Rightarrow> 's \<times> failure option" and inv :: "'s \<Rightarrow> bool"
  assumes handle_inv: "inv s \<Longrightarrow> inv (fst (handle e s))"
begin

lemma helper_inv:
  assumes "inv s"
  shows "inv (fst (fst (json_dispatch_helper handle d message s r)))"
proof (cases "d message")
  case (Some e)
  then show ?thesis using handle_inv [OF assms, of e]
    by (cases "handle e s") (simp add: json_dispatch_helper_def split: option.splits)
qed (simp add: json_dispatch_helper_def assms)

lemma visit_inv:
  "(\<And>kv s r. inv s \<Longrightarrow> inv (fst (fst (f kv s r)))) \<Longrightarrow> inv s \<Longrightarrow> inv (fst (fst (visit_members stops f kvs s r)))"
proof (induction kvs arbitrary: s r)
  case (Cons kv kvs)
  obtain s' r' b where f: "f kv s r = ((s', r'), b)" by (metis prod.exhaust)
  then have "inv s'" using Cons.prems(1) [OF Cons.prems(2), of kv r] by simp
  then show ?case using Cons.IH [OF Cons.prems(1)] f by (simp split: sum.splits)
qed simp

lemma params_inv: "inv s \<Longrightarrow> inv (fst (fst (helper_params x jx handle message kv s r)))"
  by (auto simp: helper_params_def helper_inv split: json_value.splits option.splits prod.splits)

lemma fst_params: "fst (case p of (sr, Some e) \<Rightarrow> (sr, Inl e) | (sr, None) \<Rightarrow> (sr, Inr True)) = fst p"
  by (simp split: prod.splits option.splits)

lemma member_inv: "inv s \<Longrightarrow> inv (fst (fst (json_helper x jx handle message kv s r)))"
  by (cases kv; cases "snd kv"; cases "jx_request_type jx (case snd kv of JString t \<Rightarrow> t | _ \<Rightarrow> [])")
    (simp_all add: json_helper_def helper_inv Let_def fst_params visit_inv [OF params_inv] request_decoder_def)

lemma dispatch_inv: "inv s \<Longrightarrow> inv (fst (fst (json_dispatch x jx allow handle message s)))"
  using visit_inv [of "json_helper x jx handle message" s "jx_stops jx" "jx_members jx message" False, OF member_inv]
  by (auto simp: json_dispatch_def split: prod.splits option.splits)

end

section \<open>A concrete reader\<close>

definition demo_json :: "(string \<times> json_value) list \<Rightarrow> json_lib" where
  "demo_json kvs = \<lparr>jx_members = (\<lambda>m. kvs), jx_stops = False,
     jx_request_type = (\<lambda>t. if t = ''auth'' then RT_AUTH else RT_UNKNOWN_INTERNAL), jx_request_text = (\<lambda>t. []),
     jx_channel = (\<lambda>t. if t = ''ticker'' then CH_TICKER else CH_UNKNOWN_INTERNAL),
     jx_auth = (\<lambda>m. Some 0), jx_subscribe_ack = (\<lambda>m. None), jx_platform_state = (\<lambda>m. None),
     jx_instrument_state = (\<lambda>m. None), jx_quote = (\<lambda>m. None),
     jx_ticker = (\<lambda>m. Some \<lparr>jt_instrument_name = ''X'', jt_state = JS_OPEN\<rparr>), jx_chart_trades = (\<lambda>m. None),
     jx_user_portfolio = (\<lambda>m. None), jx_user_changes = (\<lambda>m. None), jx_user_orders = (\<lambda>m. None),
     jx_user_trades = (\<lambda>m. None), jx_account_summary = (\<lambda>m. None), jx_user_trades_by_currency = (\<lambda>m. None)\<rparr>"

definition demo_members :: "(string \<times> json_value) list" where
  "demo_members = [(KEY_JSONRPC, JString ''2.0''), (KEY_METHOD, JString ''subscription''),
     (KEY_PARAMS, JObject [(KEY_CHANNEL, JString ''ticker.X.100ms''), (''data'', JOther)])]"

text \<open>A hash that separates: the position among the known keys.\<close>

definition key_index :: "string \<Rightarrow> nat" where
  "key_index s = length (takeWhile (\<lambda>k. k \<noteq> s) KNOWN_KEYS)"

definition demo_externals :: externals where
  "demo_externals = plain_externals\<lparr>fnv := (\<lambda>s. of_nat (key_index s))\<rparr>"

lemma key_index_le: "key_index s \<le> 7"
  using length_takeWhile_le [of "\<lambda>k. k \<noteq> s" KNOWN_KEYS] by (simp add: key_index_def KNOWN_KEYS_def)

lemma length_takeWhile_mem: "c \<in> set ks \<Longrightarrow> length (takeWhile (\<lambda>k. k \<noteq> c) ks) < length ks"
  by (induction ks) auto

lemma key_index_known:
  assumes "c \<in> set KNOWN_KEYS"
  shows "key_index c < length KNOWN_KEYS" "KNOWN_KEYS ! key_index c = c"
proof -
  show less: "key_index c < length KNOWN_KEYS"
    unfolding key_index_def using assms by (rule length_takeWhile_mem)
  show "KNOWN_KEYS ! key_index c = c"
    using nth_length_takeWhile [of "\<lambda>k. k \<noteq> c" KNOWN_KEYS] less by (simp add: key_index_def)
qed

lemma key_index_nth: "key_index s < length KNOWN_KEYS \<Longrightarrow> KNOWN_KEYS ! key_index s = s"
  using nth_length_takeWhile [of "\<lambda>k. k \<noteq> s" KNOWN_KEYS] by (simp add: key_index_def)

lemma demo_separates: "separates demo_externals ks"
proof -
  have "k = c" if c: "c \<in> set KNOWN_KEYS" and eq: "fnv demo_externals k = fnv demo_externals c" for k c
  proof -
    have "key_index k = key_index c"
      using eq key_index_le [of k] key_index_le [of c]
      by (simp add: demo_externals_def word_of_nat_eq_iff take_bit_eq_mod)
    then show ?thesis using key_index_known [OF c] key_index_nth [of k] by simp
  qed
  then show ?thesis by (auto simp: separates_def)
qed


end
