(* ===== verification/Web_Types.thy ===== *)
theory Web_Types
  imports Json_Parser Fix_Types
begin

text \<open>
  What the three JSON streams of the gateway share (\<open>gateway/rest.cpp\<close>,
  \<open>gateway/web_socket.cpp\<close>, \<open>gateway/drop_copy.cpp\<close>): the messages they publish, the calls
  they make on the connection, the queues, the download and the dispatcher of the framework,
  the text of their requests, the logon, and the reader of the web sockets. A queue of the
  framework is seen through the calls made on it.
\<close>

section \<open>Published messages\<close>

record market_segment_status =
  mg_stream_id :: uint16
  mg_exchange :: string
  mg_market_segment :: string
  mg_trading_status :: trading_status

record market_status =
  mt_stream_id :: uint16
  mt_exchange :: string
  mt_symbol :: string
  mt_trading_status :: trading_status

record funds_update =
  fu_stream_id :: uint16
  fu_account :: string
  fu_currency :: string
  fu_margin_mode :: margin_mode
  fu_balance :: double
  fu_hold :: double
  fu_borrowed :: double
  fu_unrealized_pnl :: double
  fu_update_type :: update_type
  fu_exchange_time_utc :: nanoseconds

text \<open>The fill of a trade of the drop copy has a currency of the commission.\<close>

record json_fill = fill +
  jf_commission_currency :: string

record json_trade_update =
  ju_stream_id :: uint16
  ju_account :: string
  ju_exchange :: string
  ju_symbol :: string
  ju_side :: side
  ju_create_time_utc :: nanoseconds
  ju_update_time_utc :: nanoseconds
  ju_external_order_id :: string
  ju_client_order_id :: string
  ju_fills :: "json_fill list"
  ju_update_type :: update_type

record tick_size_step =
  ts_min_price :: double
  ts_tick_size :: double

record json_reference_data = reference_data +
  jd_tick_size_steps :: "tick_size_step list"

record bar =
  br_begin_time_utc :: milliseconds
  br_confirmed :: bool
  br_open_price :: double
  br_high_price :: double
  br_low_price :: double
  br_close_price :: double
  br_quantity :: double
  br_base_amount :: double
  br_quote_amount :: double
  br_vwap :: double

record time_series_update =
  tm_stream_id :: uint16
  tm_exchange :: string
  tm_symbol :: string
  tm_interval :: nanoseconds
  tm_origin :: origin
  tm_bars :: "bar list"
  tm_update_type :: update_type

section \<open>Calls\<close>

text \<open>
  The states of the downloads of the web socket (\<open>CURRENCIES\<close> to \<open>SUBSCRIBE\<close>) and of the
  drop copy (\<open>SUBSCRIBE_USER_PORTFOLIO\<close> to \<open>GET_USER_TRADES_BY_CURRENCY\<close>).
\<close>

datatype web_state =
    WS_UNDEFINED | WS_CURRENCIES | WS_INSTRUMENTS | WS_SUBSCRIBE | WS_DONE

datatype drop_state =
    DC_UNDEFINED | DC_SUBSCRIBE_USER_PORTFOLIO | DC_SUBSCRIBE_USER_CHANGES | DC_SUBSCRIBE_USER_ORDERS
  | DC_SUBSCRIBE_USER_TRADES | DC_GET_ACCOUNT_SUMMARY | DC_GET_USER_TRADES_BY_CURRENCY | DC_DONE

datatype web_call =
    Web_Start
  | Web_Stop
  | Web_Close
  | Web_Touch nanoseconds
  | Web_SendText string
  | Web_Get string string string
  | Web_Download_Begin
  | Web_Download_Reset
  | Web_Download_Check web_state
  | Queue_Push string
  | Queue_Clear
  | Series_Push string
  | Request_Currencies
  | Request_Instruments
  | Commit_Currencies
  | Commit_Instruments
  | Handler_Latch
  | Handler_Currencies "string list"
  | Handler_Symbols "string list"
  | Web_StreamStatus stream_status
  | Web_ExternalLatency uint16 string nanoseconds
  | Web_MarketSegmentStatus market_segment_status bool
  | Web_MarketStatus market_status bool
  | Web_TopOfBook top_of_book bool
  | Web_Funds funds_update bool
  | Web_Trade json_trade_update bool
  | Web_ReferenceData json_reference_data bool
  | Web_TimeSeries time_series_update bool

section \<open>Functions of the framework\<close>

text \<open>
  \<open>wl_layer_equal\<close>: \<open>utils::is_equal\<close> of two layers; \<open>wl_layer_default\<close>: the layer
  \<open>Layer{}\<close>; \<open>wl_update a b\<close>: \<open>utils::update\<close> of a value \<open>a\<close> with \<open>b\<close>, the new value and
  whether it changed; \<open>wl_profit_loss\<close>: \<open>utils::compute_profit_loss_amount\<close>;
  \<open>wl_multiplier\<close>: the multiplier of the dispatcher's reference data of a symbol;
  \<open>wl_safe_cast\<close>: \<open>utils::safe_cast\<close> of a date.
\<close>

record web_lib =
  wl_layer_equal :: "layer \<Rightarrow> layer \<Rightarrow> bool"
  wl_layer_default :: layer
  wl_update :: "trading_status \<Rightarrow> trading_status \<Rightarrow> trading_status \<times> bool"
  wl_profit_loss :: "side \<Rightarrow> double \<Rightarrow> double \<Rightarrow> double \<Rightarrow> double"
  wl_multiplier :: "string \<Rightarrow> double"
  wl_safe_cast :: "milliseconds \<Rightarrow> milliseconds"

section \<open>Requests\<close>

text \<open>
  The text of a subscription: the method, what stands between the brackets of
  \<open>channels\<close>, and the identifier of the request.
\<close>

definition subscribe_text :: "string \<Rightarrow> string \<Rightarrow> string \<Rightarrow> string" where
  "subscribe_text method channels rid =
     ''{\"method\":\"'' @ method @ ''\",\"params\":{\"channels\":['' @ channels @ '']},\"id\":\"'' @ rid @ ''\"}''"

definition login_text :: "string \<Rightarrow> milliseconds \<Rightarrow> string \<Rightarrow> string \<Rightarrow> string \<Rightarrow> string" where
  "login_text key timestamp nonce signature rid =
     ''{\"method\":\"public/auth\",\"params\":{\"grant_type\":\"client_signature\",\"client_id\":\"'' @ key @
     ''\",\"timestamp\":\"'' @ show_int timestamp @ ''\",\"nonce\":\"'' @ nonce @
     ''\",\"data\":\"\",\"signature\":\"'' @ signature @ ''\"},\"id\":\"'' @ rid @ ''\"}''"

text \<open>\<open>login\<close> of both web sockets: the text that is sent and the account afterwards.\<close>

definition web_login :: "crypto_lib \<Rightarrow> json_lib \<Rightarrow> trace_info \<Rightarrow> nat list \<Rightarrow> account \<Rightarrow> string \<times> account" where
  "web_login cx jx ti draws a =
     (let nonce = create_nonce draws; ((signature, timestamp), a') = account_signature cx ti nonce a
      in (login_text (ac_key a) timestamp nonce signature (jx_request_text jx RT_AUTH), a'))"

section \<open>The reader of the web sockets\<close>

text \<open>
  \<open>parse\<close> of both web sockets: an exception of the dispatch ends the process, and so does
  \<open>log::fatal\<close>.
\<close>

definition web_parse ::
    "externals \<Rightarrow> json_lib \<Rightarrow> bool \<Rightarrow> (json_event \<Rightarrow> 's \<Rightarrow> 's outcome) \<Rightarrow> string \<Rightarrow> 's \<Rightarrow> 's outcome" where
  "web_parse x jx allow_unknown_event_types handle message s =
     (case json_dispatch x jx allow_unknown_event_types handle message s of
        ((s', result), None) \<Rightarrow> (s', None)
      | ((s', result), Some (Fatal m)) \<Rightarrow> (s', Some (Fatal m))
      | ((s', result), Some e) \<Rightarrow> (s', Some (Fatal ''Unhandled'')))"

lemma web_parse_state: "fst (web_parse x jx allow handle message s) = fst (fst (json_dispatch x jx allow handle message s))"
  by (simp add: web_parse_def split: prod.splits option.splits failure.splits)

text \<open>The trading status of the whole platform, in both web sockets.\<close>

definition platform_status :: "platform_state \<Rightarrow> trading_status" where
  "platform_status p = (if ps_locked p \<or> ps_maintenance p then TradingStatus_CLOSE else TradingStatus_OPEN)"

definition platform_update :: "uint16 \<Rightarrow> string \<Rightarrow> platform_state \<Rightarrow> market_segment_status" where
  "platform_update sid exchange p =
     \<lparr>mg_stream_id = sid, mg_exchange = exchange, mg_market_segment = ps_price_index p,
      mg_trading_status = platform_status p\<rparr>"

section \<open>Publishing changes\<close>

text \<open>
  A cache that is published when it changes: \<open>changes same c vs c'\<close> says that the values \<open>vs\<close>
  were published while the cached value went from \<open>c\<close> to \<open>c'\<close>, each different from the one
  before.
\<close>

definition changes :: "('v \<Rightarrow> 'v \<Rightarrow> bool) \<Rightarrow> 'v \<Rightarrow> 'v list \<Rightarrow> 'v \<Rightarrow> bool" where
  "changes same c vs c' \<longleftrightarrow> c' = last (c # vs) \<and> successively (\<lambda>a b. \<not> same a b) (c # vs)"

lemma changes_Nil [simp]: "changes same c [] c"
  by (simp add: changes_def)

lemma changes_one: "\<not> same c v \<Longrightarrow> changes same c [v] v"
  by (simp add: changes_def)

lemma changes_append: "changes same c vs c' \<Longrightarrow> changes same c' ws c'' \<Longrightarrow> changes same c (vs @ ws) c''"
proof (induction vs arbitrary: c)
  case (Cons v vs)
  then have "changes same v vs c'" by (auto simp: changes_def successively_Cons split: if_splits)
  from Cons.IH [OF this Cons.prems(2)] Cons.prems(1) show ?case
    by (auto simp: changes_def successively_Cons)
qed (simp add: changes_def)

text \<open>
  The contract of such a cache: every step of its owner publishes changes. Then, over any
  run, the cached value is the last published one and no value is published twice in a row.
\<close>

locale change_cache =
  fixes same :: "'v \<Rightarrow> 'v \<Rightarrow> bool" and cached :: "'k \<Rightarrow> 's \<Rightarrow> 'v" and published :: "'k \<Rightarrow> 's \<Rightarrow> 'v list"
    and step :: "'s \<Rightarrow> 's \<Rightarrow> bool"
  assumes step_changes: "step s s' \<Longrightarrow> \<exists>vs. published k s' = published k s @ vs \<and> changes same (cached k s) vs (cached k s')"
begin

lemma steps_change:
  "step\<^sup>*\<^sup>* s s' \<Longrightarrow> \<exists>vs. published k s' = published k s @ vs \<and> changes same (cached k s) vs (cached k s')"
proof (induction rule: rtranclp_induct)
  case (step t u)
  then obtain vs where vs: "published k t = published k s @ vs" "changes same (cached k s) vs (cached k t)" by blast
  obtain ws where "published k u = published k t @ ws" "changes same (cached k t) ws (cached k u)"
    using step_changes [OF step.hyps(2)] by blast
  then show ?case using vs changes_append [OF vs(2)] by (intro exI [of _ "vs @ ws"]) simp
qed (simp add: exI [of _ "[]"])

lemma run_changes:
  "step\<^sup>*\<^sup>* s s' \<Longrightarrow> published k s = [] \<Longrightarrow> changes same (cached k s) (published k s') (cached k s')"
  using steps_change [of s s' k] by auto

end

section \<open>A concrete instance\<close>

definition layer_zero :: layer where
  "layer_zero = \<lparr>bid_price = NaN, bid_quantity = NaN, ask_price = NaN, ask_quantity = NaN\<rparr>"

definition plain_web :: web_lib where
  "plain_web = \<lparr>wl_layer_equal = (=), wl_layer_default = layer_zero, wl_update = (\<lambda>a b. (b, a \<noteq> b)),
     wl_profit_loss = (\<lambda>d q p m. 0), wl_multiplier = (\<lambda>s. f_one), wl_safe_cast = (\<lambda>t. t)\<rparr>"

end
