(* ===== verification/Web_Socket.thy ===== *)
theory Web_Socket
  imports Web_Types
begin

text \<open>
  The web socket of the public data (\<open>gateway/web_socket.cpp\<close>): logon, the download of the
  currencies and instruments by the master, the subscriptions of its slice of the symbols,
  the top of book and the status of an instrument.
\<close>

record 'q web_socket =
  wk_stream_id :: uint16
  wk_master :: bool
  wk_publish_top_of_book :: bool
  wk_supports :: "support_type list"
  wk_account :: account
  wk_shared :: "'q shared"
  wk_top_of_book :: "string \<rightharpoonup> layer \<times> double"
  wk_trading_status :: "string \<rightharpoonup> trading_status"
  wk_ready :: bool
  wk_connection_status :: connection_status
  wk_out :: "web_call list"

section \<open>Construction\<close>

definition wk_get_publish_top_of_book :: "'q shared \<Rightarrow> bool" where
  "wk_get_publish_top_of_book sh \<longleftrightarrow> \<not> sh_multicast sh \<or> multicast_disable_top_of_book (sh_settings sh)"

definition wk_get_supports :: "bool \<Rightarrow> bool \<Rightarrow> support_type list" where
  "wk_get_supports master tob =
     (if master then [ST_MARKET_STATUS] else []) @ (if tob then [ST_TOP_OF_BOOK] else [])"

definition wk_create :: "uint16 \<Rightarrow> account \<Rightarrow> 'q shared \<Rightarrow> bool \<Rightarrow> 'q web_socket" where
  "wk_create sid a sh master =
     (let tob = wk_get_publish_top_of_book sh
      in \<lparr>wk_stream_id = sid, wk_master = master, wk_publish_top_of_book = tob,
          wk_supports = wk_get_supports master tob, wk_account = a, wk_shared = sh,
          wk_top_of_book = Map.empty, wk_trading_status = Map.empty, wk_ready = False,
          wk_connection_status = CS_UNDEFINED, wk_out = []\<rparr>)"

definition wk_exchange :: "'q web_socket \<Rightarrow> string" where
  "wk_exchange s = set_exchange (sh_settings (wk_shared s))"

definition wk_emit :: "web_call \<Rightarrow> 'q web_socket \<Rightarrow> 'q web_socket" where
  "wk_emit c s = s\<lparr>wk_out := wk_out s @ [c]\<rparr>"

section \<open>Connection\<close>

definition wk_on_connection_status :: "connection_status \<Rightarrow> string \<Rightarrow> 'q web_socket \<Rightarrow> 'q web_socket" where
  "wk_on_connection_status cs reason s =
     wk_emit (Web_StreamStatus \<lparr>ss_stream_id = wk_stream_id s, ss_account = [],
         ss_supports = wk_supports s, ss_transport = Transport_TCP, ss_protocol = Protocol_WS,
         ss_connection_status = cs, ss_reason = reason\<rparr>)
       (s\<lparr>wk_connection_status := cs\<rparr>)"

definition wk_notify :: "externals \<Rightarrow> connection_status \<Rightarrow> string \<Rightarrow> 'q web_socket \<Rightarrow> 'q web_socket" where
  "wk_notify x cs reason s =
     (if base_notify x (wk_connection_status s) cs then wk_on_connection_status cs reason s else s)"

definition wk_start :: "'q web_socket \<Rightarrow> 'q web_socket" where
  "wk_start s = wk_emit Web_Start s"

definition wk_stop :: "'q web_socket \<Rightarrow> 'q web_socket" where
  "wk_stop s = wk_emit Web_Stop s"

definition wk_disconnected :: "externals \<Rightarrow> 'q web_socket \<Rightarrow> 'q web_socket" where
  "wk_disconnected x s =
     wk_emit Queue_Clear (wk_emit Web_Download_Reset (wk_notify x CS_DISCONNECTED [] (s\<lparr>wk_ready := False\<rparr>)))"

definition wk_login :: "crypto_lib \<Rightarrow> json_lib \<Rightarrow> trace_info \<Rightarrow> nat list \<Rightarrow> 'q web_socket \<Rightarrow> 'q web_socket" where
  "wk_login cx jx ti draws s =
     (let (message, a) = web_login cx jx ti draws (wk_account s)
      in wk_emit (Web_SendText message) (s\<lparr>wk_account := a\<rparr>))"

definition wk_on_ready ::
    "externals \<Rightarrow> crypto_lib \<Rightarrow> json_lib \<Rightarrow> trace_info \<Rightarrow> nat list \<Rightarrow> 'q web_socket \<Rightarrow> 'q web_socket" where
  "wk_on_ready x cx jx ti draws s = wk_notify x CS_LOGIN_SENT [] (wk_login cx jx ti draws s)"

definition wk_latency :: "nanoseconds \<Rightarrow> 'q web_socket \<Rightarrow> 'q web_socket" where
  "wk_latency sample s = wk_emit (Web_ExternalLatency (wk_stream_id s) [] sample) s"

section \<open>Subscriptions\<close>

definition wk_subscribe_platform_state :: "json_lib \<Rightarrow> 'q web_socket \<Rightarrow> 'q web_socket" where
  "wk_subscribe_platform_state jx s =
     wk_emit (Queue_Push (subscribe_text ''public/subscribe'' ''\"platform_state\"''
       (jx_request_text jx RT_SUBSCRIBE_PLATFORM_STATE))) s"

definition wk_subscribe_instrument_state :: "json_lib \<Rightarrow> 'q web_socket \<Rightarrow> 'q web_socket" where
  "wk_subscribe_instrument_state jx s =
     wk_emit (Queue_Push (subscribe_text ''public/subscribe'' ''\"instrument.state.any.any\"''
       (jx_request_text jx RT_SUBSCRIBE_INSTRUMENT_STATE))) s"

definition quote_channels :: "string list \<Rightarrow> string" where
  "quote_channels symbols = ''\"quote.'' @ join_text ''\",\"quote.'' symbols @ ''\"''"

definition ticker_channels :: "string \<Rightarrow> string list \<Rightarrow> string" where
  "ticker_channels interval symbols =
     ''\"ticker.'' @ join_text (''.'' @ interval @ ''\",\"ticker.'') symbols @ ''.'' @ interval @ ''\"''"

definition chart_channels :: "string list \<Rightarrow> string" where
  "chart_channels symbols = ''\"chart.trades.'' @ join_text ''.1\",\"chart.trades.'' symbols @ ''.1\"''"

definition wk_subscribe_quote :: "json_lib \<Rightarrow> string list \<Rightarrow> 'q web_socket \<Rightarrow> 'q web_socket" where
  "wk_subscribe_quote jx symbols s =
     wk_emit (Queue_Push (subscribe_text ''public/subscribe'' (quote_channels symbols)
       (jx_request_text jx RT_SUBSCRIBE_QUOTE))) s"

definition wk_subscribe_ticker :: "json_lib \<Rightarrow> string list \<Rightarrow> 'q web_socket \<Rightarrow> 'q web_socket" where
  "wk_subscribe_ticker jx symbols s =
     wk_emit (Queue_Push (subscribe_text ''public/subscribe''
       (ticker_channels (ws_ticker_interval (sh_settings (wk_shared s))) symbols)
       (jx_request_text jx RT_SUBSCRIBE_TICKER))) s"

definition wk_subscribe_chart_trades :: "json_lib \<Rightarrow> string list \<Rightarrow> 'q web_socket \<Rightarrow> 'q web_socket" where
  "wk_subscribe_chart_trades jx symbols s =
     fold (\<lambda>symbol. wk_emit (Series_Push symbol)) symbols
       (wk_emit (Queue_Push (subscribe_text ''public/subscribe'' (chart_channels symbols)
         (jx_request_text jx RT_SUBSCRIBE_CHART_TRADES))) s)"

definition wk_subscribe_symbols :: "json_lib \<Rightarrow> string list \<Rightarrow> 'q web_socket \<Rightarrow> 'q web_socket" where
  "wk_subscribe_symbols jx symbols s =
     (let st = sh_settings (wk_shared s) in
      if symbols = [] then s
      else let s1 = (if \<not> ws_disable_quote st then wk_subscribe_quote jx symbols s else s);
               s2 = wk_subscribe_ticker jx symbols s1
        in if download_time_series_lookback st \<noteq> 0 then wk_subscribe_chart_trades jx symbols s2 else s2)"

text \<open>\<open>symbols\<close>: the slice of this stream from an offset on.\<close>

definition wk_subscribe :: "json_lib \<Rightarrow> string list \<Rightarrow> 'q web_socket \<Rightarrow> 'q web_socket" where
  "wk_subscribe jx symbols s = (if wk_ready s then wk_subscribe_symbols jx symbols s else s)"

section \<open>Download\<close>

definition wk_download ::
    "externals \<Rightarrow> json_lib \<Rightarrow> string list \<Rightarrow> web_state \<Rightarrow> 'q web_socket \<Rightarrow> int \<times> 'q web_socket" where
  "wk_download x jx symbols st s = (case st of
     WS_UNDEFINED \<Rightarrow> (0, s)
   | WS_CURRENCIES \<Rightarrow>
       if \<not> wk_master s then (0, s)
       else (1, wk_emit Request_Currencies (wk_notify x CS_DOWNLOADING ''CURRENCIES'' s))
   | WS_INSTRUMENTS \<Rightarrow>
       if \<not> wk_master s then (0, s)
       else (1, wk_emit Request_Instruments (wk_notify x CS_DOWNLOADING ''INSTRUMENTS'' s))
   | WS_SUBSCRIBE \<Rightarrow>
       (let s1 = wk_notify x CS_DOWNLOADING ''SUBSCRIBE'' (s\<lparr>wk_ready := True\<rparr>);
            s2 = (if wk_master s1 then wk_subscribe_instrument_state jx (wk_subscribe_platform_state jx s1) else s1)
        in (0, wk_subscribe jx symbols s2))
   | WS_DONE \<Rightarrow> (0, wk_notify x CS_READY [] (wk_emit Handler_Latch s)))"

text \<open>
  \<open>check_currencies\<close> and \<open>check_instruments\<close>: \<open>current\<close> is the state of the download, \<open>response\<close>
  whether the request has been answered; the download may then go on and call back, which is
  the argument \<open>advance\<close>.
\<close>

definition wk_check ::
    "web_state \<Rightarrow> web_state \<Rightarrow> bool \<Rightarrow> ('q web_socket \<Rightarrow> 'q web_socket) \<Rightarrow> 'q web_socket \<Rightarrow> 'q web_socket" where
  "wk_check expected current response advance s =
     (if current \<noteq> expected then s
      else if response then advance (wk_emit (Web_Download_Check expected) s) else s)"

text \<open>
  \<open>released\<close>: the messages that the queue hands out; the states of the download and of the
  two requests are read twice, before each check.
\<close>

definition wk_timer ::
    "bool \<Rightarrow> string list \<Rightarrow> web_state \<times> bool \<Rightarrow> web_state \<times> bool \<Rightarrow> ('q web_socket \<Rightarrow> 'q web_socket) \<Rightarrow>
     'q web_socket \<Rightarrow> 'q web_socket" where
  "wk_timer refreshed released currencies instruments_at advance s =
     (if \<not> refreshed then s
      else let s1 = (if wk_ready s then fold (\<lambda>m. wk_emit (Web_SendText m)) released s else s);
               s2 = wk_check WS_CURRENCIES (fst currencies) (snd currencies) advance s1
        in wk_check WS_INSTRUMENTS (fst instruments_at) (snd instruments_at) advance s2)"

section \<open>Messages\<close>

definition wk_auth :: "'q web_socket \<Rightarrow> 'q web_socket" where
  "wk_auth s = wk_emit Web_Download_Begin s"

definition wk_platform_state :: "platform_state \<Rightarrow> 'q web_socket \<Rightarrow> 'q web_socket outcome" where
  "wk_platform_state p s =
     (if \<not> wk_master s then (s, Some (Fatal ''Unexpected''))
      else (wk_emit (Web_MarketSegmentStatus (platform_update (wk_stream_id s) (wk_exchange s) p) True) s, None))"

definition wk_instrument_state :: "'q web_socket \<Rightarrow> 'q web_socket outcome" where
  "wk_instrument_state s = (if \<not> wk_master s then (s, Some (Fatal ''Unexpected'')) else (s, None))"

definition quote_layer :: "double \<Rightarrow> json_quote \<Rightarrow> layer" where
  "quote_layer m q =
     \<lparr>bid_price = jq_best_bid_price q, bid_quantity = fmul m (jq_best_bid_amount q),
      ask_price = jq_best_ask_price q, ask_quantity = fmul m (jq_best_ask_amount q)\<rparr>"

text \<open>The callback of \<open>get_top_of_book\<close>, on the cached layer and multiplier of the symbol.\<close>

definition wk_quote_callback ::
    "web_lib \<Rightarrow> json_quote \<Rightarrow> layer \<Rightarrow> double \<Rightarrow> 'q web_socket \<Rightarrow> 'q web_socket" where
  "wk_quote_callback wl q cached m s =
     (let new = quote_layer m q in
      if wl_layer_equal wl cached new then s
      else wk_emit (Web_TopOfBook
          \<lparr>tob_stream_id = wk_stream_id s, tob_exchange = wk_exchange s, tob_symbol = jq_instrument_name q,
           tob_layer = new, tob_update_type = UpdateType_SNAPSHOT, tob_exchange_time_utc = jq_timestamp q\<rparr> True)
        (s\<lparr>wk_top_of_book := (wk_top_of_book s)(jq_instrument_name q \<mapsto> (new, m))\<rparr>))"

definition wk_get_top_of_book ::
    "web_lib \<Rightarrow> string \<Rightarrow> (layer \<Rightarrow> double \<Rightarrow> 'q web_socket \<Rightarrow> 'q web_socket) \<Rightarrow> 'q web_socket \<Rightarrow> bool \<times> 'q web_socket" where
  "wk_get_top_of_book wl symbol callback s = (case wk_top_of_book s symbol of
     Some (l, m) \<Rightarrow> (True, callback l m s)
   | None \<Rightarrow> (case sh_multiplier (wk_shared s) symbol of
       None \<Rightarrow> (False, s)
     | Some m \<Rightarrow> (True, callback (wl_layer_default wl) m
         (s\<lparr>wk_top_of_book := (wk_top_of_book s)(symbol \<mapsto> (wl_layer_default wl, m))\<rparr>))))"

definition wk_quote :: "web_lib \<Rightarrow> trace_info \<Rightarrow> json_quote \<Rightarrow> 'q web_socket \<Rightarrow> 'q web_socket" where
  "wk_quote wl ti q s =
     (let s1 = wk_emit (Web_Touch (source_receive_time ti)) s in
      if wk_publish_top_of_book s1
      then snd (wk_get_top_of_book wl (jq_instrument_name q) (wk_quote_callback wl q) s1)
      else s1)"

text \<open>The map of the status gets an entry for every instrument that is asked for.\<close>

definition wk_ticker :: "web_lib \<Rightarrow> trace_info \<Rightarrow> json_ticker \<Rightarrow> 'q web_socket \<Rightarrow> 'q web_socket" where
  "wk_ticker wl ti t s =
     (let s1 = wk_emit (Web_Touch (source_receive_time ti)) s;
          symbol = jt_instrument_name t;
          ts = get_mapped TradingStatus_UNDEFINED (json_map_state (jt_state t));
          item = (case wk_trading_status s1 symbol of Some v \<Rightarrow> v | None \<Rightarrow> TradingStatus_UNDEFINED);
          s2 = s1\<lparr>wk_trading_status := (wk_trading_status s1)(symbol \<mapsto> item)\<rparr>
      in if ts = TradingStatus_UNDEFINED then s2
         else let (new, changed) = wl_update wl item ts;
                  s3 = s2\<lparr>wk_trading_status := (wk_trading_status s2)(symbol \<mapsto> new)\<rparr>
           in if changed
              then wk_emit (Web_MarketStatus \<lparr>mt_stream_id = wk_stream_id s3, mt_exchange = wk_exchange s3,
                  mt_symbol = symbol, mt_trading_status = ts\<rparr> True) s3
              else s3)"

definition wk_handle :: "web_lib \<Rightarrow> trace_info \<Rightarrow> json_event \<Rightarrow> 'q web_socket \<Rightarrow> 'q web_socket outcome" where
  "wk_handle wl ti e s = (case e of
     JE_Auth code \<Rightarrow> (wk_auth s, None)
   | JE_SubscribeAck code \<Rightarrow> (s, None)
   | JE_PlatformState p \<Rightarrow> wk_platform_state p s
   | JE_InstrumentState \<Rightarrow> wk_instrument_state s
   | JE_Quote q \<Rightarrow> (wk_quote wl ti q s, None)
   | JE_Ticker t \<Rightarrow> (wk_ticker wl ti t s, None)
   | JE_ChartTrades symbol interval \<Rightarrow> (s, None)
   | _ \<Rightarrow> (s, Some (Fatal ''Unexpected'')))"

definition wk_text ::
    "externals \<Rightarrow> json_lib \<Rightarrow> web_lib \<Rightarrow> trace_info \<Rightarrow> string \<Rightarrow> 'q web_socket \<Rightarrow> 'q web_socket outcome" where
  "wk_text x jx wl ti message s =
     web_parse x jx (experimental_allow_unknown_event_types (sh_settings (wk_shared s))) (wk_handle wl ti) message s"

definition wk_binary :: "'q web_socket \<Rightarrow> 'q web_socket outcome" where
  "wk_binary s = (s, Some (Fatal ''Unexpected''))"

section \<open>Runs\<close>

text \<open>What the download may do when it is told to go on: call back for any states.\<close>

definition wk_advances :: "externals \<Rightarrow> json_lib \<Rightarrow> ('q web_socket \<Rightarrow> 'q web_socket) \<Rightarrow> bool" where
  "wk_advances x jx advance \<longleftrightarrow>
     (\<forall>s. \<exists>calls. advance s = fold (\<lambda>(st, symbols) t. snd (wk_download x jx symbols st t)) calls s)"

text \<open>
  The calls of the framework and the gateway on this stream (\<open>wk_own\<close>); between these calls
  other streams change what they share with it.
\<close>

inductive wk_own :: "externals \<Rightarrow> crypto_lib \<Rightarrow> json_lib \<Rightarrow> web_lib \<Rightarrow> 'q web_socket \<Rightarrow> 'q web_socket \<Rightarrow> bool"
  for x cx jx wl where
  step_start: "wk_own x cx jx wl s (wk_start s)"
| step_stop: "wk_own x cx jx wl s (wk_stop s)"
| step_disconnected: "wk_own x cx jx wl s (wk_disconnected x s)"
| step_ready: "wk_own x cx jx wl s (wk_on_ready x cx jx ti draws s)"
| step_latency: "wk_own x cx jx wl s (wk_latency sample s)"
| step_download: "wk_own x cx jx wl s (snd (wk_download x jx symbols st s))"
| step_timer: "wk_advances x jx advance \<Longrightarrow>
    wk_own x cx jx wl s (wk_timer refreshed released currencies instruments_at advance s)"
| step_subscribe: "wk_own x cx jx wl s (wk_subscribe jx symbols s)"
| step_text: "wk_own x cx jx wl s (fst (wk_text x jx wl ti message s))"

inductive wk_step :: "externals \<Rightarrow> crypto_lib \<Rightarrow> json_lib \<Rightarrow> web_lib \<Rightarrow> 'q web_socket \<Rightarrow> 'q web_socket \<Rightarrow> bool"
  for x cx jx wl where
  own: "wk_own x cx jx wl s s' \<Longrightarrow> wk_step x cx jx wl s s'"
| shared: "wk_step x cx jx wl s (s\<lparr>wk_shared := sh, wk_account := a\<rparr>)"

section \<open>Top of book and market status\<close>

fun published_layers :: "string \<Rightarrow> web_call list \<Rightarrow> layer list" where
  "published_layers k [] = []"
| "published_layers k (Web_TopOfBook t l # cs) =
     (if tob_symbol t = k then [tob_layer t] else []) @ published_layers k cs"
| "published_layers k (c # cs) = published_layers k cs"

fun published_status :: "string \<Rightarrow> web_call list \<Rightarrow> trading_status list" where
  "published_status k [] = []"
| "published_status k (Web_MarketStatus m l # cs) =
     (if mt_symbol m = k then [mt_trading_status m] else []) @ published_status k cs"
| "published_status k (c # cs) = published_status k cs"

definition cached_layer :: "web_lib \<Rightarrow> string \<Rightarrow> 'q web_socket \<Rightarrow> layer" where
  "cached_layer wl k s = (case wk_top_of_book s k of Some (l, m) \<Rightarrow> l | None \<Rightarrow> wl_layer_default wl)"

definition cached_status :: "string \<Rightarrow> 'q web_socket \<Rightarrow> trading_status" where
  "cached_status k s = (case wk_trading_status s k of Some v \<Rightarrow> v | None \<Rightarrow> TradingStatus_UNDEFINED)"

lemma published_layers_append: "published_layers k (cs @ ds) = published_layers k cs @ published_layers k ds"
  by (induction k cs rule: published_layers.induct) auto

lemma published_status_append: "published_status k (cs @ ds) = published_status k cs @ published_status k ds"
  by (induction k cs rule: published_status.induct) auto

text \<open>
  The calls that publish neither; both lists of a single call say so, and the operations that
  only make such calls leave both caches alone.
\<close>

definition silent :: "web_call \<Rightarrow> bool" where
  "silent c \<longleftrightarrow> (\<forall>k. published_layers k [c] = [] \<and> published_status k [c] = [])"

definition same_caches :: "'q web_socket \<Rightarrow> 'q web_socket \<Rightarrow> bool" where
  "same_caches s s' \<longleftrightarrow> wk_top_of_book s' = wk_top_of_book s \<and> wk_trading_status s' = wk_trading_status s \<and>
     (\<forall>k. published_layers k (wk_out s') = published_layers k (wk_out s) \<and>
          published_status k (wk_out s') = published_status k (wk_out s))"

lemma same_caches_refl [simp]: "same_caches s s"
  by (simp add: same_caches_def)

lemma same_caches_emit [simp]: "silent c \<Longrightarrow> same_caches s (wk_emit c t) = same_caches s t"
  by (simp add: same_caches_def wk_emit_def silent_def published_layers_append published_status_append)

lemma same_caches_emits [simp]: "(\<And>a. silent (f a)) \<Longrightarrow> same_caches s (fold (\<lambda>a. wk_emit (f a)) as t) = same_caches s t"
  by (induction as arbitrary: t) simp_all

lemma same_caches_fields [simp]:
  "same_caches s (t\<lparr>wk_ready := b\<rparr>) = same_caches s t" "same_caches s (t\<lparr>wk_shared := sh\<rparr>) = same_caches s t"
  "same_caches s (t\<lparr>wk_account := a\<rparr>) = same_caches s t"
  "same_caches s (t\<lparr>wk_connection_status := cs\<rparr>) = same_caches s t"
  by (simp_all add: same_caches_def)

lemma silent_calls [simp]:
  "silent Web_Start" "silent Web_Stop" "silent (Web_Touch t)" "silent (Web_SendText m)" "silent Web_Download_Begin"
  "silent Web_Download_Reset" "silent (Web_Download_Check st)" "silent (Queue_Push m)" "silent Queue_Clear"
  "silent (Series_Push m)" "silent Request_Currencies" "silent Request_Instruments" "silent Handler_Latch"
  "silent (Web_StreamStatus u)" "silent (Web_ExternalLatency i a n)" "silent (Web_MarketSegmentStatus g l)"
  by (simp_all add: silent_def)

text \<open>A step of the stream: what it publishes for a symbol are changes of the two caches.\<close>

definition wk_pub :: "web_lib \<Rightarrow> 'q web_socket \<Rightarrow> 'q web_socket \<Rightarrow> bool" where
  "wk_pub wl s s' \<longleftrightarrow> (\<forall>k.
     (\<exists>vs. published_layers k (wk_out s') = published_layers k (wk_out s) @ vs \<and>
        changes (wl_layer_equal wl) (cached_layer wl k s) vs (cached_layer wl k s')) \<and>
     (\<exists>vs. published_status k (wk_out s') = published_status k (wk_out s) @ vs \<and> TradingStatus_UNDEFINED \<notin> set vs \<and>
        changes (=) (cached_status k s) vs (cached_status k s')))"

lemma wk_pub_same: "same_caches s s' \<Longrightarrow> wk_pub wl s s'"
  by (simp add: same_caches_def wk_pub_def cached_layer_def cached_status_def)

lemma wk_pub_trans:
  assumes "wk_pub wl s t" "wk_pub wl t u"
  shows "wk_pub wl s u"
  unfolding wk_pub_def
proof (intro allI conjI)
  fix k
  obtain vs ws where "published_layers k (wk_out t) = published_layers k (wk_out s) @ vs"
    "changes (wl_layer_equal wl) (cached_layer wl k s) vs (cached_layer wl k t)"
    "published_layers k (wk_out u) = published_layers k (wk_out t) @ ws"
    "changes (wl_layer_equal wl) (cached_layer wl k t) ws (cached_layer wl k u)"
    using assms unfolding wk_pub_def by meson
  then show "\<exists>vs. published_layers k (wk_out u) = published_layers k (wk_out s) @ vs \<and>
      changes (wl_layer_equal wl) (cached_layer wl k s) vs (cached_layer wl k u)"
    by (intro exI [of _ "vs @ ws"]) (simp add: changes_append)
next
  fix k
  obtain vs ws where "published_status k (wk_out t) = published_status k (wk_out s) @ vs" "TradingStatus_UNDEFINED \<notin> set vs"
    "changes (=) (cached_status k s) vs (cached_status k t)"
    "published_status k (wk_out u) = published_status k (wk_out t) @ ws" "TradingStatus_UNDEFINED \<notin> set ws"
    "changes (=) (cached_status k t) ws (cached_status k u)"
    using assms unfolding wk_pub_def by meson
  then show "\<exists>vs. published_status k (wk_out u) = published_status k (wk_out s) @ vs \<and> TradingStatus_UNDEFINED \<notin> set vs \<and>
      changes (=) (cached_status k s) vs (cached_status k u)"
    by (intro exI [of _ "vs @ ws"]) (simp add: changes_append)
qed

lemma same_notify [simp]: "same_caches s (wk_notify x cs reason t) = same_caches s t"
  by (simp add: wk_notify_def wk_on_connection_status_def)

lemma same_subscribe [simp]: "same_caches s (wk_subscribe jx symbols t) = same_caches s t"
  by (simp add: wk_subscribe_def wk_subscribe_symbols_def wk_subscribe_quote_def wk_subscribe_ticker_def
      wk_subscribe_chart_trades_def Let_def)

lemma same_download [simp]: "same_caches s (snd (wk_download x jx symbols st t)) = same_caches s t"
  by (cases st) (simp_all add: wk_download_def wk_subscribe_platform_state_def wk_subscribe_instrument_state_def Let_def)

lemma same_downloads [simp]:
  "same_caches s (fold (\<lambda>(st, symbols) t. snd (wk_download x jx symbols st t)) calls t) = same_caches s t"
  by (induction calls arbitrary: t) (simp_all add: case_prod_beta)

lemma same_advance: "wk_advances x jx advance \<Longrightarrow> same_caches s (advance t) = same_caches s t"
  unfolding wk_advances_def by (metis same_downloads)

lemma same_check: "wk_advances x jx advance \<Longrightarrow> same_caches s (wk_check expected current response advance t) = same_caches s t"
  by (simp add: wk_check_def same_advance)

lemma same_timer:
  "wk_advances x jx advance \<Longrightarrow>
   same_caches s (wk_timer refreshed released currencies instruments_at advance t) = same_caches s t"
  by (simp add: wk_timer_def Let_def same_check)

lemma same_ready [simp]: "same_caches s (wk_on_ready x cx jx ti draws t) = same_caches s t"
  by (simp add: wk_on_ready_def wk_login_def split: prod.split)

lemma same_disconnected [simp]: "same_caches s (wk_disconnected x t) = same_caches s t"
  by (simp add: wk_disconnected_def)

lemma wk_pub_emit:
  "silent c \<Longrightarrow> wk_pub wl s (wk_emit c s)"
  by (rule wk_pub_same) simp

lemma wk_pub_quote: "wk_pub wl s (wk_quote wl ti q s)"
proof -
  let ?s1 = "wk_emit (Web_Touch (source_receive_time ti)) s" and ?k = "jq_instrument_name q"
  have callback: "wk_pub wl t (wk_quote_callback wl q l m t)" if "wk_top_of_book t ?k = Some (l, m)" for l m t
    using that
    by (auto simp: wk_pub_def wk_quote_callback_def cached_layer_def cached_status_def wk_emit_def Let_def
        published_layers_append published_status_append changes_one)
  have default: "wk_pub wl t (t\<lparr>wk_top_of_book := (wk_top_of_book t)(?k \<mapsto> (wl_layer_default wl, m))\<rparr>)"
    if "wk_top_of_book t ?k = None" for t m
    using that by (auto simp: wk_pub_def cached_layer_def cached_status_def)
  have "wk_pub wl ?s1 (snd (wk_get_top_of_book wl ?k (wk_quote_callback wl q) ?s1))"
    by (auto simp: wk_get_top_of_book_def split: option.split intro: callback wk_pub_trans [OF default callback] wk_pub_same)
  then show ?thesis
    by (auto simp: wk_quote_def wk_pub_emit Let_def
        intro: wk_pub_trans [OF wk_pub_emit [of "Web_Touch (source_receive_time ti)"]])
qed

definition good_update :: "web_lib \<Rightarrow> bool" where
  "good_update wl \<longleftrightarrow> (\<forall>a b. wl_update wl a b = (b, a \<noteq> b))"

lemma wk_pub_ticker:
  assumes "good_update wl"
  shows "wk_pub wl s (wk_ticker wl ti t s)"
  using assms
  by (auto simp: wk_pub_def wk_ticker_def good_update_def cached_layer_def cached_status_def wk_emit_def Let_def
      published_layers_append published_status_append changes_one split: option.split)

lemma wk_pub_handle:
  assumes "good_update wl"
  shows "wk_pub wl s (fst (wk_handle wl ti e s))"
  using wk_pub_ticker [OF assms]
  by (cases e) (simp_all add: wk_handle_def wk_auth_def wk_platform_state_def wk_instrument_state_def wk_pub_quote
      wk_pub_emit wk_pub_same)

text \<open>The stream handles the messages of the parser.\<close>

interpretation ws: json_stream "wk_handle wl ti" "\<lambda>s. good_update wl \<longrightarrow> wk_pub wl s0 s" for wl ti s0
  by unfold_locales (blast intro: wk_pub_trans wk_pub_handle)

lemma wk_pub_text: "good_update wl \<Longrightarrow> wk_pub wl s (fst (wk_text x jx wl ti message s))"
  unfolding wk_text_def web_parse_state using ws.dispatch_inv [of wl s s] by (simp add: wk_pub_same)

lemma wk_own_pub:
  assumes "wk_own x cx jx wl s s'" "good_update wl"
  shows "wk_pub wl s s'"
  using assms
  by cases (auto simp: wk_start_def wk_stop_def wk_latency_def same_timer wk_pub_text wk_pub_emit intro: wk_pub_same)

lemma wk_step_pub: "wk_step x cx jx wl s s' \<Longrightarrow> good_update wl \<Longrightarrow> wk_pub wl s s'"
  by (cases rule: wk_step.cases) (auto dest: wk_own_pub intro: wk_pub_same)

text \<open>Two caches of the stream that are published when they change.\<close>

interpretation tob: change_cache "wl_layer_equal wl" "cached_layer wl" "\<lambda>k s. published_layers k (wk_out s)"
    "\<lambda>s s'. good_update wl \<and> wk_step x cx jx wl s s'" for wl x cx jx
  by unfold_locales (use wk_step_pub in \<open>unfold wk_pub_def, blast\<close>)

interpretation status: change_cache "(=)" cached_status "\<lambda>k s. published_status k (wk_out s)"
    "\<lambda>s s'. good_update wl \<and> wk_step x cx jx wl s s'" for wl x cx jx
  by unfold_locales (use wk_step_pub in \<open>unfold wk_pub_def, blast\<close>)

lemma steps_good: "(wk_step x cx jx wl)\<^sup>*\<^sup>* s s' \<Longrightarrow> good_update wl \<Longrightarrow>
   (\<lambda>s s'. good_update wl \<and> wk_step x cx jx wl s s')\<^sup>*\<^sup>* s s'"
  by simp

text \<open>The multiplier that a quote of a symbol is converted with.\<close>

definition quote_multiplier :: "'q web_socket \<Rightarrow> string \<Rightarrow> double option" where
  "quote_multiplier s k = (case wk_top_of_book s k of
     Some (l, m) \<Rightarrow> Some m | None \<Rightarrow> sh_multiplier (wk_shared s) k)"

lemma quote_cached:
  assumes "wk_publish_top_of_book s" "quote_multiplier s (jq_instrument_name q) = Some m"
  shows "cached_layer wl (jq_instrument_name q) (wk_quote wl ti q s) = quote_layer m q \<or>
    wl_layer_equal wl (cached_layer wl (jq_instrument_name q) (wk_quote wl ti q s)) (quote_layer m q)"
  using assms
  by (auto simp: wk_quote_def wk_get_top_of_book_def wk_quote_callback_def quote_multiplier_def cached_layer_def
      wk_emit_def Let_def split: option.splits prod.splits)

lemma wk_create_out: "wk_out (wk_create sid a sh master) = []" "cached_layer wl k (wk_create sid a sh master) = wl_layer_default wl"
  "cached_status k (wk_create sid a sh master) = TradingStatus_UNDEFINED"
  by (simp_all add: wk_create_def Let_def cached_layer_def cached_status_def)

lemma wk_run_layers:
  assumes "(wk_step x cx jx wl)\<^sup>*\<^sup>* (wk_create sid a sh master) s" "good_update wl"
  shows "changes (wl_layer_equal wl) (wl_layer_default wl) (published_layers k (wk_out s)) (cached_layer wl k s)"
  using tob.run_changes [OF steps_good [OF assms], of k] by (simp add: wk_create_out)


text \<open>The status of an instrument in the same way; an undefined status is never published.\<close>

lemma market_status_published_on_change:
  assumes "(wk_step x cx jx wl)\<^sup>*\<^sup>* (wk_create sid a sh master) s" "good_update wl"
  shows "successively (\<noteq>) (TradingStatus_UNDEFINED # published_status k (wk_out s))"
  using status.run_changes [OF steps_good [OF assms], of k] by (simp add: wk_create_out changes_def)

section \<open>Logon\<close>

text \<open>
  The answer to the logon starts the download whatever its error is: the stream goes on to
  subscribe on a connection that is not authenticated.
\<close>

lemma auth_error_ignored: "wk_handle wl ti (JE_Auth code) s = (wk_emit Web_Download_Begin s, None)"
  by (simp add: wk_handle_def wk_auth_def)

definition wk_demo :: "nat web_socket" where
  "wk_demo = wk_create 7 \<lparr>ac_name = ''A1'', ac_key = ''key'', ac_crypto = \<lparr>cr_secret = ''s'', cr_timestamp = 0\<rparr>\<rparr>
     ((empty_shared default_settings)\<lparr>sh_multiplier := [''X'' \<mapsto> f_one]\<rparr>) True"

definition wk_demo_quote :: json_quote where
  "wk_demo_quote = \<lparr>jq_instrument_name = ''X'', jq_best_bid_price = f_one, jq_best_bid_amount = f_one,
     jq_best_ask_price = f_one, jq_best_ask_amount = f_one, jq_timestamp = 0\<rparr>"


end
