(* ===== verification/Drop_Copy.thy ===== *)
theory Drop_Copy
  imports Web_Types
begin

text \<open>
  The web socket of an account (\<open>gateway/drop_copy.cpp\<close>): logon, the requests for each
  currency once the public data is complete (the latch), the balances and the trades. The
  download calls back for its states; \<open>ti\<close> is the time of the event that causes a request.
\<close>

record 'q drop_copy =
  dc_stream_id :: uint16
  dc_account :: account
  dc_shared :: "'q shared"
  dc_currencies :: "string list"
  dc_ready :: bool
  dc_connection_status :: connection_status
  dc_can_download :: bool
  dc_download_trades_is_first :: bool
  dc_out :: "web_call list"

definition dc_create :: "uint16 \<Rightarrow> account \<Rightarrow> 'q shared \<Rightarrow> 'q drop_copy" where
  "dc_create sid a sh =
     \<lparr>dc_stream_id = sid, dc_account = a, dc_shared = sh, dc_currencies = [], dc_ready = False,
      dc_connection_status = CS_UNDEFINED, dc_can_download = False, dc_download_trades_is_first = True, dc_out = []\<rparr>"

definition dc_emit :: "web_call \<Rightarrow> 'q drop_copy \<Rightarrow> 'q drop_copy" where
  "dc_emit c s = s\<lparr>dc_out := dc_out s @ [c]\<rparr>"

definition dc_exchange :: "'q drop_copy \<Rightarrow> string" where
  "dc_exchange s = set_exchange (sh_settings (dc_shared s))"

section \<open>Requests\<close>

definition get_download_trades_lookback :: "settings \<Rightarrow> bool \<Rightarrow> nanoseconds" where
  "get_download_trades_lookback st is_first =
     (if is_first \<and> download_trades_lookback_on_restart st \<noteq> 0 then download_trades_lookback_on_restart st
      else download_trades_lookback st)"

definition portfolio_text :: "json_lib \<Rightarrow> string list \<Rightarrow> string" where
  "portfolio_text jx currencies = subscribe_text ''private/subscribe''
     (''\"user.portfolio.'' @ join_text ''\",\"user.portfolio.'' currencies @ ''\"'')
     (jx_request_text jx RT_SUBSCRIBE_USER_PORTFOLIO)"

definition summary_text :: "json_lib \<Rightarrow> string \<Rightarrow> string" where
  "summary_text jx currency =
     ''{\"method\":\"private/get_account_summary\",\"params\":{\"currency\":\"'' @ currency @
     ''\",\"extended\":true},\"id\":\"'' @ jx_request_text jx RT_GET_ACCOUNT_SUMMARY @ ''\"}''"

definition trades_text :: "json_lib \<Rightarrow> milliseconds \<Rightarrow> string \<Rightarrow> string" where
  "trades_text jx start_timestamp currency =
     ''{\"method\":\"private/get_user_trades_by_currency\",\"params\":{\"currency\":\"'' @ currency @
     ''\",\"start_timestamp\":'' @ show_int start_timestamp @ ''},\"id\":\"'' @
     jx_request_text jx RT_GET_USER_TRADES_BY_CURRENCY @ ''\"}''"

definition dc_push :: "string \<Rightarrow> 'q drop_copy \<Rightarrow> 'q drop_copy" where
  "dc_push m s = dc_emit (Queue_Push m) s"

definition dc_subscribe_user_portfolio :: "json_lib \<Rightarrow> string list \<Rightarrow> 'q drop_copy \<Rightarrow> 'q drop_copy" where
  "dc_subscribe_user_portfolio jx currencies s = dc_push (portfolio_text jx currencies) s"

definition dc_subscribe_user_changes :: "json_lib \<Rightarrow> 'q drop_copy \<Rightarrow> 'q drop_copy" where
  "dc_subscribe_user_changes jx s = dc_push (subscribe_text ''private/subscribe'' ''\"user.changes.any.any.raw\"''
     (jx_request_text jx RT_SUBSCRIBE_USER_CHANGES)) s"

definition dc_subscribe_user_orders :: "json_lib \<Rightarrow> 'q drop_copy \<Rightarrow> 'q drop_copy" where
  "dc_subscribe_user_orders jx s = dc_push (subscribe_text ''private/subscribe'' ''\"user.orders.any.any.raw\"''
     (jx_request_text jx RT_SUBSCRIBE_USER_ORDERS)) s"

definition dc_subscribe_user_trades :: "json_lib \<Rightarrow> 'q drop_copy \<Rightarrow> 'q drop_copy" where
  "dc_subscribe_user_trades jx s = dc_push (subscribe_text ''private/subscribe'' ''\"user.trades.any.any.raw\"''
     (jx_request_text jx RT_SUBSCRIBE_USER_TRADES)) s"

definition dc_get_account_summary :: "json_lib \<Rightarrow> string list \<Rightarrow> 'q drop_copy \<Rightarrow> 'q drop_copy" where
  "dc_get_account_summary jx currencies s = fold (\<lambda>currency. dc_push (summary_text jx currency)) currencies s"

definition dc_get_user_trades_by_currency ::
    "json_lib \<Rightarrow> trace_info \<Rightarrow> string list \<Rightarrow> 'q drop_copy \<Rightarrow> 'q drop_copy" where
  "dc_get_user_trades_by_currency jx ti currencies s =
     (let lookback = get_download_trades_lookback (sh_settings (dc_shared s)) (dc_download_trades_is_first s);
          start_timestamp = ms_of_ns (origin_create_time_utc ti - lookback)
      in fold (\<lambda>currency. dc_push (trades_text jx start_timestamp currency)) currencies s)"

text \<open>The three requests that every currency needs.\<close>

definition dc_request_currencies :: "json_lib \<Rightarrow> trace_info \<Rightarrow> string list \<Rightarrow> 'q drop_copy \<Rightarrow> 'q drop_copy" where
  "dc_request_currencies jx ti currencies s =
     dc_get_user_trades_by_currency jx ti currencies
       (dc_get_account_summary jx currencies (dc_subscribe_user_portfolio jx currencies s))"

section \<open>Currencies and latch\<close>

definition dc_on_currencies :: "json_lib \<Rightarrow> trace_info \<Rightarrow> string list \<Rightarrow> 'q drop_copy \<Rightarrow> 'q drop_copy" where
  "dc_on_currencies jx ti currencies s =
     (let s1 = s\<lparr>dc_currencies := dc_currencies s @ currencies\<rparr>
      in if dc_ready s1 \<and> dc_can_download s1 then dc_request_currencies jx ti currencies s1 else s1)"

definition dc_latch :: "json_lib \<Rightarrow> trace_info \<Rightarrow> 'q drop_copy \<Rightarrow> 'q drop_copy" where
  "dc_latch jx ti s =
     (if dc_can_download s then s
      else let s1 = s\<lparr>dc_can_download := True\<rparr>
        in if dc_ready s1 then dc_request_currencies jx ti (dc_currencies s1) s1 else s1)"

section \<open>Connection\<close>

definition dc_on_connection_status :: "connection_status \<Rightarrow> string \<Rightarrow> 'q drop_copy \<Rightarrow> 'q drop_copy" where
  "dc_on_connection_status cs reason s =
     dc_emit (Web_StreamStatus \<lparr>ss_stream_id = dc_stream_id s, ss_account = ac_name (dc_account s),
         ss_supports = [ST_FUNDS], ss_transport = Transport_TCP, ss_protocol = Protocol_WS,
         ss_connection_status = cs, ss_reason = reason\<rparr>)
       (s\<lparr>dc_connection_status := cs\<rparr>)"

definition dc_notify :: "externals \<Rightarrow> connection_status \<Rightarrow> string \<Rightarrow> 'q drop_copy \<Rightarrow> 'q drop_copy" where
  "dc_notify x cs reason s =
     (if base_notify x (dc_connection_status s) cs then dc_on_connection_status cs reason s else s)"

definition dc_start :: "'q drop_copy \<Rightarrow> 'q drop_copy" where
  "dc_start s = dc_emit Web_Start s"

definition dc_stop :: "'q drop_copy \<Rightarrow> 'q drop_copy" where
  "dc_stop s = dc_emit Web_Stop s"

text \<open>\<open>released\<close>: the messages that the queue hands out.\<close>

definition dc_timer :: "bool \<Rightarrow> string list \<Rightarrow> 'q drop_copy \<Rightarrow> 'q drop_copy" where
  "dc_timer refreshed released s =
     (if refreshed \<and> dc_ready s then fold (\<lambda>m. dc_emit (Web_SendText m)) released s else s)"

definition dc_disconnected :: "externals \<Rightarrow> 'q drop_copy \<Rightarrow> 'q drop_copy" where
  "dc_disconnected x s =
     dc_emit Queue_Clear (dc_emit Web_Download_Reset (dc_notify x CS_DISCONNECTED [] (s\<lparr>dc_ready := False\<rparr>)))"

definition dc_login :: "crypto_lib \<Rightarrow> json_lib \<Rightarrow> trace_info \<Rightarrow> nat list \<Rightarrow> 'q drop_copy \<Rightarrow> 'q drop_copy" where
  "dc_login cx jx ti draws s =
     (let (message, a) = web_login cx jx ti draws (dc_account s)
      in dc_emit (Web_SendText message) (s\<lparr>dc_account := a\<rparr>))"

definition dc_on_ready ::
    "externals \<Rightarrow> crypto_lib \<Rightarrow> json_lib \<Rightarrow> trace_info \<Rightarrow> nat list \<Rightarrow> 'q drop_copy \<Rightarrow> 'q drop_copy" where
  "dc_on_ready x cx jx ti draws s = dc_notify x CS_LOGIN_SENT [] (dc_login cx jx ti draws s)"

definition dc_latency :: "nanoseconds \<Rightarrow> 'q drop_copy \<Rightarrow> 'q drop_copy" where
  "dc_latency sample s = dc_emit (Web_ExternalLatency (dc_stream_id s) (ac_name (dc_account s)) sample) s"

section \<open>Download\<close>

definition dc_download ::
    "externals \<Rightarrow> json_lib \<Rightarrow> trace_info \<Rightarrow> drop_state \<Rightarrow> 'q drop_copy \<Rightarrow> int \<times> 'q drop_copy" where
  "dc_download x jx ti st s = (case st of
     DC_UNDEFINED \<Rightarrow> (0, s)
   | DC_SUBSCRIBE_USER_PORTFOLIO \<Rightarrow> (0, if dc_can_download s
       then dc_subscribe_user_portfolio jx (dc_currencies s) (dc_notify x CS_DOWNLOADING ''SUBSCRIBE_USER_PORTFOLIO'' s) else s)
   | DC_SUBSCRIBE_USER_CHANGES \<Rightarrow>
       (0, dc_subscribe_user_changes jx (dc_notify x CS_DOWNLOADING ''SUBSCRIBE_USER_CHANGES'' s))
   | DC_SUBSCRIBE_USER_ORDERS \<Rightarrow>
       (0, dc_subscribe_user_orders jx (dc_notify x CS_DOWNLOADING ''SUBSCRIBE_USER_ORDERS'' s))
   | DC_SUBSCRIBE_USER_TRADES \<Rightarrow>
       (0, dc_subscribe_user_trades jx (dc_notify x CS_DOWNLOADING ''SUBSCRIBE_USER_TRADES'' s))
   | DC_GET_ACCOUNT_SUMMARY \<Rightarrow> (0, if dc_can_download s
       then dc_get_account_summary jx (dc_currencies s) (dc_notify x CS_DOWNLOADING ''GET_ACCOUNT_SUMMARY'' s) else s)
   | DC_GET_USER_TRADES_BY_CURRENCY \<Rightarrow> (0, if dc_can_download s
       then dc_get_user_trades_by_currency jx ti (dc_currencies s)
         (dc_notify x CS_DOWNLOADING ''GET_USER_TRADES_BY_CURRENCY'' s) else s)
   | DC_DONE \<Rightarrow> (0, (dc_notify x CS_READY [] s)\<lparr>dc_ready := True\<rparr>))"

section \<open>Messages\<close>

definition dc_auth :: "int \<Rightarrow> 'q drop_copy \<Rightarrow> 'q drop_copy outcome" where
  "dc_auth code s =
     (if code \<noteq> 0
      then (if experimental_retry_logon (sh_settings (dc_shared s)) then (dc_emit Web_Close s, None)
            else (s, Some (Fatal ''auth'')))
      else (dc_emit Web_Download_Begin s, None))"

definition dc_platform_state :: "platform_state \<Rightarrow> 'q drop_copy \<Rightarrow> 'q drop_copy" where
  "dc_platform_state p s =
     dc_emit (Web_MarketSegmentStatus (platform_update (dc_stream_id s) (dc_exchange s) p) True) s"

definition dc_user_portfolio :: "user_portfolio \<Rightarrow> 'q drop_copy \<Rightarrow> 'q drop_copy" where
  "dc_user_portfolio p s =
     dc_emit (Web_Funds \<lparr>fu_stream_id = dc_stream_id s, fu_account = ac_name (dc_account s),
       fu_currency = up_currency p,
       fu_margin_mode = (if up_cross_collateral_enabled p then MarginMode_CROSS else MarginMode_ISOLATED),
       fu_balance = up_balance p, fu_hold = NaN, fu_borrowed = NaN, fu_unrealized_pnl = NaN,
       fu_update_type = UpdateType_INCREMENTAL, fu_exchange_time_utc = up_creation_timestamp p\<rparr> True) s"

definition dc_fill :: "web_lib \<Rightarrow> 'q shared \<Rightarrow> json_trade \<Rightarrow> json_fill" where
  "dc_fill wl sh t =
     (let m = (case sh_multiplier sh (jr_instrument_name t) of None \<Rightarrow> f_one | Some m \<Rightarrow> m);
          quantity = fmul (jr_amount t) m;
          d = get_mapped Side_UNDEFINED (json_map_direction (jr_direction t))
      in \<lparr>fl_exchange_time_utc = jr_timestamp t,
          fl_external_trade_id = jr_instrument_name t @ ''#'' @ show_int (jr_trade_seq t),
          fl_quantity = quantity, fl_price = jr_price t,
          fl_liquidity = get_mapped Liquidity_UNDEFINED (json_map_liquidity (jr_liquidity t)),
          fl_commission_amount = jr_fee t, fl_base_amount = NaN, fl_quote_amount = NaN,
          fl_profit_loss_amount = wl_profit_loss wl d quantity (jr_price t) (wl_multiplier wl (jr_instrument_name t)),
          jf_commission_currency = jr_fee_currency t\<rparr>)"

definition dc_trade :: "web_lib \<Rightarrow> json_trade \<Rightarrow> bool \<Rightarrow> bool \<Rightarrow> 'q drop_copy \<Rightarrow> 'q drop_copy" where
  "dc_trade wl t is_download is_last s =
     dc_emit (Web_Trade \<lparr>ju_stream_id = dc_stream_id s, ju_account = ac_name (dc_account s),
       ju_exchange = dc_exchange s, ju_symbol = jr_instrument_name t,
       ju_side = get_mapped Side_UNDEFINED (json_map_direction (jr_direction t)),
       ju_create_time_utc = jr_timestamp t, ju_update_time_utc = jr_timestamp t,
       ju_external_order_id = jr_order_id t, ju_client_order_id = jr_label t,
       ju_fills = [dc_fill wl (dc_shared s) t],
       ju_update_type = (if is_download then UpdateType_SNAPSHOT else UpdateType_INCREMENTAL)\<rparr> is_last) s"

text \<open>The loop over the trades; the last one is marked.\<close>

fun dc_trades :: "web_lib \<Rightarrow> bool \<Rightarrow> json_trade list \<Rightarrow> 'q drop_copy \<Rightarrow> 'q drop_copy" where
  "dc_trades wl is_download [] s = s"
| "dc_trades wl is_download (t # ts) s = dc_trades wl is_download ts (dc_trade wl t is_download (ts = []) s)"

definition dc_user_changes :: "web_lib \<Rightarrow> json_trade list \<Rightarrow> 'q drop_copy \<Rightarrow> 'q drop_copy" where
  "dc_user_changes wl ts s = dc_trades wl False ts s"

definition dc_user_trades :: "web_lib \<Rightarrow> json_trade list \<Rightarrow> 'q drop_copy \<Rightarrow> 'q drop_copy" where
  "dc_user_trades wl ts s = (dc_trades wl True ts s)\<lparr>dc_download_trades_is_first := False\<rparr>"

definition dc_handle :: "web_lib \<Rightarrow> json_event \<Rightarrow> 'q drop_copy \<Rightarrow> 'q drop_copy outcome" where
  "dc_handle wl e s = (case e of
     JE_Auth code \<Rightarrow> dc_auth code s
   | JE_SubscribeAck code \<Rightarrow> (s, None)
   | JE_PlatformState p \<Rightarrow> (dc_platform_state p s, None)
   | JE_InstrumentState \<Rightarrow> (s, Some (Fatal ''Unexpected''))
   | JE_Quote q \<Rightarrow> (s, Some (Fatal ''Unexpected''))
   | JE_Ticker t \<Rightarrow> (s, Some (Fatal ''Unexpected''))
   | JE_ChartTrades symbol interval \<Rightarrow> (s, Some (Fatal ''Unexpected''))
   | JE_UserPortfolio p \<Rightarrow> (dc_user_portfolio p s, None)
   | JE_UserChanges ts \<Rightarrow> (dc_user_changes wl ts s, None)
   | JE_UserOrders \<Rightarrow> (s, None)
   | JE_UserTrades ts \<Rightarrow> (dc_user_trades wl ts s, None)
   | JE_GetAccountSummaryAck \<Rightarrow> (s, None)
   | JE_GetUserTradesByCurrencyAck \<Rightarrow> (s, None))"

definition dc_text :: "externals \<Rightarrow> json_lib \<Rightarrow> web_lib \<Rightarrow> string \<Rightarrow> 'q drop_copy \<Rightarrow> 'q drop_copy outcome" where
  "dc_text x jx wl message s =
     web_parse x jx (experimental_allow_unknown_event_types (sh_settings (dc_shared s))) (dc_handle wl) message s"

definition dc_binary :: "'q drop_copy \<Rightarrow> 'q drop_copy outcome" where
  "dc_binary s = (s, Some (Fatal ''Unexpected''))"

section \<open>Runs\<close>

text \<open>
  The download of the framework, when it begins: it calls back for the states in the order
  of the enumeration, and goes on at once because every callback returns zero.
\<close>

definition DROP_STATES :: "drop_state list" where
  "DROP_STATES = [DC_SUBSCRIBE_USER_PORTFOLIO, DC_SUBSCRIBE_USER_CHANGES, DC_SUBSCRIBE_USER_ORDERS,
     DC_SUBSCRIBE_USER_TRADES, DC_GET_ACCOUNT_SUMMARY, DC_GET_USER_TRADES_BY_CURRENCY, DC_DONE]"

definition dc_runs_download :: "externals \<Rightarrow> json_lib \<Rightarrow> trace_info \<Rightarrow> ('q drop_copy \<Rightarrow> 'q drop_copy) \<Rightarrow> bool" where
  "dc_runs_download x jx ti run \<longleftrightarrow> (\<forall>s. run s = fold (\<lambda>st t. snd (dc_download x jx ti st t)) DROP_STATES s)"

text \<open>
  The calls of the framework on this stream (\<open>dc_event\<close>), and those of the gateway as well
  (\<open>dc_own\<close>); the download only begins on a stream that is not ready, which the code asserts.
  Between these calls other streams change what they share with it.
\<close>

inductive dc_event :: "externals \<Rightarrow> crypto_lib \<Rightarrow> json_lib \<Rightarrow> web_lib \<Rightarrow> 'q drop_copy \<Rightarrow> 'q drop_copy \<Rightarrow> bool"
  for x cx jx wl where
  step_start: "dc_event x cx jx wl s (dc_start s)"
| step_stop: "dc_event x cx jx wl s (dc_stop s)"
| step_timer: "dc_event x cx jx wl s (dc_timer refreshed released s)"
| step_disconnected: "dc_event x cx jx wl s (dc_disconnected x s)"
| step_ready: "dc_event x cx jx wl s (dc_on_ready x cx jx ti draws s)"
| step_latency: "dc_event x cx jx wl s (dc_latency sample s)"
| step_text: "dc_event x cx jx wl s (fst (dc_text x jx wl message s))"
| step_download: "dc_runs_download x jx ti run \<Longrightarrow> \<not> dc_ready s \<Longrightarrow> dc_event x cx jx wl s (run s)"

inductive dc_own :: "externals \<Rightarrow> crypto_lib \<Rightarrow> json_lib \<Rightarrow> web_lib \<Rightarrow> 'q drop_copy \<Rightarrow> 'q drop_copy \<Rightarrow> bool"
  for x cx jx wl where
  event: "dc_event x cx jx wl s s' \<Longrightarrow> dc_own x cx jx wl s s'"
| step_currencies: "dc_own x cx jx wl s (dc_on_currencies jx ti currencies s)"
| step_latch: "dc_own x cx jx wl s (dc_latch jx ti s)"

inductive dc_step :: "externals \<Rightarrow> crypto_lib \<Rightarrow> json_lib \<Rightarrow> web_lib \<Rightarrow> 'q drop_copy \<Rightarrow> 'q drop_copy \<Rightarrow> bool"
  for x cx jx wl where
  own: "dc_own x cx jx wl s s' \<Longrightarrow> dc_step x cx jx wl s s'"
| shared: "dc_step x cx jx wl s (s\<lparr>dc_shared := sh, dc_account := a\<rparr>)"

section \<open>What a session asks for\<close>

text \<open>The messages given to the queue since it was last cleared, at the loss of the connection.\<close>

definition session_pushes :: "web_call list \<Rightarrow> string list" where
  "session_pushes cs = concat (map (\<lambda>c. case c of Queue_Push m \<Rightarrow> [m] | _ \<Rightarrow> [])
     (rev (takeWhile (\<lambda>c. c \<noteq> Queue_Clear) (rev cs))))"

lemma session_pushes_Nil [simp]: "session_pushes [] = []"
  by (simp add: session_pushes_def)

lemma session_pushes_snoc:
  "session_pushes (cs @ [c]) =
     (if c = Queue_Clear then [] else session_pushes cs @ (case c of Queue_Push m \<Rightarrow> [m] | _ \<Rightarrow> []))"
  by (simp add: session_pushes_def)

fun starts_with :: "string \<Rightarrow> string \<Rightarrow> bool" where
  "starts_with [] s = True"
| "starts_with (p # ps) [] = False"
| "starts_with (p # ps) (c # cs) \<longleftrightarrow> p = c \<and> starts_with ps cs"

text \<open>The requests about currencies, told from the others by how their text begins.\<close>

definition about_currencies :: "string \<Rightarrow> bool" where
  "about_currencies m \<longleftrightarrow>
     starts_with ''{\"method\":\"private/subscribe\",\"params\":{\"channels\":[\"user.portfolio.'' m \<or>
     starts_with ''{\"method\":\"private/get_'' m"

definition currency_requests :: "'q drop_copy \<Rightarrow> string list" where
  "currency_requests s = filter about_currencies (session_pushes (dc_out s))"

text \<open>
  The requests of a batch of currencies that were asked for together: one subscription of
  their portfolios, their summaries, and their trades since a time.
\<close>

definition batch_texts :: "json_lib \<Rightarrow> milliseconds \<times> string list \<Rightarrow> string list" where
  "batch_texts jx b = portfolio_text jx (snd b) # map (summary_text jx) (snd b) @ map (trades_text jx (fst b)) (snd b)"

lemma about_currencies_texts [simp]:
  "about_currencies (portfolio_text jx cs)" "about_currencies (summary_text jx c)" "about_currencies (trades_text jx t c)"
  by (simp_all add: about_currencies_def portfolio_text_def subscribe_text_def summary_text_def trades_text_def)

fun queue_call :: "web_call \<Rightarrow> bool" where
  "queue_call (Queue_Push m) = True"
| "queue_call Queue_Clear = True"
| "queue_call c = False"

lemma dc_emit_fields [simp]:
  "dc_ready (dc_emit c s) = dc_ready s" "dc_can_download (dc_emit c s) = dc_can_download s"
  "dc_currencies (dc_emit c s) = dc_currencies s" "dc_shared (dc_emit c s) = dc_shared s"
  "dc_download_trades_is_first (dc_emit c s) = dc_download_trades_is_first s"
  by (simp_all add: dc_emit_def)

lemma dc_push_fields [simp]:
  "dc_ready (dc_push m s) = dc_ready s" "dc_can_download (dc_push m s) = dc_can_download s"
  "dc_currencies (dc_push m s) = dc_currencies s" "dc_shared (dc_push m s) = dc_shared s"
  "dc_download_trades_is_first (dc_push m s) = dc_download_trades_is_first s"
  by (simp_all add: dc_push_def)

lemma currency_requests_emit [simp]:
  "\<not> queue_call c \<Longrightarrow> currency_requests (dc_emit c s) = currency_requests s"
  by (cases c) (simp_all add: currency_requests_def dc_emit_def session_pushes_snoc)

lemma currency_requests_push [simp]:
  "currency_requests (dc_push m s) = currency_requests s @ (if about_currencies m then [m] else [])"
  by (simp add: currency_requests_def dc_push_def dc_emit_def session_pushes_snoc)

lemma currency_requests_clear [simp]: "currency_requests (dc_emit Queue_Clear s) = []"
  by (simp add: currency_requests_def dc_emit_def session_pushes_snoc)

lemma currency_requests_fields [simp]:
  "currency_requests (s\<lparr>dc_ready := b\<rparr>) = currency_requests s"
  "currency_requests (s\<lparr>dc_can_download := b\<rparr>) = currency_requests s"
  "currency_requests (s\<lparr>dc_currencies := cs\<rparr>) = currency_requests s"
  "currency_requests (s\<lparr>dc_account := a\<rparr>) = currency_requests s"
  "currency_requests (s\<lparr>dc_shared := sh\<rparr>) = currency_requests s"
  "currency_requests (s\<lparr>dc_connection_status := c\<rparr>) = currency_requests s"
  "currency_requests (s\<lparr>dc_download_trades_is_first := b\<rparr>) = currency_requests s"
  by (simp_all add: currency_requests_def)

lemma currency_requests_others [simp]:
  "currency_requests (dc_subscribe_user_changes jx s) = currency_requests s"
  "currency_requests (dc_subscribe_user_orders jx s) = currency_requests s"
  "currency_requests (dc_subscribe_user_trades jx s) = currency_requests s"
  by (simp_all add: dc_subscribe_user_changes_def dc_subscribe_user_orders_def dc_subscribe_user_trades_def
      about_currencies_def subscribe_text_def)

lemma dc_subscribe_fields [simp]:
  "dc_ready (dc_subscribe_user_changes jx s) = dc_ready s" "dc_can_download (dc_subscribe_user_changes jx s) = dc_can_download s"
  "dc_currencies (dc_subscribe_user_changes jx s) = dc_currencies s"
  "dc_ready (dc_subscribe_user_orders jx s) = dc_ready s" "dc_can_download (dc_subscribe_user_orders jx s) = dc_can_download s"
  "dc_currencies (dc_subscribe_user_orders jx s) = dc_currencies s"
  "dc_ready (dc_subscribe_user_trades jx s) = dc_ready s" "dc_can_download (dc_subscribe_user_trades jx s) = dc_can_download s"
  "dc_currencies (dc_subscribe_user_trades jx s) = dc_currencies s"
  by (simp_all add: dc_subscribe_user_changes_def dc_subscribe_user_orders_def dc_subscribe_user_trades_def)

lemma fold_push_fields [simp]:
  "dc_ready (fold (\<lambda>a. dc_push (f a)) as s) = dc_ready s"
  "dc_can_download (fold (\<lambda>a. dc_push (f a)) as s) = dc_can_download s"
  "dc_currencies (fold (\<lambda>a. dc_push (f a)) as s) = dc_currencies s"
  "dc_shared (fold (\<lambda>a. dc_push (f a)) as s) = dc_shared s"
  "dc_download_trades_is_first (fold (\<lambda>a. dc_push (f a)) as s) = dc_download_trades_is_first s"
  by (induction as arbitrary: s) simp_all

lemma currency_requests_pushes [simp]:
  "(\<And>a. about_currencies (f a)) \<Longrightarrow> currency_requests (fold (\<lambda>a. dc_push (f a)) as s) = currency_requests s @ map f as"
  by (induction as arbitrary: s) simp_all

lemma dc_notify_same [simp]:
  "dc_ready (dc_notify x cs r s) = dc_ready s" "dc_can_download (dc_notify x cs r s) = dc_can_download s"
  "dc_currencies (dc_notify x cs r s) = dc_currencies s" "dc_shared (dc_notify x cs r s) = dc_shared s"
  "dc_download_trades_is_first (dc_notify x cs r s) = dc_download_trades_is_first s"
  "currency_requests (dc_notify x cs r s) = currency_requests s"
  by (simp_all add: dc_notify_def dc_on_connection_status_def)

definition batches_ok :: "json_lib \<Rightarrow> 'q drop_copy \<Rightarrow> bool" where
  "batches_ok jx s \<longleftrightarrow> (\<exists>bs. currency_requests s = concat (map (batch_texts jx) bs) \<and>
     (if dc_ready s \<and> dc_can_download s then concat (map snd bs) = dc_currencies s else bs = []))"

text \<open>A step that changes neither the flags and currencies nor the requests about them.\<close>

definition same_requests :: "'q drop_copy \<Rightarrow> 'q drop_copy \<Rightarrow> bool" where
  "same_requests s s' \<longleftrightarrow> dc_ready s' = dc_ready s \<and> dc_can_download s' = dc_can_download s \<and>
     dc_currencies s' = dc_currencies s \<and> currency_requests s' = currency_requests s"

lemma same_requests_simps [simp]:
  "same_requests s s" "\<not> queue_call c \<Longrightarrow> same_requests s (dc_emit c t) = same_requests s t"
  "same_requests s (t\<lparr>dc_account := a\<rparr>) = same_requests s t"
  "same_requests s (t\<lparr>dc_shared := sh\<rparr>) = same_requests s t"
  "same_requests s (t\<lparr>dc_download_trades_is_first := b\<rparr>) = same_requests s t"
  "same_requests s (dc_notify x cs r t) = same_requests s t"
  by (simp_all add: same_requests_def)

lemma batches_ok_same: "same_requests s s' \<Longrightarrow> batches_ok jx s \<Longrightarrow> batches_ok jx s'"
  unfolding same_requests_def batches_ok_def by (elim conjE) (simp only:)

lemma batches_ok_simps [simp]:
  "\<not> queue_call c \<Longrightarrow> batches_ok jx (dc_emit c s) = batches_ok jx s"
  "batches_ok jx (s\<lparr>dc_shared := sh\<rparr>) = batches_ok jx s"
  "batches_ok jx (s\<lparr>dc_account := a\<rparr>) = batches_ok jx s"
  unfolding batches_ok_def by simp_all

lemma same_requests_trans: "same_requests s t \<Longrightarrow> same_requests t u \<Longrightarrow> same_requests s u"
  by (simp add: same_requests_def)

lemma same_released [simp]: "same_requests s (fold (\<lambda>m. dc_emit (Web_SendText m)) ms t) = same_requests s t"
  by (induction ms arbitrary: t) simp_all

lemma same_trades [simp]: "same_requests s (dc_trades wl d ts t) = same_requests s t"
  by (induction wl d ts t rule: dc_trades.induct) (simp_all add: dc_trade_def)

lemma same_handle: "same_requests s t \<Longrightarrow> same_requests s (fst (dc_handle wl e t))"
  by (cases e) (simp_all add: dc_handle_def dc_auth_def dc_platform_state_def dc_user_portfolio_def
      dc_user_changes_def dc_user_trades_def)

text \<open>The stream handles the messages of the parser.\<close>

interpretation dc: json_stream "dc_handle wl" "same_requests s0" for wl s0
  by unfold_locales (rule same_handle)

lemma same_text: "same_requests s (fst (dc_text x jx wl message s))"
  unfolding dc_text_def web_parse_state by (rule dc.dispatch_inv) simp

lemma dc_request_currencies_spec:
  "\<exists>t. currency_requests (dc_request_currencies jx ti cs s) = currency_requests s @ batch_texts jx (t, cs)"
  by (auto simp: dc_request_currencies_def dc_subscribe_user_portfolio_def dc_get_account_summary_def
      dc_get_user_trades_by_currency_def batch_texts_def Let_def)

lemma dc_request_currencies_fields [simp]:
  "dc_ready (dc_request_currencies jx ti cs s) = dc_ready s"
  "dc_can_download (dc_request_currencies jx ti cs s) = dc_can_download s"
  "dc_currencies (dc_request_currencies jx ti cs s) = dc_currencies s"
  by (simp_all add: dc_request_currencies_def dc_subscribe_user_portfolio_def dc_get_account_summary_def
      dc_get_user_trades_by_currency_def Let_def)

lemma batches_currencies:
  assumes "batches_ok jx s"
  shows "batches_ok jx (dc_on_currencies jx ti cs s)"
proof (cases "dc_ready s \<and> dc_can_download s")
  case True
  let ?s1 = "s\<lparr>dc_currencies := dc_currencies s @ cs\<rparr>"
  obtain bs where bs: "currency_requests s = concat (map (batch_texts jx) bs)" "concat (map snd bs) = dc_currencies s"
    using assms True by (auto simp: batches_ok_def)
  obtain t where "currency_requests (dc_request_currencies jx ti cs ?s1) = currency_requests ?s1 @ batch_texts jx (t, cs)"
    using dc_request_currencies_spec by blast
  then show ?thesis using bs True
    by (auto simp: batches_ok_def dc_on_currencies_def Let_def intro!: exI [of _ "bs @ [(t, cs)]"])
next
  case False
  then show ?thesis using assms by (auto simp: batches_ok_def dc_on_currencies_def Let_def)
qed

lemma batches_latch:
  assumes "batches_ok jx s"
  shows "batches_ok jx (dc_latch jx ti s)"
proof (cases "\<not> dc_can_download s \<and> dc_ready s")
  case True
  let ?s1 = "s\<lparr>dc_can_download := True\<rparr>"
  have "currency_requests s = []" using assms True by (auto simp: batches_ok_def)
  moreover obtain t where "currency_requests (dc_request_currencies jx ti (dc_currencies s) ?s1) =
      currency_requests ?s1 @ batch_texts jx (t, dc_currencies s)"
    using dc_request_currencies_spec by blast
  ultimately show ?thesis using True
    by (auto simp: batches_ok_def dc_latch_def Let_def intro!: exI [of _ "[(t, dc_currencies s)]"])
qed (use assms in \<open>auto simp: batches_ok_def dc_latch_def Let_def\<close>)

text \<open>The download asks for the known currencies, in one batch, where the latch is set.\<close>

lemma download_requests:
  assumes "dc_runs_download x jx ti run"
  shows "dc_ready (run s) \<and> dc_can_download (run s) = dc_can_download s \<and> dc_currencies (run s) = dc_currencies s \<and>
    (\<exists>t. currency_requests (run s) =
       currency_requests s @ (if dc_can_download s then batch_texts jx (t, dc_currencies s) else []))"
proof -
  have "run s = fold (\<lambda>st t. snd (dc_download x jx ti st t)) DROP_STATES s"
    using assms by (simp add: dc_runs_download_def)
  then show ?thesis
    by (auto simp: DROP_STATES_def dc_download_def dc_subscribe_user_portfolio_def dc_get_account_summary_def
        dc_get_user_trades_by_currency_def batch_texts_def Let_def)
qed

lemma batches_download:
  assumes "dc_runs_download x jx ti run" "\<not> dc_ready s" "batches_ok jx s"
  shows "batches_ok jx (run s)"
proof -
  have none: "currency_requests s = []" using assms(2,3) by (auto simp: batches_ok_def)
  obtain t where t: "currency_requests (run s) =
      currency_requests s @ (if dc_can_download s then batch_texts jx (t, dc_currencies s) else [])"
    using download_requests [OF assms(1), of s] by blast
  have flags: "dc_can_download (run s) = dc_can_download s" "dc_currencies (run s) = dc_currencies s" "dc_ready (run s)"
    using download_requests [OF assms(1), of s] by auto
  show ?thesis unfolding batches_ok_def
    by (rule exI [of _ "if dc_can_download s then [(t, dc_currencies s)] else []"])
      (use t none flags in auto)
qed

lemma batches_event:
  assumes "dc_event x cx jx wl s s'" "batches_ok jx s"
  shows "batches_ok jx s'"
  using assms(1)
proof cases
  case step_disconnected
  then show ?thesis by (simp add: batches_ok_def dc_disconnected_def)
next
  case (step_ready ti draws)
  have "same_requests s (dc_on_ready x cx jx ti draws s)"
    by (simp add: dc_on_ready_def dc_login_def split: prod.split)
  with step_ready show ?thesis using assms(2) batches_ok_same by blast
next
  case (step_timer refreshed released)
  have "same_requests s (dc_timer refreshed released s)" by (simp add: dc_timer_def)
  with step_timer show ?thesis using assms(2) batches_ok_same by blast
qed (use assms(2) in \<open>auto simp: batches_download dc_start_def dc_stop_def dc_latency_def
    intro: batches_ok_same [OF same_text]\<close>)

lemma batches_own: "dc_own x cx jx wl s s' \<Longrightarrow> batches_ok jx s \<Longrightarrow> batches_ok jx s'"
  by (cases rule: dc_own.cases) (auto dest: batches_event simp: batches_currencies batches_latch)

lemma batches_step: "dc_step x cx jx wl s s' \<Longrightarrow> batches_ok jx s \<Longrightarrow> batches_ok jx s'"
  by (cases rule: dc_step.cases) (auto dest: batches_own)

lemma batches_reach: "(dc_step x cx jx wl)\<^sup>*\<^sup>* (dc_create sid a sh) s \<Longrightarrow> batches_ok jx s"
proof (induction rule: rtranclp_induct)
  case base
  show ?case by (simp add: batches_ok_def dc_create_def currency_requests_def exI [of _ "[]"])
next
  case (step t u)
  show ?case by (rule batches_step [OF step.hyps(2) step.IH])
qed


section \<open>Trades\<close>

text \<open>A batch of trades is published in order, and exactly the last update is marked as the last.\<close>

lemma dc_trades_out:
  "dc_out (dc_trades wl d ts s) = dc_out s @ map (\<lambda>i. last (dc_out (dc_trade wl (ts ! i) d (Suc i = length ts) s))) [0..<length ts]"
proof (induction ts arbitrary: s)
  case (Cons t ts)
  have same: "dc_out (dc_trade wl u d l (dc_trade wl t d b s)) = dc_out s @ [last (dc_out (dc_trade wl t d b s))] @
      [last (dc_out (dc_trade wl u d l s))]" for u l b
    by (simp add: dc_trade_def dc_emit_def dc_exchange_def)
  show ?case
    using Cons [of "dc_trade wl t d (ts = []) s"]
    by (simp add: same upt_conv_Cons map_Suc_upt [symmetric] del: upt_Suc) (simp add: dc_trade_def dc_emit_def)
qed simp

text \<open>
  A trade that arrives on both channels the stream subscribes to is published twice, as an
  incremental update and as a part of a snapshot.
\<close>

lemma trade_published_on_both_channels:
  "\<exists>u. dc_out (dc_user_trades wl [t] (dc_user_changes wl [t] s)) = dc_out s @
     [Web_Trade (u\<lparr>ju_update_type := UpdateType_INCREMENTAL\<rparr>) True,
      Web_Trade (u\<lparr>ju_update_type := UpdateType_SNAPSHOT\<rparr>) True] \<and> ju_fills u = [dc_fill wl (dc_shared s) t]"
  by (simp add: dc_user_trades_def dc_user_changes_def dc_trade_def dc_emit_def dc_exchange_def)
    (rule exI [of _ "\<lparr>ju_stream_id = dc_stream_id s, ju_account = ac_name (dc_account s),
       ju_exchange = set_exchange (sh_settings (dc_shared s)), ju_symbol = jr_instrument_name t,
       ju_side = get_mapped Side_UNDEFINED (json_map_direction (jr_direction t)),
       ju_create_time_utc = jr_timestamp t, ju_update_time_utc = jr_timestamp t,
       ju_external_order_id = jr_order_id t, ju_client_order_id = jr_label t,
       ju_fills = [dc_fill wl (dc_shared s) t], ju_update_type = UpdateType_UNDEFINED\<rparr>"], simp)

definition dc_demo :: "nat drop_copy" where
  "dc_demo = dc_create 3 \<lparr>ac_name = ''A1'', ac_key = ''key'', ac_crypto = \<lparr>cr_secret = ''s'', cr_timestamp = 0\<rparr>\<rparr>
     (empty_shared default_settings)"


end
