(* ===== verification/Rest.thy ===== *)
theory Rest
  imports Web_Types
begin

text \<open>
  The REST stream (\<open>gateway/rest.cpp\<close>, \<open>gateway/request.cpp\<close>): the download of the
  currencies and instruments that the web socket asks for, the download of chart data, and
  the treatment of a response with its errors. When a pending request is due is decided by
  the framework (\<open>core::limit::Request\<close>), and which symbols its queue hands out.
\<close>

record 'q rest =
  rk_stream_id :: uint16
  rk_shared :: "'q shared"
  rk_connection_status :: connection_status
  rk_out :: "web_call list"

definition rk_create :: "uint16 \<Rightarrow> 'q shared \<Rightarrow> 'q rest" where
  "rk_create sid sh = \<lparr>rk_stream_id = sid, rk_shared = sh, rk_connection_status = CS_UNDEFINED, rk_out = []\<rparr>"

definition rk_emit :: "web_call \<Rightarrow> 'q rest \<Rightarrow> 'q rest" where
  "rk_emit c s = s\<lparr>rk_out := rk_out s @ [c]\<rparr>"

definition rk_exchange :: "'q rest \<Rightarrow> string" where
  "rk_exchange s = set_exchange (sh_settings (rk_shared s))"

definition rk_ready :: "'q rest \<Rightarrow> bool" where
  "rk_ready s \<longleftrightarrow> rk_connection_status s = CS_READY"

section \<open>Responses\<close>

text \<open>
  A response: reading it either throws, a \<open>NetworkError\<close> or another exception, or gives the
  text of its status, the category of the status and its body. \<open>rr_expect\<close> is what
  \<open>expect(Status::OK)\<close> throws for it.
\<close>

datatype http_category =
    HC_UNKNOWN | HC_INFORMATIONAL_RESPONSE | HC_SUCCESS | HC_REDIRECTION | HC_CLIENT_ERROR | HC_SERVER_ERROR

datatype thrown = NetworkError request_status error string | OtherException string

record rest_response =
  rr_result :: "thrown + (string \<times> http_category \<times> string)"
  rr_expect :: "thrown option"

record rest_error =
  re_origin :: origin
  re_status :: request_status
  re_error :: error
  re_text :: string

definition rest_caught :: "thrown \<Rightarrow> rest_error" where
  "rest_caught e = (case e of
     NetworkError status err what \<Rightarrow>
       \<lparr>re_origin = Origin_GATEWAY, re_status = status, re_error = err, re_text = what\<rparr>
   | OtherException what \<Rightarrow>
       \<lparr>re_origin = Origin_EXCHANGE, re_status = RequestStatus_ERROR, re_error = Error_UNKNOWN, re_text = what\<rparr>)"

text \<open>
  \<open>process_response\<close>: the handler of a success gives its result or the exception that leaves
  it, which is caught here as well. The result of the response is the one error that is
  reported, or what the handler of a success did, or nothing.
\<close>

datatype 'r rest_result = RR_Error rest_error | RR_Success 'r | RR_Nothing | RR_Redirected

definition process_response :: "rest_response \<Rightarrow> (string \<Rightarrow> thrown + 'r) \<Rightarrow> 'r rest_result" where
  "process_response response success_handler = (case rr_result response of
     Inl e \<Rightarrow> RR_Error (rest_caught e)
   | Inr (status, category, body) \<Rightarrow> (case category of
       HC_UNKNOWN \<Rightarrow> (case rr_expect response of Some e \<Rightarrow> RR_Error (rest_caught e) | None \<Rightarrow> RR_Nothing)
     | HC_INFORMATIONAL_RESPONSE \<Rightarrow> (case rr_expect response of Some e \<Rightarrow> RR_Error (rest_caught e) | None \<Rightarrow> RR_Nothing)
     | HC_SUCCESS \<Rightarrow> (case success_handler body of Inl e \<Rightarrow> RR_Error (rest_caught e) | Inr r \<Rightarrow> RR_Success r)
     | HC_REDIRECTION \<Rightarrow> RR_Redirected
     | HC_CLIENT_ERROR \<Rightarrow> RR_Error \<lparr>re_origin = Origin_EXCHANGE, re_status = RequestStatus_REJECTED,
         re_error = Error_UNKNOWN, re_text = status\<rparr>
     | HC_SERVER_ERROR \<Rightarrow> RR_Error \<lparr>re_origin = Origin_EXCHANGE, re_status = RequestStatus_REJECTED,
         re_error = Error_UNKNOWN, re_text = status\<rparr>))"

text \<open>The generated decoders of the answers; each throws what it cannot read.\<close>

record rest_lib =
  rj_currencies :: "string \<Rightarrow> thrown + (json_error \<times> string list)"
  rj_instruments :: "string \<Rightarrow> thrown + (json_error \<times> json_instrument list)"
  rj_chart_data :: "string \<Rightarrow> thrown + (json_error \<times> chart_data)"

section \<open>Currencies\<close>

definition rk_get_currencies :: "'q rest \<Rightarrow> 'q rest" where
  "rk_get_currencies s = rk_emit (Web_Get (api_currencies api_create) [] ''currencies'') s"

text \<open>The loop over the currencies, with the variable \<open>currencies\<close>.\<close>

fun rk_new_currencies :: "string list \<Rightarrow> string list \<Rightarrow> 'q shared \<Rightarrow> string list \<times> 'q shared" where
  "rk_new_currencies [] currencies sh = (currencies, sh)"
| "rk_new_currencies (i # is) currencies sh =
     rk_new_currencies is (if i \<in> all_currencies sh then currencies else currencies @ [i])
       (sh\<lparr>all_currencies := insert i (all_currencies sh)\<rparr>)"

definition rk_currencies :: "string list \<Rightarrow> 'q rest \<Rightarrow> 'q rest" where
  "rk_currencies is s =
     (let (currencies, sh) = rk_new_currencies is [] (rk_shared s); s1 = s\<lparr>rk_shared := sh\<rparr>
      in if currencies \<noteq> [] then rk_emit (Handler_Currencies currencies) s1 else s1)"

text \<open>An answer with an error code is reported like a failed request.\<close>

definition exchange_error :: "json_error \<Rightarrow> rest_error" where
  "exchange_error e = \<lparr>re_origin = Origin_EXCHANGE, re_status = RequestStatus_REJECTED, re_error = Error_UNKNOWN,
     re_text = je_message e\<rparr>"

definition rk_currencies_ack :: "rest_lib \<Rightarrow> rest_response \<Rightarrow> 'q rest \<Rightarrow> 'q rest outcome" where
  "rk_currencies_ack rl response s = (case process_response response (rj_currencies rl) of
     RR_Redirected \<Rightarrow> (s, Some (Fatal ''Unexpected: URL is being redirected''))
   | RR_Success (e, is) \<Rightarrow>
       (rk_emit Commit_Currencies (if je_code e = 0 then rk_currencies is s else s), None)
   | RR_Error e \<Rightarrow> (rk_emit Commit_Currencies s, None)
   | RR_Nothing \<Rightarrow> (rk_emit Commit_Currencies s, None))"

section \<open>Instruments\<close>

definition rk_get_instruments :: "'q rest \<Rightarrow> 'q rest" where
  "rk_get_instruments s = rk_emit (Web_Get (api_instruments api_create) [] ''instruments'') s"

definition to_security_type :: "json_kind \<Rightarrow> json_settlement_period \<Rightarrow> security_type" where
  "to_security_type kind period = (case kind of
     JK_UNDEFINED_INTERNAL \<Rightarrow> SecurityType_UNDEFINED
   | JK_UNKNOWN_INTERNAL \<Rightarrow> SecurityType_UNDEFINED
   | JK_FUTURE \<Rightarrow> (case period of
       SP_UNDEFINED_INTERNAL \<Rightarrow> SecurityType_FUTURES
     | SP_UNKNOWN_INTERNAL \<Rightarrow> SecurityType_FUTURES
     | SP_PERPETUAL \<Rightarrow> SecurityType_SWAP
     | SP_DAY \<Rightarrow> SecurityType_FUTURES
     | SP_WEEK \<Rightarrow> SecurityType_FUTURES
     | SP_MONTH \<Rightarrow> SecurityType_FUTURES
     | SP_HOUR \<Rightarrow> SecurityType_FUTURES)
   | JK_OPTION \<Rightarrow> SecurityType_OPTION
   | JK_FUTURE_COMBO \<Rightarrow> SecurityType_FUTURES
   | JK_OPTION_COMBO \<Rightarrow> SecurityType_OPTION
   | JK_SPOT \<Rightarrow> SecurityType_SPOT)"

definition to_option_type :: "json_option_type \<Rightarrow> option_type" where
  "to_option_type t = (case t of
     JO_UNDEFINED_INTERNAL \<Rightarrow> OptionType_UNDEFINED
   | JO_UNKNOWN_INTERNAL \<Rightarrow> OptionType_UNDEFINED
   | JO_CALL \<Rightarrow> OptionType_CALL
   | JO_PUT \<Rightarrow> OptionType_PUT)"

definition rk_reference_data :: "web_lib \<Rightarrow> json_instrument \<Rightarrow> bool \<Rightarrow> 'q rest \<Rightarrow> json_reference_data" where
  "rk_reference_data wl i discard s =
     \<lparr>rf_stream_id = rk_stream_id s, rf_exchange = rk_exchange s, rf_symbol = ji_instrument_name i,
      rf_description = [], rf_security_type = to_security_type (ji_kind i) (ji_settlement_period i),
      rf_market_segment = ji_price_index i, rf_base_currency = ji_base_currency i,
      rf_quote_currency = ji_quote_currency i, rf_settlement_currency = ji_settlement_currency i,
      rf_commission_currency = [], rf_tick_size = ji_tick_size i, rf_multiplier = ji_contract_size i,
      rf_min_trade_vol = fdiv (ji_min_trade_amount i) (ji_contract_size i),
      rf_trade_vol_step_size = fdiv (ji_min_trade_amount i) (ji_contract_size i),
      rf_option_type = to_option_type (ji_option_type i), rf_strike_currency = [], rf_strike_price = ji_strike i,
      rf_underlying = ji_price_index i, rf_issue_date = wl_safe_cast wl (ji_creation_timestamp i),
      rf_expiry_datetime = 0, rf_expiry_datetime_utc = wl_safe_cast wl (ji_expiration_timestamp i),
      rf_discard = discard,
      jd_tick_size_steps = map (\<lambda>z. \<lparr>ts_min_price = tz_above_price z, ts_tick_size = tz_tick_size z\<rparr>) (ji_tick_size_steps i)\<rparr>"

text \<open>
  One round of the loop over the instruments: the instrument of the multicast streams (\<open>q0\<close>
  is the initial state of its book sequencer), the reference data, the multiplier, and the
  symbol when it is new and not discarded.
\<close>

definition rk_instrument ::
    "externals \<Rightarrow> web_lib \<Rightarrow> 'q \<Rightarrow> json_instrument \<Rightarrow> string list \<Rightarrow> 'q rest \<Rightarrow> 'q rest \<times> string list" where
  "rk_instrument x wl q0 i symbols s =
     (let symbol = ji_instrument_name i;
          discard = discard_symbol x symbol;
          m = compute_contracts_multiplier x (ji_contract_size i);
          inst = create_instrument symbol (ji_contract_size i) m discard q0;
          s1 = s\<lparr>rk_shared := maybe_create_instrument (word_of_int (ji_instrument_id i)) inst (rk_shared s)\<rparr>;
          s2 = (if \<not> misc_use_fix_reference_data (sh_settings (rk_shared s1))
                then rk_emit (Web_ReferenceData (rk_reference_data wl i discard s1) True) s1 else s1);
          sh = (rk_shared s2)\<lparr>sh_multiplier := (sh_multiplier (rk_shared s2))(symbol \<mapsto> m)\<rparr>
      in if discard then (s2\<lparr>rk_shared := sh\<rparr>, symbols)
         else (s2\<lparr>rk_shared := sh\<lparr>all_symbols := insert symbol (all_symbols sh)\<rparr>\<rparr>,
               if symbol \<in> all_symbols sh then symbols else symbols @ [symbol]))"

fun rk_instrument_loop ::
    "externals \<Rightarrow> web_lib \<Rightarrow> 'q \<Rightarrow> json_instrument list \<Rightarrow> string list \<Rightarrow> 'q rest \<Rightarrow> 'q rest \<times> string list" where
  "rk_instrument_loop x wl q0 [] symbols s = (s, symbols)"
| "rk_instrument_loop x wl q0 (i # is) symbols s =
     (let (s', symbols') = rk_instrument x wl q0 i symbols s in rk_instrument_loop x wl q0 is symbols' s')"

definition rk_instruments :: "externals \<Rightarrow> web_lib \<Rightarrow> 'q \<Rightarrow> json_instrument list \<Rightarrow> 'q rest \<Rightarrow> 'q rest" where
  "rk_instruments x wl q0 is s =
     (let (s', symbols) = rk_instrument_loop x wl q0 is [] s
      in if symbols \<noteq> [] then rk_emit (Handler_Symbols symbols) s' else s')"

definition rk_instruments_ack ::
    "externals \<Rightarrow> web_lib \<Rightarrow> rest_lib \<Rightarrow> 'q \<Rightarrow> rest_response \<Rightarrow> 'q rest \<Rightarrow> 'q rest outcome" where
  "rk_instruments_ack x wl rl q0 response s = (case process_response response (rj_instruments rl) of
     RR_Redirected \<Rightarrow> (s, Some (Fatal ''Unexpected: URL is being redirected''))
   | RR_Success (e, is) \<Rightarrow>
       (rk_emit Commit_Instruments (if je_code e = 0 then rk_instruments x wl q0 is s else s), None)
   | RR_Error e \<Rightarrow> (rk_emit Commit_Instruments s, None)
   | RR_Nothing \<Rightarrow> (rk_emit Commit_Instruments s, None))"

section \<open>Chart data\<close>

definition rk_get_chart_data :: "trace_info \<Rightarrow> string \<Rightarrow> 'q rest \<Rightarrow> 'q rest" where
  "rk_get_chart_data ti symbol s =
     (let end_time = ms_of_ns (origin_create_time_utc ti);
          start_time = end_time - time_series_lookback (sh_settings (rk_shared s));
          query = ''?instrument_name='' @ symbol @ ''&start_timestamp='' @ show_int start_time @
            ''&end_timestamp='' @ show_int end_time @ ''&resolution=1''
      in rk_emit (Web_Get (api_chart_data api_create) query ''chart-data'') s)"

text \<open>Reading a list at an index; past its end the code's behaviour is undefined: \<open>None\<close>.\<close>

definition at_index :: "'a list \<Rightarrow> nat \<Rightarrow> 'a option" where
  "at_index xs i = (if i < length xs then Some (xs ! i) else None)"

definition chart_bar :: "web_lib \<Rightarrow> chart_data \<Rightarrow> nat \<Rightarrow> bar option" where
  "chart_bar wl r i = (case (at_index (cd_ticks r) i, at_index (cd_open r) i, at_index (cd_high r) i,
      at_index (cd_low r) i, at_index (cd_close r) i, at_index (cd_volume r) i) of
     (Some t, Some o', Some h, Some l, Some c, Some v) \<Rightarrow>
       Some \<lparr>br_begin_time_utc = wl_safe_cast wl t, br_confirmed = True, br_open_price = o', br_high_price = h, br_low_price = l,
         br_close_price = c, br_quantity = v, br_base_amount = NaN, br_quote_amount = NaN, br_vwap = NaN\<rparr>
   | _ \<Rightarrow> None)"

text \<open>The loop over the ticks, from index \<open>i\<close> on, \<open>n\<close> more rounds.\<close>

fun chart_bars :: "web_lib \<Rightarrow> chart_data \<Rightarrow> nat \<Rightarrow> nat \<Rightarrow> bar list option" where
  "chart_bars wl r i 0 = Some []"
| "chart_bars wl r i (Suc n) = (case chart_bar wl r i of
     None \<Rightarrow> None
   | Some b \<Rightarrow> (case chart_bars wl r (Suc i) n of None \<Rightarrow> None | Some bs \<Rightarrow> Some (b # bs)))"

definition rk_chart_data :: "web_lib \<Rightarrow> chart_data \<Rightarrow> string \<Rightarrow> 'q rest \<Rightarrow> 'q rest outcome" where
  "rk_chart_data wl r symbol s = (case chart_bars wl r 0 (length (cd_ticks r)) of
     None \<Rightarrow> (s, Some (Assertion ''index out of range''))
   | Some bs \<Rightarrow> (rk_emit (Web_TimeSeries \<lparr>tm_stream_id = rk_stream_id s, tm_exchange = rk_exchange s,
       tm_symbol = symbol, tm_interval = time_series_interval (sh_settings (rk_shared s)),
       tm_origin = Origin_EXCHANGE, tm_bars = bs, tm_update_type = UpdateType_SNAPSHOT\<rparr> True) s, None))"

definition rk_chart_data_ack :: "web_lib \<Rightarrow> rest_lib \<Rightarrow> rest_response \<Rightarrow> string \<Rightarrow> 'q rest \<Rightarrow> 'q rest outcome" where
  "rk_chart_data_ack wl rl response symbol s = (case process_response response (rj_chart_data rl) of
     RR_Redirected \<Rightarrow> (s, Some (Fatal ''Unexpected: URL is being redirected''))
   | RR_Success (e, r) \<Rightarrow> if je_code e = 0 then rk_chart_data wl r symbol s else (s, None)
   | RR_Error e \<Rightarrow> (s, None)
   | RR_Nothing \<Rightarrow> (s, None))"

section \<open>Connection\<close>

definition rk_on_connection_status :: "connection_status \<Rightarrow> string \<Rightarrow> 'q rest \<Rightarrow> 'q rest" where
  "rk_on_connection_status cs reason s =
     rk_emit (Web_StreamStatus \<lparr>ss_stream_id = rk_stream_id s, ss_account = [],
         ss_supports = [ST_REFERENCE_DATA], ss_transport = Transport_TCP, ss_protocol = Protocol_HTTP,
         ss_connection_status = cs, ss_reason = reason\<rparr>)
       (s\<lparr>rk_connection_status := cs\<rparr>)"

definition rk_notify :: "externals \<Rightarrow> connection_status \<Rightarrow> string \<Rightarrow> 'q rest \<Rightarrow> 'q rest" where
  "rk_notify x cs reason s =
     (if base_notify x (rk_connection_status s) cs then rk_on_connection_status cs reason s else s)"

definition rk_start :: "'q rest \<Rightarrow> 'q rest" where
  "rk_start s = rk_emit Web_Start s"

definition rk_stop :: "'q rest \<Rightarrow> 'q rest" where
  "rk_stop s = rk_emit Web_Stop s"

text \<open>\<open>currencies_due\<close> and \<open>instruments_due\<close>: the pending request is made now.\<close>

definition rk_check_download :: "bool \<Rightarrow> bool \<Rightarrow> 'q rest \<Rightarrow> 'q rest" where
  "rk_check_download currencies_due instruments_due s =
     (let s1 = (if currencies_due then rk_get_currencies s else s)
      in if instruments_due then rk_get_instruments s1 else s1)"

definition rk_check_request_queue :: "trace_info \<Rightarrow> string list \<Rightarrow> 'q rest \<Rightarrow> 'q rest" where
  "rk_check_request_queue ti released s = fold (rk_get_chart_data ti) released s"

definition rk_timer :: "bool \<Rightarrow> trace_info \<Rightarrow> bool \<Rightarrow> bool \<Rightarrow> string list \<Rightarrow> 'q rest \<Rightarrow> 'q rest" where
  "rk_timer refreshed ti currencies_due instruments_due released s =
     (if refreshed \<and> rk_ready s
      then let s1 = rk_check_download currencies_due instruments_due s
        in if rk_ready s1 then rk_check_request_queue ti released s1 else s1
      else s)"

definition rk_connected :: "externals \<Rightarrow> bool \<Rightarrow> bool \<Rightarrow> 'q rest \<Rightarrow> 'q rest" where
  "rk_connected x currencies_due instruments_due s =
     rk_check_download currencies_due instruments_due (rk_notify x CS_READY [] s)"

definition rk_disconnected :: "externals \<Rightarrow> 'q rest \<Rightarrow> 'q rest" where
  "rk_disconnected x s = rk_notify x CS_DISCONNECTED [] s"

definition rk_latency :: "nanoseconds \<Rightarrow> 'q rest \<Rightarrow> 'q rest" where
  "rk_latency sample s = rk_emit (Web_ExternalLatency (rk_stream_id s) [] sample) s"

text \<open>The pair of requests is ready when both are.\<close>

definition request_ready :: "bool \<Rightarrow> bool \<Rightarrow> bool" where
  "request_ready currencies_ready instruments_ready \<longleftrightarrow> currencies_ready \<and> instruments_ready"

section \<open>Every request is answered\<close>

text \<open>What a response brings: the decoded result of a success without an error code.\<close>

definition good_answer :: "(string \<Rightarrow> thrown + (json_error \<times> 'a list)) \<Rightarrow> rest_response \<Rightarrow> 'a list" where
  "good_answer decode response = (case rr_result response of
     Inr (status, HC_SUCCESS, body) \<Rightarrow>
       (case decode body of Inr (e, r) \<Rightarrow> if je_code e = 0 then r else [] | Inl e \<Rightarrow> [])
   | _ \<Rightarrow> [])"

definition redirected :: "rest_response \<Rightarrow> bool" where
  "redirected response = (case rr_result response of Inr (status, HC_REDIRECTION, body) \<Rightarrow> True | _ \<Rightarrow> False)"

lemma process_response_redirected: "process_response response h = RR_Redirected \<longleftrightarrow> redirected response"
  by (auto simp: process_response_def redirected_def split: sum.splits http_category.splits option.splits)

lemma process_response_success:
  "process_response response h = RR_Success r \<longleftrightarrow>
     (\<exists>status body. rr_result response = Inr (status, HC_SUCCESS, body) \<and> h body = Inr r)"
  by (auto simp: process_response_def split: sum.splits http_category.splits option.splits)

lemma good_answer_success:
  "process_response response h = RR_Success (e, r) \<Longrightarrow> good_answer h response = (if je_code e = 0 then r else [])"
  by (auto simp: process_response_success good_answer_def)

lemma good_answer_none:
  "(\<And>e r. process_response response h \<noteq> RR_Success (e, r)) \<Longrightarrow> good_answer h response = []"
  by (auto simp: process_response_success good_answer_def split: sum.splits http_category.splits)

lemma rk_new_currencies_spec:
  "\<exists>new. rk_new_currencies is cs sh = (cs @ new, sh\<lparr>all_currencies := all_currencies sh \<union> set is\<rparr>) \<and>
     distinct new \<and> set new = set is - all_currencies sh"
proof (induction "is" arbitrary: cs sh)
  case (Cons i "is")
  let ?sh = "sh\<lparr>all_currencies := insert i (all_currencies sh)\<rparr>"
  let ?cs = "if i \<in> all_currencies sh then cs else cs @ [i]"
  obtain new where new: "rk_new_currencies is ?cs ?sh = (?cs @ new, ?sh\<lparr>all_currencies := all_currencies ?sh \<union> set is\<rparr>)"
    "distinct new" "set new = set is - all_currencies ?sh"
    using Cons.IH by blast
  show ?case
    by (rule exI [of _ "if i \<in> all_currencies sh then new else i # new"]) (use new in auto)
qed simp

lemma rk_currencies_spec:
  "\<exists>new. rk_out (rk_currencies is s) = rk_out s @ (if new = [] then [] else [Handler_Currencies new]) \<and>
     distinct new \<and> set new = set is - all_currencies (rk_shared s) \<and>
     all_currencies (rk_shared (rk_currencies is s)) = all_currencies (rk_shared s) \<union> set new"
proof -
  obtain new where "rk_new_currencies is [] (rk_shared s) =
      ([] @ new, (rk_shared s)\<lparr>all_currencies := all_currencies (rk_shared s) \<union> set is\<rparr>)"
    "distinct new" "set new = set is - all_currencies (rk_shared s)"
    using rk_new_currencies_spec by blast
  then show ?thesis by (intro exI [of _ new]) (auto simp: rk_currencies_def rk_emit_def)
qed

lemma rk_currencies_Nil: "rk_currencies [] s = s"
  by (simp add: rk_currencies_def)

lemma rk_currencies_ack_eq:
  assumes "\<not> redirected response"
  shows "rk_currencies_ack rl response s =
    (rk_emit Commit_Currencies (rk_currencies (good_answer (rj_currencies rl) response) s), None)"
proof (cases "process_response response (rj_currencies rl)")
  case (RR_Success r)
  then show ?thesis by (cases r) (simp add: rk_currencies_ack_def good_answer_success rk_currencies_Nil)
qed (use assms process_response_redirected [of response "rj_currencies rl"] in
    \<open>simp_all add: rk_currencies_ack_def good_answer_none rk_currencies_Nil\<close>)

text \<open>
  C34: whatever comes back for the request of the currencies, an error of the network, an
  error status, an exception of the decoder, an error code or an answer, the request is
  committed, so that the web socket that waits for it goes on, and the handler is told the
  currencies of a good answer that were not known, each once; only a redirection ends the
  process.
\<close>

theorem rest_request_answered:
  assumes "rk_currencies_ack rl response s = (s', e)"
  shows "if redirected response then s' = s \<and> e = Some (Fatal ''Unexpected: URL is being redirected'')
    else e = None \<and> (\<exists>new. rk_out s' = rk_out s @ (if new = [] then [] else [Handler_Currencies new]) @ [Commit_Currencies] \<and>
      distinct new \<and> set new = set (good_answer (rj_currencies rl) response) - all_currencies (rk_shared s) \<and>
      all_currencies (rk_shared s') = all_currencies (rk_shared s) \<union> set new)"
proof (cases "redirected response")
  case True
  then show ?thesis using assms process_response_redirected [of response "rj_currencies rl"]
    by (simp add: rk_currencies_ack_def)
next
  case False
  let ?g = "good_answer (rj_currencies rl) response"
  have s': "s' = rk_emit Commit_Currencies (rk_currencies ?g s)" "e = None"
    using assms False by (simp_all add: rk_currencies_ack_eq)
  obtain new where new: "rk_out (rk_currencies ?g s) = rk_out s @ (if new = [] then [] else [Handler_Currencies new])"
    "distinct new" "set new = set ?g - all_currencies (rk_shared s)"
    "all_currencies (rk_shared (rk_currencies ?g s)) = all_currencies (rk_shared s) \<union> set new"
    using rk_currencies_spec by blast
  show ?thesis using False s' new by (simp add: rk_emit_def exI [of _ new])
qed

lemma rest_instruments_answered:
  "\<not> redirected response \<Longrightarrow> rk_instruments_ack x wl rl q0 response s = (s', e) \<Longrightarrow>
   e = None \<and> last (rk_out s') = Commit_Instruments"
  using process_response_redirected [of response "rj_instruments rl"]
  by (auto simp: rk_instruments_ack_def rk_emit_def split: rest_result.splits prod.splits)

section \<open>Instruments\<close>

lemma rk_instrument_symbols:
  "rk_instrument x wl q0 i symbols s = (s', symbols') \<Longrightarrow>
   all_symbols (rk_shared s') = all_symbols (rk_shared s) \<union>
     (if discard_symbol x (ji_instrument_name i) then {} else {ji_instrument_name i}) \<and>
   symbols' = symbols @ (if discard_symbol x (ji_instrument_name i) \<or> ji_instrument_name i \<in> all_symbols (rk_shared s)
     then [] else [ji_instrument_name i])"
  by (auto simp: rk_instrument_def maybe_create_instrument_def rk_emit_def Let_def split: if_splits option.splits)

lemma rk_instrument_loop_symbols:
  "rk_instrument_loop x wl q0 is symbols s = (s', symbols') \<Longrightarrow>
   \<exists>new. symbols' = symbols @ new \<and> distinct new \<and> set new \<inter> all_symbols (rk_shared s) = {} \<and>
     all_symbols (rk_shared s') = all_symbols (rk_shared s) \<union> set new \<and>
     all_symbols (rk_shared s') = all_symbols (rk_shared s) \<union>
       {ji_instrument_name i | i. i \<in> set is \<and> \<not> discard_symbol x (ji_instrument_name i)}"
proof (induction "is" arbitrary: symbols s)
  case (Cons i "is")
  obtain s1 symbols1 where s1: "rk_instrument x wl q0 i symbols s = (s1, symbols1)" by fastforce
  then have rest: "rk_instrument_loop x wl q0 is symbols1 s1 = (s', symbols')" using Cons.prems by simp
  obtain new where new: "symbols' = symbols1 @ new" "distinct new" "set new \<inter> all_symbols (rk_shared s1) = {}"
    "all_symbols (rk_shared s') = all_symbols (rk_shared s1) \<union> set new"
    "all_symbols (rk_shared s') = all_symbols (rk_shared s1) \<union>
       {ji_instrument_name i | i. i \<in> set is \<and> \<not> discard_symbol x (ji_instrument_name i)}"
    using Cons.IH [OF rest] by auto
  let ?first = "if discard_symbol x (ji_instrument_name i) \<or> ji_instrument_name i \<in> all_symbols (rk_shared s)
     then [] else [ji_instrument_name i]"
  show ?case
    by (rule exI [of _ "?first @ new"]) (use rk_instrument_symbols [OF s1] new in \<open>auto split: if_splits\<close>)
qed auto

text \<open>The multiplier of an instrument and its entry for the multicast streams, from one round of the loop.\<close>

lemma rk_instrument_registers:
  assumes "rk_instrument x wl q0 i symbols s = (s', symbols')"
  shows "sh_multiplier (rk_shared s') (ji_instrument_name i) = Some (compute_contracts_multiplier x (ji_contract_size i)) \<and>
    instruments (rk_shared s') (word_of_int (ji_instrument_id i)) \<noteq> None"
  using assms by (auto simp: rk_instrument_def maybe_create_instrument_def rk_emit_def Let_def split: if_splits option.splits)

section \<open>Chart data\<close>

lemma chart_bars_length: "chart_bars wl r i n = Some bs \<Longrightarrow> length bs = n"
  by (induction wl r i n arbitrary: bs rule: chart_bars.induct) (auto split: option.splits)

lemma chart_bars_Some_iff:
  "(\<exists>bs. chart_bars wl r i n = Some bs) \<longleftrightarrow> (\<forall>j<n. chart_bar wl r (i + j) \<noteq> None)"
proof (induction wl r i n rule: chart_bars.induct)
  case (2 wl r i n)
  have "(\<forall>j<Suc n. chart_bar wl r (i + j) \<noteq> None) \<longleftrightarrow> chart_bar wl r i \<noteq> None \<and> (\<forall>j<n. chart_bar wl r (Suc i + j) \<noteq> None)"
    by (auto simp: less_Suc_eq_0_disj)
  then show ?case using 2 by (auto split: option.splits)
qed simp

lemma chart_bar_iff:
  "chart_bar wl r j \<noteq> None \<longleftrightarrow> j < length (cd_ticks r) \<and> j < length (cd_open r) \<and> j < length (cd_high r) \<and>
     j < length (cd_low r) \<and> j < length (cd_close r) \<and> j < length (cd_volume r)"
  by (simp add: chart_bar_def at_index_def)

lemma all_below_iff: "(\<forall>j<n. j < a) \<longleftrightarrow> n \<le> (a :: nat)"
  by (meson less_irrefl not_le less_le_trans)

text \<open>
  C35: the loop over the ticks stays within the arrays exactly when none of them is shorter than
  the ticks, which the code does not check.
\<close>

theorem chart_data_in_bounds:
  "snd (rk_chart_data wl r symbol s) = None \<longleftrightarrow>
     length (cd_ticks r) \<le> length (cd_open r) \<and> length (cd_ticks r) \<le> length (cd_high r) \<and>
     length (cd_ticks r) \<le> length (cd_low r) \<and> length (cd_ticks r) \<le> length (cd_close r) \<and>
     length (cd_ticks r) \<le> length (cd_volume r)"
proof -
  have "snd (rk_chart_data wl r symbol s) = None \<longleftrightarrow> (\<exists>bs. chart_bars wl r 0 (length (cd_ticks r)) = Some bs)"
    by (simp add: rk_chart_data_def split: option.split)
  also have "\<dots> \<longleftrightarrow> (\<forall>j<length (cd_ticks r). chart_bar wl r j \<noteq> None)"
    by (simp only: chart_bars_Some_iff add_0)
  finally show ?thesis unfolding chart_bar_iff by (simp only: all_below_iff [symmetric]) blast
qed

definition rest_demo_lib :: rest_lib where
  "rest_demo_lib = \<lparr>rj_currencies = (\<lambda>b. Inr (\<lparr>je_code = 0, je_message = []\<rparr>, [''BTC'', ''ETH'', ''BTC''])),
     rj_instruments = (\<lambda>b. Inl (OtherException [])), rj_chart_data = (\<lambda>b. Inl (OtherException []))\<rparr>"

definition rest_demo_response :: rest_response where
  "rest_demo_response = \<lparr>rr_result = Inr (''200'', HC_SUCCESS, ''...''), rr_expect = None\<rparr>"

theorem rest_request_answered_witness:
  "\<exists>new. rk_out (fst (rk_currencies_ack rest_demo_lib rest_demo_response (rk_create 1 (empty_shared default_settings :: nat shared)))) =
     (if new = [] then [] else [Handler_Currencies new]) @ [Commit_Currencies] \<and> set new = {''BTC'', ''ETH''}"
proof -
  let ?s = "rk_create 1 (empty_shared default_settings :: nat shared)"
  have g: "good_answer (rj_currencies rest_demo_lib) rest_demo_response = [''BTC'', ''ETH'', ''BTC'']"
    and r: "\<not> redirected rest_demo_response"
    by (simp_all add: good_answer_def redirected_def rest_demo_lib_def rest_demo_response_def)
  obtain t e where t: "rk_currencies_ack rest_demo_lib rest_demo_response ?s = (t, e)" by fastforce
  have s: "rk_out ?s = []" "all_currencies (rk_shared ?s) = {}" by (simp_all add: rk_create_def empty_shared_def)
  obtain new where "rk_out t = rk_out ?s @ (if new = [] then [] else [Handler_Currencies new]) @ [Commit_Currencies]"
    "set new = set [''BTC'', ''ETH'', ''BTC''] - all_currencies (rk_shared ?s)"
    using rest_request_answered [OF t] unfolding g if_not_P [OF r] by blast
  then show ?thesis unfolding t fst_conv s by (intro exI [of _ new]) (simp, blast)
qed

end
