(* ===== verification/Channel.thy ===== *)
theory Channel
  imports Roq_Types Sbe_Frame
begin

text \<open>
  One multicast channel (\<open>gateway/channel.hpp\<close>, \<open>gateway/channel.cpp\<close>): the sequence
  check of its datagrams and the book levels collected from datagrams that belong
  together. \<open>channel_frame\<close> is the call operator on a frame; \<open>receive_frame\<close> is the
  callback that both UDP streams run on the channel of a frame.
\<close>

record channel =
  instrument_id :: uint32
  bids :: "mbp_update list"
  asks :: "mbp_update list"
  previous_sequence_number :: uint32
  initialized :: bool
  ch_ready :: bool

definition channel_init :: channel where
  "channel_init = \<lparr>instrument_id = 0, bids = [], asks = [], previous_sequence_number = 0,
     initialized = False, ch_ready = False\<rparr>"

definition channel_frame :: "channel \<Rightarrow> frame \<Rightarrow> bool \<times> channel" where
  "channel_frame c f =
     (if sequence_number f = previous_sequence_number c + 1
      then (True, c\<lparr>previous_sequence_number := sequence_number f\<rparr>)
      else if sequence_number f = previous_sequence_number c then (False, c)
      else if initialized c
      then (False, c\<lparr>ch_ready := False, previous_sequence_number := sequence_number f\<rparr>)
      else (True, c\<lparr>initialized := True, previous_sequence_number := sequence_number f\<rparr>))"

definition channel_reset :: "channel \<Rightarrow> channel" where
  "channel_reset c = c\<lparr>bids := [], asks := [], instrument_id := 0, ch_ready := False\<rparr>"

definition channel_snapshot_start :: "channel \<Rightarrow> channel" where
  "channel_snapshot_start c = c\<lparr>ch_ready := True\<rparr>"

definition channel_snapshot_end :: "channel \<Rightarrow> channel" where
  "channel_snapshot_end c = c\<lparr>ch_ready := False\<rparr>"

text \<open>The callback of \<open>get_channel\<close> in \<open>operator()(Frame const &)\<close> of both streams.\<close>

definition receive_frame :: "channel \<Rightarrow> frame \<Rightarrow> bool \<times> channel" where
  "receive_frame c f =
     (let (r, c') = channel_frame c f in (r, if r then c' else channel_reset c'))"

fun receive_frames :: "channel \<Rightarrow> frame list \<Rightarrow> bool list \<times> channel" where
  "receive_frames c [] = ([], c)"
| "receive_frames c (f # fs) =
     (let (r, c') = receive_frame c f; (rs, c'') = receive_frames c' fs in (r # rs, c''))"

lemmas channel_defs [model_defs] =
  channel_frame_def channel_reset_def channel_snapshot_start_def channel_snapshot_end_def
  receive_frame_def channel_init_def

section \<open>One datagram\<close>

lemma receive_frame_next:
  "sequence_number f = previous_sequence_number c + 1 \<Longrightarrow>
   receive_frame c f = (True, c\<lparr>previous_sequence_number := sequence_number f\<rparr>)"
  by (simp add: model_defs)

lemma receive_frame_gap:
  "initialized c \<Longrightarrow> sequence_number f \<noteq> previous_sequence_number c + 1 \<Longrightarrow>
   \<not> fst (receive_frame c f)"
  by (simp add: model_defs)

lemma receive_frame_first:
  "\<not> initialized c \<Longrightarrow> sequence_number f \<noteq> previous_sequence_number c \<Longrightarrow>
   fst (receive_frame c f)"
  by (simp add: model_defs)

lemma receive_frame_previous:
  "previous_sequence_number (snd (receive_frame c f)) = sequence_number f"
  by (simp add: model_defs)

lemma receive_frame_initialized:
  "initialized c \<Longrightarrow> initialized (snd (receive_frame c f))"
  by (simp add: model_defs)

text \<open>A rejected datagram leaves no levels, no pending instrument and no running snapshot.\<close>

lemma receive_frame_rejected:
  "\<not> fst (receive_frame c f) \<Longrightarrow>
   bids (snd (receive_frame c f)) = [] \<and> asks (snd (receive_frame c f)) = [] \<and>
   instrument_id (snd (receive_frame c f)) = 0 \<and> \<not> ch_ready (snd (receive_frame c f))"
  by (simp add: model_defs split: if_splits)

lemma receive_frame_accepted:
  "fst (receive_frame c f) \<Longrightarrow>
   bids (snd (receive_frame c f)) = bids c \<and> asks (snd (receive_frame c f)) = asks c \<and>
   instrument_id (snd (receive_frame c f)) = instrument_id c \<and>
   ch_ready (snd (receive_frame c f)) = ch_ready c"
  by (simp add: model_defs split: if_splits)

section \<open>Runs of datagrams\<close>

text \<open>The sequence numbers that follow \<open>n\<close>, with the wrap-around of \<open>uint32_t\<close>.\<close>

fun consecutive :: "uint32 \<Rightarrow> frame list \<Rightarrow> bool" where
  "consecutive n [] = True"
| "consecutive n (f # fs) = (sequence_number f = n + 1 \<and> consecutive (sequence_number f) fs)"

lemma receive_frames_Cons [simp]:
  "receive_frames c (f # fs) =
     (fst (receive_frame c f) # fst (receive_frames (snd (receive_frame c f)) fs),
      snd (receive_frames (snd (receive_frame c f)) fs))"
  by (simp add: Let_def case_prod_beta)

declare receive_frames.simps(2) [simp del]

lemma receive_frames_previous:
  "previous_sequence_number (snd (receive_frames c fs)) =
   (if fs = [] then previous_sequence_number c else sequence_number (last fs))"
  by (induction fs arbitrary: c) (auto simp: receive_frame_previous)

lemma length_receive_frames [simp]: "length (fst (receive_frames c fs)) = length fs"
  by (induction fs arbitrary: c) simp_all

lemma receive_frames_initialized:
  "initialized c \<Longrightarrow> initialized (snd (receive_frames c fs))"
  by (induction fs arbitrary: c) (simp_all add: receive_frame_initialized)

text \<open>
  C10: on a channel that has seen a first datagram, a run of datagrams is accepted as a
  whole exactly when their sequence numbers follow the last one without a gap, a
  repetition or a reordering, across the wrap-around of the 32-bit counter.
\<close>

theorem receive_frames_all_accepted_iff:
  assumes "initialized c"
  shows "list_all id (fst (receive_frames c fs)) \<longleftrightarrow> consecutive (previous_sequence_number c) fs"
  using assms
proof (induction fs arbitrary: c)
  case Nil
  then show ?case by simp
next
  case (Cons f fs)
  have "fst (receive_frame c f) \<longleftrightarrow> sequence_number f = previous_sequence_number c + 1"
    using receive_frame_gap [OF Cons.prems, of f] receive_frame_next [of f c] by auto
  then show ?case
    using Cons.IH [OF receive_frame_initialized [OF Cons.prems]]
    by (simp add: receive_frame_previous)
qed

theorem receive_frames_all_accepted_iff_witness:
  "list_all id (fst (receive_frames (channel_init\<lparr>initialized := True, previous_sequence_number := 4294967295\<rparr>)
     [\<lparr>packet_length = 0, channel_id = 1, sequence_number = 0\<rparr>,
      \<lparr>packet_length = 0, channel_id = 1, sequence_number = 1\<rparr>]))"
  by (subst receive_frames_all_accepted_iff) simp_all



lemma receive_frames_uninitialized:
  "consecutive (previous_sequence_number c) fs \<Longrightarrow>
   initialized (snd (receive_frames c fs)) = initialized c \<and>
   list_all id (fst (receive_frames c fs)) \<and>
   bids (snd (receive_frames c fs)) = bids c \<and> asks (snd (receive_frames c fs)) = asks c"
proof (induction fs arbitrary: c)
  case Nil
  then show ?case by simp
next
  case (Cons f fs)
  then show ?case
    using Cons.IH [of "c\<lparr>previous_sequence_number := previous_sequence_number c + 1\<rparr>"]
    by (auto simp: receive_frame_next)
qed

text \<open>
  C12: the first gap after a channel started with the datagrams \<open>1, \<dots>, n\<close> is not reported.
  These datagrams take the branch of the expected successor, which does not set
  \<open>initialized\<close>, so the first datagram out of sequence is taken for the first of the
  channel: it is accepted, whatever its number, and the levels collected so far are kept.
\<close>

theorem first_gap_not_detected:
  assumes "consecutive 0 fs" "fs \<noteq> []"
    and "sequence_number g \<noteq> sequence_number (last fs)"
  shows "fst (receive_frame (snd (receive_frames channel_init fs)) g)"
proof (rule receive_frame_first)
  have "previous_sequence_number channel_init = 0" "\<not> initialized channel_init"
    by (simp_all add: channel_init_def)
  with assms(1) show "\<not> initialized (snd (receive_frames channel_init fs))"
    using receive_frames_uninitialized [of channel_init fs] by simp
  show "sequence_number g \<noteq> previous_sequence_number (snd (receive_frames channel_init fs))"
    using assms(2,3) by (simp add: receive_frames_previous)
qed

theorem first_gap_not_detected_witness:
  "fst (receive_frame (snd (receive_frames channel_init [\<lparr>packet_length = 0, channel_id = 1, sequence_number = 1\<rparr>]))
     \<lparr>packet_length = 0, channel_id = 1, sequence_number = 7\<rparr>)"
  by (rule first_gap_not_detected) simp_all

end
