(* ===== verification/Sbe_Map.thy ===== *)
theory Sbe_Map
  imports Roq_Types
begin

text \<open>
  The decoded multicast messages, with the fields that the code reads, and the mappings of
  their enumerations to the types of the framework (\<open>protocol/sbe/map.cpp\<close>). The classes
  of the messages are generated from the exchange's schema and are not in the repository;
  the constructors carry the template identifiers that \<open>protocol/sbe/utils.hpp\<close> lists.
\<close>

datatype book_side = BookSide_ask | BookSide_bid | BookSide_NULL_VALUE

datatype direction = Direction_buy | Direction_sell | Direction_NULL_VALUE

datatype sbe_instrument_state =
  IS_created | IS_open | IS_closed | IS_settled | IS_inactive | IS_started | IS_deactivated | IS_NULL_VALUE

datatype liquidation =
  Liquidation_none | Liquidation_maker | Liquidation_taker | Liquidation_both | Liquidation_NULL_VALUE

datatype yes_no = YesNo_no | YesNo_yes | YesNo_NULL_VALUE

definition map_book_side :: "book_side \<Rightarrow> side option" where
  "map_book_side v = (case v of
     BookSide_ask \<Rightarrow> Some Side_SELL
   | BookSide_bid \<Rightarrow> Some Side_BUY
   | BookSide_NULL_VALUE \<Rightarrow> Some Side_UNDEFINED)"

definition map_direction :: "direction \<Rightarrow> side option" where
  "map_direction v = (case v of
     Direction_buy \<Rightarrow> Some Side_BUY
   | Direction_sell \<Rightarrow> Some Side_SELL
   | Direction_NULL_VALUE \<Rightarrow> Some Side_UNDEFINED)"

definition map_instrument_state :: "sbe_instrument_state \<Rightarrow> trading_status option" where
  "map_instrument_state v = (case v of
     IS_created \<Rightarrow> Some TradingStatus_OPEN
   | IS_open \<Rightarrow> Some TradingStatus_OPEN
   | IS_closed \<Rightarrow> Some TradingStatus_CLOSE
   | IS_settled \<Rightarrow> Some TradingStatus_UNDEFINED
   | IS_inactive \<Rightarrow> Some TradingStatus_UNDEFINED
   | IS_started \<Rightarrow> Some TradingStatus_UNDEFINED
   | IS_deactivated \<Rightarrow> Some TradingStatus_UNDEFINED
   | IS_NULL_VALUE \<Rightarrow> Some TradingStatus_UNDEFINED)"

definition map_liquidation :: "liquidation \<Rightarrow> liquidity option" where
  "map_liquidation v = (case v of
     Liquidation_none \<Rightarrow> Some Liquidity_UNDEFINED
   | Liquidation_maker \<Rightarrow> Some Liquidity_MAKER
   | Liquidation_taker \<Rightarrow> Some Liquidity_TAKER
   | Liquidation_both \<Rightarrow> Some Liquidity_UNDEFINED
   | Liquidation_NULL_VALUE \<Rightarrow> Some Liquidity_UNDEFINED)"

definition map_yes_no :: "yes_no \<Rightarrow> bool option" where
  "map_yes_no v = (case v of
     YesNo_no \<Rightarrow> Some False
   | YesNo_yes \<Rightarrow> Some True
   | YesNo_NULL_VALUE \<Rightarrow> Some False)"

lemmas sbe_map_defs [model_defs] =
  map_book_side_def map_direction_def map_instrument_state_def map_liquidation_def map_yes_no_def

section \<open>Messages\<close>

text \<open>
  The enumerations that the code only prints are their numeric values. The fields that the two
  messages about instruments have in common are one record.
\<close>

type_synonym raw_enum = uint8

record book_level =
  bc_side :: book_side
  bc_price :: double
  bc_amount :: double

record book_change = book_level +
  bc_change :: raw_enum

record sbe_book =
  bk_instrument_id :: uint32
  bk_timestamp_ms :: uint64
  bk_prev_change_id :: uint64
  bk_change_id :: uint64
  bk_is_last :: yes_no
  bk_changes_list :: "book_change list"

record sbe_snapshot =
  sn_instrument_id :: uint32
  sn_timestamp_ms :: uint64
  sn_change_id :: uint64
  sn_is_book_complete :: yes_no
  sn_is_last_in_book :: yes_no
  sn_levels_list :: "book_level list"

record sbe_trade =
  st_direction :: direction
  st_price :: double
  st_amount :: double
  st_timestamp_ms :: uint64
  st_mark_price :: double
  st_index_price :: double
  st_trade_seq :: uint64
  st_trade_id :: uint64
  st_tick_direction :: raw_enum
  st_liquidation :: liquidation
  st_iv :: double
  st_block_trade_id :: uint64
  st_combo_trade_id :: uint64

record sbe_trades =
  tr_instrument_id :: uint32
  tr_trades_list :: "sbe_trade list"

record sbe_ticker =
  tk_instrument_id :: uint32
  tk_instrument_state :: sbe_instrument_state
  tk_timestamp_ms :: uint64
  tk_open_interest :: double
  tk_min_sell_price :: double
  tk_max_buy_price :: double
  tk_last_price :: double
  tk_index_price :: double
  tk_mark_price :: double
  tk_best_bid_price :: double
  tk_best_bid_amount :: double
  tk_best_ask_price :: double
  tk_best_ask_amount :: double
  tk_current_funding :: double
  tk_funding_8h :: double
  tk_estimated_delivery_price :: double
  tk_delivery_price :: double
  tk_settlement_price :: double

record instrument_info =
  in_instrument_id :: uint32
  in_instrument_state :: sbe_instrument_state
  in_kind :: raw_enum
  in_instrument_type :: raw_enum
  in_option_type :: raw_enum
  in_settlement_period :: raw_enum
  in_settlement_period_count :: uint16
  in_base_currency :: string
  in_quote_currency :: string
  in_counter_currency :: string
  in_settlement_currency :: string
  in_size_currency :: string
  in_creation_timestamp_ms :: uint64
  in_expiration_timestamp_ms :: uint64
  in_strike_price :: double
  in_contract_size :: double
  in_min_trade_amount :: double
  in_tick_size :: double
  in_maker_commission :: double
  in_taker_commission :: double
  in_block_trade_commission :: double
  in_max_liquidation_commission :: double
  in_max_leverage :: double
  in_instrument_name :: string

record sbe_instrument = instrument_info +
  in_rfq :: yes_no

record tick_step =
  sp_above_price :: double
  sp_tick_size :: double

record sbe_instrument_v2 = instrument_info +
  in_tick_steps_list :: "tick_step list"

record combo_leg =
  cl_leg_instrument_id :: uint32
  cl_leg_size :: int

record sbe_combo_legs =
  cl_instrument_id :: uint32
  cl_legs_list :: "combo_leg list"

record sbe_price_index =
  px_index_name :: string
  px_price :: double
  px_timestamp_ms :: uint64

record sbe_rfq =
  rq_instrument_id :: uint32
  rq_state :: yes_no
  rq_side :: raw_enum
  rq_amount :: double
  rq_timestamp_ms :: uint64

datatype sbe_message =
    Instrument sbe_instrument
  | Book sbe_book
  | Trades sbe_trades
  | Ticker sbe_ticker
  | Snapshot sbe_snapshot
  | SnapshotStart uint32
  | SnapshotEnd
  | ComboLegs sbe_combo_legs
  | PriceIndex sbe_price_index
  | Rfq sbe_rfq
  | InstrumentV2 sbe_instrument_v2

datatype template =
    T_Instrument | T_Book | T_Trades | T_Ticker | T_Snapshot | T_SnapshotStart | T_SnapshotEnd
  | T_ComboLegs | T_PriceIndex | T_Rfq | T_InstrumentV2

lemma map_book_side_total: "map_book_side v \<noteq> None"
  by (cases v) (simp_all add: model_defs)

lemma map_direction_total: "map_direction v \<noteq> None"
  by (cases v) (simp_all add: model_defs)

lemma map_book_side_inj: "map_book_side v = map_book_side w \<Longrightarrow> v = w"
  by (cases v; cases w) (simp_all add: model_defs)

end
