(* ===== verification/Sbe_Parser.thy ===== *)
theory Sbe_Parser
  imports Sbe_Frame Sbe_Map
begin

text \<open>
  The dispatch of a multicast datagram to the handler of a stream
  (\<open>protocol/sbe/parser.cpp\<close>, the lengths of \<open>protocol/sbe/utils.hpp\<close>). The generated
  message classes are the record \<open>sbe_codec\<close>; a stream is a record \<open>sbe_handler\<close>. The loop
  over the packet is a partial function: it returns whenever the message header has a
  positive length (\<open>dispatch_returns\<close>).
\<close>

record sbe_codec =
  header_length :: nat
  header_template_id :: "byte list \<Rightarrow> nat option"
  decode :: "template \<Rightarrow> byte list \<Rightarrow> sbe_message option"
  computeLength :: "template \<Rightarrow> nat list \<Rightarrow> nat"
  yes_no_value :: "yes_no \<Rightarrow> nat"

record 's sbe_handler =
  on_frame :: "'s \<Rightarrow> frame \<Rightarrow> bool \<times> 's"
  on_message :: "'s \<Rightarrow> sbe_message \<Rightarrow> frame \<Rightarrow> 's result"

definition compute_length :: "sbe_codec \<Rightarrow> sbe_message \<Rightarrow> nat" where
  "compute_length c m = (case m of
     Book b \<Rightarrow> computeLength c T_Book [length (bk_changes_list b)]
   | ComboLegs l \<Rightarrow> computeLength c T_ComboLegs [length (cl_legs_list l)]
   | Instrument i \<Rightarrow> computeLength c T_Instrument [length (in_instrument_name i)]
   | InstrumentV2 i \<Rightarrow> computeLength c T_InstrumentV2 [length (in_tick_steps_list i), length (in_instrument_name i)]
   | PriceIndex p \<Rightarrow> computeLength c T_PriceIndex []
   | Rfq q \<Rightarrow> computeLength c T_Rfq []
   | Snapshot s \<Rightarrow> computeLength c T_Snapshot [length (sn_levels_list s)]
   | SnapshotStart d \<Rightarrow> computeLength c T_SnapshotStart []
   | SnapshotEnd \<Rightarrow> computeLength c T_SnapshotEnd []
   | Ticker t \<Rightarrow> computeLength c T_Ticker []
   | Trades t \<Rightarrow> computeLength c T_Trades [length (tr_trades_list t)])"

definition get_instrument_name :: "'i instrument_info_scheme \<Rightarrow> string" where
  "get_instrument_name i = in_instrument_name i"

text \<open>The cases of the switch on the template identifier.\<close>

definition template_of_id :: "nat \<Rightarrow> template option" where
  "template_of_id n =
     (if n = 1000 then Some T_Instrument
      else if n = 1001 then Some T_Book
      else if n = 1002 then Some T_Trades
      else if n = 1003 then Some T_Ticker
      else if n = 1004 then Some T_Snapshot
      else if n = 1005 then Some T_SnapshotStart
      else if n = 1006 then Some T_SnapshotEnd
      else if n = 1007 then Some T_ComboLegs
      else if n = 1008 then Some T_PriceIndex
      else if n = 1009 then Some T_Rfq
      else if n = 1010 then Some T_InstrumentV2
      else None)"

text \<open>One message: \<open>dispatch_helper\<close> decodes it, passes it to the handler and returns its length.\<close>

definition dispatch_helper ::
    "sbe_codec \<Rightarrow> 's sbe_handler \<Rightarrow> frame \<Rightarrow> template \<Rightarrow> byte list \<Rightarrow> 's \<Rightarrow> (nat \<times> 's) result" where
  "dispatch_helper c h f t message s =
     (case decode c t message of
        None \<Rightarrow> Inl DecodeError
      | Some m \<Rightarrow> andthen (on_message h s m f) (\<lambda>s'. Inr (compute_length c m, s')))"

definition dispatch_message ::
    "sbe_codec \<Rightarrow> 's sbe_handler \<Rightarrow> frame \<Rightarrow> byte list \<Rightarrow> 's \<Rightarrow> (nat \<times> 's) result" where
  "dispatch_message c h f packet s =
     (if length packet < header_length c then Inl (Assertion ''std::size(packet) >= length_message_header'')
      else case header_template_id c packet of
        None \<Rightarrow> Inl DecodeError
      | Some n \<Rightarrow>
          (case template_of_id n of
             None \<Rightarrow> Inl (Fatal ''Unexpected: template_id'')
           | Some t \<Rightarrow>
               andthen (dispatch_helper c h f t (drop (header_length c) packet) s)
                 (\<lambda>(n, s'). if length packet < header_length c + n
                    then Inl (Assertion ''bytes <= std::size(packet)'')
                    else Inr (header_length c + n, s'))))"

partial_function (option) dispatch_packet ::
    "sbe_codec \<Rightarrow> 's sbe_handler \<Rightarrow> frame \<Rightarrow> byte list \<Rightarrow> 's \<Rightarrow> 's result option" where
  "dispatch_packet c h f packet s =
     (if packet = [] then Some (Inr s)
      else case dispatch_message c h f packet s of
        Inl e \<Rightarrow> Some (Inl e)
      | Inr r \<Rightarrow> dispatch_packet c h f (drop (fst r) packet) (snd r))"

definition dispatch :: "sbe_codec \<Rightarrow> 's sbe_handler \<Rightarrow> byte list \<Rightarrow> 's \<Rightarrow> (bool \<times> 's) result option" where
  "dispatch c h buffer s =
     (case parse_helper buffer of
        Inl e \<Rightarrow> Some (Inl e)
      | Inr f \<Rightarrow>
          (let (accepted, s') = on_frame h s f
           in if \<not> accepted then Some (Inr (False, s'))
              else map_option (\<lambda>r. andthen r (\<lambda>s''. Inr (True, s'')))
                     (dispatch_packet c h f (drop frame_size buffer) s')))"

section \<open>The loop returns\<close>

lemma dispatch_packet_Nil [simp]: "dispatch_packet c h f [] s = Some (Inr s)"
  by (simp add: dispatch_packet.simps)

lemma dispatch_packet_step:
  "packet \<noteq> [] \<Longrightarrow> dispatch_packet c h f packet s =
     (case dispatch_message c h f packet s of
        Inl e \<Rightarrow> Some (Inl e)
      | Inr r \<Rightarrow> dispatch_packet c h f (drop (fst r) packet) (snd r))"
  by (subst dispatch_packet.simps) simp

lemma dispatch_message_bytes:
  "dispatch_message c h f packet s = Inr r \<Longrightarrow> header_length c \<le> fst r \<and> fst r \<le> length packet"
  by (auto simp: dispatch_message_def andthen_eq_Inr split: if_splits option.splits)

lemma dispatch_packet_returns:
  "0 < header_length c \<Longrightarrow> \<exists>r. dispatch_packet c h f packet s = Some r"
proof (induction "length packet" arbitrary: packet s rule: less_induct)
  case less
  show ?case
  proof (cases "packet = []")
    case False
    then show ?thesis
    proof (cases "dispatch_message c h f packet s")
      case (Inr r)
      with less.prems False dispatch_message_bytes [OF Inr]
      have "length (drop (fst r) packet) < length packet" by auto
      with less.hyps less.prems have "\<exists>x. dispatch_packet c h f (drop (fst r) packet) (snd r) = Some x"
        by blast
      with Inr False show ?thesis by (simp add: dispatch_packet_step)
    qed (simp add: dispatch_packet_step)
  qed simp
qed


section \<open>Invariants of a handler\<close>

text \<open>
  The interface a stream offers to the parser: an invariant that survives the check of the
  frame and every message. The parser then keeps it over whole datagrams, in any order.
\<close>

locale sbe_stream =
  fixes h :: "'s sbe_handler" and inv :: "'s \<Rightarrow> bool"
  assumes frame_keeps: "inv s \<Longrightarrow> inv (snd (on_frame h s f))"
    and message_keeps: "inv s \<Longrightarrow> on_message h s m f = Inr s' \<Longrightarrow> inv s'"
begin

lemma dispatch_message_keeps:
  "inv s \<Longrightarrow> dispatch_message c h f packet s = Inr r \<Longrightarrow> inv (snd r)"
  by (auto simp: dispatch_message_def dispatch_helper_def andthen_eq_Inr
      split: if_splits option.splits dest: message_keeps)

lemma dispatch_packet_keeps:
  assumes ret: "dispatch_packet c h f packet s = Some (Inr s')" and inv: "inv s"
  shows "inv s'"
proof -
  have "inv s \<longrightarrow> (\<forall>s'. x = Inr s' \<longrightarrow> inv s')" if "dispatch_packet c h f packet s = Some x" for x
  proof (rule dispatch_packet.raw_induct
      [where P = "\<lambda>c' h' f packet s x. h' = h \<longrightarrow> inv s \<longrightarrow> (\<forall>s'. x = Inr s' \<longrightarrow> inv s')", OF _ that,
        THEN mp, OF _ refl])
    fix g c' h' f packet s x
    assume IH: "\<And>c' h' f packet s x. g c' h' f packet s = Some x \<Longrightarrow>
        h' = h \<longrightarrow> inv s \<longrightarrow> (\<forall>s'. x = Inr s' \<longrightarrow> inv s')"
      and eq: "(if packet = [] then Some (Inr s)
        else case dispatch_message c' h' f packet s of Inl e \<Rightarrow> Some (Inl e)
          | Inr r \<Rightarrow> g c' h' f (drop (fst r) packet) (snd r)) = Some x"
    show "h' = h \<longrightarrow> inv s \<longrightarrow> (\<forall>s'. x = Inr s' \<longrightarrow> inv s')"
    proof (intro impI allI)
      fix s1
      assume a: "h' = h" "inv s" "x = Inr s1"
      show "inv s1"
      proof (cases "packet = []")
        case False
        with eq a obtain r where r: "dispatch_message c' h f packet s = Inr r"
          and g: "g c' h f (drop (fst r) packet) (snd r) = Some (Inr s1)"
          by (cases "dispatch_message c' h f packet s") auto
        from dispatch_message_keeps [OF a(2) r] IH [OF g] show ?thesis by simp
      qed (use eq a in simp)
    qed
  qed
  with ret inv show ?thesis by blast
qed

lemma dispatch_keeps:
  assumes "dispatch c h buffer s = Some (Inr (r, s'))" and "inv s"
  shows "inv s'"
proof -
  obtain f where f: "parse_helper buffer = Inr f"
    using assms(1) by (cases "parse_helper buffer") (auto simp: dispatch_def)
  obtain a t where t: "on_frame h s f = (a, t)" by fastforce
  have "inv t" using frame_keeps [OF assms(2), of f] t by simp
  then show ?thesis
    using assms(1) f t dispatch_packet_keeps
    by (auto simp: dispatch_def andthen_eq_Inr split: if_splits)
qed

end

section \<open>A datagram is the sequence of its messages\<close>

text \<open>
  \<open>encodes c enc\<close>: the documented behaviour of the generated code, for an encoder \<open>enc\<close> of
  whole messages (header and body): the header is read back, the body is decoded, and the
  computed length is the encoded one, whatever bytes follow.
\<close>

definition encodes :: "sbe_codec \<Rightarrow> (sbe_message \<Rightarrow> byte list) \<Rightarrow> sbe_message \<Rightarrow> bool" where
  "encodes c enc m \<longleftrightarrow>
     enc m \<noteq> [] \<and>
     (\<exists>n t. template_of_id n = Some t \<and>
        (\<forall>rest. header_template_id c (enc m @ rest) = Some n \<and>
                decode c t (drop (header_length c) (enc m @ rest)) = Some m)) \<and>
     header_length c + compute_length c m = length (enc m)"

lemma dispatch_message_encoded:
  assumes "encodes c enc m"
  shows "dispatch_message c h f (enc m @ rest) s =
    andthen (on_message h s m f) (\<lambda>s'. Inr (length (enc m), s'))"
proof -
  from assms obtain n t where "template_of_id n = Some t"
    "header_template_id c (enc m @ rest) = Some n"
    "decode c t (drop (header_length c) (enc m @ rest)) = Some m"
    "header_length c + compute_length c m = length (enc m)"
    unfolding encodes_def by blast
  then show ?thesis
    by (cases "on_message h s m f") (auto simp: dispatch_message_def dispatch_helper_def)
qed

lemma dispatch_packet_encoded:
  "\<forall>m\<in>set ms. encodes c enc m \<Longrightarrow>
   dispatch_packet c h f (concat (map enc ms)) s = Some (foldr_result (\<lambda>m s. on_message h s m f) ms s)"
proof (induction ms arbitrary: s)
  case Nil
  then show ?case by simp
next
  case (Cons m ms)
  then have m: "encodes c enc m" "enc m \<noteq> []" by (auto simp: encodes_def)
  show ?case
  proof (cases "on_message h s m f")
    case (Inl e)
    then show ?thesis using m
      by (simp add: dispatch_packet_step dispatch_message_encoded)
  next
    case (Inr s')
    then show ?thesis using m Cons
      by (simp add: dispatch_packet_step dispatch_message_encoded)
  qed
qed

lemma dispatch_encodes:
  assumes "\<forall>m\<in>set ms. encodes c enc m"
  shows "dispatch c h (frame_bytes f @ concat (map enc ms)) s =
    (let (accepted, s') = on_frame h s f
     in if accepted
        then Some (andthen (foldr_result (\<lambda>m s. on_message h s m f) ms s') (\<lambda>s''. Inr (True, s'')))
        else Some (Inr (False, s')))"
  using dispatch_packet_encoded [OF assms, of h f]
  by (auto simp: dispatch_def parse_helper_frame_bytes split: prod.splits)


definition demo_codec :: sbe_codec where
  "demo_codec = \<lparr>header_length = 1,
     header_template_id = (\<lambda>b. case b of [] \<Rightarrow> None | x # xs \<Rightarrow> Some (1000 + unat x)),
     decode = (\<lambda>t b. if t = T_SnapshotStart then Some (SnapshotStart 7)
                     else if t = T_SnapshotEnd then Some SnapshotEnd else None),
     computeLength = (\<lambda>t ns. 0), yes_no_value = (\<lambda>v. if v = YesNo_no then 0 else 1)\<rparr>"

definition demo_enc :: "sbe_message \<Rightarrow> byte list" where
  "demo_enc m = (if m = SnapshotStart 7 then [5] else [6])"

lemma demo_encodes: "encodes demo_codec demo_enc (SnapshotStart 7)" "encodes demo_codec demo_enc SnapshotEnd"
  by (auto simp: encodes_def demo_codec_def demo_enc_def template_of_id_def compute_length_def)



end
