(* ===== verification/Udp_Common.thy ===== *)
theory Udp_Common
  imports Shared Channel Sbe_Parser
begin

text \<open>
  What the two multicast streams share: the calls they make on the dispatcher, the book
  sequencer of the framework as a record of functions, and the conversion of levels. The
  sequencer answers a book update or a snapshot with the callbacks it runs, in order, with
  whether it threw \<open>BadState\<close>, and with its new state.
\<close>

datatype udp_out =
    Out_StreamStatus stream_status
  | Out_MarketByPrice market_by_price_update
  | Out_MarketByPriceSnapshot market_by_price_update
  | Out_TradeSummary trade_summary
  | Out_TopOfBook top_of_book

datatype sequencer_call =
    Publish_Update "mbp_update list" "mbp_update list"
  | Publish_Snapshot "mbp_update list" "mbp_update list" uint64
  | Request_Snapshot

record 'q sequencer =
  sq_new :: 'q
  sq_clear :: "'q \<Rightarrow> 'q"
  sq_ready :: "'q \<Rightarrow> bool"
  sq_update :: "'q \<Rightarrow> mbp_update list \<Rightarrow> mbp_update list \<Rightarrow> uint64 \<Rightarrow> uint64 \<Rightarrow> uint64 \<Rightarrow>
    sequencer_call list \<times> bool \<times> 'q"
  sq_snapshot :: "'q \<Rightarrow> mbp_update list \<Rightarrow> mbp_update list \<Rightarrow> uint64 \<Rightarrow> bool \<Rightarrow>
    sequencer_call list \<times> bool \<times> 'q"

text \<open>\<open>std::chrono::milliseconds\<close> of a raw time stamp, as nanoseconds.\<close>

definition ns_of_ms :: "uint64 \<Rightarrow> nanoseconds" where
  "ns_of_ms t = sint t * 1000000"

definition make_level :: "double \<Rightarrow> 'e book_level_scheme \<Rightarrow> mbp_update" where
  "make_level m i = \<lparr>mbp_price = bc_price i, mbp_quantity = fmul (bc_amount i) m, mbp_implied_quantity = NaN\<rparr>"

text \<open>The lambda \<open>append_change\<close> (\<open>append_level\<close>) of both streams.\<close>

definition append_change :: "double \<Rightarrow> 'e book_level_scheme \<Rightarrow> channel \<Rightarrow> channel" where
  "append_change m i c =
     (case map_book_side (bc_side i) of
        Some Side_BUY \<Rightarrow> c\<lparr>bids := bids c @ [make_level m i]\<rparr>
      | Some Side_SELL \<Rightarrow> c\<lparr>asks := asks c @ [make_level m i]\<rparr>
      | _ \<Rightarrow> c)"

definition is_last_flag :: "sbe_codec \<Rightarrow> yes_no \<Rightarrow> bool" where
  "is_last_flag c v \<longleftrightarrow> yes_no_value c v \<noteq> 0"

text \<open>The bid and the ask levels of a list of changes, in order: the specification of the two folds.\<close>

definition bid_levels :: "double \<Rightarrow> 'e book_level_scheme list \<Rightarrow> mbp_update list" where
  "bid_levels m cs = map (make_level m) (filter (\<lambda>i. bc_side i = BookSide_bid) cs)"

definition ask_levels :: "double \<Rightarrow> 'e book_level_scheme list \<Rightarrow> mbp_update list" where
  "ask_levels m cs = map (make_level m) (filter (\<lambda>i. bc_side i = BookSide_ask) cs)"

lemma levels_append [simp]:
  "bid_levels m (xs @ ys) = bid_levels m xs @ bid_levels m ys"
  "ask_levels m (xs @ ys) = ask_levels m xs @ ask_levels m ys"
  by (simp_all add: bid_levels_def ask_levels_def)

lemma levels_Nil [simp]: "bid_levels m [] = []" "ask_levels m [] = []"
  by (simp_all add: bid_levels_def ask_levels_def)

definition get_channel :: "frame \<Rightarrow> (uint16 \<rightharpoonup> channel) \<Rightarrow> channel" where
  "get_channel f m = (case m (channel_id f) of Some c \<Rightarrow> c | None \<Rightarrow> channel_init)"

text \<open>The pending book of a channel is dropped: the end of the callbacks of both streams.\<close>

definition channel_flush :: "channel \<Rightarrow> channel" where
  "channel_flush c = c\<lparr>instrument_id := 0, bids := [], asks := []\<rparr>"

definition channel_pending :: "uint32 \<Rightarrow> channel \<Rightarrow> channel" where
  "channel_pending i c = (if instrument_id c = 0 then c\<lparr>instrument_id := i\<rparr> else c)"

lemma channel_pending_fields [simp]:
  "bids (channel_pending i c) = bids c" "asks (channel_pending i c) = asks c"
  "ch_ready (channel_pending i c) = ch_ready c"
  by (simp_all add: channel_pending_def)

text \<open>The symbols that a stream may publish: those of the known instruments that are not discarded.\<close>

definition live_symbol :: "'q shared \<Rightarrow> string \<Rightarrow> bool" where
  "live_symbol sh nm \<longleftrightarrow>
     (\<exists>i inst. instruments sh i = Some inst \<and> \<not> inst_discard inst \<and> inst_symbol inst = nm)"

lemma live_symbol_created:
  "live_symbol sh nm \<Longrightarrow> live_symbol (maybe_create_instrument i inst sh) nm"
  unfolding live_symbol_def using cache.create_stable by blast

lemma live_symbol_found:
  assumes "find_instrument i cb sh x = (r, sh', x')" "\<And>inst y. inst_key (fst (cb inst y)) = inst_key inst"
    and "live_symbol sh nm"
  shows "live_symbol sh' nm"
proof -
  obtain j inst where j: "instruments sh j = Some inst" "\<not> inst_discard inst" "inst_symbol inst = nm"
    using assms(3) unfolding live_symbol_def by blast
  have "map_option inst_key (instruments sh' j) = Some (inst_key inst)"
    using find_instrument_frame [of cb i sh x j, OF assms(2)] assms(1) j(1) by simp
  with j show ?thesis unfolding live_symbol_def inst_key_def by auto
qed

text \<open>The callback of \<open>find_instrument\<close> only runs on a live instrument.\<close>

lemma find_instrument_cases:
  assumes "find_instrument i cb sh x = (r, sh', x')"
  obtains (skip) "sh' = sh" "x' = x"
  | (run) inst inst' where "instruments sh i = Some inst" "\<not> inst_discard inst"
      "cb inst x = (inst', x')" "sh' = sh\<lparr>instruments := (instruments sh)(i \<mapsto> inst')\<rparr>"
  using assms by (auto simp: find_instrument_def split: option.splits if_splits prod.splits)

lemma channel_flush_fields [simp]:
  "bids (channel_flush c) = []" "asks (channel_flush c) = []" "instrument_id (channel_flush c) = 0"
  "ch_ready (channel_flush c) = ch_ready c"
  by (simp_all add: channel_flush_def)

lemma instruments_upd_triv [simp]:
  "instruments sh i = Some inst \<Longrightarrow> sh\<lparr>instruments := (instruments sh)(i \<mapsto> inst)\<rparr> = sh"
  by (simp add: map_upd_triv)

text \<open>A callback of \<open>find_instrument\<close> that does not change the instrument.\<close>

lemma find_instrument_read:
  "find_instrument i (\<lambda>inst y. (inst, g inst y)) sh x =
     (instruments sh i \<noteq> None, sh,
      case instruments sh i of None \<Rightarrow> x | Some inst \<Rightarrow> if inst_discard inst then x else g inst x)"
  by (cases "instruments sh i") (simp_all add: find_instrument_def)

lemma live_symbolI:
  "instruments sh i = Some inst \<Longrightarrow> \<not> inst_discard inst \<Longrightarrow> live_symbol sh (inst_symbol inst)"
  unfolding live_symbol_def by blast

lemma maybe_create_settings [simp]: "sh_settings (maybe_create_instrument i inst sh) = sh_settings sh"
  by (simp add: maybe_create_instrument_def split: option.splits)

lemma find_instrument_settings [simp]:
  "find_instrument i cb sh x = (r, sh', x') \<Longrightarrow> sh_settings sh' = sh_settings sh"
  by (erule find_instrument_cases) auto

lemma fold_append_change:
  "fold (append_change m) cs ch = ch\<lparr>bids := bids ch @ bid_levels m cs, asks := asks ch @ ask_levels m cs\<rparr>"
proof (induction cs arbitrary: ch)
  case (Cons i cs)
  then show ?case
    by (cases "bc_side i") (simp_all add: append_change_def model_defs bid_levels_def ask_levels_def)
qed simp

text \<open>A sequencer that publishes everything it is given, for concrete runs.\<close>

definition plain_sequencer :: "nat sequencer" where
  "plain_sequencer = \<lparr>sq_new = 0, sq_clear = (\<lambda>q. 0), sq_ready = (\<lambda>q. q \<noteq> 0),
     sq_update = (\<lambda>q bs as f l p. ([Publish_Update bs as], False, Suc q)),
     sq_snapshot = (\<lambda>q bs as n force. ([Publish_Snapshot bs as n], False, Suc q))\<rparr>"

end
