(* ===== verification/Udp_Events.thy ===== *)
theory Udp_Events
  imports Udp_Common
begin

text \<open>
  The stream of incremental events (\<open>gateway/udp_events.cpp\<close>): the handlers of the frame
  and of every message, the sequence filter of tickers and trades, and the stream's own
  handlers. The receiver of the datagrams belongs to the framework: \<open>ue_read\<close> takes the
  datagrams its calls of \<open>recv\<close> return.
\<close>

record 'q udp_events =
  ue_stream_id :: uint16
  ue_publish_top_of_book :: bool
  ue_publish_market_by_price :: bool
  ue_publish_trade_summary :: bool
  ue_supports :: "support_type list"
  ue_shared :: "'q shared"
  ue_connection_status :: connection_status
  ue_last_ticker :: "uint32 \<rightharpoonup> uint32"
  ue_last_trades :: "uint32 \<rightharpoonup> uint32"
  ue_channel :: "uint16 \<rightharpoonup> channel"
  ue_last_update_time :: nanoseconds
  ue_out :: "udp_out list"

section \<open>Construction\<close>

definition ue_get_supports :: "bool \<Rightarrow> bool \<Rightarrow> bool \<Rightarrow> support_type list" where
  "ue_get_supports tob mbp ts =
     (if tob then [ST_TOP_OF_BOOK] else []) @ (if mbp then [ST_MARKET_BY_PRICE] else []) @
     (if ts then [ST_TRADE_SUMMARY] else [])"

definition ue_create :: "uint16 \<Rightarrow> 'q shared \<Rightarrow> 'q udp_events" where
  "ue_create sid sh =
     (let tob = \<not> multicast_disable_top_of_book (sh_settings sh);
          mbp = \<not> multicast_disable_market_by_price (sh_settings sh);
          ts = \<not> multicast_disable_trade_summary (sh_settings sh)
      in \<lparr>ue_stream_id = sid, ue_publish_top_of_book = tob, ue_publish_market_by_price = mbp,
          ue_publish_trade_summary = ts, ue_supports = ue_get_supports tob mbp ts, ue_shared = sh,
          ue_connection_status = CS_UNDEFINED, ue_last_ticker = Map.empty, ue_last_trades = Map.empty,
          ue_channel = Map.empty, ue_last_update_time = 0, ue_out = []\<rparr>)"

section \<open>The sequence filter\<close>

definition midpoint :: uint32 where
  "midpoint = 2147483648"

definition test_sequence ::
    "(uint32 \<rightharpoonup> uint32) \<Rightarrow> uint32 \<Rightarrow> uint32 \<Rightarrow> bool \<times> (uint32 \<rightharpoonup> uint32)" where
  "test_sequence cache i n =
     (case cache i of
        Some previous \<Rightarrow>
          if previous < n then (True, cache(i \<mapsto> n))
          else if n < midpoint \<and> midpoint < previous then (True, cache(i \<mapsto> n))
          else (False, cache)
      | None \<Rightarrow> (True, cache(i \<mapsto> n)))"

section \<open>Handlers of the stream\<close>

definition ue_emit :: "udp_out \<Rightarrow> 'q udp_events \<Rightarrow> 'q udp_events" where
  "ue_emit e s = s\<lparr>ue_out := ue_out s @ [e]\<rparr>"

definition ue_on_connection_status :: "connection_status \<Rightarrow> string \<Rightarrow> 'q udp_events \<Rightarrow> 'q udp_events" where
  "ue_on_connection_status cs reason s =
     ue_emit (Out_StreamStatus \<lparr>ss_stream_id = ue_stream_id s, ss_account = [], ss_supports = ue_supports s,
         ss_transport = Transport_UDP, ss_protocol = Protocol_SBE, ss_connection_status = cs, ss_reason = reason\<rparr>)
       (s\<lparr>ue_connection_status := cs\<rparr>)"

definition ue_notify :: "externals \<Rightarrow> connection_status \<Rightarrow> 'q udp_events \<Rightarrow> 'q udp_events" where
  "ue_notify x cs s =
     (if base_notify x (ue_connection_status s) cs then ue_on_connection_status cs [] s else s)"

definition ue_ready :: "'q udp_events \<Rightarrow> bool" where
  "ue_ready s \<longleftrightarrow> ue_connection_status s = CS_READY"

definition ue_start :: "externals \<Rightarrow> trace_info \<Rightarrow> 'q udp_events \<Rightarrow> 'q udp_events" where
  "ue_start x ti s = (ue_notify x CS_CONNECTING s)\<lparr>ue_last_update_time := source_receive_time ti\<rparr>"

definition ue_timer :: "nanoseconds \<Rightarrow> 'q udp_events \<Rightarrow> 'q udp_events" where
  "ue_timer now s =
     (if ue_last_update_time s \<noteq> 0 \<and>
         ue_last_update_time s + multicast_timeout (sh_settings (ue_shared s)) < now
      then s\<lparr>ue_last_update_time := 0\<rparr> else s)"

section \<open>Frames and instruments\<close>

definition ue_on_frame :: "'q udp_events \<Rightarrow> frame \<Rightarrow> bool \<times> 'q udp_events" where
  "ue_on_frame s f =
     (let (r, c) = receive_frame (get_channel f (ue_channel s)) f
      in (r, s\<lparr>ue_channel := (ue_channel s)(channel_id f \<mapsto> c)\<rparr>))"

definition ue_instrument ::
    "externals \<Rightarrow> 'q sequencer \<Rightarrow> sbe_instrument \<Rightarrow> 'q udp_events \<Rightarrow> 'q udp_events" where
  "ue_instrument x ops i s =
     (let contract_size = in_contract_size i;
          m = compute_contracts_multiplier x contract_size;
          nm = get_instrument_name i;
          discard = discard_symbol x nm
      in s\<lparr>ue_shared := maybe_create_instrument (in_instrument_id i)
             (create_instrument nm contract_size m discard (sq_new ops)) (ue_shared s)\<rparr>)"

section \<open>Book updates\<close>

definition ue_create_update ::
    "'q udp_events \<Rightarrow> 'q instrument \<Rightarrow> sbe_book \<Rightarrow> mbp_update list \<Rightarrow> mbp_update list \<Rightarrow>
     update_type \<Rightarrow> uint64 \<Rightarrow> market_by_price_update" where
  "ue_create_update s inst b bs as ut n =
     \<lparr>mu_stream_id = ue_stream_id s, mu_exchange = set_exchange (sh_settings (ue_shared s)),
      mu_symbol = inst_symbol inst, mu_bids = bs, mu_asks = as, mu_update_type = ut,
      mu_exchange_time_utc = ns_of_ms (bk_timestamp_ms b), mu_exchange_sequence = n,
      mu_sending_time_utc = 0\<rparr>"

text \<open>The callbacks \<open>publish_update\<close>, \<open>publish_snapshot\<close> and \<open>request_snapshot\<close>.\<close>

definition ue_sequencer_call ::
    "'q udp_events \<Rightarrow> 'q instrument \<Rightarrow> sbe_book \<Rightarrow> sequencer_call \<Rightarrow> udp_out list" where
  "ue_sequencer_call s inst b call =
     (case call of
        Publish_Update bs as \<Rightarrow>
          if bs = [] \<and> as = [] then []
          else [Out_MarketByPrice (ue_create_update s inst b bs as UpdateType_INCREMENTAL (bk_change_id b))]
      | Publish_Snapshot bs as n \<Rightarrow>
          [Out_MarketByPriceSnapshot (ue_create_update s inst b bs as UpdateType_SNAPSHOT n)]
      | Request_Snapshot \<Rightarrow> [])"

definition ue_book_callback ::
    "sbe_codec \<Rightarrow> 'q sequencer \<Rightarrow> 'q udp_events \<Rightarrow> sbe_book \<Rightarrow> 'q instrument \<Rightarrow> channel \<times> udp_out list \<Rightarrow>
     'q instrument \<times> channel \<times> udp_out list" where
  "ue_book_callback c ops s b inst = (\<lambda>(ch, out).
     (let ch1 = fold (append_change (inst_multiplier inst)) (bk_changes_list b) ch
      in if \<not> is_last_flag c (bk_is_last b)
         then (inst, channel_pending (bk_instrument_id b) ch1, out)
         else (let (calls, bad_state, q) =
                 sq_update ops (inst_sequencer inst) (bids ch1) (asks ch1)
                   (bk_change_id b) (bk_change_id b) (bk_prev_change_id b);
               q' = (if bad_state then sq_clear ops q else q)
           in (inst\<lparr>inst_sequencer := q'\<rparr>, channel_flush ch1,
               out @ concat (map (ue_sequencer_call s inst b) calls)))))"

definition ue_book ::
    "sbe_codec \<Rightarrow> 'q sequencer \<Rightarrow> sbe_book \<Rightarrow> frame \<Rightarrow> 'q udp_events \<Rightarrow> 'q udp_events" where
  "ue_book c ops b f s =
     (if \<not> ue_publish_market_by_price s then s
      else (let (found, sh, ch, out) =
              find_instrument (bk_instrument_id b) (ue_book_callback c ops s b) (ue_shared s)
                (get_channel f (ue_channel s), ue_out s)
        in s\<lparr>ue_shared := sh, ue_channel := (ue_channel s)(channel_id f \<mapsto> ch), ue_out := out\<rparr>))"

section \<open>Trades and tickers\<close>

definition ue_trade :: "double \<Rightarrow> sbe_trade \<Rightarrow> trade" where
  "ue_trade m i =
     \<lparr>trade_side = (case map_direction (st_direction i) of Some d \<Rightarrow> d | None \<Rightarrow> Side_UNDEFINED),
      trade_price = st_price i, trade_quantity = fmul (st_amount i) m,
      trade_id = show_nat (unat (st_trade_id i)), taker_order_id = [], maker_order_id = []\<rparr>"

definition ue_trade_summary :: "'q udp_events \<Rightarrow> sbe_trades \<Rightarrow> 'q instrument \<Rightarrow> trade_summary" where
  "ue_trade_summary s t inst =
     \<lparr>ts_stream_id = ue_stream_id s, ts_exchange = set_exchange (sh_settings (ue_shared s)),
      ts_symbol = inst_symbol inst,
      ts_trades = map (ue_trade (inst_multiplier inst)) (tr_trades_list t),
      ts_exchange_time_utc = fold (\<lambda>i m. max m (ns_of_ms (st_timestamp_ms i))) (tr_trades_list t) 0,
      ts_sending_time_utc = 0\<rparr>"

definition ue_trades :: "sbe_trades \<Rightarrow> frame \<Rightarrow> 'q udp_events \<Rightarrow> 'q udp_events" where
  "ue_trades t f s =
     (if \<not> ue_publish_trade_summary s then s
      else (let (accepted, cache) = test_sequence (ue_last_trades s) (tr_instrument_id t) (sequence_number f);
                s1 = s\<lparr>ue_last_trades := cache\<rparr>
        in if \<not> accepted then s1
           else (let callback = (\<lambda>inst out. (inst, out @ [Out_TradeSummary (ue_trade_summary s t inst)]));
                 (found, sh, out) = find_instrument (tr_instrument_id t) callback (ue_shared s1) (ue_out s1)
             in s1\<lparr>ue_shared := sh, ue_out := out\<rparr>)))"

definition ue_top_of_book :: "'q udp_events \<Rightarrow> sbe_ticker \<Rightarrow> 'q instrument \<Rightarrow> top_of_book" where
  "ue_top_of_book s t inst =
     \<lparr>tob_stream_id = ue_stream_id s, tob_exchange = set_exchange (sh_settings (ue_shared s)),
      tob_symbol = inst_symbol inst,
      tob_layer = \<lparr>bid_price = tk_best_bid_price t,
        bid_quantity = fmul (tk_best_bid_amount t) (inst_multiplier inst),
        ask_price = tk_best_ask_price t,
        ask_quantity = fmul (tk_best_ask_amount t) (inst_multiplier inst)\<rparr>,
      tob_update_type = UpdateType_SNAPSHOT,
      tob_exchange_time_utc = ns_of_ms (tk_timestamp_ms t)\<rparr>"

definition ue_ticker :: "sbe_ticker \<Rightarrow> frame \<Rightarrow> 'q udp_events \<Rightarrow> 'q udp_events" where
  "ue_ticker t f s =
     (if \<not> ue_publish_top_of_book s then s
      else (let (accepted, cache) = test_sequence (ue_last_ticker s) (tk_instrument_id t) (sequence_number f);
                s1 = s\<lparr>ue_last_ticker := cache\<rparr>
        in if \<not> accepted then s1
           else (let callback = (\<lambda>inst out. (inst, out @ [Out_TopOfBook (ue_top_of_book s t inst)]));
                 (found, sh, out) = find_instrument (tk_instrument_id t) callback (ue_shared s1) (ue_out s1)
             in s1\<lparr>ue_shared := sh, ue_out := out\<rparr>)))"

section \<open>Dispatch\<close>

definition ue_on_error :: "string \<Rightarrow> 'q udp_events \<Rightarrow> 'q udp_events result" where
  "ue_on_error what s = Inl (Fatal (''Error: what='' @ what))"

definition ue_on_message ::
    "externals \<Rightarrow> sbe_codec \<Rightarrow> 'q sequencer \<Rightarrow> 'q udp_events \<Rightarrow> sbe_message \<Rightarrow> frame \<Rightarrow> 'q udp_events result" where
  "ue_on_message x c ops s m f = (case m of
     Instrument i \<Rightarrow> Inr (ue_instrument x ops i s)
   | Book b \<Rightarrow> Inr (ue_book c ops b f s)
   | Trades t \<Rightarrow> Inr (ue_trades t f s)
   | Ticker t \<Rightarrow> Inr (ue_ticker t f s)
   | Snapshot n \<Rightarrow> Inl (Fatal ''Unexpected'')
   | SnapshotStart d \<Rightarrow> Inl (Fatal ''Unexpected'')
   | SnapshotEnd \<Rightarrow> Inl (Fatal ''Unexpected'')
   | ComboLegs l \<Rightarrow> Inl (Fatal ''Unexpected'')
   | PriceIndex p \<Rightarrow> Inr s
   | Rfq q \<Rightarrow> Inl (Fatal ''Unexpected'')
   | InstrumentV2 i \<Rightarrow> Inr s)"

definition ue_handler :: "externals \<Rightarrow> sbe_codec \<Rightarrow> 'q sequencer \<Rightarrow> 'q udp_events sbe_handler" where
  "ue_handler x c ops = \<lparr>on_frame = ue_on_frame, on_message = ue_on_message x c ops\<rparr>"

text \<open>The loop over the datagrams: it ends at the first empty one, and at a failure.\<close>

fun ue_receive ::
    "externals \<Rightarrow> sbe_codec \<Rightarrow> 'q sequencer \<Rightarrow> byte list list \<Rightarrow> 'q udp_events \<Rightarrow> 'q udp_events result option" where
  "ue_receive x c ops [] s = Some (Inr s)"
| "ue_receive x c ops (d # ds) s =
     (if d = [] then Some (Inr s)
      else case dispatch c (ue_handler x c ops) d s of
        None \<Rightarrow> None
      | Some (Inl e) \<Rightarrow> Some (Inl e)
      | Some (Inr (r, s')) \<Rightarrow> ue_receive x c ops ds s')"

definition ue_read ::
    "externals \<Rightarrow> sbe_codec \<Rightarrow> 'q sequencer \<Rightarrow> trace_info \<Rightarrow> byte list list \<Rightarrow> 'q udp_events \<Rightarrow>
     'q udp_events result option" where
  "ue_read x c ops ti ds s =
     ue_receive x c ops ds (ue_notify x CS_READY (s\<lparr>ue_last_update_time := source_receive_time ti\<rparr>))"

lemmas ue_defs [model_defs] =
  ue_emit_def ue_on_connection_status_def ue_notify_def ue_start_def ue_timer_def ue_on_frame_def
  ue_instrument_def

section \<open>What the filter lets through\<close>

text \<open>The sequence numbers of a run that the filter accepts, in order.\<close>

fun accept_run :: "(uint32 \<rightharpoonup> uint32) \<Rightarrow> uint32 \<Rightarrow> uint32 list \<Rightarrow> uint32 list" where
  "accept_run cache i [] = []"
| "accept_run cache i (n # ns) =
     (let (r, cache') = test_sequence cache i n
      in if r then n # accept_run cache' i ns else accept_run cache' i ns)"

text \<open>The running maxima of a list above a bound: what a filter of stale packets should keep.\<close>

fun fresh_above :: "uint32 \<Rightarrow> uint32 list \<Rightarrow> uint32 list" where
  "fresh_above p [] = []"
| "fresh_above p (n # ns) = (if p < n then n # fresh_above n ns else fresh_above p ns)"

lemma fresh_above_greater: "n \<in> set (fresh_above p ns) \<Longrightarrow> p < n"
  by (induction p ns rule: fresh_above.induct) (auto split: if_splits)

lemma fresh_above_sorted: "sorted_wrt (<) (fresh_above p ns)"
  by (induction p ns rule: fresh_above.induct) (auto dest: fresh_above_greater)

lemma accept_run_fresh:
  "cache i = Some p \<Longrightarrow> p \<le> midpoint \<Longrightarrow> \<forall>n\<in>set ns. n \<le> midpoint \<Longrightarrow>
   accept_run cache i ns = fresh_above p ns"
  by (induction ns arbitrary: cache p) (auto simp: test_sequence_def)

text \<open>
  C13: as long as the sequence numbers do not pass the middle of the 32-bit range, the filter
  of tickers and trades lets through exactly the running maxima of the numbers it is given:
  a late or repeated packet is dropped, and what is let through is strictly increasing.
\<close>

theorem accept_run_strictly_increasing:
  assumes "\<forall>n\<in>set (n0 # ns). n \<le> midpoint" "cache i = None"
  shows "accept_run cache i (n0 # ns) = n0 # fresh_above n0 ns \<and>
    sorted_wrt (<) (accept_run cache i (n0 # ns))"
  using assms
  by (auto simp: test_sequence_def accept_run_fresh fresh_above_sorted dest: fresh_above_greater)

theorem accept_run_strictly_increasing_witness:
  "accept_run Map.empty 7 [3, 5, 4, 5, 9] = [3, 5, 9]"
  using accept_run_strictly_increasing [of 3 "[5, 4, 5, 9]" Map.empty 7]
  by (simp add: midpoint_def)

section \<open>A book update that spans several datagrams\<close>

text \<open>One datagram with one book message, and a run of them.\<close>

definition ue_datagram ::
    "sbe_codec \<Rightarrow> 'q sequencer \<Rightarrow> frame \<times> sbe_book \<Rightarrow> 'q udp_events \<Rightarrow> 'q udp_events" where
  "ue_datagram c ops fb s =
     (let (r, s') = ue_on_frame s (fst fb) in if r then ue_book c ops (snd fb) (fst fb) s' else s')"

lemma ue_datagram_dispatch:
  "encodes c enc (Book b) \<Longrightarrow>
   \<exists>r. dispatch c (ue_handler x c ops) (frame_bytes f @ enc (Book b)) s =
     Some (Inr (r, ue_datagram c ops (f, b) s))"
  using dispatch_encodes [of "[Book b]" c enc "ue_handler x c ops" f s]
  by (auto simp: ue_handler_def ue_on_message_def ue_datagram_def split: prod.splits)

definition live :: "'q udp_events \<Rightarrow> uint32 \<Rightarrow> 'q instrument \<Rightarrow> bool" where
  "live s i inst \<longleftrightarrow> ue_publish_market_by_price s \<and> instruments (ue_shared s) i = Some inst \<and>
     \<not> inst_discard inst"

lemma ue_sequencer_call_channel [simp]:
  "ue_sequencer_call (s\<lparr>ue_channel := x\<rparr>) = ue_sequencer_call s"
  by (intro ext) (simp add: ue_sequencer_call_def ue_create_update_def split: sequencer_call.splits)

text \<open>The channel after the levels of a book message are added, and the sequencer run on it.\<close>

definition collect :: "'q instrument \<Rightarrow> frame \<Rightarrow> sbe_book \<Rightarrow> channel \<Rightarrow> channel" where
  "collect inst f b ch = ch\<lparr>previous_sequence_number := sequence_number f,
     bids := bids ch @ bid_levels (inst_multiplier inst) (bk_changes_list b),
     asks := asks ch @ ask_levels (inst_multiplier inst) (bk_changes_list b)\<rparr>"

definition commit ::
    "'q sequencer \<Rightarrow> 'q instrument \<Rightarrow> sbe_book \<Rightarrow> uint16 \<Rightarrow> channel \<Rightarrow> 'q udp_events \<Rightarrow> 'q udp_events" where
  "commit ops inst b k ch s =
     (let (calls, bad, q) = sq_update ops (inst_sequencer inst) (bids ch) (asks ch)
            (bk_change_id b) (bk_change_id b) (bk_prev_change_id b)
      in s\<lparr>ue_shared := (ue_shared s)\<lparr>instruments := (instruments (ue_shared s))(bk_instrument_id b \<mapsto>
             inst\<lparr>inst_sequencer := if bad then sq_clear ops q else q\<rparr>)\<rparr>,
          ue_channel := (ue_channel s)(k \<mapsto> channel_flush ch),
          ue_out := ue_out s @ concat (map (ue_sequencer_call s inst b) calls)\<rparr>)"

lemma ue_datagram_next:
  assumes "live s (bk_instrument_id b) inst" "ue_channel s (channel_id f) = Some ch"
    and "sequence_number f = previous_sequence_number ch + 1"
  shows "ue_datagram c ops (f, b) s =
    (if \<not> is_last_flag c (bk_is_last b)
     then s\<lparr>ue_channel := (ue_channel s)(channel_id f \<mapsto> channel_pending (bk_instrument_id b) (collect inst f b ch))\<rparr>
     else commit ops inst b (channel_id f) (collect inst f b ch) s)"
proof -
  let ?ch = "ch\<lparr>previous_sequence_number := sequence_number f\<rparr>"
  let ?s = "s\<lparr>ue_channel := (ue_channel s)(channel_id f \<mapsto> ?ch)\<rparr>"
  have fold: "fold (append_change (inst_multiplier inst)) (bk_changes_list b) ?ch = collect inst f b ch"
    by (simp add: fold_append_change collect_def)
  have "ue_datagram c ops (f, b) s = ue_book c ops b f ?s"
    using assms(2,3) by (simp add: ue_datagram_def ue_on_frame_def get_channel_def receive_frame_next)
  moreover have "ue_book c ops b f ?s =
    (if \<not> is_last_flag c (bk_is_last b)
     then s\<lparr>ue_channel := (ue_channel s)(channel_id f \<mapsto> channel_pending (bk_instrument_id b) (collect inst f b ch))\<rparr>
     else commit ops inst b (channel_id f) (collect inst f b ch) s)"
    using assms(1)
    by (auto simp: live_def ue_book_def find_instrument_def ue_book_callback_def fold get_channel_def
        commit_def case_prod_beta Let_def fun_upd_same simp del: fun_upd_apply)
  ultimately show ?thesis by simp
qed

text \<open>Books that are not the last of their update only collect levels.\<close>

fun collect_all :: "'q instrument \<Rightarrow> (frame \<times> sbe_book) list \<Rightarrow> channel \<Rightarrow> channel" where
  "collect_all inst [] ch = ch"
| "collect_all inst (fb # fbs) ch =
     collect_all inst fbs (channel_pending (bk_instrument_id (snd fb)) (collect inst (fst fb) (snd fb) ch))"

lemma collect_all_levels:
  "bids (collect_all inst fbs ch) =
     bids ch @ bid_levels (inst_multiplier inst) (concat (map (bk_changes_list \<circ> snd) fbs))"
  "asks (collect_all inst fbs ch) =
     asks ch @ ask_levels (inst_multiplier inst) (concat (map (bk_changes_list \<circ> snd) fbs))"
  by (induction fbs arbitrary: ch) (simp_all add: collect_def)

lemma channel_pending_previous [simp]:
  "previous_sequence_number (channel_pending i c) = previous_sequence_number c"
  by (simp add: channel_pending_def)

lemma collect_previous [simp]: "previous_sequence_number (collect inst f b ch) = sequence_number f"
  by (simp add: collect_def)

lemma collect_all_previous:
  "previous_sequence_number (collect_all inst fbs ch) =
   (if fbs = [] then previous_sequence_number ch else sequence_number (fst (last fbs)))"
  by (induction fbs arbitrary: ch) auto

text \<open>\<open>part_of\<close>: the datagrams are consecutive, of one channel and one instrument, and not the last.\<close>

fun part_of :: "sbe_codec \<Rightarrow> uint16 \<Rightarrow> uint32 \<Rightarrow> uint32 \<Rightarrow> (frame \<times> sbe_book) list \<Rightarrow> bool" where
  "part_of c k i n [] = True"
| "part_of c k i n (fb # fbs) =
     (channel_id (fst fb) = k \<and> sequence_number (fst fb) = n + 1 \<and> bk_instrument_id (snd fb) = i \<and>
      \<not> is_last_flag c (bk_is_last (snd fb)) \<and> part_of c k i (sequence_number (fst fb)) fbs)"

lemma ue_datagrams_part:
  "live s i inst \<Longrightarrow> ue_channel s k = Some ch \<Longrightarrow> part_of c k i (previous_sequence_number ch) fbs \<Longrightarrow>
   fold (ue_datagram c ops) fbs s = s\<lparr>ue_channel := (ue_channel s)(k \<mapsto> collect_all inst fbs ch)\<rparr>"
proof (induction fbs arbitrary: s ch)
  case Nil
  then have "(ue_channel s)(k \<mapsto> ch) = ue_channel s" by (simp add: map_upd_triv)
  then show ?case by simp
next
  case (Cons fb fbs)
  obtain f b where fb: "fb = (f, b)" by fastforce
  let ?ch = "channel_pending (bk_instrument_id b) (collect inst f b ch)"
  let ?s = "s\<lparr>ue_channel := (ue_channel s)(k \<mapsto> ?ch)\<rparr>"
  have "ue_datagram c ops fb s = ?s"
    using Cons.prems by (simp add: fb ue_datagram_next)
  moreover have "live ?s i inst" using Cons.prems(1) by (simp add: live_def)
  moreover have "part_of c k i (previous_sequence_number ?ch) fbs"
    using Cons.prems(3) by (auto simp: fb)
  ultimately show ?case
    using Cons.IH [of ?s ?ch] by (simp add: fb fun_upd_same del: fun_upd_apply)
qed

lemma last_part:
  "part_of c k i n fbs \<Longrightarrow> fbs \<noteq> [] \<Longrightarrow> channel_id (fst (last fbs)) = k"
  by (induction c k i n fbs rule: part_of.induct) auto

text \<open>
  C1: a book update that spans several consecutive datagrams of a channel reaches the
  sequencer of the instrument exactly once, with the levels of all of them in order and the
  change identifiers of the last, and leaves no level behind on the channel.
\<close>

theorem book_update_reassembled:
  assumes "live s i inst" "ue_channel s k = Some ch" "bids ch = []" "asks ch = []"
    and "part_of c k i (previous_sequence_number ch) fbs"
    and "channel_id f = k" "bk_instrument_id b = i" "is_last_flag c (bk_is_last b)"
    and "sequence_number f = previous_sequence_number (collect_all inst fbs ch) + 1"
  shows "\<exists>ch'. bids ch' = [] \<and> asks ch' = [] \<and> instrument_id ch' = 0 \<and>
    fold (ue_datagram c ops) (fbs @ [(f, b)]) s =
      (let cs = concat (map (bk_changes_list \<circ> snd) (fbs @ [(f, b)]));
           (calls, bad, q) = sq_update ops (inst_sequencer inst)
              (bid_levels (inst_multiplier inst) cs) (ask_levels (inst_multiplier inst) cs)
              (bk_change_id b) (bk_change_id b) (bk_prev_change_id b)
       in s\<lparr>ue_shared := (ue_shared s)\<lparr>instruments := (instruments (ue_shared s))(i \<mapsto>
              inst\<lparr>inst_sequencer := if bad then sq_clear ops q else q\<rparr>)\<rparr>,
           ue_channel := (ue_channel s)(k \<mapsto> ch'),
           ue_out := ue_out s @ concat (map (ue_sequencer_call s inst b) calls)\<rparr>)"
proof -
  let ?ch = "collect_all inst fbs ch"
  let ?s = "s\<lparr>ue_channel := (ue_channel s)(k \<mapsto> ?ch)\<rparr>"
  have "fold (ue_datagram c ops) (fbs @ [(f, b)]) s = ue_datagram c ops (f, b) ?s"
    using ue_datagrams_part [OF assms(1,2,5), of ops] by simp
  also have "\<dots> = commit ops inst b k (collect inst f b ?ch) ?s"
    using ue_datagram_next [of ?s b inst f ?ch c ops] assms by (simp add: live_def)
  finally show ?thesis
    by (intro exI [of _ "channel_flush (collect inst f b ?ch)"])
      (simp add: commit_def collect_def collect_all_levels assms case_prod_beta Let_def fun_upd_same del: fun_upd_apply)
qed


definition demo_book :: "uint32 \<Rightarrow> yes_no \<Rightarrow> double \<Rightarrow> sbe_book" where
  "demo_book i l p = \<lparr>bk_instrument_id = i, bk_timestamp_ms = 1, bk_prev_change_id = 7, bk_change_id = 8,
     bk_is_last = l, bk_changes_list = [\<lparr>bc_side = BookSide_bid, bc_price = p, bc_amount = f_one, bc_change = 0\<rparr>]\<rparr>"

definition demo_frame :: "uint32 \<Rightarrow> frame" where
  "demo_frame n = \<lparr>packet_length = 0, channel_id = 1, sequence_number = n\<rparr>"

definition demo_instrument :: "nat instrument" where
  "demo_instrument = create_instrument ''BTC-PERPETUAL'' f_one f_one False 0"

definition demo_events :: "nat udp_events" where
  "demo_events = (ue_create 3 ((empty_shared default_settings)\<lparr>instruments := [7 \<mapsto> demo_instrument]\<rparr>))
     \<lparr>ue_channel := [1 \<mapsto> channel_init\<lparr>previous_sequence_number := 5, initialized := True\<rparr>]\<rparr>"

lemma demo_live: "live demo_events 7 demo_instrument"
  by (simp add: live_def demo_events_def ue_create_def demo_instrument_def create_instrument_def
      default_settings_def empty_shared_def Let_def)

lemmas demo_defs =
  demo_book_def demo_frame_def demo_codec_def is_last_flag_def demo_events_def channel_init_def

theorem book_update_reassembled_witness:
  "\<exists>ch'. bids ch' = [] \<and> asks ch' = [] \<and> instrument_id ch' = 0 \<and>
    fold (ue_datagram demo_codec plain_sequencer)
      ([(demo_frame 6, demo_book 7 YesNo_no 3)] @ [(demo_frame 7, demo_book 7 YesNo_yes 4)]) demo_events =
    (let cs = concat (map (bk_changes_list \<circ> snd)
           ([(demo_frame 6, demo_book 7 YesNo_no 3)] @ [(demo_frame 7, demo_book 7 YesNo_yes 4)]));
           (calls, bad, q) = sq_update plain_sequencer (inst_sequencer demo_instrument)
              (bid_levels (inst_multiplier demo_instrument) cs) (ask_levels (inst_multiplier demo_instrument) cs)
              8 8 7
       in demo_events\<lparr>ue_shared := (ue_shared demo_events)\<lparr>instruments :=
              (instruments (ue_shared demo_events))(7 \<mapsto>
              demo_instrument\<lparr>inst_sequencer := if bad then sq_clear plain_sequencer q else q\<rparr>)\<rparr>,
           ue_channel := (ue_channel demo_events)(1 \<mapsto> ch'),
           ue_out := ue_out demo_events @ concat (map (ue_sequencer_call demo_events demo_instrument
              (demo_book 7 YesNo_yes 4)) calls)\<rparr>)"
  using book_update_reassembled [OF demo_live, of 1
      "channel_init\<lparr>previous_sequence_number := 5, initialized := True\<rparr>" demo_codec
      "[(demo_frame 6, demo_book 7 YesNo_no 3)]" "demo_frame 7" "demo_book 7 YesNo_yes 4" plain_sequencer]
  by (simp add: demo_defs)


section \<open>What the stream publishes\<close>

text \<open>
  \<open>ue_out_ok\<close>: a message carries the identifier of the stream and the name of the exchange,
  is of a kind the settings do not disable, and names an instrument that is known and not
  discarded.
\<close>

definition ue_out_ok :: "'q udp_events \<Rightarrow> udp_out \<Rightarrow> bool" where
  "ue_out_ok s e = (let ex = set_exchange (sh_settings (ue_shared s)) in case e of
     Out_StreamStatus st \<Rightarrow> ss_stream_id st = ue_stream_id s \<and> ss_supports st = ue_supports s
   | Out_MarketByPrice u \<Rightarrow> ue_publish_market_by_price s \<and> mu_stream_id u = ue_stream_id s \<and>
       mu_exchange u = ex \<and> mu_update_type u = UpdateType_INCREMENTAL \<and>
       (mu_bids u \<noteq> [] \<or> mu_asks u \<noteq> []) \<and> live_symbol (ue_shared s) (mu_symbol u)
   | Out_MarketByPriceSnapshot u \<Rightarrow> ue_publish_market_by_price s \<and> mu_stream_id u = ue_stream_id s \<and>
       mu_exchange u = ex \<and> mu_update_type u = UpdateType_SNAPSHOT \<and> live_symbol (ue_shared s) (mu_symbol u)
   | Out_TradeSummary t \<Rightarrow> ue_publish_trade_summary s \<and> ts_stream_id t = ue_stream_id s \<and>
       ts_exchange t = ex \<and> live_symbol (ue_shared s) (ts_symbol t)
   | Out_TopOfBook t \<Rightarrow> ue_publish_top_of_book s \<and> tob_stream_id t = ue_stream_id s \<and>
       tob_exchange t = ex \<and> live_symbol (ue_shared s) (tob_symbol t))"

definition ue_inv :: "'q udp_events \<Rightarrow> bool" where
  "ue_inv s \<longleftrightarrow> (\<forall>e\<in>set (ue_out s). ue_out_ok s e)"

definition ue_same :: "'q udp_events \<Rightarrow> 'q udp_events \<Rightarrow> bool" where
  "ue_same s s' \<longleftrightarrow> ue_stream_id s' = ue_stream_id s \<and> ue_supports s' = ue_supports s \<and>
     ue_publish_market_by_price s' = ue_publish_market_by_price s \<and>
     ue_publish_trade_summary s' = ue_publish_trade_summary s \<and>
     ue_publish_top_of_book s' = ue_publish_top_of_book s \<and>
     sh_settings (ue_shared s') = sh_settings (ue_shared s) \<and>
     (\<forall>nm. live_symbol (ue_shared s) nm \<longrightarrow> live_symbol (ue_shared s') nm)"

lemma ue_out_ok_same: "ue_same s s' \<Longrightarrow> ue_out_ok s e \<Longrightarrow> ue_out_ok s' e"
  by (auto simp: ue_out_ok_def ue_same_def Let_def split: udp_out.splits)

lemma ue_inv_step:
  assumes "ue_same s s'" "ue_inv s" "ue_out s' = ue_out s @ new" "\<forall>e\<in>set new. ue_out_ok s' e"
  shows "ue_inv s'"
  using assms ue_out_ok_same [OF assms(1)] by (auto simp: ue_inv_def)

lemma ue_on_frame_keeps: "ue_inv s \<Longrightarrow> ue_inv (snd (ue_on_frame s f))"
  by (rule ue_inv_step [of s _ "[]"]) (auto simp: ue_same_def ue_on_frame_def case_prod_beta Let_def)

lemma ue_instrument_keeps: "ue_inv s \<Longrightarrow> ue_inv (ue_instrument x ops i s)"
  by (rule ue_inv_step [of s _ "[]"])
    (auto simp: ue_same_def ue_instrument_def Let_def live_symbol_created)

lemma ue_same_refl: "ue_same s s"
  by (simp add: ue_same_def)

lemma ue_publish_step:
  assumes "ue_inv s" "ue_same s s'" "ue_out s' = ue_out s @ new" "\<forall>e\<in>set new. ue_out_ok s e"
  shows "ue_inv s'"
  using ue_inv_step [OF assms(2,1,3)] ue_out_ok_same [OF assms(2)] assms(4) by simp

lemma ue_trades_eq:
  "ue_trades t f s =
    (if \<not> ue_publish_trade_summary s then s
     else let (r, cache) = test_sequence (ue_last_trades s) (tr_instrument_id t) (sequence_number f)
       in s\<lparr>ue_last_trades := cache, ue_out := ue_out s @
           (case instruments (ue_shared s) (tr_instrument_id t) of
              Some inst \<Rightarrow> if r \<and> \<not> inst_discard inst then [Out_TradeSummary (ue_trade_summary s t inst)] else []
            | None \<Rightarrow> [])\<rparr>)"
  by (cases "test_sequence (ue_last_trades s) (tr_instrument_id t) (sequence_number f)";
      cases "instruments (ue_shared s) (tr_instrument_id t)")
    (simp_all add: ue_trades_def Let_def find_instrument_read)

lemma ue_ticker_eq:
  "ue_ticker t f s =
    (if \<not> ue_publish_top_of_book s then s
     else let (r, cache) = test_sequence (ue_last_ticker s) (tk_instrument_id t) (sequence_number f)
       in s\<lparr>ue_last_ticker := cache, ue_out := ue_out s @
           (case instruments (ue_shared s) (tk_instrument_id t) of
              Some inst \<Rightarrow> if r \<and> \<not> inst_discard inst then [Out_TopOfBook (ue_top_of_book s t inst)] else []
            | None \<Rightarrow> [])\<rparr>)"
  by (cases "test_sequence (ue_last_ticker s) (tk_instrument_id t) (sequence_number f)";
      cases "instruments (ue_shared s) (tk_instrument_id t)")
    (simp_all add: ue_ticker_def Let_def find_instrument_read)

lemma ue_trades_keeps:
  assumes "ue_inv s"
  shows "ue_inv (ue_trades t f s)"
proof (cases "ue_publish_trade_summary s")
  case True
  obtain r cache where "test_sequence (ue_last_trades s) (tr_instrument_id t) (sequence_number f) = (r, cache)"
    by fastforce
  with True show ?thesis unfolding ue_trades_eq
    by (intro ue_publish_step [OF assms])
      (auto simp: ue_same_def ue_out_ok_def ue_trade_summary_def live_symbolI split: option.splits)
qed (simp add: assms ue_trades_eq)

lemma ue_ticker_keeps:
  assumes "ue_inv s"
  shows "ue_inv (ue_ticker t f s)"
proof (cases "ue_publish_top_of_book s")
  case True
  obtain r cache where "test_sequence (ue_last_ticker s) (tk_instrument_id t) (sequence_number f) = (r, cache)"
    by fastforce
  with True show ?thesis unfolding ue_ticker_eq
    by (intro ue_publish_step [OF assms])
      (auto simp: ue_same_def ue_out_ok_def ue_top_of_book_def live_symbolI split: option.splits)
qed (simp add: assms ue_ticker_eq)

lemma ue_sequencer_call_ok:
  assumes "live s i inst" "e \<in> set (ue_sequencer_call s inst b call)"
  shows "ue_out_ok s e"
  using assms live_symbolI [of "ue_shared s" i inst]
  by (cases call) (auto simp: ue_sequencer_call_def ue_create_update_def ue_out_ok_def live_def Let_def
      split: if_splits)

lemma ue_book_callback_key: "inst_key (fst (ue_book_callback c ops s b inst y)) = inst_key inst"
  by (cases y) (auto simp: ue_book_callback_def inst_key_def Let_def split: prod.splits)

lemma ue_book_keeps:
  assumes inv: "ue_inv s"
  shows "ue_inv (ue_book c ops b f s)"
proof (cases "ue_publish_market_by_price s")
  case True
  obtain r sh ch out where found: "find_instrument (bk_instrument_id b) (ue_book_callback c ops s b) (ue_shared s)
      (get_channel f (ue_channel s), ue_out s) = (r, sh, ch, out)" by (metis prod.collapse)
  let ?s = "s\<lparr>ue_shared := sh, ue_channel := (ue_channel s)(channel_id f \<mapsto> ch), ue_out := out\<rparr>"
  have eq: "ue_book c ops b f s = ?s" using True found by (simp add: ue_book_def)
  have same: "ue_same s ?s"
    using found live_symbol_found [OF found ue_book_callback_key] by (simp add: ue_same_def)
  from found have "\<exists>new. out = ue_out s @ new \<and> (\<forall>e\<in>set new. ue_out_ok s e)"
  proof (cases rule: find_instrument_cases)
    case (run inst inst')
    then have live: "live s (bk_instrument_id b) inst" using True by (simp add: live_def)
    show ?thesis
      using run(3) ue_sequencer_call_ok [OF live]
      by (auto simp: ue_book_callback_def Let_def split: if_splits prod.splits)
  qed simp
  then show ?thesis
    unfolding eq using ue_inv_step [OF same inv] ue_out_ok_same [OF same] by auto
qed (use inv in \<open>simp add: ue_book_def\<close>)

lemma ue_on_message_keeps: "ue_inv s \<Longrightarrow> ue_on_message x c ops s m f = Inr s' \<Longrightarrow> ue_inv s'"
  by (auto simp: ue_on_message_def ue_instrument_keeps ue_book_keeps ue_trades_keeps ue_ticker_keeps
      split: sbe_message.splits)

interpretation events: sbe_stream "ue_handler x c ops" ue_inv
  by unfold_locales (auto simp: ue_handler_def ue_on_frame_keeps dest: ue_on_message_keeps)

lemma ue_notify_keeps: "ue_inv s \<Longrightarrow> ue_inv (ue_notify x cs s)"
  by (auto simp: ue_notify_def ue_on_connection_status_def ue_emit_def ue_inv_def ue_out_ok_def Let_def
      split: udp_out.splits)

lemma ue_receive_keeps: "ue_inv s \<Longrightarrow> ue_receive x c ops ds s = Some (Inr s') \<Longrightarrow> ue_inv s'"
  by (induction x c ops ds s rule: ue_receive.induct)
    (auto split: if_splits option.splits sum.splits dest: events.dispatch_keeps)

text \<open>
  Whatever the datagrams hold, every message that the stream of events has published is
  well-formed (\<open>ue_out_ok\<close>): its own stream identifier, a kind that is enabled, an
  instrument that is known and not discarded, and no empty incremental book update.
\<close>

theorem udp_events_output_ok:
  assumes "ue_inv s" "ue_read x c ops ti ds s = Some (Inr s')"
  shows "ue_inv s'"
proof -
  have "ue_inv (s\<lparr>ue_last_update_time := source_receive_time ti\<rparr>)"
    using assms(1) by (auto simp: ue_inv_def ue_out_ok_def Let_def split: udp_out.splits)
  then show ?thesis
    using ue_receive_keeps [OF ue_notify_keeps] assms(2) unfolding ue_read_def by blast
qed

theorem udp_events_output_ok_witness:
  "ue_inv (ue_notify plain_externals CS_READY (demo_events\<lparr>ue_last_update_time := 5\<rparr>))"
proof (rule udp_events_output_ok)
  show "ue_inv demo_events" by (simp add: ue_inv_def demo_events_def ue_create_def Let_def)
  show "ue_read plain_externals demo_codec plain_sequencer \<lparr>source_receive_time = 5, origin_create_time = 0,
      origin_create_time_utc = 0\<rparr> [] demo_events =
    Some (Inr (ue_notify plain_externals CS_READY (demo_events\<lparr>ue_last_update_time := 5\<rparr>)))"
    by (simp add: ue_read_def)
qed

end
