(* ===== verification/Udp_Snapshot.thy ===== *)
theory Udp_Snapshot
  imports Udp_Common
begin

text \<open>
  The stream of snapshots (\<open>gateway/udp_snapshot.cpp\<close>): the book snapshot of an instrument
  is collected over its datagrams and committed to the sequencer of the instrument, between
  the start and the end of a snapshot cycle and only while the sequencer waits for one. An
  exception of the sequencer is not caught by this stream.
\<close>

record 'q udp_snapshot =
  us_stream_id :: uint16
  us_publish_market_by_price :: bool
  us_supports :: "support_type list"
  us_shared :: "'q shared"
  us_connection_status :: connection_status
  us_channel :: "uint16 \<rightharpoonup> channel"
  us_last_update_time :: nanoseconds
  us_out :: "udp_out list"

definition us_get_supports :: "bool \<Rightarrow> support_type list" where
  "us_get_supports mbp = (if mbp then [ST_MARKET_BY_PRICE] else [])"

definition us_create :: "uint16 \<Rightarrow> 'q shared \<Rightarrow> 'q udp_snapshot" where
  "us_create sid sh =
     (let mbp = \<not> multicast_disable_market_by_price (sh_settings sh)
      in \<lparr>us_stream_id = sid, us_publish_market_by_price = mbp, us_supports = us_get_supports mbp,
          us_shared = sh, us_connection_status = CS_UNDEFINED, us_channel = Map.empty,
          us_last_update_time = 0, us_out = []\<rparr>)"

section \<open>Handlers of the stream\<close>

definition us_on_connection_status :: "connection_status \<Rightarrow> string \<Rightarrow> 'q udp_snapshot \<Rightarrow> 'q udp_snapshot" where
  "us_on_connection_status cs reason s =
     s\<lparr>us_connection_status := cs,
       us_out := us_out s @ [Out_StreamStatus \<lparr>ss_stream_id = us_stream_id s, ss_account = [],
         ss_supports = us_supports s, ss_transport = Transport_UDP, ss_protocol = Protocol_SBE,
         ss_connection_status = cs, ss_reason = reason\<rparr>]\<rparr>"

definition us_notify :: "externals \<Rightarrow> connection_status \<Rightarrow> 'q udp_snapshot \<Rightarrow> 'q udp_snapshot" where
  "us_notify x cs s =
     (if base_notify x (us_connection_status s) cs then us_on_connection_status cs [] s else s)"

definition us_start :: "externals \<Rightarrow> trace_info \<Rightarrow> 'q udp_snapshot \<Rightarrow> 'q udp_snapshot" where
  "us_start x ti s = us_notify x CS_CONNECTING (s\<lparr>us_last_update_time := source_receive_time ti\<rparr>)"

definition us_timer :: "nanoseconds \<Rightarrow> 'q udp_snapshot \<Rightarrow> 'q udp_snapshot" where
  "us_timer now s =
     (if us_last_update_time s \<noteq> 0 \<and>
         us_last_update_time s + multicast_timeout (sh_settings (us_shared s)) < now
      then s\<lparr>us_last_update_time := 0\<rparr> else s)"

section \<open>Messages\<close>

definition us_with_channel :: "frame \<Rightarrow> (channel \<Rightarrow> channel) \<Rightarrow> 'q udp_snapshot \<Rightarrow> 'q udp_snapshot" where
  "us_with_channel f callback s =
     s\<lparr>us_channel := (us_channel s)(channel_id f \<mapsto> callback (get_channel f (us_channel s)))\<rparr>"

definition us_on_frame :: "'q udp_snapshot \<Rightarrow> frame \<Rightarrow> bool \<times> 'q udp_snapshot" where
  "us_on_frame s f =
     (let (r, c) = receive_frame (get_channel f (us_channel s)) f
      in (r, s\<lparr>us_channel := (us_channel s)(channel_id f \<mapsto> c)\<rparr>))"

definition us_instrument ::
    "externals \<Rightarrow> 'q sequencer \<Rightarrow> sbe_instrument \<Rightarrow> 'q udp_snapshot \<Rightarrow> 'q udp_snapshot" where
  "us_instrument x ops i s =
     (let contract_size = in_contract_size i;
          m = compute_contracts_multiplier x contract_size;
          nm = get_instrument_name i;
          discard = discard_symbol x nm
      in s\<lparr>us_shared := maybe_create_instrument (in_instrument_id i)
             (create_instrument nm contract_size m discard (sq_new ops)) (us_shared s)\<rparr>)"

text \<open>The callbacks \<open>publish_snapshot\<close> and \<open>request_snapshot\<close>; there is no update here.\<close>

definition us_sequencer_call ::
    "'q udp_snapshot \<Rightarrow> 'q instrument \<Rightarrow> sbe_snapshot \<Rightarrow> sequencer_call \<Rightarrow> udp_out list" where
  "us_sequencer_call s inst n call =
     (case call of
        Publish_Snapshot bs as change \<Rightarrow>
          [Out_MarketByPriceSnapshot
             \<lparr>mu_stream_id = us_stream_id s, mu_exchange = set_exchange (sh_settings (us_shared s)),
              mu_symbol = inst_symbol inst, mu_bids = bs, mu_asks = as,
              mu_update_type = UpdateType_SNAPSHOT,
              mu_exchange_time_utc = ns_of_ms (sn_timestamp_ms n), mu_exchange_sequence = change,
              mu_sending_time_utc = 0\<rparr>]
      | Publish_Update bs as \<Rightarrow> []
      | Request_Snapshot \<Rightarrow> [])"

definition us_snapshot_callback ::
    "sbe_codec \<Rightarrow> 'q sequencer \<Rightarrow> 'q udp_snapshot \<Rightarrow> sbe_snapshot \<Rightarrow> 'q instrument \<Rightarrow>
     (channel \<times> udp_out list) result \<Rightarrow> 'q instrument \<times> (channel \<times> udp_out list) result" where
  "us_snapshot_callback c ops s n inst r =
     (case r of Inl e \<Rightarrow> (inst, Inl e) | Inr (ch, out) \<Rightarrow>
       (let ch1 = (if ch_ready ch \<and> \<not> sq_ready ops (inst_sequencer inst)
                   then fold (append_change (inst_multiplier inst)) (sn_levels_list n) ch else ch)
        in if \<not> is_last_flag c (sn_is_last_in_book n)
           then (inst, Inr (channel_pending (sn_instrument_id n) ch1, out))
           else if ch_ready ch1 \<and> \<not> (bids ch1 = [] \<and> asks ch1 = [])
           then (let (calls, bad_state, q) =
                   sq_snapshot ops (inst_sequencer inst) (bids ch1) (asks ch1) (sn_change_id n) False
                 in (inst\<lparr>inst_sequencer := q\<rparr>,
                     if bad_state then Inl (RuntimeError ''BadState'')
                     else Inr (channel_flush ch1, out @ concat (map (us_sequencer_call s inst n) calls))))
           else (inst, Inr (channel_flush ch1, out))))"

definition us_snapshot ::
    "sbe_codec \<Rightarrow> 'q sequencer \<Rightarrow> sbe_snapshot \<Rightarrow> frame \<Rightarrow> 'q udp_snapshot \<Rightarrow> 'q udp_snapshot result" where
  "us_snapshot c ops n f s =
     (if \<not> us_publish_market_by_price s then Inr s
      else (let (found, sh, r) =
              find_instrument (sn_instrument_id n) (us_snapshot_callback c ops s n) (us_shared s)
                (Inr (get_channel f (us_channel s), us_out s))
        in andthen r (\<lambda>(ch, out). Inr
             (s\<lparr>us_shared := sh, us_channel := (us_channel s)(channel_id f \<mapsto> ch), us_out := out\<rparr>))))"

definition us_on_error :: "string \<Rightarrow> 'q udp_snapshot \<Rightarrow> 'q udp_snapshot result" where
  "us_on_error what s = Inl (Fatal (''Error: what='' @ what))"

definition us_on_message ::
    "externals \<Rightarrow> sbe_codec \<Rightarrow> 'q sequencer \<Rightarrow> 'q udp_snapshot \<Rightarrow> sbe_message \<Rightarrow> frame \<Rightarrow>
     'q udp_snapshot result" where
  "us_on_message x c ops s m f = (case m of
     Instrument i \<Rightarrow> Inr (us_instrument x ops i s)
   | Book b \<Rightarrow> Inl (Fatal ''Unexpected'')
   | Trades t \<Rightarrow> Inl (Fatal ''Unexpected'')
   | Ticker t \<Rightarrow> Inr s
   | Snapshot n \<Rightarrow> us_snapshot c ops n f s
   | SnapshotStart d \<Rightarrow> Inr (us_with_channel f channel_snapshot_start s)
   | SnapshotEnd \<Rightarrow> Inr (us_with_channel f channel_snapshot_end s)
   | ComboLegs l \<Rightarrow> Inl (Fatal ''Unexpected'')
   | PriceIndex p \<Rightarrow> Inl (Fatal ''Unexpected'')
   | Rfq q \<Rightarrow> Inl (Fatal ''Unexpected'')
   | InstrumentV2 i \<Rightarrow> Inr s)"

definition us_handler :: "externals \<Rightarrow> sbe_codec \<Rightarrow> 'q sequencer \<Rightarrow> 'q udp_snapshot sbe_handler" where
  "us_handler x c ops = \<lparr>on_frame = us_on_frame, on_message = us_on_message x c ops\<rparr>"

fun us_receive ::
    "externals \<Rightarrow> sbe_codec \<Rightarrow> 'q sequencer \<Rightarrow> byte list list \<Rightarrow> 'q udp_snapshot \<Rightarrow>
     'q udp_snapshot result option" where
  "us_receive x c ops [] s = Some (Inr s)"
| "us_receive x c ops (d # ds) s =
     (if d = [] then Some (Inr s)
      else case dispatch c (us_handler x c ops) d s of
        None \<Rightarrow> None
      | Some (Inl e) \<Rightarrow> Some (Inl e)
      | Some (Inr (r, s')) \<Rightarrow> us_receive x c ops ds s')"

definition us_read ::
    "externals \<Rightarrow> sbe_codec \<Rightarrow> 'q sequencer \<Rightarrow> trace_info \<Rightarrow> byte list list \<Rightarrow> 'q udp_snapshot \<Rightarrow>
     'q udp_snapshot result option" where
  "us_read x c ops ti ds s =
     us_receive x c ops ds (us_notify x CS_READY (s\<lparr>us_last_update_time := source_receive_time ti\<rparr>))"

section \<open>One snapshot message of a live instrument\<close>

definition us_live :: "'q udp_snapshot \<Rightarrow> uint32 \<Rightarrow> 'q instrument \<Rightarrow> bool" where
  "us_live s i inst \<longleftrightarrow> us_publish_market_by_price s \<and> instruments (us_shared s) i = Some inst \<and>
     \<not> inst_discard inst"

text \<open>The levels a message adds to its channel.\<close>

definition us_collect :: "'q sequencer \<Rightarrow> 'q instrument \<Rightarrow> sbe_snapshot \<Rightarrow> channel \<Rightarrow> channel" where
  "us_collect ops inst n ch =
     (if ch_ready ch \<and> \<not> sq_ready ops (inst_sequencer inst)
      then ch\<lparr>bids := bids ch @ bid_levels (inst_multiplier inst) (sn_levels_list n),
              asks := asks ch @ ask_levels (inst_multiplier inst) (sn_levels_list n)\<rparr> else ch)"

lemma us_collect_ready [simp]: "ch_ready (us_collect ops inst n ch) = ch_ready ch"
  by (simp add: us_collect_def)

lemma us_snapshot_part:
  assumes "us_live s (sn_instrument_id n) inst" "\<not> is_last_flag c (sn_is_last_in_book n)"
  shows "us_snapshot c ops n f s = Inr (s\<lparr>us_channel := (us_channel s)(channel_id f \<mapsto>
      channel_pending (sn_instrument_id n) (us_collect ops inst n (get_channel f (us_channel s))))\<rparr>)"
  using assms
  by (auto simp: us_snapshot_def us_live_def find_instrument_def us_snapshot_callback_def Let_def
      fold_append_change us_collect_def)

definition us_commit ::
    "'q sequencer \<Rightarrow> 'q instrument \<Rightarrow> sbe_snapshot \<Rightarrow> uint16 \<Rightarrow> mbp_update list \<Rightarrow> mbp_update list \<Rightarrow>
     channel \<Rightarrow> 'q udp_snapshot \<Rightarrow> 'q udp_snapshot result" where
  "us_commit ops inst n k bs as ch s =
     (let (calls, bad_state, q) = sq_snapshot ops (inst_sequencer inst) bs as (sn_change_id n) False
      in if bad_state then Inl (RuntimeError ''BadState'')
         else Inr (s\<lparr>us_shared := (us_shared s)\<lparr>instruments :=
                (instruments (us_shared s))(sn_instrument_id n \<mapsto> inst\<lparr>inst_sequencer := q\<rparr>)\<rparr>,
              us_channel := (us_channel s)(k \<mapsto> channel_flush ch),
              us_out := us_out s @ concat (map (us_sequencer_call s inst n) calls)\<rparr>))"

lemma us_snapshot_last:
  assumes "us_live s (sn_instrument_id n) inst" "is_last_flag c (sn_is_last_in_book n)"
    and "ch = us_collect ops inst n (get_channel f (us_channel s))"
  shows "us_snapshot c ops n f s =
    (if ch_ready ch \<and> \<not> (bids ch = [] \<and> asks ch = [])
     then us_commit ops inst n (channel_id f) (bids ch) (asks ch) ch s
     else Inr (s\<lparr>us_channel := (us_channel s)(channel_id f \<mapsto> channel_flush ch)\<rparr>))"
  using assms
  by (auto simp: us_snapshot_def us_live_def find_instrument_def us_snapshot_callback_def Let_def
      fold_append_change us_collect_def us_commit_def case_prod_beta)

section \<open>A snapshot that spans several datagrams\<close>

lemma us_sequencer_call_channel [simp]:
  "us_sequencer_call (s\<lparr>us_channel := x\<rparr>) = us_sequencer_call s"
  by (intro ext) (simp add: us_sequencer_call_def split: sequencer_call.splits)

definition us_snapshots ::
    "sbe_codec \<Rightarrow> 'q sequencer \<Rightarrow> (sbe_snapshot \<times> frame) list \<Rightarrow> 'q udp_snapshot \<Rightarrow> 'q udp_snapshot result" where
  "us_snapshots c ops = foldr_result (\<lambda>(n, f). us_snapshot c ops n f)"

definition parts_of_snapshot :: "sbe_codec \<Rightarrow> uint16 \<Rightarrow> uint32 \<Rightarrow> (sbe_snapshot \<times> frame) list \<Rightarrow> bool" where
  "parts_of_snapshot c k i nfs \<longleftrightarrow> (\<forall>nf\<in>set nfs. sn_instrument_id (fst nf) = i \<and>
     channel_id (snd nf) = k \<and> \<not> is_last_flag c (sn_is_last_in_book (fst nf)))"

definition snapshot_levels :: "(sbe_snapshot \<times> frame) list \<Rightarrow> book_level list" where
  "snapshot_levels nfs = concat (map (sn_levels_list \<circ> fst) nfs)"

lemma us_snapshots_part:
  assumes "us_live s i inst" "us_channel s k = Some ch" "ch_ready ch"
    and "\<not> sq_ready ops (inst_sequencer inst)" "parts_of_snapshot c k i nfs"
  shows "\<exists>ch'. us_snapshots c ops nfs s = Inr (s\<lparr>us_channel := (us_channel s)(k \<mapsto> ch')\<rparr>) \<and> ch_ready ch' \<and>
    bids ch' = bids ch @ bid_levels (inst_multiplier inst) (snapshot_levels nfs) \<and>
    asks ch' = asks ch @ ask_levels (inst_multiplier inst) (snapshot_levels nfs)"
  using assms
proof (induction nfs arbitrary: s ch)
  case Nil
  then have "(us_channel s)(k \<mapsto> ch) = us_channel s" by (simp add: map_upd_triv)
  with Nil.prems show ?case
    by (intro exI [of _ ch]) (simp add: us_snapshots_def snapshot_levels_def)
next
  case (Cons nf nfs)
  obtain n f where nf: "nf = (n, f)" by fastforce
  let ?ch = "channel_pending i (us_collect ops inst n ch)"
  let ?s = "s\<lparr>us_channel := (us_channel s)(k \<mapsto> ?ch)\<rparr>"
  have n: "sn_instrument_id n = i" "channel_id f = k" "\<not> is_last_flag c (sn_is_last_in_book n)"
    and rest: "parts_of_snapshot c k i nfs"
    using Cons.prems(5) by (auto simp: nf parts_of_snapshot_def)
  have "us_snapshot c ops n f s = Inr ?s"
    using us_snapshot_part [of s n inst c ops f] n Cons.prems(1,2) by (simp add: get_channel_def)
  moreover have "us_live ?s i inst" using Cons.prems(1) by (simp add: us_live_def)
  moreover have "bids ?ch = bids ch @ bid_levels (inst_multiplier inst) (sn_levels_list n)"
    "asks ?ch = asks ch @ ask_levels (inst_multiplier inst) (sn_levels_list n)" "ch_ready ?ch"
    using Cons.prems(3,4) by (simp_all add: us_collect_def)
  ultimately show ?case
    using Cons.IH [of ?s ?ch] Cons.prems(4) rest
    by (auto simp: us_snapshots_def nf snapshot_levels_def fun_upd_same simp del: fun_upd_apply)
qed

text \<open>
  C2: within a snapshot cycle, while the sequencer of the instrument waits for a snapshot, a
  snapshot that spans several datagrams reaches it exactly once, with the levels of all
  datagrams in order and the change identifier of the last, without force; nothing is left
  on the channel.
\<close>

theorem snapshot_reassembled:
  assumes live: "us_live s i inst" and ch: "us_channel s k = Some ch" "ch_ready ch" "bids ch = []" "asks ch = []"
    and waits: "\<not> sq_ready ops (inst_sequencer inst)" and parts: "parts_of_snapshot c k i nfs"
    and n: "sn_instrument_id n = i" "channel_id f = k" "is_last_flag c (sn_is_last_in_book n)"
    and cs: "cs = snapshot_levels (nfs @ [(n, f)])"
      "bid_levels (inst_multiplier inst) cs \<noteq> [] \<or> ask_levels (inst_multiplier inst) cs \<noteq> []"
  shows "\<exists>ch'. us_snapshots c ops (nfs @ [(n, f)]) s =
    us_commit ops inst n k (bid_levels (inst_multiplier inst) cs) (ask_levels (inst_multiplier inst) cs) ch' s"
proof -
  obtain ch1 where ch1: "us_snapshots c ops nfs s = Inr (s\<lparr>us_channel := (us_channel s)(k \<mapsto> ch1)\<rparr>)"
    "ch_ready ch1" "bids ch1 = bid_levels (inst_multiplier inst) (snapshot_levels nfs)"
    "asks ch1 = ask_levels (inst_multiplier inst) (snapshot_levels nfs)"
    using us_snapshots_part [OF live ch(1,2) waits parts] ch(3,4) by auto
  let ?s = "s\<lparr>us_channel := (us_channel s)(k \<mapsto> ch1)\<rparr>"
  let ?ch = "us_collect ops inst n ch1"
  have levels: "bids ?ch = bid_levels (inst_multiplier inst) cs" "asks ?ch = ask_levels (inst_multiplier inst) cs"
    using ch1 waits by (simp_all add: us_collect_def cs(1) snapshot_levels_def)
  have "us_live ?s i inst" using live by (simp add: us_live_def)
  then have "us_snapshot c ops n f ?s = us_commit ops inst n k (bids ?ch) (asks ?ch) ?ch ?s"
    using us_snapshot_last [of ?s n inst c ?ch ops f] n levels cs(2) ch1(2)
    by (auto simp: get_channel_def)
  also have "\<dots> = us_commit ops inst n k (bids ?ch) (asks ?ch) ?ch s"
    by (simp add: us_commit_def case_prod_beta Let_def)
  finally have "us_snapshot c ops n f ?s = us_commit ops inst n k (bids ?ch) (asks ?ch) ?ch s" .
  then have "us_snapshots c ops (nfs @ [(n, f)]) s = us_commit ops inst n k (bids ?ch) (asks ?ch) ?ch s"
    using ch1(1) by (simp add: us_snapshots_def foldr_result_append)
  then show ?thesis unfolding levels by blast
qed

text \<open>
  C7: the stream of events can make the sequencer wait for a snapshot between two datagrams
  of one: the first was skipped because the sequencer was ready, so the last one commits its
  own levels as if they were the whole book.
\<close>

theorem snapshot_race:
  assumes "us_live s i inst" "sq_ready ops (inst_sequencer inst)" "\<not> sq_ready ops (sq_clear ops (inst_sequencer inst))"
    and "us_channel s k = Some ch" "ch_ready ch" "bids ch = []" "asks ch = []"
    and "sn_instrument_id n1 = i" "channel_id f1 = k" "\<not> is_last_flag c (sn_is_last_in_book n1)"
    and "sn_instrument_id n2 = i" "channel_id f2 = k" "is_last_flag c (sn_is_last_in_book n2)"
    and "inst' = inst\<lparr>inst_sequencer := sq_clear ops (inst_sequencer inst)\<rparr>"
    and "sh' = (us_shared s)\<lparr>instruments := (instruments (us_shared s))(i \<mapsto> inst')\<rparr>"
    and "bid_levels (inst_multiplier inst) (sn_levels_list n2) \<noteq> []"
  shows "\<exists>s1 ch'. us_snapshot c ops n1 f1 s = Inr s1 \<and>
    us_snapshot c ops n2 f2 (s1\<lparr>us_shared := sh'\<rparr>) =
      us_commit ops inst' n2 k (bid_levels (inst_multiplier inst) (sn_levels_list n2))
        (ask_levels (inst_multiplier inst) (sn_levels_list n2)) ch' (s1\<lparr>us_shared := sh'\<rparr>)"
proof -
  let ?s1 = "s\<lparr>us_channel := (us_channel s)(k \<mapsto> channel_pending i ch)\<rparr>"
  let ?s2 = "?s1\<lparr>us_shared := sh'\<rparr>"
  let ?ch = "us_collect ops inst' n2 (channel_pending i ch)"
  have "us_snapshot c ops n1 f1 s = Inr ?s1"
    using us_snapshot_part [of s n1 inst c ops f1] assms by (simp add: get_channel_def us_collect_def)
  moreover have "us_live ?s2 i inst'" using assms by (simp add: us_live_def)
  then have "us_snapshot c ops n2 f2 ?s2 = us_commit ops inst' n2 k (bids ?ch) (asks ?ch) ?ch ?s2"
    using us_snapshot_last [of ?s2 n2 inst' c ?ch ops f2] assms
    by (simp add: get_channel_def us_collect_def)
  moreover have "bids ?ch = bid_levels (inst_multiplier inst) (sn_levels_list n2)"
    "asks ?ch = ask_levels (inst_multiplier inst) (sn_levels_list n2)"
    using assms by (simp_all add: us_collect_def)
  ultimately show ?thesis by metis
qed

definition demo_snapshot :: "yes_no \<Rightarrow> double \<Rightarrow> sbe_snapshot" where
  "demo_snapshot l p = \<lparr>sn_instrument_id = 7, sn_timestamp_ms = 1, sn_change_id = 8, sn_is_book_complete = YesNo_no, sn_is_last_in_book = l,
     sn_levels_list = [\<lparr>bc_side = BookSide_bid, bc_price = p, bc_amount = f_one\<rparr>]\<rparr>"

definition snapshot_frame :: frame where
  "snapshot_frame = \<lparr>packet_length = 0, channel_id = 1, sequence_number = 1\<rparr>"

definition snapshot_instrument :: "nat \<Rightarrow> nat instrument" where
  "snapshot_instrument q = create_instrument ''BTC-PERPETUAL'' f_one f_one False q"

definition demo_snapshots :: "nat \<Rightarrow> nat udp_snapshot" where
  "demo_snapshots q =
     (us_create 4 ((empty_shared default_settings)\<lparr>instruments := [7 \<mapsto> snapshot_instrument q]\<rparr>))
       \<lparr>us_channel := [1 \<mapsto> channel_init\<lparr>ch_ready := True\<rparr>]\<rparr>"

lemma demo_us_live: "us_live (demo_snapshots q) 7 (snapshot_instrument q)"
  by (simp add: us_live_def demo_snapshots_def us_create_def snapshot_instrument_def create_instrument_def
      default_settings_def empty_shared_def Let_def)

lemmas demo_snapshot_defs =
  demo_snapshot_def snapshot_frame_def demo_codec_def is_last_flag_def demo_snapshots_def channel_init_def
  plain_sequencer_def parts_of_snapshot_def snapshot_levels_def snapshot_instrument_def create_instrument_def
  bid_levels_def

theorem snapshot_reassembled_witness:
  "\<exists>ch'. us_snapshots demo_codec plain_sequencer
     ([(demo_snapshot YesNo_no 3, snapshot_frame)] @ [(demo_snapshot YesNo_yes 4, snapshot_frame)]) (demo_snapshots 0) =
   us_commit plain_sequencer (snapshot_instrument 0) (demo_snapshot YesNo_yes 4) 1
     (bid_levels (inst_multiplier (snapshot_instrument 0)) (snapshot_levels
        ([(demo_snapshot YesNo_no 3, snapshot_frame)] @ [(demo_snapshot YesNo_yes 4, snapshot_frame)])))
     (ask_levels (inst_multiplier (snapshot_instrument 0)) (snapshot_levels
        ([(demo_snapshot YesNo_no 3, snapshot_frame)] @ [(demo_snapshot YesNo_yes 4, snapshot_frame)])))
     ch' (demo_snapshots 0)"
  by (rule snapshot_reassembled [OF demo_us_live, where k = 1 and ch = "channel_init\<lparr>ch_ready := True\<rparr>"])
    (simp_all add: demo_snapshot_defs)

theorem snapshot_race_witness:
  "\<exists>s1 ch'. us_snapshot demo_codec plain_sequencer (demo_snapshot YesNo_no 3) snapshot_frame (demo_snapshots 1) = Inr s1 \<and>
    us_snapshot demo_codec plain_sequencer (demo_snapshot YesNo_yes 4) snapshot_frame (s1\<lparr>us_shared :=
       (us_shared (demo_snapshots 1))\<lparr>instruments := (instruments (us_shared (demo_snapshots 1)))(7 \<mapsto>
          snapshot_instrument 1\<lparr>inst_sequencer := 0\<rparr>)\<rparr>\<rparr>) =
      us_commit plain_sequencer (snapshot_instrument 1\<lparr>inst_sequencer := 0\<rparr>) (demo_snapshot YesNo_yes 4) 1
        (bid_levels (inst_multiplier (snapshot_instrument 1)) (sn_levels_list (demo_snapshot YesNo_yes 4)))
        (ask_levels (inst_multiplier (snapshot_instrument 1)) (sn_levels_list (demo_snapshot YesNo_yes 4)))
        ch' (s1\<lparr>us_shared := (us_shared (demo_snapshots 1))\<lparr>instruments :=
          (instruments (us_shared (demo_snapshots 1)))(7 \<mapsto> snapshot_instrument 1\<lparr>inst_sequencer := 0\<rparr>)\<rparr>\<rparr>)"
  by (rule snapshot_race [OF demo_us_live, where ch = "channel_init\<lparr>ch_ready := True\<rparr>"])
    (simp_all add: demo_snapshot_defs)

section \<open>What the stream publishes\<close>

definition us_out_ok :: "'q udp_snapshot \<Rightarrow> udp_out \<Rightarrow> bool" where
  "us_out_ok s e = (case e of
     Out_StreamStatus st \<Rightarrow> ss_stream_id st = us_stream_id s \<and> ss_supports st = us_supports s
   | Out_MarketByPriceSnapshot u \<Rightarrow> us_publish_market_by_price s \<and> mu_stream_id u = us_stream_id s \<and>
       mu_exchange u = set_exchange (sh_settings (us_shared s)) \<and>
       mu_update_type u = UpdateType_SNAPSHOT \<and> live_symbol (us_shared s) (mu_symbol u)
   | _ \<Rightarrow> False)"

definition us_inv :: "'q udp_snapshot \<Rightarrow> bool" where
  "us_inv s \<longleftrightarrow> (\<forall>e\<in>set (us_out s). us_out_ok s e)"

definition us_same :: "'q udp_snapshot \<Rightarrow> 'q udp_snapshot \<Rightarrow> bool" where
  "us_same s s' \<longleftrightarrow> us_stream_id s' = us_stream_id s \<and> us_supports s' = us_supports s \<and>
     us_publish_market_by_price s' = us_publish_market_by_price s \<and>
     sh_settings (us_shared s') = sh_settings (us_shared s) \<and>
     (\<forall>nm. live_symbol (us_shared s) nm \<longrightarrow> live_symbol (us_shared s') nm)"

lemma us_out_ok_same: "us_same s s' \<Longrightarrow> us_out_ok s e \<Longrightarrow> us_out_ok s' e"
  by (auto simp: us_out_ok_def us_same_def split: udp_out.splits)

lemma us_inv_step:
  assumes "us_same s s'" "us_inv s" "us_out s' = us_out s @ new" "\<forall>e\<in>set new. us_out_ok s e"
  shows "us_inv s'"
  using assms us_out_ok_same [OF assms(1)] by (auto simp: us_inv_def)

lemma us_on_frame_keeps: "us_inv s \<Longrightarrow> us_inv (snd (us_on_frame s f))"
  by (rule us_inv_step [of s _ "[]"]) (auto simp: us_same_def us_on_frame_def case_prod_beta Let_def)

lemma us_with_channel_keeps: "us_inv s \<Longrightarrow> us_inv (us_with_channel f g s)"
  by (rule us_inv_step [of s _ "[]"]) (auto simp: us_same_def us_with_channel_def)

lemma us_instrument_keeps: "us_inv s \<Longrightarrow> us_inv (us_instrument x ops i s)"
  by (rule us_inv_step [of s _ "[]"])
    (auto simp: us_same_def us_instrument_def Let_def live_symbol_created)

lemma us_sequencer_call_ok:
  assumes "us_live s i inst" "e \<in> set (us_sequencer_call s inst n call)"
  shows "us_out_ok s e"
  using assms live_symbolI [of "us_shared s" i inst]
  by (cases call) (auto simp: us_sequencer_call_def us_out_ok_def us_live_def)

lemma us_snapshot_callback_key: "inst_key (fst (us_snapshot_callback c ops s n inst r)) = inst_key inst"
  by (auto simp: us_snapshot_callback_def inst_key_def Let_def split: prod.splits sum.splits)

lemma us_snapshot_keeps:
  assumes inv: "us_inv s" and res: "us_snapshot c ops n f s = Inr s'"
  shows "us_inv s'"
proof (cases "us_publish_market_by_price s")
  case True
  obtain found sh r where found: "find_instrument (sn_instrument_id n) (us_snapshot_callback c ops s n) (us_shared s)
      (Inr (get_channel f (us_channel s), us_out s)) = (found, sh, r)" by (metis prod.collapse)
  with res True obtain ch out where r: "r = Inr (ch, out)"
    and s': "s' = s\<lparr>us_shared := sh, us_channel := (us_channel s)(channel_id f \<mapsto> ch), us_out := out\<rparr>"
    by (auto simp: us_snapshot_def andthen_eq_Inr)
  have same: "us_same s s'"
    using found live_symbol_found [OF found us_snapshot_callback_key] by (simp add: us_same_def s')
  from found have "\<exists>new. out = us_out s @ new \<and> (\<forall>e\<in>set new. us_out_ok s e)"
  proof (cases rule: find_instrument_cases)
    case (run inst inst')
    then have live: "us_live s (sn_instrument_id n) inst" using True by (simp add: us_live_def)
    show ?thesis
      using run(3) r us_sequencer_call_ok [OF live]
      by (auto simp: us_snapshot_callback_def Let_def split: if_splits prod.splits)
  qed (use r in simp)
  then show ?thesis
    using us_inv_step [OF same inv] s' by auto
qed (use inv res in \<open>simp add: us_snapshot_def\<close>)

lemma us_on_message_keeps: "us_inv s \<Longrightarrow> us_on_message x c ops s m f = Inr s' \<Longrightarrow> us_inv s'"
  by (auto simp: us_on_message_def us_instrument_keeps us_with_channel_keeps
      split: sbe_message.splits dest: us_snapshot_keeps)

interpretation snapshots: sbe_stream "us_handler x c ops" us_inv
  by unfold_locales (auto simp: us_handler_def us_on_frame_keeps dest: us_on_message_keeps)

lemma us_notify_keeps: "us_inv s \<Longrightarrow> us_inv (us_notify x cs s)"
  by (rule us_inv_step [of s _ "if base_notify x (us_connection_status s) cs
        then [Out_StreamStatus \<lparr>ss_stream_id = us_stream_id s, ss_account = [],
         ss_supports = us_supports s, ss_transport = Transport_UDP, ss_protocol = Protocol_SBE,
         ss_connection_status = cs, ss_reason = []\<rparr>] else []"])
    (simp_all add: us_same_def us_notify_def us_on_connection_status_def us_out_ok_def)

lemma us_receive_keeps: "us_inv s \<Longrightarrow> us_receive x c ops ds s = Some (Inr s') \<Longrightarrow> us_inv s'"
  by (induction x c ops ds s rule: us_receive.induct)
    (auto split: if_splits option.splits sum.splits dest: snapshots.dispatch_keeps)

text \<open>
  The stream of snapshots publishes nothing but its status and full book snapshots, the
  latter only where the settings enable them and for instruments that are known and not
  discarded, whatever the datagrams hold.
\<close>

theorem udp_snapshot_output_ok:
  assumes "us_inv s" "us_read x c ops ti ds s = Some (Inr s')"
  shows "us_inv s'"
proof -
  have "us_inv (s\<lparr>us_last_update_time := source_receive_time ti\<rparr>)"
    using us_inv_step [OF _ assms(1), of "s\<lparr>us_last_update_time := source_receive_time ti\<rparr>" "[]"]
    by (simp add: us_same_def)
  then show ?thesis
    using us_receive_keeps [OF us_notify_keeps] assms(2) unfolding us_read_def by blast
qed

theorem udp_snapshot_output_ok_witness:
  "us_inv (us_notify plain_externals CS_READY (demo_snapshots 0\<lparr>us_last_update_time := 5\<rparr>))"
proof (rule udp_snapshot_output_ok)
  show "us_inv (demo_snapshots 0)" by (simp add: us_inv_def demo_snapshots_def us_create_def Let_def)
  show "us_read plain_externals demo_codec plain_sequencer \<lparr>source_receive_time = 5, origin_create_time = 0,
      origin_create_time_utc = 0\<rparr> [] (demo_snapshots 0) =
    Some (Inr (us_notify plain_externals CS_READY (demo_snapshots 0\<lparr>us_last_update_time := 5\<rparr>)))"
    by (simp add: us_read_def)
qed

end
