(* ===== verification/Gateway.thy ===== *)
theory Gateway
  imports Gateway_Config Order_Entry Market_Data Web_Socket Drop_Copy Rest Udp_Events Udp_Snapshot
    "HOL-Library.AList"
begin

text \<open>
  The gateway (\<open>gateway/controller.cpp\<close>): it owns the accounts, the shared state and all
  streams, passes the calls of the server on to the streams, and reacts to what the streams
  tell it. In the code the streams hold references to the accounts and to the shared state;
  here the gateway holds these once, a stream that is called gets them (\<open>view\<close>) and hands
  them back (\<open>put\<close>), so that all streams work on the same accounts and the same shared state.

  \<open>sy_new\<close>, \<open>sy_add\<close> and \<open>sy_slice\<close> stand for \<open>core::Symbols\<close>: \<open>sy_add\<close> adds symbols and
  returns the number of slices and where the new symbols start, \<open>sy_slice y i n\<close> is the slice
  with index \<open>i\<close> from \<open>n\<close> on. The other fields of \<open>gateway_lib\<close> are the libraries of the
  streams. \<open>iteration\<close> gives the orders in which the unordered maps are traversed.
\<close>

record ('q, 'y) gateway_lib =
  gl_x :: externals
  gl_cx :: crypto_lib
  gl_fl :: fix_lib
  gl_jx :: json_lib
  gl_wl :: web_lib
  gl_rl :: rest_lib
  gl_codec :: sbe_codec
  gl_sequencer :: "'q sequencer"
  sy_new :: 'y
  sy_add :: "'y \<Rightarrow> string list \<Rightarrow> (nat \<times> nat) \<times> 'y"
  sy_slice :: "'y \<Rightarrow> nat \<Rightarrow> nat \<Rightarrow> string list"

record iteration =
  it_accounts :: "string list \<Rightarrow> string list"
  it_order_entry :: "string list \<Rightarrow> string list"
  it_drop_copy :: "string list \<Rightarrow> string list"

datatype gateway_call =
    Gateway_State bool
  | Symbols_Add "string list"

record ('q, 'y) gateway =
  gw_master_account :: string
  gw_accounts :: "string \<rightharpoonup> account"
  gw_shared :: "'q shared"
  gw_symbols :: 'y
  gw_stream_id :: uint16
  gw_rest :: "'q rest"
  gw_order_entry :: "(string \<times> 'q order_entry) list"
  gw_drop_copy :: "(string \<times> 'q drop_copy) list"
  gw_web_socket :: "'q web_socket list"
  gw_market_data :: "'q market_data list"
  gw_udp_snapshot :: "'q udp_snapshot option"
  gw_udp_events :: "'q udp_events option"
  gw_out :: "gateway_call list"

definition gw_emit :: "gateway_call \<Rightarrow> ('q, 'y) gateway \<Rightarrow> ('q, 'y) gateway" where
  "gw_emit call c = c\<lparr>gw_out := gw_out c @ [call]\<rparr>"

section \<open>Construction\<close>

definition create_master_account :: "('u, 's, 'r) config \<Rightarrow> string result" where
  "create_master_account cfg =
     (if cg_master_account cfg = [] then Inl (Fatal ''Market data requires a master account'')
      else Inr (cg_master_account cfg))"

definition gw_create_account :: "('u, 's, 'r) config \<Rightarrow> string \<Rightarrow> account result" where
  "gw_create_account cfg nm =
     andthen (get_access_key cfg nm) (\<lambda>key. andthen (get_access_secret cfg nm) (\<lambda>secret.
       account_create (\<lambda>n. key) (\<lambda>n. secret) nm))"

text \<open>The accounts by name, in the order of the configuration.\<close>

definition create_accounts :: "('u, 's, 'r) config \<Rightarrow> (string \<times> account) list result" where
  "create_accounts cfg =
     foldr_result (\<lambda>(nm, a) accounts. andthen (gw_create_account cfg (cf_name a)) (\<lambda>obj.
       Inr (assoc_emplace (cf_name a) obj accounts))) (cg_accounts cfg) []"

text \<open>A traversal of a map: the entries of the keys in the order given.\<close>

definition entries_of :: "string list \<Rightarrow> (string \<times> 'v) list \<Rightarrow> (string \<times> 'v) list" where
  "entries_of names m = List.map_filter (\<lambda>n. map_option (Pair n) (map_of m n)) names"

definition iterate :: "(string list \<Rightarrow> string list) \<Rightarrow> (string \<times> 'v) list \<Rightarrow> (string \<times> 'v) list" where
  "iterate order m = entries_of (order (map fst m)) m"

text \<open>\<open>++stream_id\<close> for each account, in the order of the traversal of the accounts.\<close>

fun create_streams ::
    "(uint16 \<Rightarrow> account \<Rightarrow> 's) \<Rightarrow> uint16 \<Rightarrow> (string \<times> account) list \<Rightarrow> uint16 \<times> (string \<times> 's) list" where
  "create_streams mk stream_id [] = (stream_id, [])"
| "create_streams mk stream_id ((nm, a) # as) =
     (let obj = mk (stream_id + 1) a; (last_id, result) = create_streams mk (stream_id + 1) as
      in (last_id, (nm, obj) # result))"

definition get_account :: "(string \<rightharpoonup> account) \<Rightarrow> string \<Rightarrow> account result" where
  "get_account accounts nm = (case accounts nm of
     None \<Rightarrow> Inl (RuntimeError (''Unknown account='' @ nm))
   | Some a \<Rightarrow> Inr a)"

text \<open>
  The members in the order of their declaration; the identifiers of the two multicast streams
  are taken also when there is no multicast. The last check of the constructor comes after
  \<open>create_master_account\<close>, which has already ended the process for an empty name.
\<close>

definition gw_create ::
    "('q, 'y) gateway_lib \<Rightarrow> iteration \<Rightarrow> settings \<Rightarrow> ('u, 's, 'r) config \<Rightarrow> ('q, 'y) gateway result" where
  "gw_create gl it st cfg =
     andthen (create_master_account cfg) (\<lambda>master. andthen (create_accounts cfg) (\<lambda>accounts.
     andthen (shared_create st) (\<lambda>sh.
       let rest = rk_create 1 sh;
           (id1, order_entry) = create_streams (\<lambda>i a. oe_create i a sh) 1 (iterate (it_accounts it) accounts);
           (id2, drop_copy) = create_streams (\<lambda>i a. dc_create i a sh) id1 (iterate (it_accounts it) accounts)
       in andthen (get_account (map_of accounts) master) (\<lambda>a.
            let web_socket = wk_create (id2 + 1) a sh True;
                market_data = mk_create (id2 + 2) a sh True;
                udp_snapshot = (if sh_multicast sh then Some (us_create (id2 + 3) sh) else None);
                udp_events = (if sh_multicast sh then Some (ue_create (id2 + 4) sh) else None);
                c = \<lparr>gw_master_account = master, gw_accounts = map_of accounts, gw_shared = sh,
                     gw_symbols = sy_new gl, gw_stream_id = id2 + 4, gw_rest = rest,
                     gw_order_entry = iterate (it_order_entry it) order_entry,
                     gw_drop_copy = iterate (it_drop_copy it) drop_copy,
                     gw_web_socket = [web_socket], gw_market_data = [market_data],
                     gw_udp_snapshot = udp_snapshot, gw_udp_events = udp_events, gw_out = []\<rparr>
            in if master = [] \<and> \<not> misc_disable_master_account_check st
               then Inl (Fatal ''A master account is always required (due to FIX logon)'') else Inr c))))"

section \<open>One stream\<close>

definition rest_view :: "('q, 'y) gateway \<Rightarrow> 'q rest" where
  "rest_view c = (gw_rest c)\<lparr>rk_shared := gw_shared c\<rparr>"

definition rest_put :: "'q rest \<Rightarrow> ('q, 'y) gateway \<Rightarrow> ('q, 'y) gateway" where
  "rest_put s c = c\<lparr>gw_rest := s, gw_shared := rk_shared s\<rparr>"

definition oe_view :: "string \<Rightarrow> ('q, 'y) gateway \<Rightarrow> 'q order_entry option" where
  "oe_view nm c = (case (map_of (gw_order_entry c) nm, gw_accounts c nm) of
     (Some s, Some a) \<Rightarrow> Some (s\<lparr>oe_shared := gw_shared c, oe_account := a\<rparr>)
   | _ \<Rightarrow> None)"

definition oe_put :: "string \<Rightarrow> 'q order_entry \<Rightarrow> ('q, 'y) gateway \<Rightarrow> ('q, 'y) gateway" where
  "oe_put nm s c = c\<lparr>gw_order_entry := AList.update nm s (gw_order_entry c),
     gw_accounts := (gw_accounts c)(nm \<mapsto> oe_account s), gw_shared := oe_shared s\<rparr>"

definition dc_view :: "string \<Rightarrow> ('q, 'y) gateway \<Rightarrow> 'q drop_copy option" where
  "dc_view nm c = (case (map_of (gw_drop_copy c) nm, gw_accounts c nm) of
     (Some s, Some a) \<Rightarrow> Some (s\<lparr>dc_shared := gw_shared c, dc_account := a\<rparr>)
   | _ \<Rightarrow> None)"

definition dc_put :: "string \<Rightarrow> 'q drop_copy \<Rightarrow> ('q, 'y) gateway \<Rightarrow> ('q, 'y) gateway" where
  "dc_put nm s c = c\<lparr>gw_drop_copy := AList.update nm s (gw_drop_copy c),
     gw_accounts := (gw_accounts c)(nm \<mapsto> dc_account s), gw_shared := dc_shared s\<rparr>"

text \<open>The web sockets and the market data streams work with the master account.\<close>

definition wk_view :: "nat \<Rightarrow> ('q, 'y) gateway \<Rightarrow> 'q web_socket option" where
  "wk_view i c = (case gw_accounts c (gw_master_account c) of
     Some a \<Rightarrow> if i < length (gw_web_socket c)
       then Some ((gw_web_socket c ! i)\<lparr>wk_shared := gw_shared c, wk_account := a\<rparr>) else None
   | None \<Rightarrow> None)"

definition wk_put :: "nat \<Rightarrow> 'q web_socket \<Rightarrow> ('q, 'y) gateway \<Rightarrow> ('q, 'y) gateway" where
  "wk_put i s c = c\<lparr>gw_web_socket := (gw_web_socket c)[i := s],
     gw_accounts := (gw_accounts c)(gw_master_account c \<mapsto> wk_account s), gw_shared := wk_shared s\<rparr>"

definition mk_view :: "nat \<Rightarrow> ('q, 'y) gateway \<Rightarrow> 'q market_data option" where
  "mk_view i c = (case gw_accounts c (gw_master_account c) of
     Some a \<Rightarrow> if i < length (gw_market_data c)
       then Some ((gw_market_data c ! i)\<lparr>mk_shared := gw_shared c, mk_account := a\<rparr>) else None
   | None \<Rightarrow> None)"

definition mk_put :: "nat \<Rightarrow> 'q market_data \<Rightarrow> ('q, 'y) gateway \<Rightarrow> ('q, 'y) gateway" where
  "mk_put i s c = c\<lparr>gw_market_data := (gw_market_data c)[i := s],
     gw_accounts := (gw_accounts c)(gw_master_account c \<mapsto> mk_account s), gw_shared := mk_shared s\<rparr>"

definition us_view :: "('q, 'y) gateway \<Rightarrow> 'q udp_snapshot option" where
  "us_view c = map_option (\<lambda>s. s\<lparr>us_shared := gw_shared c\<rparr>) (gw_udp_snapshot c)"

definition us_put :: "'q udp_snapshot \<Rightarrow> ('q, 'y) gateway \<Rightarrow> ('q, 'y) gateway" where
  "us_put s c = c\<lparr>gw_udp_snapshot := Some s, gw_shared := us_shared s\<rparr>"

definition ue_view :: "('q, 'y) gateway \<Rightarrow> 'q udp_events option" where
  "ue_view c = map_option (\<lambda>s. s\<lparr>ue_shared := gw_shared c\<rparr>) (gw_udp_events c)"

definition ue_put :: "'q udp_events \<Rightarrow> ('q, 'y) gateway \<Rightarrow> ('q, 'y) gateway" where
  "ue_put s c = c\<lparr>gw_udp_events := Some s, gw_shared := ue_shared s\<rparr>"

text \<open>An operation on a stream that is there.\<close>

definition on_view :: "('c \<Rightarrow> 's option) \<Rightarrow> ('s \<Rightarrow> 'c \<Rightarrow> 'c) \<Rightarrow> ('s \<Rightarrow> 's) \<Rightarrow> 'c \<Rightarrow> 'c" where
  "on_view view put f c = (case view c of None \<Rightarrow> c | Some s \<Rightarrow> put (f s) c)"

section \<open>Currencies, the latch and symbols\<close>

definition gw_drop_copies :: "('q drop_copy \<Rightarrow> 'q drop_copy) \<Rightarrow> ('q, 'y) gateway \<Rightarrow> ('q, 'y) gateway" where
  "gw_drop_copies f c = fold (\<lambda>nm. on_view (dc_view nm) (dc_put nm) f) (map fst (gw_drop_copy c)) c"

definition gw_on_currencies ::
    "('q, 'y) gateway_lib \<Rightarrow> trace_info \<Rightarrow> string list \<Rightarrow> ('q, 'y) gateway \<Rightarrow> ('q, 'y) gateway" where
  "gw_on_currencies gl ti currencies c = gw_drop_copies (dc_on_currencies (gl_jx gl) ti currencies) c"

definition gw_latch :: "('q, 'y) gateway_lib \<Rightarrow> trace_info \<Rightarrow> ('q, 'y) gateway \<Rightarrow> ('q, 'y) gateway" where
  "gw_latch gl ti c = gw_drop_copies (dc_latch (gl_jx gl) ti) c"

text \<open>The bodies of the two loops of \<open>ensure_symbol_slices\<close>.\<close>

definition new_market_data :: "('q, 'y) gateway \<Rightarrow> ('q, 'y) gateway outcome" where
  "new_market_data c0 =
     (let c = c0\<lparr>gw_stream_id := gw_stream_id c0 + 1\<rparr>
      in case get_account (gw_accounts c) (gw_master_account c) of
           Inl e \<Rightarrow> (c, Some e)
         | Inr a \<Rightarrow>
             (c\<lparr>gw_market_data := gw_market_data c @ [mk_start (mk_create (gw_stream_id c) a (gw_shared c) False)]\<rparr>, None))"

definition new_web_socket :: "('q, 'y) gateway \<Rightarrow> ('q, 'y) gateway outcome" where
  "new_web_socket c0 =
     (let c = c0\<lparr>gw_stream_id := gw_stream_id c0 + 1\<rparr>
      in case get_account (gw_accounts c) (gw_master_account c) of
           Inl e \<Rightarrow> (c, Some e)
         | Inr a \<Rightarrow>
             (c\<lparr>gw_web_socket := gw_web_socket c @ [wk_start (wk_create (gw_stream_id c) a (gw_shared c) False)]\<rparr>, None))"

function add_market_data :: "nat \<Rightarrow> ('q, 'y) gateway \<Rightarrow> ('q, 'y) gateway outcome" where
  "add_market_data slices c =
     (if length (gw_market_data c) < slices
      then (case new_market_data c of
              (c', Some e) \<Rightarrow> (c', Some e)
            | (c', None) \<Rightarrow> add_market_data slices c')
      else (c, None))"
  by pat_completeness auto

termination
  by (relation "measure (\<lambda>(slices, c). slices - length (gw_market_data c))")
    (auto simp: new_market_data_def get_account_def Let_def split: option.splits)

function add_web_socket :: "nat \<Rightarrow> ('q, 'y) gateway \<Rightarrow> ('q, 'y) gateway outcome" where
  "add_web_socket slices c =
     (if length (gw_web_socket c) < slices
      then (case new_web_socket c of
              (c', Some e) \<Rightarrow> (c', Some e)
            | (c', None) \<Rightarrow> add_web_socket slices c')
      else (c, None))"
  by pat_completeness auto

termination
  by (relation "measure (\<lambda>(slices, c). slices - length (gw_web_socket c))")
    (auto simp: new_web_socket_def get_account_def Let_def split: option.splits)

declare add_market_data.simps [simp del] add_web_socket.simps [simp del]

definition then_on :: "'c outcome \<Rightarrow> ('c \<Rightarrow> 'c outcome) \<Rightarrow> 'c outcome" where
  "then_on r f = (case r of (c, None) \<Rightarrow> f c | (c, Some e) \<Rightarrow> (c, Some e))"

definition ensure_symbol_slices :: "nat \<Rightarrow> ('q, 'y) gateway \<Rightarrow> ('q, 'y) gateway outcome" where
  "ensure_symbol_slices slices c = then_on (add_market_data slices c) (add_web_socket slices)"

text \<open>
  \<open>now i\<close>: the clock when the market data stream \<open>i\<close> sends its requests.
\<close>

definition gw_on_symbols ::
    "('q, 'y) gateway_lib \<Rightarrow> (nat \<Rightarrow> nanoseconds) \<Rightarrow> string list \<Rightarrow> ('q, 'y) gateway \<Rightarrow> ('q, 'y) gateway outcome" where
  "gw_on_symbols gl now symbols c =
     (let ((slices, start_from), y) = sy_add gl (gw_symbols c) symbols;
          c1 = gw_emit (Symbols_Add symbols) (c\<lparr>gw_symbols := y\<rparr>)
      in then_on (ensure_symbol_slices slices c1) (\<lambda>c2.
           let c3 = fold (\<lambda>i. on_view (mk_view i) (mk_put i) (mk_subscribe_slice (now i) (sy_slice gl y i start_from)))
                      [0..<length (gw_market_data c2)] c2;
               c4 = fold (\<lambda>i. on_view (wk_view i) (wk_put i) (wk_subscribe (gl_jx gl) (sy_slice gl y i start_from)))
                      [0..<length (gw_web_socket c3)] c3
           in (c4, None)))"

section \<open>What the streams tell the gateway\<close>

text \<open>
  \<open>reaction\<close>: the trace and the clock of the calls on the handler. The REST stream and the web
  sockets call the handler where nothing after the call depends on what the gateway does
  then, so the gateway reacts to these calls, in order, when the operation on the stream is
  over (\<open>react_calls\<close>). The list of securities of a market data stream is different, since
  the gateway calls the same stream back.
\<close>

record reaction =
  rv_trace :: trace_info
  rv_now :: "nat \<Rightarrow> nanoseconds"

definition gw_react ::
    "('q, 'y) gateway_lib \<Rightarrow> reaction \<Rightarrow> web_call \<Rightarrow> ('q, 'y) gateway \<Rightarrow> ('q, 'y) gateway outcome" where
  "gw_react gl v call c = (case call of
     Handler_Latch \<Rightarrow> (gw_latch gl (rv_trace v) c, None)
   | Handler_Currencies currencies \<Rightarrow> (gw_on_currencies gl (rv_trace v) currencies c, None)
   | Handler_Symbols symbols \<Rightarrow> gw_on_symbols gl (rv_now v) symbols c
   | _ \<Rightarrow> (c, None))"

fun react_calls ::
    "('q, 'y) gateway_lib \<Rightarrow> reaction \<Rightarrow> web_call list \<Rightarrow> ('q, 'y) gateway \<Rightarrow> ('q, 'y) gateway outcome" where
  "react_calls gl v [] c = (c, None)"
| "react_calls gl v (call # calls) c = then_on (gw_react gl v call c) (react_calls gl v calls)"

definition rest_moved ::
    "('q, 'y) gateway_lib \<Rightarrow> reaction \<Rightarrow> 'q rest \<Rightarrow> ('q, 'y) gateway \<Rightarrow> ('q, 'y) gateway outcome" where
  "rest_moved gl v s c = react_calls gl v (drop (length (rk_out (gw_rest c))) (rk_out s)) (rest_put s c)"

definition wk_moved ::
    "('q, 'y) gateway_lib \<Rightarrow> reaction \<Rightarrow> nat \<Rightarrow> 'q web_socket \<Rightarrow> ('q, 'y) gateway \<Rightarrow> ('q, 'y) gateway outcome" where
  "wk_moved gl v i s c = react_calls gl v (drop (length (wk_out (gw_web_socket c ! i))) (wk_out s)) (wk_put i s c)"

text \<open>
  A message of market data stream \<open>i\<close>: the list of securities, during which the gateway is
  told the new symbols, and the others.
\<close>

definition gw_security_list ::
    "('q, 'y) gateway_lib \<Rightarrow> reaction \<Rightarrow> nat \<Rightarrow> trace_info \<Rightarrow> security list \<Rightarrow> 'q market_data \<Rightarrow>
     ('q, 'y) gateway \<Rightarrow> ('q, 'y) gateway outcome" where
  "gw_security_list gl v i ti is s c =
     (case mk_securities (gl_x gl) (gl_fl gl) is [] (mk_emit (Conn_Touch (source_receive_time ti)) s) of
        ((s1, symbols), Some e) \<Rightarrow> (mk_put i s1 c, Some e)
      | ((s1, symbols), None) \<Rightarrow>
          then_on (if symbols = [] then (mk_put i s1 c, None)
                   else gw_on_symbols gl (rv_now v) symbols (mk_put i (mk_emit (Pub_Symbols symbols) s1) c))
            (\<lambda>c'. (on_view (mk_view i) (mk_put i) (mk_emit (Download_Check DS_SECURITIES)) c', None)))"

definition gw_market_data_message ::
    "('q, 'y) gateway_lib \<Rightarrow> reaction \<Rightarrow> nat \<Rightarrow> trace_info \<Rightarrow> fix_message \<Rightarrow> ('q, 'y) gateway \<Rightarrow>
     ('q, 'y) gateway outcome" where
  "gw_market_data_message gl v i ti m c = (case mk_view i c of
     None \<Rightarrow> (c, None)
   | Some s \<Rightarrow> (case fx_body m of
       B_SecurityList is \<Rightarrow> gw_security_list gl v i ti is (mk_check (fx_header m) s) c
     | _ \<Rightarrow> (let (s', e) = mk_message (gl_x gl) (gl_fl gl) (\<lambda>symbols s. s) ti m s in (mk_put i s' c, e))))"

definition gw_market_data_read ::
    "('q, 'y) gateway_lib \<Rightarrow> reaction \<Rightarrow> nat \<Rightarrow> trace_info \<Rightarrow> (byte list \<Rightarrow> nat \<times> fix_message list) \<Rightarrow> byte list \<Rightarrow>
     ('q, 'y) gateway \<Rightarrow> ('q, 'y) gateway outcome" where
  "gw_market_data_read gl v i ti reader buffer c =
     (case read_loop (gw_market_data_message gl v i ti) reader 0 buffer c of
        (consumed, c', None) \<Rightarrow> (on_view (mk_view i) (mk_put i) (mk_emit (Conn_Drain consumed)) c', None)
      | (consumed, c', Some e) \<Rightarrow> (c', Some e))"

section \<open>Calls of the server\<close>

text \<open>
  \<open>dispatch_helper\<close> for one event: what the event does to each stream, and the order in which
  the streams are called.
\<close>

record 'q target =
  tg_rest :: "'q rest \<Rightarrow> 'q rest"
  tg_order_entry :: "string \<Rightarrow> 'q order_entry \<Rightarrow> 'q order_entry"
  tg_drop_copy :: "string \<Rightarrow> 'q drop_copy \<Rightarrow> 'q drop_copy"
  tg_web_socket :: "nat \<Rightarrow> 'q web_socket \<Rightarrow> 'q web_socket"
  tg_market_data :: "nat \<Rightarrow> 'q market_data \<Rightarrow> 'q market_data"
  tg_udp_snapshot :: "'q udp_snapshot \<Rightarrow> 'q udp_snapshot"
  tg_udp_events :: "'q udp_events \<Rightarrow> 'q udp_events"

fun each_then :: "('k \<Rightarrow> 'c \<Rightarrow> 'c outcome) \<Rightarrow> 'k list \<Rightarrow> 'c \<Rightarrow> 'c outcome" where
  "each_then f [] c = (c, None)"
| "each_then f (k # ks) c = then_on (f k c) (each_then f ks)"

definition gw_web_socket_call ::
    "('q, 'y) gateway_lib \<Rightarrow> reaction \<Rightarrow> ('q web_socket \<Rightarrow> 'q web_socket) \<Rightarrow> nat \<Rightarrow> ('q, 'y) gateway \<Rightarrow>
     ('q, 'y) gateway outcome" where
  "gw_web_socket_call gl v f i c = (case wk_view i c of
     None \<Rightarrow> (c, None)
   | Some s \<Rightarrow> wk_moved gl v i (f s) c)"

definition gw_dispatch ::
    "('q, 'y) gateway_lib \<Rightarrow> reaction \<Rightarrow> 'q target \<Rightarrow> ('q, 'y) gateway \<Rightarrow> ('q, 'y) gateway outcome" where
  "gw_dispatch gl v t c0 =
     then_on (rest_moved gl v (tg_rest t (rest_view c0)) c0) (\<lambda>c1.
     let c2 = fold (\<lambda>nm. on_view (oe_view nm) (oe_put nm) (tg_order_entry t nm)) (map fst (gw_order_entry c1)) c1;
         c3 = fold (\<lambda>nm. on_view (dc_view nm) (dc_put nm) (tg_drop_copy t nm)) (map fst (gw_drop_copy c2)) c2
     in then_on (each_then (\<lambda>i. gw_web_socket_call gl v (tg_web_socket t i) i) [0..<length (gw_web_socket c3)] c3) (\<lambda>c4.
     let c5 = fold (\<lambda>i. on_view (mk_view i) (mk_put i) (tg_market_data t i)) [0..<length (gw_market_data c4)] c4;
         c6 = on_view us_view us_put (tg_udp_snapshot t) c5
     in (on_view ue_view ue_put (tg_udp_events t) c6, None)))"

definition gw_start :: "('q, 'y) gateway_lib \<Rightarrow> reaction \<Rightarrow> ('q, 'y) gateway \<Rightarrow> ('q, 'y) gateway outcome" where
  "gw_start gl v c = gw_dispatch gl v
     \<lparr>tg_rest = rk_start, tg_order_entry = (\<lambda>nm. oe_start), tg_drop_copy = (\<lambda>nm. dc_start),
      tg_web_socket = (\<lambda>i. wk_start), tg_market_data = (\<lambda>i. mk_start),
      tg_udp_snapshot = us_start (gl_x gl) (rv_trace v), tg_udp_events = ue_start (gl_x gl) (rv_trace v)\<rparr> c"

text \<open>The two multicast streams ignore \<open>Stop\<close>.\<close>

definition gw_stop :: "('q, 'y) gateway_lib \<Rightarrow> reaction \<Rightarrow> ('q, 'y) gateway \<Rightarrow> ('q, 'y) gateway outcome" where
  "gw_stop gl v c = gw_dispatch gl v
     \<lparr>tg_rest = rk_stop, tg_order_entry = (\<lambda>nm. oe_stop), tg_drop_copy = (\<lambda>nm. dc_stop),
      tg_web_socket = (\<lambda>i. wk_stop), tg_market_data = (\<lambda>i. mk_stop),
      tg_udp_snapshot = (\<lambda>s. s), tg_udp_events = (\<lambda>s. s)\<rparr> c"

text \<open>What a timer event does to a stream depends on the clocks, queues and downloads of the framework.\<close>

definition timer_target :: "('q, 'y) gateway_lib \<Rightarrow> 'q target \<Rightarrow> bool" where
  "timer_target gl t \<longleftrightarrow>
     (\<exists>refreshed ti currencies_due instruments_due released.
        tg_rest t = rk_timer refreshed ti currencies_due instruments_due released) \<and>
     (\<forall>nm. \<exists>refreshed ti env now. tg_order_entry t nm = oe_timer (gl_x gl) (gl_cx gl) refreshed ti env now) \<and>
     (\<forall>nm. \<exists>refreshed released. tg_drop_copy t nm = dc_timer refreshed released) \<and>
     (\<forall>i. \<exists>refreshed released currencies instruments_at advance. wk_advances (gl_x gl) (gl_jx gl) advance \<and>
        tg_web_socket t i = wk_timer refreshed released currencies instruments_at advance) \<and>
     (\<forall>i. \<exists>refreshed ti env now. tg_market_data t i = mk_timer refreshed ti env now) \<and>
     (\<exists>now. tg_udp_snapshot t = us_timer now) \<and> (\<exists>now. tg_udp_events t = ue_timer now)"

text \<open>The symbols of a subscription: those that are new are added, the others are logged.\<close>

fun subscribe_loop :: "string list \<Rightarrow> string list \<Rightarrow> 'q shared \<Rightarrow> string list \<times> 'q shared" where
  "subscribe_loop [] symbols sh = (symbols, sh)"
| "subscribe_loop (i # is) symbols sh =
     subscribe_loop is (if i \<in> all_symbols sh then symbols else symbols @ [i])
       (sh\<lparr>all_symbols := insert i (all_symbols sh)\<rparr>)"

definition gw_subscribe ::
    "('q, 'y) gateway_lib \<Rightarrow> reaction \<Rightarrow> string list \<Rightarrow> ('q, 'y) gateway \<Rightarrow> ('q, 'y) gateway outcome" where
  "gw_subscribe gl v is c =
     (let (symbols, sh) = subscribe_loop is [] (gw_shared c)
      in gw_on_symbols gl (rv_now v) symbols (c\<lparr>gw_shared := sh\<rparr>))"

datatype control_action = Action_UNDEFINED | Action_ENABLE | Action_DISABLE

definition gw_control :: "control_action \<Rightarrow> ('q, 'y) gateway \<Rightarrow> ('q, 'y) gateway" where
  "gw_control action c = (case action of
     Action_UNDEFINED \<Rightarrow> c
   | Action_ENABLE \<Rightarrow> gw_emit (Gateway_State True) c
   | Action_DISABLE \<Rightarrow> gw_emit (Gateway_State False) c)"

section \<open>Orders\<close>

definition get_order_entry :: "string \<Rightarrow> ('q, 'y) gateway \<Rightarrow> 'q order_entry result" where
  "get_order_entry nm c = (case oe_view nm c of
     None \<Rightarrow> Inl (RuntimeError (''Unknown account='' @ nm))
   | Some s \<Rightarrow> Inr s)"

definition order_action ::
    "string \<Rightarrow> ('q order_entry \<Rightarrow> (uint16 \<times> 'q order_entry) result) \<Rightarrow> ('q, 'y) gateway \<Rightarrow>
     (uint16 \<times> ('q, 'y) gateway) result" where
  "order_action nm f c =
     andthen (get_order_entry nm c) (\<lambda>s. andthen (f s) (\<lambda>(stream_id, s'). Inr (stream_id, oe_put nm s' c)))"

definition gw_create_order ::
    "('q, 'y) gateway_lib \<Rightarrow> string \<Rightarrow> create_order \<Rightarrow> ref_data \<Rightarrow> string \<Rightarrow> nanoseconds \<Rightarrow> ('q, 'y) gateway \<Rightarrow>
     (uint16 \<times> ('q, 'y) gateway) result" where
  "gw_create_order gl nm co rd request_id now c = order_action nm (oe_create_order (gl_fl gl) co rd request_id now) c"

definition gw_modify_order ::
    "('q, 'y) gateway_lib \<Rightarrow> string \<Rightarrow> modify_order \<Rightarrow> oms_order \<Rightarrow> ref_data \<Rightarrow> string \<Rightarrow> nanoseconds \<Rightarrow>
     ('q, 'y) gateway \<Rightarrow> (uint16 \<times> ('q, 'y) gateway) result" where
  "gw_modify_order gl nm mo order rd request_id now c =
     order_action nm (oe_modify_order (gl_fl gl) mo order rd request_id now) c"

definition gw_cancel_order ::
    "string \<Rightarrow> oms_order \<Rightarrow> string \<Rightarrow> nanoseconds \<Rightarrow> ('q, 'y) gateway \<Rightarrow> (uint16 \<times> ('q, 'y) gateway) result" where
  "gw_cancel_order nm order request_id now c = order_action nm (oe_cancel_order order request_id now) c"

definition gw_cancel_all_orders ::
    "('q, 'y) gateway_lib \<Rightarrow> string \<Rightarrow> cancel_all_orders \<Rightarrow> string \<Rightarrow> nanoseconds \<Rightarrow> ('q, 'y) gateway \<Rightarrow>
     (uint16 \<times> ('q, 'y) gateway) result" where
  "gw_cancel_all_orders gl nm ca request_id now c =
     order_action nm (oe_cancel_all_orders (gl_fl gl) ca request_id now) c"

definition gw_mass_quote :: "('q, 'y) gateway \<Rightarrow> (uint16 \<times> ('q, 'y) gateway) result" where
  "gw_mass_quote c = Inl NotSupported"

definition gw_cancel_quotes :: "('q, 'y) gateway \<Rightarrow> (uint16 \<times> ('q, 'y) gateway) result" where
  "gw_cancel_quotes c = Inl NotSupported"

end
