(* ===== verification/Gateway_Symbols.thy ===== *)
theory Gateway_Symbols
  imports Gateway
begin

text \<open>
  What the streams do to the sets of known symbols and currencies (\<open>Shared::all_symbols\<close> and
  \<open>Shared::all_currencies\<close>), and what they tell the gateway about them: only the REST stream and
  the list of securities of a market data stream add symbols, only the REST stream adds
  currencies, and the gateway is told of new ones only. The REST stream and the web sockets
  tell it by the calls on their handler.
\<close>

lemma next_request_id_known [simp]:
  "all_symbols (snd (next_request_id sh)) = all_symbols sh" "all_currencies (snd (next_request_id sh)) = all_currencies sh"
  "instruments (snd (next_request_id sh)) = instruments sh" "sh_settings (snd (next_request_id sh)) = sh_settings sh"
  by (simp_all add: next_request_id_def Let_def)

lemma next_request_id_knownD:
  "next_request_id sh = (rid, sh') \<Longrightarrow>
   all_symbols sh' = all_symbols sh \<and> all_currencies sh' = all_currencies sh \<and> instruments sh' = instruments sh \<and>
   sh_settings sh' = sh_settings sh"
  using next_request_id_known [of sh] by simp

lemma find_instrument_known:
  "find_instrument i cb sh x = (r, sh', x') \<Longrightarrow> all_symbols sh' = all_symbols sh \<and> all_currencies sh' = all_currencies sh"
  by (erule find_instrument_cases) auto

lemma maybe_create_known [simp]:
  "all_symbols (maybe_create_instrument i inst sh) = all_symbols sh"
  "all_currencies (maybe_create_instrument i inst sh) = all_currencies sh"
  by (simp_all add: maybe_create_instrument_def split: option.splits)

text \<open>
  The instruments that are known only grow: what is known stays as it is, but for the state of its
  book sequencer, and what is new has the multiplier of its contract size and is discarded
  exactly when the server discards its symbol.
\<close>

definition inst_ok :: "externals \<Rightarrow> 'q instrument \<Rightarrow> bool" where
  "inst_ok x inst \<longleftrightarrow> inst_multiplier inst = compute_contracts_multiplier x (inst_contract_size inst) \<and>
     inst_discard inst = discard_symbol x (inst_symbol inst)"

definition grows :: "externals \<Rightarrow> 'q shared \<Rightarrow> 'q shared \<Rightarrow> bool" where
  "grows x sh sh' \<longleftrightarrow> sh_settings sh' = sh_settings sh \<and> (\<forall>i. case instruments sh i of
       Some inst \<Rightarrow> map_option inst_key (instruments sh' i) = Some (inst_key inst)
     | None \<Rightarrow> (\<forall>inst. instruments sh' i = Some inst \<longrightarrow> inst_ok x inst))"

lemma inst_ok_key: "inst_key inst = inst_key inst' \<Longrightarrow> inst_ok x inst = inst_ok x inst'"
  by (simp add: inst_ok_def inst_key_def)

lemma inst_ok_create [simp]:
  "inst_ok x (create_instrument nm n m d q) \<longleftrightarrow> m = compute_contracts_multiplier x n \<and> d = discard_symbol x nm"
  by (simp add: inst_ok_def create_instrument_def)

lemma grows_same: "instruments sh' = instruments sh \<Longrightarrow> sh_settings sh' = sh_settings sh \<Longrightarrow> grows x sh sh'"
  by (simp add: grows_def split: option.split)

lemma grows_refl [simp]: "grows x sh sh"
  by (rule grows_same) simp_all

lemma grows_trans:
  assumes "grows x sh sh'" "grows x sh' sh''"
  shows "grows x sh sh''"
  unfolding grows_def
proof (intro conjI allI)
  show "sh_settings sh'' = sh_settings sh" using assms by (simp add: grows_def)
  fix i
  show "case instruments sh i of
       Some inst \<Rightarrow> map_option inst_key (instruments sh'' i) = Some (inst_key inst)
     | None \<Rightarrow> (\<forall>inst. instruments sh'' i = Some inst \<longrightarrow> inst_ok x inst)"
    using assms [unfolded grows_def, THEN conjunct2, THEN spec, of i]
    by (auto split: option.splits dest: inst_ok_key [of _ _ x])
qed

lemma grows_create: "inst_ok x inst \<Longrightarrow> grows x sh (maybe_create_instrument i inst sh)"
  by (auto simp: grows_def maybe_create_instrument_def split: option.split)

lemma grows_found:
  assumes "find_instrument i cb sh y = (r, sh', y')" "\<And>inst y. inst_key (fst (cb inst y)) = inst_key inst"
  shows "grows x sh sh'"
  unfolding grows_def
proof (intro conjI allI)
  show "sh_settings sh' = sh_settings sh" by (rule find_instrument_settings [OF assms(1)])
  fix j
  have "map_option inst_key (instruments sh' j) = map_option inst_key (instruments sh j)"
    using find_instrument_frame [of cb i sh y j, OF assms(2)] assms(1) by simp
  then show "case instruments sh j of
       Some inst \<Rightarrow> map_option inst_key (instruments sh' j) = Some (inst_key inst)
     | None \<Rightarrow> (\<forall>inst. instruments sh' j = Some inst \<longrightarrow> inst_ok x inst)"
    by (cases "instruments sh j") simp_all
qed

section \<open>Order entry\<close>

abbreviation oe_symbols :: "'q order_entry \<Rightarrow> string set" where
  "oe_symbols s \<equiv> all_symbols (oe_shared s)"

text \<open>\<open>fixed\<close>: neither the identifier of the stream nor the known symbols and currencies change.\<close>

definition oe_fixed :: "'q order_entry \<Rightarrow> 'q order_entry \<Rightarrow> bool" where
  "oe_fixed s t \<longleftrightarrow> oe_stream_id t = oe_stream_id s \<and> oe_symbols t = oe_symbols s \<and>
     all_currencies (oe_shared t) = all_currencies (oe_shared s) \<and> instruments (oe_shared t) = instruments (oe_shared s) \<and>
     sh_settings (oe_shared t) = sh_settings (oe_shared s)"

lemma oe_fixed_simps [simp]:
  "oe_fixed s s" "oe_fixed s (oe_emit call t) = oe_fixed s t" "oe_fixed s (oe_send now r t) = oe_fixed s t"
  "oe_fixed s (oe_remember rid t) = oe_fixed s t" "oe_fixed s (oe_notify x cs reason t) = oe_fixed s t"
  "oe_fixed s (t\<lparr>oe_account := a\<rparr>) = oe_fixed s t" "oe_fixed s (t\<lparr>oe_inbound := n\<rparr>) = oe_fixed s t"
  "oe_fixed s (t\<lparr>oe_outbound := n\<rparr>) = oe_fixed s t" "oe_fixed s (t\<lparr>oe_ready := b\<rparr>) = oe_fixed s t"
  "oe_fixed s (t\<lparr>oe_next_heartbeat := w\<rparr>) = oe_fixed s t" "oe_fixed s (t\<lparr>oe_last_logon_or_heartbeat := w\<rparr>) = oe_fixed s t"
  "oe_fixed s (t\<lparr>oe_test_logon_time := w\<rparr>) = oe_fixed s t" "oe_fixed s (t\<lparr>oe_test_disconnect_time := w\<rparr>) = oe_fixed s t"
  by (simp_all add: oe_fixed_def oe_emit_def oe_send_def oe_remember_def oe_notify_def oe_on_connection_status_def Let_def)

lemma oe_fixed_request [simp]:
  "next_request_id (oe_shared t) = (rid, sh) \<Longrightarrow> oe_fixed s (t\<lparr>oe_shared := sh\<rparr>) = oe_fixed s t"
  by (auto simp: oe_fixed_def dest: next_request_id_knownD)

lemma oe_fixed_positions [simp]: "oe_fixed s (oe_publish_positions qs t) = oe_fixed s t"
  by (induction qs t rule: oe_publish_positions.induct) simp_all

lemma oe_fixed_parse: "oe_fixed s t \<Longrightarrow> oe_fixed s (fst (oe_parse x fl ti m t))"
  by (auto simp: oe_parse_def oe_heartbeat_def oe_logon_def oe_logout_def oe_send_logout_def oe_resend_request_def
      oe_test_request_def oe_send_heartbeat_def oe_position_report_def
      oe_execution_report_def oe_order_cancel_reject_def oe_reject_def oe_order_mass_cancel_report_def Let_def
      split: fix_body.splits option.splits mass_status_req_type.splits)

lemma oe_fixed_message:
  assumes "oe_fixed s t"
  shows "oe_fixed s (fst (oe_message x fl ti m t))"
proof -
  obtain u e where u: "oe_parse x fl ti m (oe_check (fx_header m) t) = (u, e)" by fastforce
  then have "oe_fixed s u"
    using oe_fixed_parse [of s "oe_check (fx_header m) t" x fl ti m] assms by (simp add: oe_check_def)
  then show ?thesis
    using u by (simp add: oe_message_def split: option.split failure.split)
qed

lemma oe_fixed_read: "oe_fixed s (fst (oe_read x fl ti reader buffer s))"
proof -
  obtain n t e where t: "read_loop (oe_message x fl ti) reader 0 buffer s = (n, t, e)" by (metis prod.exhaust)
  then have "oe_fixed s t"
    using read_loop_keeps [of "oe_fixed s" "oe_message x fl ti" s reader 0 buffer, OF oe_fixed_message] by simp
  then show ?thesis using t by (simp add: oe_read_def split: option.split)
qed

lemma oe_fixed_logon [simp]: "oe_fixed s (oe_send_logon cx ti env t) = oe_fixed s t"
  by (simp add: oe_send_logon_def Let_def split: prod.split)

lemma oe_own_fixed: "oe_own s s' \<Longrightarrow> oe_fixed s s'"
proof (induction rule: oe_own.induct)
  case (step_download s x st env)
  show ?case by (cases st) (auto simp: oe_download_def oe_subscribe_positions_def oe_download_orders_def Let_def
    split: prod.split)
qed (auto simp: oe_start_def oe_stop_def oe_timer_def oe_send_test_request_def oe_connected_def oe_disconnected_def
    oe_create_order_def oe_modify_order_def oe_cancel_order_def oe_cancel_all_orders_def andthen_eq_Inr Let_def
    oe_fixed_read split: if_splits)

section \<open>Market data\<close>

abbreviation mk_symbols :: "'q market_data \<Rightarrow> string set" where
  "mk_symbols s \<equiv> all_symbols (mk_shared s)"

definition mk_fixed :: "'q market_data \<Rightarrow> 'q market_data \<Rightarrow> bool" where
  "mk_fixed s t \<longleftrightarrow> mk_stream_id t = mk_stream_id s \<and> mk_symbols t = mk_symbols s \<and>
     all_currencies (mk_shared t) = all_currencies (mk_shared s) \<and> instruments (mk_shared t) = instruments (mk_shared s) \<and>
     sh_settings (mk_shared t) = sh_settings (mk_shared s)"

lemma mk_fixed_simps [simp]:
  "mk_fixed s s" "mk_fixed s (mk_emit call t) = mk_fixed s t" "mk_fixed s (mk_send now r t) = mk_fixed s t"
  "mk_fixed s (mk_check h t) = mk_fixed s t" "mk_fixed s (mk_notify x cs reason t) = mk_fixed s t"
  "mk_fixed s (t\<lparr>mk_account := a\<rparr>) = mk_fixed s t" "mk_fixed s (t\<lparr>mk_inbound := n\<rparr>) = mk_fixed s t"
  "mk_fixed s (t\<lparr>mk_outbound := n\<rparr>) = mk_fixed s t" "mk_fixed s (t\<lparr>mk_ready := b\<rparr>) = mk_fixed s t"
  "mk_fixed s (t\<lparr>mk_next_heartbeat := w\<rparr>) = mk_fixed s t" "mk_fixed s (t\<lparr>mk_last_logon_or_heartbeat := w\<rparr>) = mk_fixed s t"
  "mk_fixed s (t\<lparr>mk_latch := l\<rparr>) = mk_fixed s t" "mk_fixed s (t\<lparr>mk_test_disconnect_time := w\<rparr>) = mk_fixed s t"
  by (simp_all add: mk_fixed_def mk_emit_def mk_send_def mk_check_def mk_notify_def mk_on_connection_status_def Let_def)

lemma mk_fixed_request [simp]:
  "next_request_id (mk_shared t) = (rid, sh) \<Longrightarrow> mk_fixed s (t\<lparr>mk_shared := sh\<rparr>) = mk_fixed s t"
  by (auto simp: mk_fixed_def dest: next_request_id_knownD)

lemma mk_fixed_request_loop [simp]: "mk_fixed s (mk_request_loop mkr now k symbols n t) = mk_fixed s t"
proof (induction mkr now k symbols n t rule: mk_request_loop.induct)
  case (1 mkr now k symbols n t)
  then show ?case by (subst mk_request_loop.simps) (simp add: Let_def split: prod.split)
qed

lemma mk_fixed_subscribe [simp]:
  "mk_fixed s (mk_subscribe now symbols t) = mk_fixed s t" "mk_fixed s (mk_subscribe_slice now symbols t) = mk_fixed s t"
  "mk_fixed s (mk_resubscribe now symbol t) = mk_fixed s t"
  by (simp_all add: mk_subscribe_def mk_subscribe_slice_def mk_resubscribe_def mk_unsubscribe_def Let_def)

lemma mk_own_fixed: "mk_own s s' \<Longrightarrow> mk_fixed s s'"
  by (induction rule: mk_own.induct)
    (auto simp: mk_start_def mk_stop_def mk_timer_def mk_send_test_request_def mk_connected_def mk_send_logon_def
      mk_disconnected_def mk_download_def mk_download_securities_def Let_def
      split: prod.splits download_state.splits)

text \<open>A message other than a list of securities.\<close>

lemma mk_message_fixed:
  "(\<And>is. fx_body m \<noteq> B_SecurityList is) \<Longrightarrow> mk_fixed s (fst (mk_message x fl react ti m s))"
  by (auto simp: mk_message_def mk_parse_def mk_heartbeat_def mk_logon_def mk_logout_def mk_send_logout_def
      mk_resend_request_def mk_test_request_def mk_send_heartbeat_def mk_request_reject_def mk_incremental_def
      mk_snapshot_def Let_def split: fix_body.splits option.splits sum.splits)

lemma mk_securities_new:
  "mk_securities x fl is symbols s = ((s', symbols'), e) \<Longrightarrow>
   \<exists>new. symbols' = symbols @ new \<and> distinct new \<and> set new \<inter> mk_symbols s = {} \<and>
     mk_symbols s' = mk_symbols s \<union> set new \<and> mk_stream_id s' = mk_stream_id s \<and>
     all_currencies (mk_shared s') = all_currencies (mk_shared s) \<and> instruments (mk_shared s') = instruments (mk_shared s) \<and>
     sh_settings (mk_shared s') = sh_settings (mk_shared s)"
proof (induction "is" arbitrary: symbols s)
  case (Cons i "is")
  show ?case
  proof (cases "mk_publish_security x fl i s")
    case (Some s1)
    obtain s2 symbols2 where s2: "mk_register_security x i symbols s1 = (s2, symbols2)" by fastforce
    have rest: "mk_securities x fl is symbols2 s2 = ((s', symbols'), e)"
      using Cons.prems Some s2 by simp
    have ids: "mk_stream_id s1 = mk_stream_id s" "mk_stream_id s2 = mk_stream_id s1"
      "all_currencies (mk_shared s1) = all_currencies (mk_shared s)"
      "all_currencies (mk_shared s2) = all_currencies (mk_shared s1)"
      "instruments (mk_shared s1) = instruments (mk_shared s)" "instruments (mk_shared s2) = instruments (mk_shared s1)"
      "sh_settings (mk_shared s1) = sh_settings (mk_shared s)" "sh_settings (mk_shared s2) = sh_settings (mk_shared s1)"
      using Some s2 by (auto simp: mk_publish_security_def mk_register_security_def mk_emit_def Let_def
          split: if_splits option.splits)
    note r = mk_register_security_symbols [OF s2]
    obtain new where new: "symbols' = symbols2 @ new" "distinct new" "set new \<inter> mk_symbols s2 = {}"
      "mk_symbols s' = mk_symbols s2 \<union> set new" "mk_stream_id s' = mk_stream_id s2"
      "all_currencies (mk_shared s') = all_currencies (mk_shared s2)" "instruments (mk_shared s') = instruments (mk_shared s2)"
      "sh_settings (mk_shared s') = sh_settings (mk_shared s2)"
      using Cons.IH [OF rest] by blast
    show ?thesis
      using r new ids mk_publish_security_symbols [OF Some]
      by (intro exI [of _ "(if discard_symbol x (sy_symbol i) \<or> sy_symbol i \<in> mk_symbols s1 then []
                         else [sy_symbol i]) @ new"]) (auto split: if_splits)
  qed (use Cons.prems in simp)
qed simp

section \<open>The calls on the handler\<close>

definition told_symbols :: "web_call list \<Rightarrow> string list" where
  "told_symbols calls = concat (map (\<lambda>call. case call of Handler_Symbols symbols \<Rightarrow> symbols | _ \<Rightarrow> []) calls)"

lemma told_symbols_simps [simp]:
  "told_symbols [] = []" "told_symbols (cs @ ds) = told_symbols cs @ told_symbols ds"
  "told_symbols (Handler_Symbols symbols # cs) = symbols @ told_symbols cs"
  by (simp_all add: told_symbols_def)

definition told_currencies :: "web_call list \<Rightarrow> string list" where
  "told_currencies calls = concat (map (\<lambda>call. case call of Handler_Currencies currencies \<Rightarrow> currencies | _ \<Rightarrow> []) calls)"

lemma told_currencies_simps [simp]:
  "told_currencies [] = []" "told_currencies (cs @ ds) = told_currencies cs @ told_currencies ds"
  "told_currencies (Handler_Currencies currencies # cs) = currencies @ told_currencies cs"
  "told_currencies (Handler_Symbols symbols # cs) = told_currencies cs"
  "told_symbols (Handler_Currencies currencies # cs) = told_symbols cs"
  by (simp_all add: told_currencies_def told_symbols_def)

lemma told_currencies_other:
  "(\<And>currencies. call \<noteq> Handler_Currencies currencies) \<Longrightarrow> told_currencies (call # cs) = told_currencies cs"
  by (simp add: told_currencies_def split: web_call.split)

lemma told_symbols_other: "(\<And>symbols. call \<noteq> Handler_Symbols symbols) \<Longrightarrow> told_symbols (call # cs) = told_symbols cs"
  by (simp add: told_symbols_def split: web_call.split)

section \<open>The web sockets\<close>

text \<open>
  \<open>tells_nothing\<close>: the identifier and the shared state stay as they are, and the gateway is told
  of no symbol and no currency.
\<close>

definition tells_nothing :: "'q web_socket \<Rightarrow> 'q web_socket \<Rightarrow> bool" where
  "tells_nothing s t \<longleftrightarrow> wk_stream_id t = wk_stream_id s \<and> wk_shared t = wk_shared s \<and>
     (\<exists>calls. wk_out t = wk_out s @ calls \<and> told_symbols calls = [] \<and> told_currencies calls = [])"

lemma tells_nothing_refl [simp]: "tells_nothing s s"
  by (simp add: tells_nothing_def)

lemma tells_nothing_emit [simp]:
  "tells_nothing s t \<Longrightarrow> (\<And>symbols. call \<noteq> Handler_Symbols symbols) \<Longrightarrow>
   (\<And>currencies. call \<noteq> Handler_Currencies currencies) \<Longrightarrow> tells_nothing s (wk_emit call t)"
  by (auto simp: tells_nothing_def wk_emit_def told_symbols_other told_currencies_other)

lemma tells_nothing_fields [simp]:
  "tells_nothing s (t\<lparr>wk_account := a\<rparr>) = tells_nothing s t" "tells_nothing s (t\<lparr>wk_ready := b\<rparr>) = tells_nothing s t"
  "tells_nothing s (t\<lparr>wk_top_of_book := tob\<rparr>) = tells_nothing s t"
  "tells_nothing s (t\<lparr>wk_trading_status := ts\<rparr>) = tells_nothing s t"
  "tells_nothing s (t\<lparr>wk_connection_status := cs\<rparr>) = tells_nothing s t"
  by (simp_all add: tells_nothing_def)

lemma tells_nothing_emits [simp]:
  "tells_nothing s t \<Longrightarrow> (\<And>a symbols. f a \<noteq> Handler_Symbols symbols) \<Longrightarrow>
   (\<And>a currencies. f a \<noteq> Handler_Currencies currencies) \<Longrightarrow> tells_nothing s (fold (\<lambda>a. wk_emit (f a)) as t)"
  by (induction as arbitrary: t) (simp_all add: tells_nothing_emit)

lemma tells_nothing_notify [simp]: "tells_nothing s t \<Longrightarrow> tells_nothing s (wk_notify x cs reason t)"
  by (simp add: wk_notify_def wk_on_connection_status_def tells_nothing_emit)

lemma tells_nothing_subscribe [simp]: "tells_nothing s t \<Longrightarrow> tells_nothing s (wk_subscribe jx symbols t)"
  by (simp add: wk_subscribe_def wk_subscribe_symbols_def wk_subscribe_quote_def wk_subscribe_ticker_def
      wk_subscribe_chart_trades_def Let_def tells_nothing_emit tells_nothing_emits)

lemma tells_nothing_download [simp]: "tells_nothing s t \<Longrightarrow> tells_nothing s (snd (wk_download x jx symbols st t))"
  by (cases st) (simp_all add: wk_download_def wk_subscribe_platform_state_def wk_subscribe_instrument_state_def Let_def
      tells_nothing_emit tells_nothing_notify tells_nothing_subscribe)

lemma tells_nothing_downloads:
  "tells_nothing s t \<Longrightarrow> tells_nothing s (fold (\<lambda>(st, symbols) t. snd (wk_download x jx symbols st t)) calls t)"
  by (induction calls arbitrary: t) (simp_all add: case_prod_beta tells_nothing_download)

lemma tells_nothing_check:
  assumes "wk_advances x jx advance" "tells_nothing s t"
  shows "tells_nothing s (wk_check expected current response advance t)"
proof -
  obtain calls where "advance (wk_emit (Web_Download_Check expected) t) =
      fold (\<lambda>(st, symbols) t. snd (wk_download x jx symbols st t)) calls (wk_emit (Web_Download_Check expected) t)"
    using assms(1) unfolding wk_advances_def by blast
  then show ?thesis using assms(2) by (simp add: wk_check_def tells_nothing_downloads tells_nothing_emit)
qed

lemma tells_nothing_quote: "tells_nothing s t \<Longrightarrow> tells_nothing s (wk_quote wl ti q t)"
  by (simp add: wk_quote_def wk_get_top_of_book_def wk_quote_callback_def Let_def split: option.split)

lemma tells_nothing_ticker: "tells_nothing s t \<Longrightarrow> tells_nothing s (wk_ticker wl ti q t)"
  by (simp add: wk_ticker_def Let_def split: prod.split)

lemma tells_nothing_handle: "tells_nothing s t \<Longrightarrow> tells_nothing s (fst (wk_handle wl ti e t))"
  by (cases e) (simp_all add: wk_handle_def wk_auth_def wk_platform_state_def wk_instrument_state_def tells_nothing_quote
      tells_nothing_ticker tells_nothing_emit)

interpretation web_socket_tells: json_stream "wk_handle wl ti" "tells_nothing s" for wl ti s
  by unfold_locales (rule tells_nothing_handle)

lemma wk_own_tells: "wk_own x cx jx wl s s' \<Longrightarrow> tells_nothing s s'"
proof (induction rule: wk_own.induct)
  case (step_timer advance s refreshed released currencies instruments_at)
  then show ?case by (simp add: wk_timer_def Let_def tells_nothing_check)
next
  case (step_text s ti message)
  show ?case unfolding wk_text_def web_parse_state by (rule web_socket_tells.dispatch_inv) simp
qed (simp_all add: wk_start_def wk_stop_def wk_disconnected_def wk_on_ready_def wk_login_def wk_latency_def split: prod.split)

section \<open>The drop copies\<close>

definition same_shared :: "'q drop_copy \<Rightarrow> 'q drop_copy \<Rightarrow> bool" where
  "same_shared s t \<longleftrightarrow> dc_stream_id t = dc_stream_id s \<and> dc_shared t = dc_shared s"

lemma same_shared_simps [simp]:
  "same_shared s s" "same_shared s (dc_emit call t) = same_shared s t" "same_shared s (dc_push m t) = same_shared s t"
  "same_shared s (dc_notify x cs r t) = same_shared s t"
  "same_shared s (t\<lparr>dc_account := a\<rparr>) = same_shared s t" "same_shared s (t\<lparr>dc_ready := b\<rparr>) = same_shared s t"
  "same_shared s (t\<lparr>dc_can_download := b\<rparr>) = same_shared s t" "same_shared s (t\<lparr>dc_currencies := currencies\<rparr>) = same_shared s t"
  "same_shared s (t\<lparr>dc_download_trades_is_first := b\<rparr>) = same_shared s t"
  by (simp_all add: same_shared_def dc_emit_def dc_push_def dc_notify_def dc_on_connection_status_def)

lemma same_shared_fold [simp]:
  "(\<And>a t. same_shared s (f a t) = same_shared s t) \<Longrightarrow> same_shared s (fold f as t) = same_shared s t"
  by (induction as arbitrary: t) simp_all

lemma same_shared_requests [simp]:
  "same_shared s (dc_subscribe_user_portfolio jx cs t) = same_shared s t"
  "same_shared s (dc_subscribe_user_changes jx t) = same_shared s t"
  "same_shared s (dc_subscribe_user_orders jx t) = same_shared s t"
  "same_shared s (dc_subscribe_user_trades jx t) = same_shared s t"
  "same_shared s (dc_get_account_summary jx cs t) = same_shared s t"
  "same_shared s (dc_get_user_trades_by_currency jx ti cs t) = same_shared s t"
  by (simp_all add: dc_subscribe_user_portfolio_def dc_subscribe_user_changes_def dc_subscribe_user_orders_def
      dc_subscribe_user_trades_def dc_get_account_summary_def dc_get_user_trades_by_currency_def Let_def)

lemma same_shared_latch [simp]:
  "same_shared s (dc_latch jx ti t) = same_shared s t" "same_shared s (dc_on_currencies jx ti cs t) = same_shared s t"
  by (simp_all add: dc_latch_def dc_on_currencies_def dc_request_currencies_def Let_def)

lemma same_shared_trades [simp]: "same_shared s (dc_trades wl d ts t) = same_shared s t"
  by (induction wl d ts t rule: dc_trades.induct) (simp_all add: dc_trade_def)

lemma same_shared_handle: "same_shared s t \<Longrightarrow> same_shared s (fst (dc_handle wl e t))"
  by (cases e) (simp_all add: dc_handle_def dc_auth_def dc_platform_state_def dc_user_portfolio_def
      dc_user_changes_def dc_user_trades_def)

interpretation drop_copy_shares: json_stream "dc_handle wl" "same_shared s" for wl s
  by unfold_locales (rule same_shared_handle)

lemma same_shared_download [simp]: "same_shared s (snd (dc_download x jx ti st t)) = same_shared s t"
  by (cases st) (simp_all add: dc_download_def Let_def)

lemma dc_event_shared: "dc_event x cx jx wl s s' \<Longrightarrow> same_shared s s'"
proof (induction rule: dc_event.induct)
  case (step_text s message)
  show ?case unfolding dc_text_def web_parse_state by (rule drop_copy_shares.dispatch_inv) simp
qed (auto simp: dc_start_def dc_stop_def dc_timer_def dc_disconnected_def dc_on_ready_def dc_login_def dc_latency_def
    dc_runs_download_def split: prod.split)

lemma dc_own_shared: "dc_own x cx jx wl s s' \<Longrightarrow> same_shared s s'"
  by (cases rule: dc_own.cases) (auto simp: dc_event_shared)

section \<open>REST\<close>

text \<open>
  The operations of the REST stream, and what they tell: the symbols and the currencies that the
  gateway is told are exactly those that the operation makes known, each once.
\<close>

inductive rk_own :: "('q, 'y) gateway_lib \<Rightarrow> 'q rest \<Rightarrow> 'q rest \<Rightarrow> bool" for gl where
  step_start: "rk_own gl s (rk_start s)"
| step_stop: "rk_own gl s (rk_stop s)"
| step_timer: "rk_own gl s (rk_timer refreshed ti currencies_due instruments_due released s)"
| step_connected: "rk_own gl s (rk_connected (gl_x gl) currencies_due instruments_due s)"
| step_disconnected: "rk_own gl s (rk_disconnected (gl_x gl) s)"
| step_latency: "rk_own gl s (rk_latency sample s)"
| step_currencies: "rk_own gl s (fst (rk_currencies_ack (gl_rl gl) response s))"
| step_instruments: "rk_own gl s
    (fst (rk_instruments_ack (gl_x gl) (gl_wl gl) (gl_rl gl) (sq_new (gl_sequencer gl)) response s))"
| step_chart_data: "rk_own gl s (fst (rk_chart_data_ack (gl_wl gl) (gl_rl gl) response symbol s))"

definition tells_new :: "externals \<Rightarrow> 'q rest \<Rightarrow> 'q rest \<Rightarrow> bool" where
  "tells_new x s t \<longleftrightarrow> rk_stream_id t = rk_stream_id s \<and> grows x (rk_shared s) (rk_shared t) \<and> (\<exists>calls. rk_out t = rk_out s @ calls \<and>
     distinct (told_symbols calls) \<and> set (told_symbols calls) \<inter> all_symbols (rk_shared s) = {} \<and>
     all_symbols (rk_shared t) = all_symbols (rk_shared s) \<union> set (told_symbols calls) \<and>
     distinct (told_currencies calls) \<and> set (told_currencies calls) \<inter> all_currencies (rk_shared s) = {} \<and>
     all_currencies (rk_shared t) = all_currencies (rk_shared s) \<union> set (told_currencies calls))"

lemma tells_new_refl [simp]: "tells_new x s s"
  by (auto simp: tells_new_def)

lemma tells_new_emit:
  "tells_new x s t \<Longrightarrow> (\<And>symbols. call \<noteq> Handler_Symbols symbols) \<Longrightarrow>
   (\<And>currencies. call \<noteq> Handler_Currencies currencies) \<Longrightarrow> tells_new x s (rk_emit call t)"
  unfolding tells_new_def rk_emit_def by (fastforce simp: told_symbols_other told_currencies_other)

lemma tells_new_status [simp]: "tells_new x s (t\<lparr>rk_connection_status := cs\<rparr>) = tells_new x s t"
  by (simp add: tells_new_def)

lemma tells_new_notify: "tells_new x s t \<Longrightarrow> tells_new x s (rk_notify x cs reason t)"
  by (simp add: rk_notify_def rk_on_connection_status_def tells_new_emit)

lemma tells_new_check_download: "tells_new x s t \<Longrightarrow> tells_new x s (rk_check_download a b t)"
  by (simp add: rk_check_download_def rk_get_currencies_def rk_get_instruments_def tells_new_emit)

lemma tells_new_queue: "tells_new x s t \<Longrightarrow> tells_new x s (rk_check_request_queue ti released t)"
  unfolding rk_check_request_queue_def
  by (induction released arbitrary: t) (simp_all add: rk_get_chart_data_def tells_new_emit Let_def)

lemma tells_new_currencies: "tells_new x s (rk_currencies is s)"
proof -
  obtain new where new: "rk_new_currencies is [] (rk_shared s) =
      ([] @ new, (rk_shared s)\<lparr>all_currencies := all_currencies (rk_shared s) \<union> set is\<rparr>)"
    "distinct new" "set new = set is - all_currencies (rk_shared s)"
    using rk_new_currencies_spec [of "is" "[]" "rk_shared s"] by blast
  have ids: "rk_stream_id (rk_currencies is s) = rk_stream_id s" "grows x (rk_shared s) (rk_shared (rk_currencies is s))"
    by (simp_all add: rk_currencies_def rk_emit_def new(1) grows_same Let_def)
  show ?thesis
    unfolding tells_new_def
    by (rule conjI [OF ids(1)], rule conjI [OF ids(2)], rule exI [of _ "if new = [] then [] else [Handler_Currencies new]"])
      (use new in \<open>auto simp: rk_currencies_def rk_emit_def\<close>)
qed

lemma rk_instrument_out:
  "rk_instrument x wl q0 i symbols s = (s', symbols') \<Longrightarrow>
   rk_stream_id s' = rk_stream_id s \<and> grows x (rk_shared s) (rk_shared s') \<and> all_currencies (rk_shared s') = all_currencies (rk_shared s) \<and>
   (\<exists>calls. rk_out s' = rk_out s @ calls \<and> told_symbols calls = [] \<and> told_currencies calls = [])"
  by (auto simp: rk_instrument_def rk_emit_def Let_def told_symbols_other told_currencies_other
      intro!: grows_trans [OF grows_create grows_same] split: if_splits)

lemma rk_instrument_loop_out:
  "rk_instrument_loop x wl q0 is symbols s = (s', symbols') \<Longrightarrow>
   rk_stream_id s' = rk_stream_id s \<and> grows x (rk_shared s) (rk_shared s') \<and> all_currencies (rk_shared s') = all_currencies (rk_shared s) \<and>
   (\<exists>calls. rk_out s' = rk_out s @ calls \<and> told_symbols calls = [] \<and> told_currencies calls = [])"
proof (induction "is" arbitrary: symbols s)
  case (Cons i "is")
  obtain s1 symbols1 where s1: "rk_instrument x wl q0 i symbols s = (s1, symbols1)" by fastforce
  then have "rk_instrument_loop x wl q0 is symbols1 s1 = (s', symbols')" using Cons.prems by simp
  from Cons.IH [OF this] rk_instrument_out [OF s1] show ?case by (auto intro: grows_trans)
qed simp

lemma tells_new_instruments: "tells_new x s (rk_instruments x wl q0 is s)"
proof -
  obtain s' symbols where loop: "rk_instrument_loop x wl q0 is [] s = (s', symbols)" by fastforce
  obtain calls where calls: "rk_out s' = rk_out s @ calls" "told_symbols calls = []" "told_currencies calls = []"
    "rk_stream_id s' = rk_stream_id s" "all_currencies (rk_shared s') = all_currencies (rk_shared s)"
    "grows x (rk_shared s) (rk_shared s')"
    using rk_instrument_loop_out [OF loop] by blast
  have symbols: "distinct symbols" "set symbols \<inter> all_symbols (rk_shared s) = {}"
    "all_symbols (rk_shared s') = all_symbols (rk_shared s) \<union> set symbols"
    using rk_instrument_loop_symbols [OF loop] by auto
  have ids: "rk_stream_id (rk_instruments x wl q0 is s) = rk_stream_id s"
    "grows x (rk_shared s) (rk_shared (rk_instruments x wl q0 is s))"
    using loop calls(4,6) by (simp_all add: rk_instruments_def rk_emit_def)
  show ?thesis
    unfolding tells_new_def
    by (rule conjI [OF ids(1)], rule conjI [OF ids(2)], rule exI [of _ "calls @ (if symbols = [] then [] else [Handler_Symbols symbols])"])
      (use loop calls symbols in \<open>auto simp: rk_instruments_def rk_emit_def\<close>)
qed

lemma rk_own_tells: "rk_own gl s s' \<Longrightarrow> tells_new (gl_x gl) s s'"
  by (induction rule: rk_own.induct)
    (auto simp: rk_start_def rk_stop_def rk_timer_def rk_connected_def rk_disconnected_def rk_latency_def
      rk_currencies_ack_def rk_instruments_ack_def rk_chart_data_ack_def rk_chart_data_def Let_def
      intro!: tells_new_emit tells_new_notify tells_new_check_download tells_new_queue tells_new_currencies
        tells_new_instruments split: rest_result.splits option.splits)

section \<open>Multicast\<close>

abbreviation ue_symbols :: "'q udp_events \<Rightarrow> string set" where
  "ue_symbols s \<equiv> all_symbols (ue_shared s)"

definition ue_fixed :: "externals \<Rightarrow> 'q udp_events \<Rightarrow> 'q udp_events \<Rightarrow> bool" where
  "ue_fixed x s t \<longleftrightarrow> ue_stream_id t = ue_stream_id s \<and> ue_symbols t = ue_symbols s \<and>
     all_currencies (ue_shared t) = all_currencies (ue_shared s) \<and> grows x (ue_shared s) (ue_shared t) \<and>
     (ue_inv s \<longrightarrow> ue_inv t)"

lemma ue_fixed_trans: "ue_fixed x s t \<Longrightarrow> ue_fixed x t u \<Longrightarrow> ue_fixed x s u"
  unfolding ue_fixed_def using grows_trans by fastforce

lemma ue_inv_time [simp]: "ue_inv (s\<lparr>ue_last_update_time := w\<rparr>) = ue_inv s"
  by (auto simp: ue_inv_def ue_out_ok_def Let_def split: udp_out.splits)

lemma ue_fixed_time [simp]:
  "ue_fixed x s (t\<lparr>ue_last_update_time := w\<rparr>) = ue_fixed x s t"
  "ue_fixed x (s\<lparr>ue_last_update_time := w\<rparr>) t = ue_fixed x s t"
  by (simp_all add: ue_fixed_def)

lemma ue_fixed_refl [simp]: "ue_fixed x s s"
  by (simp add: ue_fixed_def)

lemma ue_fixed_notify: "ue_fixed x s (ue_notify y cs s)"
  by (simp add: ue_fixed_def ue_notify_keeps) (simp add: ue_notify_def ue_on_connection_status_def ue_emit_def)

lemma ue_fixed_timer: "ue_fixed x s (ue_timer now s)"
  by (simp add: ue_timer_def)

lemma ue_fixed_start: "ue_fixed x s (ue_start y ti s)"
  by (simp add: ue_start_def ue_fixed_notify)

lemma ue_fixed_message:
  assumes "ue_on_message x c ops s m f = Inr s'"
  shows "ue_fixed x s s'"
proof -
  have "ue_inv s \<longrightarrow> ue_inv s'" using ue_on_message_keeps [OF _ assms] by blast
  moreover have "ue_stream_id s' = ue_stream_id s \<and> ue_symbols s' = ue_symbols s \<and>
      all_currencies (ue_shared s') = all_currencies (ue_shared s) \<and> grows x (ue_shared s) (ue_shared s')"
    using assms
    by (cases m) (auto simp: ue_on_message_def ue_instrument_def ue_book_def ue_trades_eq ue_ticker_eq Let_def
      dest: find_instrument_known simp: grows_create intro: grows_found [OF _ ue_book_callback_key] split: if_splits prod.splits)
  ultimately show ?thesis by (simp add: ue_fixed_def)
qed

lemma ue_fixed_frame: "ue_fixed x s (snd (ue_on_frame s f))"
  by (simp add: ue_fixed_def ue_on_frame_keeps) (simp add: ue_on_frame_def Let_def split: prod.split)

interpretation events_fixed: sbe_stream "ue_handler x c ops" "ue_fixed x s" for x c ops s
proof unfold_locales
  show "ue_fixed x s t \<Longrightarrow> on_message (ue_handler x c ops) t m f = Inr t' \<Longrightarrow> ue_fixed x s t'" for t m f t'
    using ue_fixed_message ue_fixed_trans by (fastforce simp: ue_handler_def)
  show "ue_fixed x s t \<Longrightarrow> ue_fixed x s (snd (on_frame (ue_handler x c ops) t f))" for t f
    using ue_fixed_trans [OF _ ue_fixed_frame, of x s t f] by (simp add: ue_handler_def)
qed

lemma ue_fixed_receive: "ue_receive x c ops ds t = Some (Inr s') \<Longrightarrow> ue_fixed x s t \<Longrightarrow> ue_fixed x s s'"
  by (induction x c ops ds t rule: ue_receive.induct)
    (auto split: if_splits option.splits sum.splits dest: events_fixed.dispatch_keeps)

lemma ue_fixed_read: "ue_read x c ops ti ds s = Some (Inr s') \<Longrightarrow> ue_fixed x s s'"
  unfolding ue_read_def
  by (erule ue_fixed_receive) (use ue_fixed_notify [of x "s\<lparr>ue_last_update_time := source_receive_time ti\<rparr>" x CS_READY] in simp)

abbreviation us_symbols :: "'q udp_snapshot \<Rightarrow> string set" where
  "us_symbols s \<equiv> all_symbols (us_shared s)"

definition us_fixed :: "externals \<Rightarrow> 'q udp_snapshot \<Rightarrow> 'q udp_snapshot \<Rightarrow> bool" where
  "us_fixed x s t \<longleftrightarrow> us_stream_id t = us_stream_id s \<and> us_symbols t = us_symbols s \<and>
     all_currencies (us_shared t) = all_currencies (us_shared s) \<and> grows x (us_shared s) (us_shared t) \<and>
     (us_inv s \<longrightarrow> us_inv t)"

lemma us_fixed_trans: "us_fixed x s t \<Longrightarrow> us_fixed x t u \<Longrightarrow> us_fixed x s u"
  unfolding us_fixed_def using grows_trans by fastforce

lemma us_inv_time [simp]: "us_inv (s\<lparr>us_last_update_time := w\<rparr>) = us_inv s"
  by (auto simp: us_inv_def us_out_ok_def split: udp_out.splits)

lemma us_fixed_time [simp]:
  "us_fixed x s (t\<lparr>us_last_update_time := w\<rparr>) = us_fixed x s t"
  "us_fixed x (s\<lparr>us_last_update_time := w\<rparr>) t = us_fixed x s t"
  by (simp_all add: us_fixed_def)

lemma us_fixed_refl [simp]: "us_fixed x s s"
  by (simp add: us_fixed_def)

lemma us_fixed_notify: "us_fixed x s (us_notify y cs s)"
  by (simp add: us_fixed_def us_notify_keeps) (simp add: us_notify_def us_on_connection_status_def)

lemma us_fixed_timer: "us_fixed x s (us_timer now s)"
  by (simp add: us_timer_def)

lemma us_fixed_start: "us_fixed x s (us_start y ti s)"
  using us_fixed_notify [of x "s\<lparr>us_last_update_time := source_receive_time ti\<rparr>" y CS_CONNECTING] by (simp add: us_start_def)

lemma us_fixed_message:
  assumes "us_on_message x c ops s m f = Inr s'"
  shows "us_fixed x s s'"
proof -
  have "us_inv s \<longrightarrow> us_inv s'" using us_on_message_keeps [OF _ assms] by blast
  moreover have "us_stream_id s' = us_stream_id s \<and> us_symbols s' = us_symbols s \<and>
      all_currencies (us_shared s') = all_currencies (us_shared s) \<and> grows x (us_shared s) (us_shared s')"
    using assms
    by (cases m) (auto simp: us_on_message_def us_instrument_def us_with_channel_def us_snapshot_def andthen_eq_Inr Let_def
      dest: find_instrument_known simp: grows_create intro: grows_found [OF _ us_snapshot_callback_key] split: if_splits prod.splits)
  ultimately show ?thesis by (simp add: us_fixed_def)
qed

lemma us_fixed_frame: "us_fixed x s (snd (us_on_frame s f))"
  by (simp add: us_fixed_def us_on_frame_keeps) (simp add: us_on_frame_def Let_def split: prod.split)

interpretation snapshots_fixed: sbe_stream "us_handler x c ops" "us_fixed x s" for x c ops s
proof unfold_locales
  show "us_fixed x s t \<Longrightarrow> on_message (us_handler x c ops) t m f = Inr t' \<Longrightarrow> us_fixed x s t'" for t m f t'
    using us_fixed_message us_fixed_trans by (fastforce simp: us_handler_def)
  show "us_fixed x s t \<Longrightarrow> us_fixed x s (snd (on_frame (us_handler x c ops) t f))" for t f
    using us_fixed_trans [OF _ us_fixed_frame, of x s t f] by (simp add: us_handler_def)
qed

lemma us_fixed_receive: "us_receive x c ops ds t = Some (Inr s') \<Longrightarrow> us_fixed x s t \<Longrightarrow> us_fixed x s s'"
  by (induction x c ops ds t rule: us_receive.induct)
    (auto split: if_splits option.splits sum.splits dest: snapshots_fixed.dispatch_keeps)

lemma us_fixed_read: "us_read x c ops ti ds s = Some (Inr s') \<Longrightarrow> us_fixed x s s'"
  unfolding us_read_def
  by (erule us_fixed_receive) (use us_fixed_notify [of x "s\<lparr>us_last_update_time := source_receive_time ti\<rparr>" x CS_READY] in simp)

end
