(* ===== verification/Gateway_Run.thy ===== *)
theory Gateway_Run
  imports Gateway_Symbols
begin

text \<open>
  The running gateway: its steps are the calls of the server, and the operations of its
  streams with what the gateway does in response. An invariant that every elementary change
  keeps is kept by every step (locale \<open>gateway_invariant\<close>). Two invariants are instances: every
  stream is in a state that it can reach on its own, so that what is proved of a stream holds
  in the gateway; and no symbol is announced twice.
\<close>

inductive gw_step :: "('q, 'y) gateway_lib \<Rightarrow> ('q, 'y) gateway \<Rightarrow> ('q, 'y) gateway \<Rightarrow> bool" for gl where
  start: "gw_step gl c (fst (gw_start gl v c))"
| stop: "gw_step gl c (fst (gw_stop gl v c))"
| timer: "timer_target gl t \<Longrightarrow> gw_step gl c (fst (gw_dispatch gl v t c))"
| subscribe: "gw_step gl c (fst (gw_subscribe gl v symbols c))"
| control: "gw_step gl c (gw_control action c)"
| create_order: "gw_create_order gl nm co rd rid now c = Inr (sid, c') \<Longrightarrow> gw_step gl c c'"
| modify_order: "gw_modify_order gl nm mo order rd rid now c = Inr (sid, c') \<Longrightarrow> gw_step gl c c'"
| cancel_order: "gw_cancel_order nm order rid now c = Inr (sid, c') \<Longrightarrow> gw_step gl c c'"
| cancel_all_orders: "gw_cancel_all_orders gl nm ca rid now c = Inr (sid, c') \<Longrightarrow> gw_step gl c c'"
| rest: "rk_own gl (rest_view c) s \<Longrightarrow> gw_step gl c (fst (rest_moved gl v s c))"
| order_entry: "oe_view nm c = Some s \<Longrightarrow> oe_own s s' \<Longrightarrow> gw_step gl c (oe_put nm s' c)"
| drop_copy: "dc_view nm c = Some s \<Longrightarrow> dc_event (gl_x gl) (gl_cx gl) (gl_jx gl) (gl_wl gl) s s' \<Longrightarrow>
    gw_step gl c (dc_put nm s' c)"
| web_socket: "wk_view i c = Some s \<Longrightarrow> wk_own (gl_x gl) (gl_cx gl) (gl_jx gl) (gl_wl gl) s s' \<Longrightarrow>
    gw_step gl c (fst (wk_moved gl v i s' c))"
| market_data: "mk_view i c = Some s \<Longrightarrow> mk_own s s' \<Longrightarrow> gw_step gl c (mk_put i s' c)"
| market_data_read: "gw_step gl c (fst (gw_market_data_read gl v i ti reader buffer c))"
| udp_snapshot: "us_view c = Some s \<Longrightarrow> us_read (gl_x gl) (gl_codec gl) (gl_sequencer gl) ti ds s = Some (Inr s') \<Longrightarrow>
    gw_step gl c (us_put s' c)"
| udp_events: "ue_view c = Some s \<Longrightarrow> ue_read (gl_x gl) (gl_codec gl) (gl_sequencer gl) ti ds s = Some (Inr s') \<Longrightarrow>
    gw_step gl c (ue_put s' c)"

section \<open>Composition\<close>

lemma then_on_keeps:
  "P (fst r) \<Longrightarrow> (\<And>c. P c \<Longrightarrow> Q (fst (f c))) \<Longrightarrow> (\<And>c. P c \<Longrightarrow> Q c) \<Longrightarrow> Q (fst (then_on r f))"
  by (cases r) (simp add: then_on_def split: option.split)

lemma fold_keeps: "(\<And>k c. P c \<Longrightarrow> P (f k c)) \<Longrightarrow> P c \<Longrightarrow> P (fold f ks c)"
  by (induction ks arbitrary: c) simp_all

lemma each_then_keeps: "(\<And>k c. P c \<Longrightarrow> P (fst (f k c))) \<Longrightarrow> P c \<Longrightarrow> P (fst (each_then f ks c))"
  by (induction ks arbitrary: c) (auto intro: then_on_keeps)

lemma on_view_keeps: "(\<And>s. view c = Some s \<Longrightarrow> P (put (f s) c)) \<Longrightarrow> P c \<Longrightarrow> P (on_view view put f c)"
  by (simp add: on_view_def split: option.split)

lemma view_shared:
  "oe_view nm c = Some s1 \<Longrightarrow> oe_shared s1 = gw_shared c" "dc_view nm c = Some s2 \<Longrightarrow> dc_shared s2 = gw_shared c"
  "wk_view i c = Some s3 \<Longrightarrow> wk_shared s3 = gw_shared c" "mk_view i c = Some s4 \<Longrightarrow> mk_shared s4 = gw_shared c"
  "us_view c = Some s5 \<Longrightarrow> us_shared s5 = gw_shared c" "ue_view c = Some s6 \<Longrightarrow> ue_shared s6 = gw_shared c"
  by (auto simp: oe_view_def dc_view_def wk_view_def mk_view_def us_view_def ue_view_def split: option.splits if_splits)

lemma wk_view_out: "wk_view i c = Some s \<Longrightarrow> wk_out s = wk_out (gw_web_socket c ! i)"
  by (auto simp: wk_view_def split: option.splits if_splits)

text \<open>
  \<open>inv new c\<close>: the invariant while the symbols \<open>new\<close> are known but have not yet been announced.
\<close>

locale gateway_invariant =
  fixes gl :: "('q, 'y) gateway_lib" and inv :: "string list \<Rightarrow> ('q, 'y) gateway \<Rightarrow> bool"
  assumes drop_pending: "inv new c \<Longrightarrow> inv [] c"
    and put_oe: "inv new c \<Longrightarrow> oe_view nm c = Some s1 \<Longrightarrow> oe_step s1 t1 \<Longrightarrow> oe_fixed s1 t1 \<Longrightarrow>
      inv new (oe_put nm t1 c)"
    and put_dc: "inv new c \<Longrightarrow> dc_view nm c = Some s2 \<Longrightarrow> dc_step (gl_x gl) (gl_cx gl) (gl_jx gl) (gl_wl gl) s2 t2 \<Longrightarrow>
      same_shared s2 t2 \<Longrightarrow> inv new (dc_put nm t2 c)"
    and put_wk: "inv new c \<Longrightarrow> wk_view i c = Some s3 \<Longrightarrow> wk_step (gl_x gl) (gl_cx gl) (gl_jx gl) (gl_wl gl) s3 t3 \<Longrightarrow>
      tells_nothing s3 t3 \<Longrightarrow> inv new (wk_put i t3 c)"
    and put_mk: "inv new c \<Longrightarrow> mk_view i c = Some s4 \<Longrightarrow> mk_step s4 t4 \<Longrightarrow> mk_fixed s4 t4 \<Longrightarrow>
      inv new (mk_put i t4 c)"
    and put_mk_new: "inv [] c \<Longrightarrow> mk_view i c = Some s4 \<Longrightarrow> mk_step\<^sup>*\<^sup>* s4 t4 \<Longrightarrow> distinct new \<Longrightarrow>
      set new \<inter> mk_symbols s4 = {} \<Longrightarrow> mk_symbols t4 = mk_symbols s4 \<union> set new \<Longrightarrow> mk_stream_id t4 = mk_stream_id s4 \<Longrightarrow>
      all_currencies (mk_shared t4) = all_currencies (mk_shared s4) \<Longrightarrow>
      grows (gl_x gl) (mk_shared s4) (mk_shared t4) \<Longrightarrow> inv new (mk_put i t4 c)"
    and put_rest: "inv [] c \<Longrightarrow> tells_new (gl_x gl) (rest_view c) r \<Longrightarrow> rk_out r = rk_out (gw_rest c) @ calls \<Longrightarrow>
      inv (told_symbols calls) (rest_put r c)"
    and put_shared: "inv [] c \<Longrightarrow> distinct new \<Longrightarrow> set new \<inter> all_symbols (gw_shared c) = {} \<Longrightarrow>
      all_symbols sh = all_symbols (gw_shared c) \<union> set new \<Longrightarrow>
      all_currencies sh = all_currencies (gw_shared c) \<Longrightarrow> grows (gl_x gl) (gw_shared c) sh \<Longrightarrow> inv new (c\<lparr>gw_shared := sh\<rparr>)"
    and put_us: "inv new c \<Longrightarrow> us_view c = Some s5 \<Longrightarrow> us_fixed (gl_x gl) s5 t5 \<Longrightarrow> inv new (us_put t5 c)"
    and put_ue: "inv new c \<Longrightarrow> ue_view c = Some s6 \<Longrightarrow> ue_fixed (gl_x gl) s6 t6 \<Longrightarrow> inv new (ue_put t6 c)"
    and announce: "inv (symbols @ new) c \<Longrightarrow> inv new (gw_emit (Symbols_Add symbols) (c\<lparr>gw_symbols := y\<rparr>))"
    and emit_state: "inv new c \<Longrightarrow> inv new (gw_emit (Gateway_State b) c)"
    and new_mk: "inv new c \<Longrightarrow> inv new (fst (new_market_data c))"
    and new_wk: "inv new c \<Longrightarrow> inv new (fst (new_web_socket c))"
begin

lemma own_oe: "inv new c \<Longrightarrow> oe_view nm c = Some s \<Longrightarrow> oe_own s t \<Longrightarrow> inv new (oe_put nm t c)"
  by (rule put_oe [OF _ _ oe_step.own oe_own_fixed])

lemma own_dc:
  "inv new c \<Longrightarrow> dc_view nm c = Some s \<Longrightarrow> dc_own (gl_x gl) (gl_cx gl) (gl_jx gl) (gl_wl gl) s t \<Longrightarrow> inv new (dc_put nm t c)"
  by (rule put_dc [OF _ _ dc_step.own dc_own_shared])

lemma own_wk:
  "inv new c \<Longrightarrow> wk_view i c = Some s \<Longrightarrow> wk_own (gl_x gl) (gl_cx gl) (gl_jx gl) (gl_wl gl) s t \<Longrightarrow> inv new (wk_put i t c)"
  by (rule put_wk [OF _ _ wk_step.own wk_own_tells])

lemma own_mk: "inv new c \<Longrightarrow> mk_view i c = Some s \<Longrightarrow> mk_own s t \<Longrightarrow> inv new (mk_put i t c)"
  by (rule put_mk [OF _ _ mk_step.own mk_own_fixed])

lemma on_oe: "inv new c \<Longrightarrow> (\<And>s. oe_own s (f s)) \<Longrightarrow> inv new (on_view (oe_view nm) (oe_put nm) f c)"
  by (rule on_view_keeps [of "oe_view nm"]) (simp_all add: own_oe)

lemma on_dc:
  "inv new c \<Longrightarrow> (\<And>s. dc_own (gl_x gl) (gl_cx gl) (gl_jx gl) (gl_wl gl) s (f s)) \<Longrightarrow>
   inv new (on_view (dc_view nm) (dc_put nm) f c)"
  by (rule on_view_keeps [of "dc_view nm"]) (simp_all add: own_dc)

lemma on_wk:
  "inv new c \<Longrightarrow> (\<And>s. wk_own (gl_x gl) (gl_cx gl) (gl_jx gl) (gl_wl gl) s (f s)) \<Longrightarrow>
   inv new (on_view (wk_view i) (wk_put i) f c)"
  by (rule on_view_keeps [of "wk_view i"]) (simp_all add: own_wk)

lemma on_mk: "inv new c \<Longrightarrow> (\<And>s. mk_own s (f s)) \<Longrightarrow> inv new (on_view (mk_view i) (mk_put i) f c)"
  by (rule on_view_keeps [of "mk_view i"]) (simp_all add: own_mk)

lemma on_us: "inv new c \<Longrightarrow> (\<And>s. us_fixed (gl_x gl) s (f s)) \<Longrightarrow> inv new (on_view us_view us_put f c)"
  by (rule on_view_keeps [of us_view]) (simp_all add: put_us)

lemma on_ue: "inv new c \<Longrightarrow> (\<And>s. ue_fixed (gl_x gl) s (f s)) \<Longrightarrow> inv new (on_view ue_view ue_put f c)"
  by (rule on_view_keeps [of ue_view]) (simp_all add: put_ue)

lemma drop_copies:
  "inv new c \<Longrightarrow> (\<And>s. dc_own (gl_x gl) (gl_cx gl) (gl_jx gl) (gl_wl gl) s (f s)) \<Longrightarrow> inv new (gw_drop_copies f c)"
  unfolding gw_drop_copies_def by (rule fold_keeps) (rule on_dc)

lemma latch: "inv new c \<Longrightarrow> inv new (gw_latch gl ti c)"
  unfolding gw_latch_def by (erule drop_copies) (rule dc_own.step_latch)

lemma currencies: "inv new c \<Longrightarrow> inv new (gw_on_currencies gl ti cs c)"
  unfolding gw_on_currencies_def by (erule drop_copies) (rule dc_own.step_currencies)

lemma more_market_data: "inv new c \<Longrightarrow> inv new (fst (add_market_data slices c))"
proof (induction slices c rule: add_market_data.induct)
  case (1 slices c)
  then show ?case using new_mk [OF 1(2)]
    by (subst add_market_data.simps) (auto split: prod.splits option.splits)
qed

lemma more_web_sockets: "inv new c \<Longrightarrow> inv new (fst (add_web_socket slices c))"
proof (induction slices c rule: add_web_socket.induct)
  case (1 slices c)
  then show ?case using new_wk [OF 1(2)]
    by (subst add_web_socket.simps) (auto split: prod.splits option.splits)
qed

lemma slices: "inv new c \<Longrightarrow> inv new (fst (ensure_symbol_slices n c))"
  unfolding ensure_symbol_slices_def by (rule then_on_keeps [where P = "inv new"]) (simp_all add: more_market_data more_web_sockets)

lemma symbols_update:
  assumes "inv (symbols @ new) c"
  shows "inv new (fst (gw_on_symbols gl now symbols c))"
proof -
  obtain n start_from y where add: "sy_add gl (gw_symbols c) symbols = ((n, start_from), y)" by (metis prod.exhaust)
  have "inv new (fst (ensure_symbol_slices n (gw_emit (Symbols_Add symbols) (c\<lparr>gw_symbols := y\<rparr>))))"
    by (rule slices) (rule announce [OF assms])
  then show ?thesis
    unfolding gw_on_symbols_def add Let_def prod.case
    by (rule then_on_keeps) (auto intro!: fold_keeps on_wk on_mk mk_own.step_subscribe wk_own.step_subscribe)
qed

lemma react: "inv (told_symbols calls) c \<Longrightarrow> inv [] (fst (react_calls gl v calls c))"
proof (induction calls arbitrary: c)
  case (Cons call calls)
  have "inv (told_symbols calls) (fst (gw_react gl v call c))"
  proof (cases call)
    case (Handler_Symbols symbols)
    then show ?thesis using Cons.prems by (simp add: gw_react_def symbols_update)
  qed (use Cons.prems in \<open>simp_all add: gw_react_def told_symbols_other latch currencies\<close>)
  then show ?case unfolding react_calls.simps
    by (rule then_on_keeps) (use Cons.IH drop_pending in blast)+
qed simp

lemma rest_inv:
  assumes "inv [] c" "rk_own gl (rest_view c) s"
  shows "inv [] (fst (rest_moved gl v s c))"
proof -
  obtain calls where calls: "rk_out s = rk_out (gw_rest c) @ calls"
    using rk_own_tells [OF assms(2)] by (auto simp: tells_new_def rest_view_def)
  show ?thesis
    using react [OF put_rest [OF assms(1) rk_own_tells [OF assms(2)] calls]] by (simp add: rest_moved_def calls)
qed

lemma web_socket_inv:
  assumes "inv [] c" "wk_view i c = Some s" "wk_own (gl_x gl) (gl_cx gl) (gl_jx gl) (gl_wl gl) s s'"
  shows "inv [] (fst (wk_moved gl v i s' c))"
proof -
  obtain calls where calls: "wk_out s' = wk_out (gw_web_socket c ! i) @ calls" "told_symbols calls = []"
    using wk_own_tells [OF assms(3)] wk_view_out [OF assms(2)] by (auto simp: tells_nothing_def)
  have "inv (told_symbols calls) (wk_put i s' c)"
    using own_wk [OF assms] calls(2) by simp
  from react [OF this] show ?thesis by (simp add: wk_moved_def calls(1))
qed

lemma dispatch_inv:
  assumes "inv [] c" "\<And>s. rk_own gl s (tg_rest t s)" "\<And>nm s. oe_own s (tg_order_entry t nm s)"
    "\<And>nm s. dc_own (gl_x gl) (gl_cx gl) (gl_jx gl) (gl_wl gl) s (tg_drop_copy t nm s)"
    "\<And>i s. wk_own (gl_x gl) (gl_cx gl) (gl_jx gl) (gl_wl gl) s (tg_web_socket t i s)"
    "\<And>i s. mk_own s (tg_market_data t i s)"
    "\<And>s. us_fixed (gl_x gl) s (tg_udp_snapshot t s)" "\<And>s. ue_fixed (gl_x gl) s (tg_udp_events t s)"
  shows "inv [] (fst (gw_dispatch gl v t c))"
  unfolding gw_dispatch_def Let_def
proof (rule then_on_keeps [where P = "inv []"], goal_cases)
  case (2 c1)
  have "inv [] (fold (\<lambda>nm. on_view (oe_view nm) (oe_put nm) (tg_order_entry t nm)) (map fst (gw_order_entry c1)) c1)"
    (is "inv [] ?c2")
    by (rule fold_keeps [rotated, where P = "inv []", OF 2]) (rule on_oe [OF _ assms(3)])
  then have "inv [] (fold (\<lambda>nm. on_view (dc_view nm) (dc_put nm) (tg_drop_copy t nm)) (map fst (gw_drop_copy ?c2)) ?c2)"
    (is "inv [] ?c3")
    by (rule fold_keeps [rotated, where P = "inv []"]) (rule on_dc [OF _ assms(4)])
  then have "inv [] (fst (each_then (\<lambda>i. gw_web_socket_call gl v (tg_web_socket t i) i) [0..<length (gw_web_socket ?c3)] ?c3))"
    by (rule each_then_keeps [rotated]) (auto simp: gw_web_socket_call_def intro: web_socket_inv assms(5) split: option.split)
  then show ?case
  proof (rule then_on_keeps, goal_cases)
    case (1 c4)
    have "inv [] (fold (\<lambda>i. on_view (mk_view i) (mk_put i) (tg_market_data t i)) [0..<length (gw_market_data c4)] c4)"
      (is "inv [] ?c5")
      by (rule fold_keeps [rotated, where P = "inv []", OF 1]) (rule on_mk [OF _ assms(6)])
    then have "inv [] (on_view us_view us_put (tg_udp_snapshot t) ?c5)" by (rule on_us) (rule assms(7))
    then show ?case unfolding fst_conv by (rule on_ue) (rule assms(8))
  qed
qed (simp_all add: rest_inv assms(1,2))

lemma order_inv:
  assumes "inv new c" "order_action nm f c = Inr (sid, c')" "\<And>s s' sid. f s = Inr (sid, s') \<Longrightarrow> oe_own s s'"
  shows "inv new c'"
proof -
  obtain s s' where "oe_view nm c = Some s" "f s = Inr (sid, s')" "c' = oe_put nm s' c"
    using assms(2) by (auto simp: order_action_def get_order_entry_def andthen_eq_Inr split: option.splits)
  then show ?thesis using own_oe assms(1,3) by blast
qed

lemma on_mk_step:
  "inv new c \<Longrightarrow> (\<And>s. mk_step s (f s)) \<Longrightarrow> (\<And>s. mk_fixed s (f s)) \<Longrightarrow>
   inv new (on_view (mk_view i) (mk_put i) f c)"
  by (rule on_view_keeps [of "mk_view i"]) (simp_all add: put_mk)

lemma security_list_inv:
  assumes "inv [] c" "mk_view i c = Some s"
  shows "inv [] (fst (gw_security_list gl v i ti is (mk_check h s) c))"
proof -
  let ?s = "mk_emit (Conn_Touch (source_receive_time ti)) (mk_check h s)"
  obtain t symbols e where loop: "mk_securities (gl_x gl) (gl_fl gl) is [] ?s = ((t, symbols), e)"
    by (metis prod.exhaust)
  have new: "distinct symbols" "set symbols \<inter> mk_symbols s = {}" "mk_symbols t = mk_symbols s \<union> set symbols"
    "mk_stream_id t = mk_stream_id s" "all_currencies (mk_shared t) = all_currencies (mk_shared s)"
    "grows (gl_x gl) (mk_shared s) (mk_shared t)"
    using mk_securities_new [OF loop] by (auto simp: grows_same mk_emit_def mk_check_def)
  have "mk_step\<^sup>*\<^sup>* s (mk_check h s)" by (rule r_into_rtranclp) (rule mk_step.step_header)
  then have "mk_step\<^sup>*\<^sup>* s ?s" by (rule rtranclp.rtrancl_into_rtrancl) (rule mk_step.step_touch)
  moreover have "mk_step ?s t" using mk_step.step_securities [of ?s "gl_x gl" "gl_fl gl" "is" "[]"] loop by simp
  ultimately have reach: "mk_step\<^sup>*\<^sup>* s t" by (rule rtranclp.rtrancl_into_rtrancl)
  then have reach': "mk_step\<^sup>*\<^sup>* s (mk_emit (Pub_Symbols symbols) t)"
    by (rule rtranclp.rtrancl_into_rtrancl) (rule mk_step.step_symbols)
  have checked: "inv [] (fst (then_on r (\<lambda>c'. (on_view (mk_view i) (mk_put i) (mk_emit (Download_Check DS_SECURITIES)) c', None))))"
    if "inv [] (fst r)" for r
    by (rule then_on_keeps [where P = "inv []", OF that]) (auto intro: on_mk_step mk_step.step_check)
  have told: "inv symbols (mk_put i t c)" by (rule put_mk_new [OF assms reach new])
  have "inv symbols (mk_put i (mk_emit (Pub_Symbols symbols) t) c)"
    by (rule put_mk_new [OF assms reach' new(1,2)]) (simp_all add: new(3-6) mk_emit_def)
  then have "inv [] (fst (gw_on_symbols gl (rv_now v) symbols (mk_put i (mk_emit (Pub_Symbols symbols) t) c)))"
    by (intro symbols_update) simp
  then show ?thesis
    using told by (cases e) (auto simp: gw_security_list_def loop intro: drop_pending intro!: checked)
qed

lemma react_ok_id: "react_ok (\<lambda>symbols s. s)"
  unfolding react_ok_def
proof (intro allI exI)
  show "s = mk_subscribe_slice 0 [] (s\<lparr>mk_shared := mk_shared s\<rparr>)" for s :: "'a market_data"
    by (simp add: mk_subscribe_slice_def mk_subscribe_def)
qed

lemma message_inv: "inv [] c \<Longrightarrow> inv [] (fst (gw_market_data_message gl v i ti m c))"
proof (cases "mk_view i c")
  case (Some s)
  assume inv: "inv [] c"
  have other: "inv [] (mk_put i (fst (mk_message (gl_x gl) (gl_fl gl) (\<lambda>symbols s. s) ti m s)) c)"
    if "\<And>is. fx_body m \<noteq> B_SecurityList is"
    using put_mk [OF inv Some mk_step.step_message [OF react_ok_id] mk_message_fixed [OF that]] .
  show ?thesis
  proof (cases "\<exists>is. fx_body m = B_SecurityList is")
    case True
    then show ?thesis using security_list_inv [OF inv Some] Some by (auto simp: gw_market_data_message_def)
  next
    case False
    then show ?thesis
      using other Some by (cases "fx_body m") (simp_all add: gw_market_data_message_def case_prod_beta Let_def)
  qed
qed (simp add: gw_market_data_message_def)

lemma read_inv: "inv [] c \<Longrightarrow> inv [] (fst (gw_market_data_read gl v i ti reader buffer c))"
proof -
  assume inv: "inv [] c"
  obtain n c' e where loop: "read_loop (gw_market_data_message gl v i ti) reader 0 buffer c = (n, c', e)"
    by (metis prod.exhaust)
  have "inv [] c'"
    using read_loop_keeps [of "inv []" "gw_market_data_message gl v i ti" c reader 0 buffer, OF message_inv inv] loop by simp
  moreover have "inv [] (on_view (mk_view i) (mk_put i) (mk_emit (Conn_Drain n)) c')"
    by (rule on_mk_step) (simp_all add: \<open>inv [] c'\<close> mk_step.step_drain)
  ultimately show ?thesis using loop by (simp add: gw_market_data_read_def split: option.split)
qed

lemma timer_inv:
  assumes "inv [] c" "timer_target gl t"
  shows "inv [] (fst (gw_dispatch gl v t c))"
proof (rule dispatch_inv [OF assms(1)])
  note t = assms(2) [unfolded timer_target_def]
  show "rk_own gl s (tg_rest t s)" for s using t by (metis rk_own.step_timer)
  show "oe_own s (tg_order_entry t nm s)" for nm s using t by (metis oe_own.step_timer)
  show "dc_own (gl_x gl) (gl_cx gl) (gl_jx gl) (gl_wl gl) s (tg_drop_copy t nm s)" for nm s
    using t by (metis dc_own.event dc_event.step_timer)
  show "wk_own (gl_x gl) (gl_cx gl) (gl_jx gl) (gl_wl gl) s (tg_web_socket t i s)" for i s
    using t by (metis wk_own.step_timer)
  show "mk_own s (tg_market_data t i s)" for i s using t by (metis mk_own.step_timer)
  show "us_fixed (gl_x gl) s (tg_udp_snapshot t s)" for s using t by (auto simp: us_fixed_timer)
  show "ue_fixed (gl_x gl) s (tg_udp_events t s)" for s using t by (auto simp: ue_fixed_timer)
qed

lemma subscribe_inv:
  assumes "inv [] c"
  shows "inv [] (fst (gw_subscribe gl v symbols c))"
proof -
  have loop: "\<exists>new. subscribe_loop is known sh = (known @ new, sh\<lparr>all_symbols := all_symbols sh \<union> set new\<rparr>) \<and>
      distinct new \<and> set new \<inter> all_symbols sh = {}" for "is" known and sh :: "'a shared"
  proof (induction "is" arbitrary: known sh)
    case (Cons i "is")
    let ?new = "if i \<in> all_symbols sh then [] else [i]"
    obtain new where "subscribe_loop is (known @ ?new) (sh\<lparr>all_symbols := insert i (all_symbols sh)\<rparr>) =
        ((known @ ?new) @ new, sh\<lparr>all_symbols := insert i (all_symbols sh) \<union> set new\<rparr>)"
      "distinct new" "set new \<inter> insert i (all_symbols sh) = {}"
      using Cons.IH [of "known @ ?new" "sh\<lparr>all_symbols := insert i (all_symbols sh)\<rparr>"] by auto
    then show ?case by (intro exI [of _ "?new @ new"]) (auto simp: insert_absorb)
  qed simp
  obtain new where new: "subscribe_loop symbols [] (gw_shared c) =
      (new, (gw_shared c)\<lparr>all_symbols := all_symbols (gw_shared c) \<union> set new\<rparr>)"
    "distinct new" "set new \<inter> all_symbols (gw_shared c) = {}"
    using loop [of symbols "[]" "gw_shared c"] by auto
  have "inv (new @ []) (c\<lparr>gw_shared := (gw_shared c)\<lparr>all_symbols := all_symbols (gw_shared c) \<union> set new\<rparr>\<rparr>)"
    using put_shared [OF assms new(2,3)] by (simp add: grows_same)
  from symbols_update [OF this] show ?thesis by (simp add: gw_subscribe_def new(1))
qed

lemma step_inv: "gw_step gl c c' \<Longrightarrow> inv [] c \<Longrightarrow> inv [] c'"
proof (induction rule: gw_step.induct)
  case (start c v)
  then show ?case unfolding gw_start_def
    by (intro dispatch_inv)
      (simp_all add: rk_own.intros oe_own.intros dc_own.intros dc_event.intros wk_own.intros mk_own.intros us_fixed_start ue_fixed_start)
next
  case (stop c v)
  then show ?case unfolding gw_stop_def
    by (intro dispatch_inv)
      (simp_all add: rk_own.intros oe_own.intros dc_own.intros dc_event.intros wk_own.intros mk_own.intros us_fixed_def ue_fixed_def)
next
  case (control c action)
  then show ?case by (simp add: gw_control_def emit_state split: control_action.split)
next
  case (create_order nm co rd rid now c sid c')
  then show ?case unfolding gw_create_order_def by (rule_tac order_inv) (auto intro: oe_own.step_create)
next
  case (modify_order nm mo order rd rid now c sid c')
  then show ?case unfolding gw_modify_order_def by (rule_tac order_inv) (auto intro: oe_own.step_modify)
next
  case (cancel_order nm order rid now c sid c')
  then show ?case unfolding gw_cancel_order_def by (rule_tac order_inv) (auto intro: oe_own.step_cancel)
next
  case (cancel_all_orders nm ca rid now c sid c')
  then show ?case unfolding gw_cancel_all_orders_def by (rule_tac order_inv) (auto intro: oe_own.step_cancel_all)
qed (simp_all add: timer_inv subscribe_inv rest_inv web_socket_inv read_inv own_oe own_dc dc_own.event own_mk put_us put_ue
    us_fixed_read ue_fixed_read)

lemma run_inv: "(gw_step gl)\<^sup>*\<^sup>* c c' \<Longrightarrow> inv [] c \<Longrightarrow> inv [] c'"
  by (induction rule: rtranclp_induct) (auto intro: step_inv)

end

end
