(* ===== verification/Gateway_Properties.thy ===== *)
theory Gateway_Properties
  imports Gateway_Run "HOL-Library.Multiset"
begin

text \<open>
  What the running gateway keeps: the two instances of \<open>gateway_invariant\<close>, the identifiers of
  the streams, the subscription of new symbols, and the routing of orders.
\<close>

section \<open>The streams of a gateway\<close>

definition oe_reach :: "'q order_entry \<Rightarrow> bool" where
  "oe_reach s \<longleftrightarrow> (\<exists>sid a sh. oe_step\<^sup>*\<^sup>* (oe_create sid a sh) s)"

definition dc_reach :: "('q, 'y) gateway_lib \<Rightarrow> 'q drop_copy \<Rightarrow> bool" where
  "dc_reach gl s \<longleftrightarrow> (\<exists>sid a sh. (dc_step (gl_x gl) (gl_cx gl) (gl_jx gl) (gl_wl gl))\<^sup>*\<^sup>* (dc_create sid a sh) s)"

definition wk_reach :: "('q, 'y) gateway_lib \<Rightarrow> 'q web_socket \<Rightarrow> bool" where
  "wk_reach gl s \<longleftrightarrow>
     (\<exists>sid a sh master. (wk_step (gl_x gl) (gl_cx gl) (gl_jx gl) (gl_wl gl))\<^sup>*\<^sup>* (wk_create sid a sh master) s)"

definition mk_reach :: "'q market_data \<Rightarrow> bool" where
  "mk_reach s \<longleftrightarrow> (\<exists>sid a sh master. mk_step\<^sup>*\<^sup>* (mk_create sid a sh master) s)"

definition streams_ok :: "('q, 'y) gateway_lib \<Rightarrow> ('q, 'y) gateway \<Rightarrow> bool" where
  "streams_ok gl c \<longleftrightarrow>
     (\<forall>p\<in>set (gw_order_entry c). oe_reach (snd p)) \<and> (\<forall>p\<in>set (gw_drop_copy c). dc_reach gl (snd p)) \<and>
     (\<forall>s\<in>set (gw_web_socket c). wk_reach gl s) \<and> (\<forall>s\<in>set (gw_market_data c). mk_reach s)"

lemma reach_step:
  "oe_reach s1 \<Longrightarrow> oe_step s1 t1 \<Longrightarrow> oe_reach t1"
  "dc_reach gl s2 \<Longrightarrow> dc_step (gl_x gl) (gl_cx gl) (gl_jx gl) (gl_wl gl) s2 t2 \<Longrightarrow> dc_reach gl t2"
  "wk_reach gl s3 \<Longrightarrow> wk_step (gl_x gl) (gl_cx gl) (gl_jx gl) (gl_wl gl) s3 t3 \<Longrightarrow> wk_reach gl t3"
  "mk_reach s4 \<Longrightarrow> mk_step s4 t4 \<Longrightarrow> mk_reach t4"
  unfolding oe_reach_def dc_reach_def wk_reach_def mk_reach_def by (blast intro: rtranclp.rtrancl_into_rtrancl)+

lemma mk_reach_steps: "mk_reach s \<Longrightarrow> mk_step\<^sup>*\<^sup>* s t \<Longrightarrow> mk_reach t"
  unfolding mk_reach_def by (blast intro: rtranclp_trans)

lemma reach_create [simp]:
  "oe_reach (oe_create sid a sh)" "dc_reach gl (dc_create sid a sh)" "wk_reach gl (wk_create sid a sh master)"
  "mk_reach (mk_create sid a sh master)"
  unfolding oe_reach_def dc_reach_def wk_reach_def mk_reach_def by blast+

text \<open>A stream with the state and the account that it shares is what the other streams leave it.\<close>

lemma reach_shared:
  "oe_reach s1 \<Longrightarrow> oe_reach (s1\<lparr>oe_shared := sh, oe_account := a\<rparr>)"
  "dc_reach gl s2 \<Longrightarrow> dc_reach gl (s2\<lparr>dc_shared := sh, dc_account := a\<rparr>)"
  "wk_reach gl s3 \<Longrightarrow> wk_reach gl (s3\<lparr>wk_shared := sh, wk_account := a\<rparr>)"
  "mk_reach s4 \<Longrightarrow> mk_reach (s4\<lparr>mk_shared := sh, mk_account := a\<rparr>)"
  by (rule reach_step(1) [OF _ oe_step.shared], assumption, rule reach_step(2) [OF _ dc_step.shared], assumption,
      rule reach_step(3) [OF _ wk_step.shared], assumption, rule reach_step(4) [OF _ mk_step.shared], assumption)

lemma streams_ok_oe: "streams_ok gl c \<Longrightarrow> oe_view nm c = Some s \<Longrightarrow> oe_reach s"
  unfolding streams_ok_def oe_view_def
  by (clarsimp split: option.splits) (metis map_of_SomeD reach_shared(1) snd_conv)

lemma streams_ok_dc: "streams_ok gl c \<Longrightarrow> dc_view nm c = Some s \<Longrightarrow> dc_reach gl s"
  unfolding streams_ok_def dc_view_def
  by (clarsimp split: option.splits) (metis map_of_SomeD reach_shared(2) snd_conv)

lemma streams_ok_wk: "streams_ok gl c \<Longrightarrow> wk_view i c = Some s \<Longrightarrow> wk_reach gl s"
  unfolding streams_ok_def wk_view_def
  by (clarsimp split: option.splits if_splits) (metis nth_mem reach_shared(3))

lemma streams_ok_mk: "streams_ok gl c \<Longrightarrow> mk_view i c = Some s \<Longrightarrow> mk_reach s"
  unfolding streams_ok_def mk_view_def
  by (clarsimp split: option.splits if_splits) (metis nth_mem reach_shared(4))

lemmas streams_ok_views = streams_ok_oe streams_ok_dc streams_ok_wk streams_ok_mk

lemma update_entries: "p \<in> set (AList.update k v xs) \<Longrightarrow> p \<in> set xs \<or> snd p = v"
  by (induction xs) (auto split: if_splits)

lemma streams_ok_puts:
  assumes "streams_ok gl c"
  shows "oe_reach s1 \<Longrightarrow> streams_ok gl (oe_put nm s1 c)" "dc_reach gl s2 \<Longrightarrow> streams_ok gl (dc_put nm s2 c)"
    "wk_reach gl s3 \<Longrightarrow> streams_ok gl (wk_put i s3 c)" "mk_reach s4 \<Longrightarrow> streams_ok gl (mk_put i s4 c)"
    "streams_ok gl (rest_put s5 c)" "streams_ok gl (us_put s6 c)" "streams_ok gl (ue_put s7 c)"
    "streams_ok gl (c\<lparr>gw_shared := sh\<rparr>)" "streams_ok gl (gw_emit call c)" "streams_ok gl (c\<lparr>gw_symbols := y\<rparr>)"
  using assms
  by (auto simp: streams_ok_def oe_put_def dc_put_def wk_put_def mk_put_def rest_put_def us_put_def ue_put_def gw_emit_def
      dest!: update_entries set_update_subset_insert [THEN subsetD])

lemma streams_ok_new:
  assumes "streams_ok gl c"
  shows "streams_ok gl (fst (new_market_data c))" "streams_ok gl (fst (new_web_socket c))"
proof -
  have "mk_reach (mk_start (mk_create sid a sh master))" "wk_reach gl (wk_start (wk_create sid a sh master))" for sid a sh master
    by (rule reach_step(4) [OF reach_create(4) mk_step.own [OF mk_own.step_start]],
        rule reach_step(3) [OF reach_create(3) wk_step.own [OF wk_own.step_start]])
  then show "streams_ok gl (fst (new_market_data c))" "streams_ok gl (fst (new_web_socket c))"
    using assms by (auto simp: streams_ok_def new_market_data_def new_web_socket_def Let_def split: sum.split)
qed

interpretation reachable: gateway_invariant gl "\<lambda>new c. streams_ok gl c" for gl
proof unfold_locales
  fix c :: "('a, 'b) gateway" and nm i
  show "streams_ok gl c \<Longrightarrow> oe_view nm c = Some s1 \<Longrightarrow> oe_step s1 t1 \<Longrightarrow> streams_ok gl (oe_put nm t1 c)" for s1 t1
    using streams_ok_puts(1) reach_step(1) streams_ok_views(1) by blast
  show "streams_ok gl c \<Longrightarrow> dc_view nm c = Some s2 \<Longrightarrow> dc_step (gl_x gl) (gl_cx gl) (gl_jx gl) (gl_wl gl) s2 t2 \<Longrightarrow>
      streams_ok gl (dc_put nm t2 c)" for s2 t2
    using streams_ok_puts(2) reach_step(2) streams_ok_views(2) by blast
  show "streams_ok gl c \<Longrightarrow> wk_view i c = Some s3 \<Longrightarrow> wk_step (gl_x gl) (gl_cx gl) (gl_jx gl) (gl_wl gl) s3 t3 \<Longrightarrow>
      streams_ok gl (wk_put i t3 c)" for s3 t3
    using streams_ok_puts(3) reach_step(3) streams_ok_views(3) by blast
  show "streams_ok gl c \<Longrightarrow> mk_view i c = Some s4 \<Longrightarrow> mk_step s4 t4 \<Longrightarrow> streams_ok gl (mk_put i t4 c)" for s4 t4
    using streams_ok_puts(4) reach_step(4) streams_ok_views(4) by blast
  show "streams_ok gl c \<Longrightarrow> mk_view i c = Some s4 \<Longrightarrow> mk_step\<^sup>*\<^sup>* s4 t4 \<Longrightarrow> streams_ok gl (mk_put i t4 c)" for s4 t4
    using streams_ok_puts(4) mk_reach_steps streams_ok_views(4) by blast
qed (simp_all add: streams_ok_puts streams_ok_new)

section \<open>Announced symbols\<close>

text \<open>The symbols that the gateway has added to the slices, in order.\<close>

definition announced :: "('q, 'y) gateway \<Rightarrow> string list" where
  "announced c = concat (map (\<lambda>call. case call of Symbols_Add symbols \<Rightarrow> symbols | _ \<Rightarrow> []) (gw_out c))"

definition symbols_ok :: "string list \<Rightarrow> ('q, 'y) gateway \<Rightarrow> bool" where
  "symbols_ok new c \<longleftrightarrow> distinct (announced c @ new) \<and> set (announced c @ new) \<subseteq> all_symbols (gw_shared c)"

lemma announced_simps [simp]:
  "announced (gw_emit (Symbols_Add symbols) c) = announced c @ symbols" "announced (gw_emit (Gateway_State b) c) = announced c"
  by (simp_all add: announced_def gw_emit_def)

lemma put_out [simp]:
  "announced (oe_put nm s1 c) = announced c" "announced (dc_put nm s2 c) = announced c"
  "announced (wk_put i s3 c) = announced c" "announced (mk_put i s4 c) = announced c" "announced (rest_put s5 c) = announced c"
  "announced (us_put s6 c) = announced c" "announced (ue_put s7 c) = announced c"
  "announced (c\<lparr>gw_shared := sh\<rparr>) = announced c" "announced (c\<lparr>gw_symbols := y\<rparr>) = announced c"
  "announced (fst (new_market_data c)) = announced c" "announced (fst (new_web_socket c)) = announced c"
  by (simp_all add: announced_def oe_put_def dc_put_def wk_put_def mk_put_def rest_put_def us_put_def ue_put_def
      new_market_data_def new_web_socket_def Let_def split: sum.split)

lemma put_shared [simp]:
  "gw_shared (oe_put nm s1 c) = oe_shared s1" "gw_shared (dc_put nm s2 c) = dc_shared s2"
  "gw_shared (wk_put i s3 c) = wk_shared s3" "gw_shared (mk_put i s4 c) = mk_shared s4"
  "gw_shared (rest_put s5 c) = rk_shared s5" "gw_shared (us_put s6 c) = us_shared s6" "gw_shared (ue_put s7 c) = ue_shared s7"
  "gw_shared (fst (new_market_data c)) = gw_shared c" "gw_shared (fst (new_web_socket c)) = gw_shared c"
  "gw_shared (gw_emit call c) = gw_shared c"
  by (simp_all add: oe_put_def dc_put_def wk_put_def mk_put_def rest_put_def us_put_def ue_put_def gw_emit_def
      new_market_data_def new_web_socket_def Let_def split: sum.split)

interpretation announce: gateway_invariant gl symbols_ok for gl
  by unfold_locales (auto simp: symbols_ok_def disjoint_iff tells_new_def rest_view_def oe_fixed_def mk_fixed_def same_shared_def tells_nothing_def us_fixed_def ue_fixed_def
      dest!: view_shared)

section \<open>Stream identifiers\<close>

definition gw_ids :: "('q, 'y) gateway \<Rightarrow> uint16 list" where
  "gw_ids c = rk_stream_id (gw_rest c) # map (oe_stream_id \<circ> snd) (gw_order_entry c) @
     map (dc_stream_id \<circ> snd) (gw_drop_copy c) @ map wk_stream_id (gw_web_socket c) @
     map mk_stream_id (gw_market_data c) @ map us_stream_id (case gw_udp_snapshot c of Some s \<Rightarrow> [s] | None \<Rightarrow> []) @
     map ue_stream_id (case gw_udp_events c of Some s \<Rightarrow> [s] | None \<Rightarrow> [])"

text \<open>How many identifiers have been taken: REST and the two multicast streams, and the others.\<close>

definition issued :: "('q, 'y) gateway \<Rightarrow> nat" where
  "issued c = 3 + length (gw_order_entry c) + length (gw_drop_copy c) + length (gw_web_socket c) + length (gw_market_data c)"

definition ids_ok :: "('q, 'y) gateway \<Rightarrow> bool" where
  "ids_ok c \<longleftrightarrow> gw_accounts c (gw_master_account c) \<noteq> None \<and> gw_stream_id c = of_nat (issued c) \<and>
     (\<exists>ns. mset (gw_ids c) = mset (map of_nat ns) \<and> distinct ns \<and> set ns \<subseteq> {1..issued c})"

lemma ids_ok_cong:
  "gw_ids c' = gw_ids c \<Longrightarrow> issued c' = issued c \<Longrightarrow> gw_stream_id c' = gw_stream_id c \<Longrightarrow>
   gw_accounts c' (gw_master_account c') \<noteq> None \<Longrightarrow> ids_ok c \<Longrightarrow> ids_ok c'"
  by (simp add: ids_ok_def)

lemma map_update_entry:
  "map_of xs k = Some s \<Longrightarrow> f t = f s \<Longrightarrow> map (f \<circ> snd) (AList.update k t xs) = map (f \<circ> snd) xs"
  by (induction xs) (auto split: if_splits)

lemma length_update_entry: "map_of xs k = Some s \<Longrightarrow> length (AList.update k t xs) = length xs"
  by (induction xs) (auto split: if_splits)

lemma map_update_nth: "i < length xs \<Longrightarrow> f t = f (xs ! i) \<Longrightarrow> map f (xs[i := t]) = map f xs"
  by (metis list_update_id map_update)

lemma ids_ok_oe:
  assumes "ids_ok c" "oe_view nm c = Some s" "oe_fixed s t"
  shows "ids_ok (oe_put nm t c)"
proof -
  obtain s' where s': "map_of (gw_order_entry c) nm = Some s'" "oe_stream_id t = oe_stream_id s'"
    using assms(2,3) by (auto simp: oe_view_def oe_fixed_def split: option.splits)
  show ?thesis
    by (rule ids_ok_cong [OF _ _ _ _ assms(1)])
      (use assms(1) s' map_update_entry [OF s'(1), of oe_stream_id t] length_update_entry [OF s'(1)] in
        \<open>auto simp: oe_put_def gw_ids_def issued_def ids_ok_def\<close>)
qed

lemma ids_ok_dc:
  assumes "ids_ok c" "dc_view nm c = Some s" "same_shared s t"
  shows "ids_ok (dc_put nm t c)"
proof -
  obtain s' where s': "map_of (gw_drop_copy c) nm = Some s'" "dc_stream_id t = dc_stream_id s'"
    using assms(2,3) by (auto simp: dc_view_def same_shared_def split: option.splits)
  show ?thesis
    by (rule ids_ok_cong [OF _ _ _ _ assms(1)])
      (use assms(1) s' map_update_entry [OF s'(1), of dc_stream_id t] length_update_entry [OF s'(1)] in
        \<open>auto simp: dc_put_def gw_ids_def issued_def ids_ok_def\<close>)
qed

lemma ids_ok_wk: "ids_ok c \<Longrightarrow> wk_view i c = Some s \<Longrightarrow> wk_stream_id t = wk_stream_id s \<Longrightarrow> ids_ok (wk_put i t c)"
  by (rule ids_ok_cong [of _ c])
    (auto simp: wk_view_def wk_put_def gw_ids_def issued_def ids_ok_def map_update_nth split: option.splits if_splits)

lemma ids_ok_mk: "ids_ok c \<Longrightarrow> mk_view i c = Some s \<Longrightarrow> mk_stream_id t = mk_stream_id s \<Longrightarrow> ids_ok (mk_put i t c)"
  by (rule ids_ok_cong [of _ c])
    (auto simp: mk_view_def mk_put_def gw_ids_def issued_def ids_ok_def map_update_nth split: option.splits if_splits)

lemma ids_ok_others:
  assumes "ids_ok c"
  shows "rk_stream_id r = rk_stream_id (gw_rest c) \<Longrightarrow> ids_ok (rest_put r c)"
    "us_view c = Some s1 \<Longrightarrow> us_fixed x s1 t1 \<Longrightarrow> ids_ok (us_put t1 c)"
    "ue_view c = Some s2 \<Longrightarrow> ue_fixed x s2 t2 \<Longrightarrow> ids_ok (ue_put t2 c)"
    "ids_ok (c\<lparr>gw_shared := sh\<rparr>)" "ids_ok (gw_emit call c)" "ids_ok (c\<lparr>gw_symbols := y\<rparr>)"
  by (rule ids_ok_cong [OF _ _ _ _ assms]; use assms in
      \<open>auto simp: rest_put_def us_put_def ue_put_def us_view_def ue_view_def us_fixed_def ue_fixed_def gw_emit_def gw_ids_def
        issued_def ids_ok_def split: option.splits\<close>)+

text \<open>A new stream gets the identifier that has just been taken.\<close>

lemma ids_ok_add:
  assumes "ids_ok c" "issued c' = Suc (issued c)" "gw_stream_id c' = gw_stream_id c + 1"
    "mset (gw_ids c') = add_mset (gw_stream_id c') (mset (gw_ids c))" "gw_accounts c' (gw_master_account c') \<noteq> None"
  shows "ids_ok c'"
proof -
  obtain ns where ns: "mset (gw_ids c) = mset (map of_nat ns)" "distinct ns" "set ns \<subseteq> {1..issued c}"
    and id: "gw_stream_id c = of_nat (issued c)"
    using assms(1) by (auto simp: ids_ok_def)
  have "mset (gw_ids c') = mset (map of_nat (ns @ [Suc (issued c)]))"
    using ns(1) id assms(3,4) by simp
  moreover have "distinct (ns @ [Suc (issued c)]) \<and> set (ns @ [Suc (issued c)]) \<subseteq> {1..issued c'}"
    using ns(2,3) assms(2) by auto
  ultimately show ?thesis using assms(2,3,5) id unfolding ids_ok_def by (metis of_nat_Suc add.commute)
qed

lemma ids_ok_new: "ids_ok c \<Longrightarrow> ids_ok (fst (new_market_data c))" "ids_ok c \<Longrightarrow> ids_ok (fst (new_web_socket c))"
  by (rule ids_ok_add [of c]; auto simp: new_market_data_def new_web_socket_def get_account_def ids_ok_def issued_def gw_ids_def
      mk_start_def wk_start_def mk_emit_def wk_emit_def mk_create_def wk_create_def Let_def)+

interpretation identified: gateway_invariant gl "\<lambda>new c. ids_ok c" for gl
  by unfold_locales (auto simp: ids_ok_oe ids_ok_dc ids_ok_wk ids_ok_mk mk_fixed_def tells_nothing_def tells_new_def rest_view_def ids_ok_others ids_ok_new)

section \<open>The gateway after its construction\<close>

text \<open>An order of traversal of an unordered map visits every key once.\<close>

definition visits_all :: "(string list \<Rightarrow> string list) \<Rightarrow> bool" where
  "visits_all order \<longleftrightarrow> (\<forall>names. mset (order names) = mset names)"

definition iteration_ok :: "iteration \<Rightarrow> bool" where
  "iteration_ok it \<longleftrightarrow> visits_all (it_accounts it) \<and> visits_all (it_order_entry it) \<and> visits_all (it_drop_copy it)"

lemma entries_of_sub: "p \<in> set (entries_of names m) \<Longrightarrow> p \<in> set m"
  by (auto simp: entries_of_def List.map_filter_def dest: map_of_SomeD split: option.splits)

lemma entries_of_keys: "distinct (map fst m) \<Longrightarrow> entries_of (map fst m) m = m"
proof -
  have "ps = map (\<lambda>p. (fst p, snd p)) ps" for ps :: "(string \<times> 'a) list" by simp
  moreover have "distinct (map fst m) \<Longrightarrow> set ps \<subseteq> set m \<Longrightarrow> entries_of (map fst ps) m = ps" for ps
    by (induction ps) (auto simp: entries_of_def List.map_filter_def)
  ultimately show "distinct (map fst m) \<Longrightarrow> entries_of (map fst m) m = m" by blast
qed

lemma mset_entries_of: "mset names = mset names' \<Longrightarrow> mset (entries_of names m) = mset (entries_of names' m)"
  unfolding entries_of_def List.map_filter_def by (simp add: mset_filter)

lemma iterate_perm: "visits_all order \<Longrightarrow> distinct (map fst m) \<Longrightarrow> mset (iterate order m) = mset m"
  unfolding iterate_def using mset_entries_of [of "order (map fst m)" "map fst m" m]
  by (simp add: visits_all_def entries_of_keys)

lemma create_streams_spec:
  "create_streams mk i as = (j, ss) \<Longrightarrow>
   j = i + of_nat (length as) \<and> map fst ss = map fst as \<and>
   map snd ss = map (\<lambda>(k, a). mk (i + of_nat (Suc k)) a) (zip [0..<length as] (map snd as))"
proof (induction "as" arbitrary: i ss)
  case (Cons p as)
  obtain nm a where p: "p = (nm, a)" by fastforce
  obtain ss' where ss': "create_streams mk (i + 1) as = (j, ss')" "ss = (nm, mk (i + 1) a) # ss'"
    using Cons.prems p by (auto simp: Let_def split: prod.splits)
  have "map (\<lambda>(k, a). mk (i + 1 + of_nat (Suc k)) a) (zip [0..<length as] (map snd as)) =
      map (\<lambda>(k, a). mk (i + of_nat (Suc k)) a) (zip [1..<Suc (length as)] (map snd as))"
    by (rule nth_equalityI) (auto simp: add_ac simp del: upt_Suc)
  then show ?case
    using Cons.IH [OF ss'(1)] ss'(2) p by (simp add: upt_conv_Cons add_ac del: upt_Suc)
qed simp

lemma create_streams_ids:
  assumes "create_streams mk i as = (j, ss)" "\<And>i a. sid (mk i a) = i"
  shows "map (sid \<circ> snd) ss = map (\<lambda>k. i + of_nat (Suc k)) [0..<length as]"
proof -
  have "map (sid \<circ> snd) ss = map sid (map snd ss)" by simp
  also have "\<dots> = map (\<lambda>k. i + of_nat (Suc k)) [0..<length as]"
    using create_streams_spec [OF assms(1)] by (auto intro: nth_equalityI simp: assms(2))
  finally show ?thesis .
qed

lemma create_accounts_distinct: "create_accounts cfg = Inr accounts \<Longrightarrow> distinct (map fst accounts)"
proof -
  have items: "foldr_result (\<lambda>(nm, a) accounts. andthen (gw_create_account cfg (cf_name a)) (\<lambda>obj.
       Inr (assoc_emplace (cf_name a) obj accounts))) xs acc = Inr accounts \<Longrightarrow> distinct (map fst acc) \<Longrightarrow>
       distinct (map fst accounts)" for xs acc
    by (induction xs arbitrary: acc) (auto simp: andthen_eq_Inr)
  show "create_accounts cfg = Inr accounts \<Longrightarrow> distinct (map fst accounts)"
    unfolding create_accounts_def by (erule items) simp
qed

text \<open>The parts of a gateway that has been constructed.\<close>

lemma gw_create_parts:
  assumes "gw_create gl it st cfg = Inr c"
  obtains accounts sh a id1 id2 order_entry drop_copy where
    "create_accounts cfg = Inr accounts" "shared_create st = Inr sh" "gw_shared c = sh" "map_of accounts (gw_master_account c) = Some a"
    "create_streams (\<lambda>i a. oe_create i a sh) 1 (iterate (it_accounts it) accounts) = (id1, order_entry)"
    "create_streams (\<lambda>i a. dc_create i a sh) id1 (iterate (it_accounts it) accounts) = (id2, drop_copy)"
    "gw_accounts c = map_of accounts" "gw_stream_id c = id2 + 4" "gw_rest c = rk_create 1 sh"
    "gw_order_entry c = iterate (it_order_entry it) order_entry" "gw_drop_copy c = iterate (it_drop_copy it) drop_copy"
    "gw_web_socket c = [wk_create (id2 + 1) a sh True]" "gw_market_data c = [mk_create (id2 + 2) a sh True]"
    "gw_udp_snapshot c = (if sh_multicast sh then Some (us_create (id2 + 3) sh) else None)"
    "gw_udp_events c = (if sh_multicast sh then Some (ue_create (id2 + 4) sh) else None)" "gw_out c = []"
proof -
  obtain master where master: "create_master_account cfg = Inr master"
    using assms by (cases "create_master_account cfg") (simp_all add: gw_create_def)
  obtain accounts where accounts: "create_accounts cfg = Inr accounts"
    using assms master by (cases "create_accounts cfg") (simp_all add: gw_create_def)
  obtain sh :: "'a shared" where sh: "shared_create st = Inr sh"
    using assms master accounts by (cases "shared_create st :: 'a shared result") (simp_all add: gw_create_def)
  obtain id1 order_entry where oe:
    "create_streams (\<lambda>i a. oe_create i a sh) 1 (iterate (it_accounts it) accounts) = (id1, order_entry)" by fastforce
  obtain id2 drop_copy where dc:
    "create_streams (\<lambda>i a. dc_create i a sh) id1 (iterate (it_accounts it) accounts) = (id2, drop_copy)" by fastforce
  obtain a where a: "map_of accounts master = Some a"
    using assms master accounts sh oe dc
    by (cases "map_of accounts master") (simp_all add: gw_create_def get_account_def Let_def)
  show thesis
    by (rule that [OF accounts sh _ _ oe dc])
      (use assms master accounts sh oe dc a in \<open>auto simp: gw_create_def get_account_def Let_def split: if_splits\<close>)
qed

lemma create_streams_made:
  assumes "create_streams mk i as = (j, ss)" "p \<in> set ss"
  shows "\<exists>i' a'. snd p = mk i' a'"
proof -
  have "snd p \<in> set (map snd ss)" using assms(2) by simp
  then show ?thesis using create_streams_spec [OF assms(1)] by auto
qed

lemma gw_create_ok:
  assumes "gw_create gl it st cfg = Inr c"
  shows "streams_ok gl c" "symbols_ok [] c"
proof -
  note made = entries_of_sub [THEN create_streams_made [rotated]]
  show "streams_ok gl c"
    using assms by (rule gw_create_parts) (auto simp: streams_ok_def iterate_def dest!: made)
  show "symbols_ok [] c"
    using assms by (rule gw_create_parts) (simp add: symbols_ok_def announced_def)
qed

lemma gw_create_ids:
  assumes "iteration_ok it" "gw_create gl it st cfg = Inr c"
  shows "ids_ok c"
  using assms(2)
proof (rule gw_create_parts)
  fix accounts a id1 id2 order_entry drop_copy and sh :: "'a shared"
  assume accounts: "create_accounts cfg = Inr accounts" and a: "map_of accounts (gw_master_account c) = Some a"
    and oe: "create_streams (\<lambda>i a. oe_create i a sh) 1 (iterate (it_accounts it) accounts) = (id1, order_entry)"
    and dc: "create_streams (\<lambda>i a. dc_create i a sh) id1 (iterate (it_accounts it) accounts) = (id2, drop_copy)"
    and c: "gw_accounts c = map_of accounts" "gw_stream_id c = id2 + 4" "gw_rest c = rk_create 1 sh"
    "gw_order_entry c = iterate (it_order_entry it) order_entry" "gw_drop_copy c = iterate (it_drop_copy it) drop_copy"
    "gw_web_socket c = [wk_create (id2 + 1) a sh True]" "gw_market_data c = [mk_create (id2 + 2) a sh True]"
    "gw_udp_snapshot c = (if sh_multicast sh then Some (us_create (id2 + 3) sh) else None)"
    "gw_udp_events c = (if sh_multicast sh then Some (ue_create (id2 + 4) sh) else None)"
  let ?as = "iterate (it_accounts it) accounts" and ?k = "length (iterate (it_accounts it) accounts)"
  have "mset ?as = mset accounts"
    using create_accounts_distinct [OF accounts] assms(1) by (simp add: iteration_ok_def iterate_perm)
  then have dist: "distinct (map fst ?as)"
    using create_accounts_distinct [OF accounts] by (metis mset_eq_imp_distinct_iff mset_map)
  note s1 = create_streams_spec [OF oe] and s2 = create_streams_spec [OF dc]
  have perm: "mset (gw_order_entry c) = mset order_entry" "mset (gw_drop_copy c) = mset drop_copy"
    using assms(1) dist s1 s2 by (simp_all add: c iteration_ok_def iterate_perm)
  have len: "length (gw_order_entry c) = ?k" "length (gw_drop_copy c) = ?k"
    using perm [THEN mset_eq_length] s1 s2 by (metis length_map)+
  have ids1: "mset (map (oe_stream_id \<circ> snd) (gw_order_entry c)) = mset (map (\<lambda>k. of_nat (2 + k)) [0..<?k])"
  proof -
    have "mset (map (oe_stream_id \<circ> snd) (gw_order_entry c)) = mset (map (oe_stream_id \<circ> snd) order_entry)"
      by (simp only: mset_map perm)
    also have "map (oe_stream_id \<circ> snd) order_entry = map (\<lambda>k. of_nat (2 + k)) [0..<?k]"
      using create_streams_ids [OF oe, of oe_stream_id] by (simp add: oe_create_def add_ac)
    finally show ?thesis .
  qed
  have ids2: "mset (map (dc_stream_id \<circ> snd) (gw_drop_copy c)) = mset (map (\<lambda>k. of_nat (2 + ?k + k)) [0..<?k])"
  proof -
    have "mset (map (dc_stream_id \<circ> snd) (gw_drop_copy c)) = mset (map (dc_stream_id \<circ> snd) drop_copy)"
      by (simp only: mset_map perm)
    also have "map (dc_stream_id \<circ> snd) drop_copy = map (\<lambda>k. of_nat (2 + ?k + k)) [0..<?k]"
      using create_streams_ids [OF dc, of dc_stream_id] s1 by (simp add: dc_create_def add_ac)
    finally show ?thesis .
  qed
  have id2: "id2 = of_nat (2 * ?k + 1)" using s1 s2 by simp
  let ?ns = "[1] @ map (\<lambda>k. 2 + k) [0..<?k] @ map (\<lambda>k. 2 + ?k + k) [0..<?k] @ [2 * ?k + 2, 2 * ?k + 3] @
    (if sh_multicast sh then [2 * ?k + 4, 2 * ?k + 5] else [])"
  have total: "issued c = 2 * ?k + 5"
    unfolding issued_def len by (simp add: c)
  have others: "map wk_stream_id (gw_web_socket c) @ map mk_stream_id (gw_market_data c) =
      map of_nat [2 * ?k + 2, 2 * ?k + 3]"
    "map us_stream_id (case gw_udp_snapshot c of Some s \<Rightarrow> [s] | None \<Rightarrow> []) @
      map ue_stream_id (case gw_udp_events c of Some s \<Rightarrow> [s] | None \<Rightarrow> []) =
      map of_nat (if sh_multicast sh then [2 * ?k + 4, 2 * ?k + 5] else [])"
    "rk_stream_id (gw_rest c) = of_nat 1"
    by (simp_all add: c id2 rk_create_def wk_create_def mk_create_def us_create_def ue_create_def Let_def)
  have "gw_ids c = [rk_stream_id (gw_rest c)] @ map (oe_stream_id \<circ> snd) (gw_order_entry c) @
      map (dc_stream_id \<circ> snd) (gw_drop_copy c) @
      (map wk_stream_id (gw_web_socket c) @ map mk_stream_id (gw_market_data c)) @
      (map us_stream_id (case gw_udp_snapshot c of Some s \<Rightarrow> [s] | None \<Rightarrow> []) @
      map ue_stream_id (case gw_udp_events c of Some s \<Rightarrow> [s] | None \<Rightarrow> []))"
    by (simp add: gw_ids_def)
  then have "mset (gw_ids c) = mset (map of_nat ?ns)"
    by (simp only: mset_append map_append ids1 ids2 others list.map map_map) (simp add: comp_def)
  moreover have "distinct ?ns \<and> set ?ns \<subseteq> {1..issued c}"
    by (auto simp: distinct_map inj_on_def total)
  moreover have "gw_stream_id c = of_nat (issued c)"
    by (simp add: c(2) id2 total)
  ultimately show "ids_ok c" using a c unfolding ids_ok_def by (metis option.distinct(1))
qed

section \<open>The subscription of new symbols\<close>

lemma add_market_data_spec:
  "add_market_data n c = (c', None) \<Longrightarrow>
   n \<le> length (gw_market_data c') \<and> (\<exists>more. gw_market_data c' = gw_market_data c @ more) \<and>
   gw_web_socket c' = gw_web_socket c \<and> gw_accounts c' = gw_accounts c \<and> gw_master_account c' = gw_master_account c"
proof (induction n c rule: add_market_data.induct)
  case (1 n c)
  show ?case
  proof (cases "length (gw_market_data c) < n")
    case True
    obtain d e where d: "new_market_data c = (d, e)" by fastforce
    with True 1(2) have e: "e = None" and rest: "add_market_data n d = (c', None)"
      by (auto simp: add_market_data.simps [of n c] split: option.splits)
    have "\<exists>s. gw_market_data d = gw_market_data c @ [s]" "gw_web_socket d = gw_web_socket c"
      "gw_accounts d = gw_accounts c" "gw_master_account d = gw_master_account c"
      using d e by (auto simp: new_market_data_def Let_def split: sum.splits)
    then show ?thesis using 1(1) [OF True d [symmetric] e rest] by auto
  qed (use 1(2) in \<open>auto simp: add_market_data.simps [of n c]\<close>)
qed

lemma add_web_socket_spec:
  "add_web_socket n c = (c', None) \<Longrightarrow>
   n \<le> length (gw_web_socket c') \<and> (\<exists>more. gw_web_socket c' = gw_web_socket c @ more) \<and>
   gw_market_data c' = gw_market_data c \<and> gw_accounts c' = gw_accounts c \<and> gw_master_account c' = gw_master_account c"
proof (induction n c rule: add_web_socket.induct)
  case (1 n c)
  show ?case
  proof (cases "length (gw_web_socket c) < n")
    case True
    obtain d e where d: "new_web_socket c = (d, e)" by fastforce
    with True 1(2) have e: "e = None" and rest: "add_web_socket n d = (c', None)"
      by (auto simp: add_web_socket.simps [of n c] split: option.splits)
    have "\<exists>s. gw_web_socket d = gw_web_socket c @ [s]" "gw_market_data d = gw_market_data c"
      "gw_accounts d = gw_accounts c" "gw_master_account d = gw_master_account c"
      using d e by (auto simp: new_web_socket_def Let_def split: sum.splits)
    then show ?thesis using 1(1) [OF True d [symmetric] e rest] by auto
  qed (use 1(2) in \<open>auto simp: add_web_socket.simps [of n c]\<close>)
qed

text \<open>
  A loop over the streams calls each of them once, on what the calls before have left of the
  state and the account that the streams share.
\<close>

lemma each_market_data:
  assumes "gw_accounts c (gw_master_account c) \<noteq> None" "k \<le> length (gw_market_data c)"
    "d = fold (\<lambda>i. on_view (mk_view i) (mk_put i) (f i)) [0..<k] c"
  shows "length (gw_market_data d) = length (gw_market_data c) \<and> gw_web_socket d = gw_web_socket c \<and>
    gw_accounts d (gw_master_account d) \<noteq> None \<and>
    (\<forall>i<k. \<exists>sh a. gw_market_data d ! i = f i ((gw_market_data c ! i)\<lparr>mk_shared := sh, mk_account := a\<rparr>)) \<and>
    (\<forall>i<length (gw_market_data c). k \<le> i \<longrightarrow> gw_market_data d ! i = gw_market_data c ! i)"
  using assms(2,3)
proof (induction k arbitrary: d)
  case (Suc k)
  define b where "b = fold (\<lambda>i. on_view (mk_view i) (mk_put i) (f i)) [0..<k] c"
  have b: "length (gw_market_data b) = length (gw_market_data c)" "gw_web_socket b = gw_web_socket c"
    "\<forall>i<k. \<exists>sh a. gw_market_data b ! i = f i ((gw_market_data c ! i)\<lparr>mk_shared := sh, mk_account := a\<rparr>)"
    "\<forall>i<length (gw_market_data c). k \<le> i \<longrightarrow> gw_market_data b ! i = gw_market_data c ! i"
    and "gw_accounts b (gw_master_account b) \<noteq> None"
    using Suc.IH [OF _ b_def] Suc.prems(1) by simp_all
  then obtain a where a: "gw_accounts b (gw_master_account b) = Some a" by blast
  let ?s = "(gw_market_data c ! k)\<lparr>mk_shared := gw_shared b, mk_account := a\<rparr>"
  have "mk_view k b = Some ?s" using b a Suc.prems(1) by (simp add: mk_view_def)
  moreover have "d = on_view (mk_view k) (mk_put k) (f k) b" using Suc.prems(2) by (simp add: b_def)
  ultimately have d: "d = mk_put k (f k ?s) b" by (simp add: on_view_def)
  have "\<exists>sh a. gw_market_data d ! i = f i ((gw_market_data c ! i)\<lparr>mk_shared := sh, mk_account := a\<rparr>)" if "i < Suc k" for i
  proof (cases "i = k")
    case True
    then have "gw_market_data d ! i = f k ?s" using b(1) Suc.prems(1) by (simp add: d mk_put_def)
    with True show ?thesis by blast
  next
    case False
    then have "i < k" using that by simp
    then have "gw_market_data d ! i = gw_market_data b ! i" by (simp add: d mk_put_def)
    with b(3) \<open>i < k\<close> show ?thesis by simp
  qed
  then show ?case using b by (simp add: d mk_put_def)
qed (use assms(1) in simp)

lemma each_web_socket:
  assumes "gw_accounts c (gw_master_account c) \<noteq> None" "k \<le> length (gw_web_socket c)"
    "d = fold (\<lambda>i. on_view (wk_view i) (wk_put i) (f i)) [0..<k] c"
  shows "length (gw_web_socket d) = length (gw_web_socket c) \<and> gw_market_data d = gw_market_data c \<and>
    gw_accounts d (gw_master_account d) \<noteq> None \<and>
    (\<forall>i<k. \<exists>sh a. gw_web_socket d ! i = f i ((gw_web_socket c ! i)\<lparr>wk_shared := sh, wk_account := a\<rparr>)) \<and>
    (\<forall>i<length (gw_web_socket c). k \<le> i \<longrightarrow> gw_web_socket d ! i = gw_web_socket c ! i)"
  using assms(2,3)
proof (induction k arbitrary: d)
  case (Suc k)
  define b where "b = fold (\<lambda>i. on_view (wk_view i) (wk_put i) (f i)) [0..<k] c"
  have b: "length (gw_web_socket b) = length (gw_web_socket c)" "gw_market_data b = gw_market_data c"
    "\<forall>i<k. \<exists>sh a. gw_web_socket b ! i = f i ((gw_web_socket c ! i)\<lparr>wk_shared := sh, wk_account := a\<rparr>)"
    "\<forall>i<length (gw_web_socket c). k \<le> i \<longrightarrow> gw_web_socket b ! i = gw_web_socket c ! i"
    and "gw_accounts b (gw_master_account b) \<noteq> None"
    using Suc.IH [OF _ b_def] Suc.prems(1) by simp_all
  then obtain a where a: "gw_accounts b (gw_master_account b) = Some a" by blast
  let ?s = "(gw_web_socket c ! k)\<lparr>wk_shared := gw_shared b, wk_account := a\<rparr>"
  have "wk_view k b = Some ?s" using b a Suc.prems(1) by (simp add: wk_view_def)
  moreover have "d = on_view (wk_view k) (wk_put k) (f k) b" using Suc.prems(2) by (simp add: b_def)
  ultimately have d: "d = wk_put k (f k ?s) b" by (simp add: on_view_def)
  have "\<exists>sh a. gw_web_socket d ! i = f i ((gw_web_socket c ! i)\<lparr>wk_shared := sh, wk_account := a\<rparr>)" if "i < Suc k" for i
  proof (cases "i = k")
    case True
    then have "gw_web_socket d ! i = f k ?s" using b(1) Suc.prems(1) by (simp add: d wk_put_def)
    with True show ?thesis by blast
  next
    case False
    then have "i < k" using that by simp
    then have "gw_web_socket d ! i = gw_web_socket b ! i" by (simp add: d wk_put_def)
    with b(3) \<open>i < k\<close> show ?thesis by simp
  qed
  then show ?case using b by (simp add: d wk_put_def)
qed (use assms(1) in simp)

lemma on_symbols_streams:
  assumes "gw_on_symbols gl now symbols c = (c', None)" "sy_add gl (gw_symbols c) symbols = ((n, k), y)"
    "gw_accounts c (gw_master_account c) \<noteq> None"
  shows "n \<le> length (gw_market_data c')" "n \<le> length (gw_web_socket c')"
    "i < length (gw_market_data c) \<Longrightarrow> \<exists>sh a. gw_market_data c' ! i =
      mk_subscribe_slice (now i) (sy_slice gl y i k) ((gw_market_data c ! i)\<lparr>mk_shared := sh, mk_account := a\<rparr>)"
    "i < length (gw_web_socket c) \<Longrightarrow> \<exists>sh a. gw_web_socket c' ! i =
      wk_subscribe (gl_jx gl) (sy_slice gl y i k) ((gw_web_socket c ! i)\<lparr>wk_shared := sh, wk_account := a\<rparr>)"
proof -
  let ?c1 = "gw_emit (Symbols_Add symbols) (c\<lparr>gw_symbols := y\<rparr>)"
  obtain d1 e1 where d1: "add_market_data n ?c1 = (d1, e1)" by fastforce
  obtain d2 e2 where d2: "add_web_socket n d1 = (d2, e2)" by fastforce
  have e: "e1 = None" "e2 = None"
    using assms(1,2) d1 d2 by (auto simp: gw_on_symbols_def ensure_symbol_slices_def then_on_def split: option.splits prod.splits)
  define d3 where "d3 = fold (\<lambda>i. on_view (mk_view i) (mk_put i) (mk_subscribe_slice (now i) (sy_slice gl y i k)))
    [0..<length (gw_market_data d2)] d2"
  define d4 where "d4 = fold (\<lambda>i. on_view (wk_view i) (wk_put i) (wk_subscribe (gl_jx gl) (sy_slice gl y i k)))
    [0..<length (gw_web_socket d3)] d3"
  have c': "c' = d4"
    using assms(1,2) d1 d2 e
    by (simp add: gw_on_symbols_def ensure_symbol_slices_def then_on_def Let_def flip: d3_def) (simp flip: d4_def)
  note m = add_market_data_spec [OF d1 [unfolded e]] and w = add_web_socket_spec [OF d2 [unfolded e]]
  have acc: "gw_accounts d2 (gw_master_account d2) \<noteq> None" using m w assms(3) by (simp add: gw_emit_def)
  note md = each_market_data [OF acc order_refl d3_def]
  then have acc3: "gw_accounts d3 (gw_master_account d3) \<noteq> None" by blast
  note ws = each_web_socket [OF acc3 order_refl d4_def]
  show "n \<le> length (gw_market_data c')" "n \<le> length (gw_web_socket c')"
    unfolding c' using m w md ws by auto
  show "\<exists>sh a. gw_market_data c' ! i =
      mk_subscribe_slice (now i) (sy_slice gl y i k) ((gw_market_data c ! i)\<lparr>mk_shared := sh, mk_account := a\<rparr>)"
    if "i < length (gw_market_data c)"
  proof -
    have "i < length (gw_market_data d2)" "gw_market_data d2 ! i = gw_market_data c ! i"
      using that m w by (auto simp: gw_emit_def nth_append)
    then show ?thesis unfolding c' using md ws by metis
  qed
  show "\<exists>sh a. gw_web_socket c' ! i =
      wk_subscribe (gl_jx gl) (sy_slice gl y i k) ((gw_web_socket c ! i)\<lparr>wk_shared := sh, wk_account := a\<rparr>)"
    if "i < length (gw_web_socket c)"
  proof -
    have "i < length (gw_web_socket d3)" "gw_web_socket d3 ! i = gw_web_socket c ! i"
      using that m w md by (auto simp: gw_emit_def nth_append)
    then show ?thesis unfolding c' using ws by metis
  qed
qed

section \<open>Properties\<close>



text \<open>
  C16: no symbol is announced twice: however the server, the REST stream and the market data
  streams bring symbols to the gateway, in any order, those that it has added to the slices
  of the streams are pairwise different, and all of them are known.
\<close>

theorem symbols_announced_once:
  assumes "gw_create gl it st cfg = Inr c0" "(gw_step gl)\<^sup>*\<^sup>* c0 c"
  shows "distinct (announced c) \<and> set (announced c) \<subseteq> all_symbols (gw_shared c)"
  using announce.run_inv [OF assms(2) gw_create_ok(2) [OF assms(1)]] by (simp add: symbols_ok_def)

lemma gw_ids_distinct:
  assumes "iteration_ok it" "gw_create gl it st cfg = Inr c0" "(gw_step gl)\<^sup>*\<^sup>* c0 c" "issued c < 2 ^ 16"
  shows "distinct (gw_ids c) \<and> 0 \<notin> set (gw_ids c)"
proof -
  obtain ns where ns: "mset (gw_ids c) = mset (map of_nat ns)" "distinct ns" "set ns \<subseteq> {1..issued c}"
    using identified.run_inv [OF assms(3) gw_create_ids [OF assms(1,2)]] by (auto simp: ids_ok_def)
  have small: "n \<in> set ns \<Longrightarrow> unat (of_nat n :: uint16) = n" for n
    using ns(3) assms(4) by (force simp: unsigned_of_nat take_bit_nat_eq_self)
  then have "distinct (map (of_nat :: nat \<Rightarrow> uint16) ns)"
    using ns(2) by (simp add: distinct_map) (metis inj_onI)
  moreover have "0 \<notin> set (map (of_nat :: nat \<Rightarrow> uint16) ns)"
    using ns(3) small by (fastforce simp: unat_eq_0)
  ultimately show ?thesis
    using ns(1) by (metis mset_eq_imp_distinct_iff mset_eq_setD)
qed

text \<open>
  C18: as long as fewer than 65536 identifiers have been taken, every stream of a running
  gateway, also one created later for a new slice of the symbols, has an identifier of its
  own, and none has the identifier zero.
\<close>

theorem stream_ids_distinct:
  assumes "iteration_ok it" "gw_create gl it st cfg = Inr c0" "(gw_step gl)\<^sup>*\<^sup>* c0 c" "issued c < 2 ^ 16"
  shows "distinct (gw_ids c) \<and> 0 \<notin> set (gw_ids c)"
  by (rule gw_ids_distinct [OF assms])

text \<open>
  C17: when the gateway is told of new symbols there is a market data stream and a web socket
  for each slice afterwards, and every stream that was there is asked once for the new part of
  its own slice: a market data stream that is ready requests each symbol of it once and in
  order, one that is not ready requests nothing yet.
\<close>

theorem new_symbols_subscribed:
  assumes "gw_on_symbols gl now symbols c = (c', None)" "sy_add gl (gw_symbols c) symbols = ((n, k), y)"
    "gw_accounts c (gw_master_account c) \<noteq> None" "i < length (gw_market_data c)" "j < length (gw_web_socket c)"
  shows "n \<le> length (gw_market_data c') \<and> n \<le> length (gw_web_socket c') \<and>
    (\<exists>new. mk_out (gw_market_data c' ! i) = mk_out (gw_market_data c ! i) @ new \<and>
       concat (requested new) = (if mk_ready (gw_market_data c ! i) then sy_slice gl y i k else [])) \<and>
    (\<exists>sh a. gw_web_socket c' ! j =
       wk_subscribe (gl_jx gl) (sy_slice gl y j k) ((gw_web_socket c ! j)\<lparr>wk_shared := sh, wk_account := a\<rparr>))"
proof -
  note streams = on_symbols_streams [OF assms(1-3)]
  obtain sh a where md: "gw_market_data c' ! i =
      mk_subscribe_slice (now i) (sy_slice gl y i k) ((gw_market_data c ! i)\<lparr>mk_shared := sh, mk_account := a\<rparr>)"
    using streams(3) [OF assms(4)] by blast
  have "\<exists>new. mk_out (mk_subscribe_slice (now i) (sy_slice gl y i k) s) = mk_out s @ new \<and>
      concat (requested new) = (if mk_ready s then sy_slice gl y i k else [])" for s :: "'a market_data"
    using subscribe_covers_symbols [of "now i" "sy_slice gl y i k" s] by (auto simp: mk_subscribe_slice_def)
  from this [of "(gw_market_data c ! i)\<lparr>mk_shared := sh, mk_account := a\<rparr>"] show ?thesis
    using streams(1,2) streams(4) [OF assms(5)] by (simp add: md)
qed

text \<open>The four requests about orders of an account, accepted.\<close>

definition accepted ::
    "('q, 'y) gateway_lib \<Rightarrow> string \<Rightarrow> ('q, 'y) gateway \<Rightarrow> uint16 \<Rightarrow> ('q, 'y) gateway \<Rightarrow> bool" where
  "accepted gl nm c sid c' \<longleftrightarrow>
     (\<exists>co rd rid now. gw_create_order gl nm co rd rid now c = Inr (sid, c')) \<or>
     (\<exists>mo order rd rid now. gw_modify_order gl nm mo order rd rid now c = Inr (sid, c')) \<or>
     (\<exists>order rid now. gw_cancel_order nm order rid now c = Inr (sid, c')) \<or>
     (\<exists>ca rid now. gw_cancel_all_orders gl nm ca rid now c = Inr (sid, c'))"

lemma sent_numbers_snoc2:
  "sent_numbers (cs @ [Conn_Send n t r, Pub_CancelAllAck ack]) = sent_numbers cs @ [n]"
  using sent_numbers_snoc [of "cs @ [Conn_Send n t r]" "Pub_CancelAllAck ack"] by (simp add: sent_numbers_snoc)

text \<open>What an accepted request does to its stream: one message is sent.\<close>

definition sends_one :: "'q order_entry \<Rightarrow> uint16 \<times> 'q order_entry \<Rightarrow> bool" where
  "sends_one s r \<longleftrightarrow> oe_is_ready s \<and> fst r = oe_stream_id s \<and>
     sent_numbers (oe_out (snd r)) = sent_numbers (oe_out s) @ [oe_outbound s + 1] \<and>
     oe_shared (snd r) = oe_shared s \<and> oe_account (snd r) = oe_account s"

lemma order_ops_send:
  "oe_create_order fl co rd rid now s = Inr r \<Longrightarrow> sends_one s r"
  "oe_modify_order fl mo order rd rid now s = Inr r \<Longrightarrow> sends_one s r"
  "oe_cancel_order order rid now s = Inr r \<Longrightarrow> sends_one s r"
  "oe_cancel_all_orders fl ca rid now s = Inr r \<Longrightarrow> sends_one s r"
  by (auto simp: sends_one_def oe_create_order_def oe_modify_order_def oe_cancel_order_def oe_cancel_all_orders_def
      andthen_eq_Inr Let_def oe_remember_def oe_send_def oe_emit_def sent_numbers_snoc sent_numbers_snoc2 split: if_splits)

lemma accepted_action:
  assumes "accepted gl nm c sid c'"
  shows "\<exists>f. order_action nm f c = Inr (sid, c') \<and> (\<forall>s r. f s = Inr r \<longrightarrow> sends_one s r)"
proof -
  have found: "order_action nm f c = Inr (sid, c') \<Longrightarrow> (\<And>s r. f s = Inr r \<Longrightarrow> sends_one s r) \<Longrightarrow> ?thesis" for f
    by blast
  from assms show ?thesis
    unfolding accepted_def gw_create_order_def gw_modify_order_def gw_cancel_order_def gw_cancel_all_orders_def
    by (elim disjE exE) (erule found, erule order_ops_send)+
qed

text \<open>
  C19: a request about orders that is accepted was given to the order entry stream of its own
  account, which is ready and whose identifier is returned; that stream sends exactly one
  message for it, and no other stream, nor what they share, changes.
\<close>

theorem orders_routed:
  assumes "accepted gl nm c sid c'"
  shows "\<exists>s t. oe_view nm c = Some s \<and> oe_is_ready s \<and> sid = oe_stream_id s \<and> c' = oe_put nm t c \<and>
    oe_view nm c' = Some t \<and> sent_numbers (oe_out t) = sent_numbers (oe_out s) @ [oe_outbound s + 1] \<and>
    gw_shared c' = gw_shared c \<and> gw_accounts c' = gw_accounts c \<and>
    (\<forall>m. m \<noteq> nm \<longrightarrow> oe_view m c' = oe_view m c)"
proof -
  obtain f where f: "order_action nm f c = Inr (sid, c')" and sends: "\<forall>s r. f s = Inr r \<longrightarrow> sends_one s r"
    using accepted_action [OF assms] by blast
  obtain s t where s: "oe_view nm c = Some s" and t: "f s = Inr (sid, t)" "c' = oe_put nm t c"
    using f by (auto simp: order_action_def get_order_entry_def andthen_eq_Inr split: option.splits)
  obtain a where a: "gw_accounts c nm = Some a" "oe_account s = a" "oe_shared s = gw_shared c"
    using s by (auto simp: oe_view_def split: option.splits)
  have sent: "sends_one s (sid, t)" using sends t(1) by blast
  have accounts: "gw_accounts c' = gw_accounts c" using a sent by (auto simp: t(2) oe_put_def sends_one_def)
  have shared: "gw_shared c' = gw_shared c" using a sent by (simp add: t(2) sends_one_def)
  have "oe_view m c' = oe_view m c" if "m \<noteq> nm" for m
  proof -
    have "map_of (gw_order_entry c') m = map_of (gw_order_entry c) m"
      using that by (simp add: t(2) oe_put_def update_conv')
    then show ?thesis unfolding oe_view_def accounts shared by simp
  qed
  moreover have "oe_view nm c' = Some t" by (simp add: t(2) oe_view_def oe_put_def update_conv')
  ultimately show ?thesis using s t(2) sent accounts shared by (auto simp: sends_one_def)
qed

text \<open>An account that is not configured is an error, and quotes are not supported.\<close>

lemma unknown_account:
  "oe_view nm c = None \<Longrightarrow> order_action nm f c = Inl (RuntimeError (''Unknown account='' @ nm))"
  by (simp add: order_action_def get_order_entry_def)

section \<open>A concrete gateway\<close>

text \<open>One slice that holds all symbols, one account, and maps that are traversed in their order.\<close>

definition demo_gateway_lib :: "(nat, string list) gateway_lib" where
  "demo_gateway_lib = \<lparr>gl_x = plain_externals, gl_cx = plain_crypto, gl_fl = plain_fix_lib, gl_jx = demo_json [],
     gl_wl = plain_web, gl_rl = rest_demo_lib, gl_codec = demo_codec, gl_sequencer = plain_sequencer, sy_new = [],
     sy_add = (\<lambda>y symbols. ((1, length y), y @ symbols)), sy_slice = (\<lambda>y i n. if i = 0 then drop n y else [])\<rparr>"

definition demo_iteration :: iteration where
  "demo_iteration = \<lparr>it_accounts = (\<lambda>names. names), it_order_entry = (\<lambda>names. names), it_drop_copy = (\<lambda>names. names)\<rparr>"

definition demo_config :: "(unit, unit, unit) config result" where
  "demo_config = config_create (\<lambda>r. []) () default_settings
     [CI_Account \<lparr>cf_name = ''A1'', cf_login = ''key'', cf_secret = ''secret'', cf_master = True\<rparr>]"

lemma demo_gateway:
  "\<exists>cfg c. demo_config = Inr cfg \<and> gw_create demo_gateway_lib demo_iteration default_settings cfg = Inr c \<and>
     issued c = 7 \<and> gw_accounts c (gw_master_account c) \<noteq> None \<and> gw_symbols c = [] \<and>
     length (gw_market_data c) = 1 \<and> length (gw_web_socket c) = 1 \<and> (\<exists>s. mk_view 0 c = Some s) \<and>
     (\<exists>s. oe_view ''A1'' c = Some s)"
  by (simp add: demo_config_def config_create_def config_item_def assoc_emplace_def gw_create_def create_master_account_def
      create_accounts_def gw_create_account_def get_access_key_def get_access_secret_def config_find_def account_create_def
      crypto_create_def shared_create_def get_multicast_def default_settings_def iterate_def entries_of_def
      List.map_filter_def demo_iteration_def demo_gateway_lib_def get_account_def issued_def mk_view_def oe_view_def Let_def)

lemma demo_enable: "(gw_step demo_gateway_lib)\<^sup>*\<^sup>* c (gw_control Action_ENABLE c)"
  by (rule r_into_rtranclp) (rule gw_step.control)

lemma view_enable: "mk_view i (gw_control Action_ENABLE c) = mk_view i c"
  by (simp add: gw_control_def gw_emit_def mk_view_def split: option.split)



theorem symbols_announced_once_witness:
  "\<exists>cfg c. demo_config = Inr cfg \<and> gw_create demo_gateway_lib demo_iteration default_settings cfg = Inr c \<and>
     (let c' = fst (gw_subscribe demo_gateway_lib \<lparr>rv_trace = mk_demo_trace, rv_now = (\<lambda>i. 0)\<rparr> [''X'', ''Y'', ''X''] c)
      in distinct (announced c') \<and> set (announced c') \<subseteq> all_symbols (gw_shared c'))"
proof -
  obtain cfg c where c: "demo_config = Inr cfg" "gw_create demo_gateway_lib demo_iteration default_settings cfg = Inr c"
    using demo_gateway by blast
  have "(gw_step demo_gateway_lib)\<^sup>*\<^sup>* c
      (fst (gw_subscribe demo_gateway_lib \<lparr>rv_trace = mk_demo_trace, rv_now = (\<lambda>i. 0)\<rparr> [''X'', ''Y'', ''X''] c))"
    by (rule r_into_rtranclp) (rule gw_step.subscribe)
  from symbols_announced_once [OF c(2) this] show ?thesis using c by (auto simp: Let_def)
qed

theorem stream_ids_distinct_witness:
  "\<exists>cfg c. demo_config = Inr cfg \<and> gw_create demo_gateway_lib demo_iteration default_settings cfg = Inr c \<and>
     distinct (gw_ids (gw_control Action_ENABLE c))"
proof -
  obtain cfg c where c: "demo_config = Inr cfg" "gw_create demo_gateway_lib demo_iteration default_settings cfg = Inr c"
    and n: "issued c = 7"
    using demo_gateway by blast
  have "iteration_ok demo_iteration" by (simp add: iteration_ok_def visits_all_def demo_iteration_def)
  moreover have "issued (gw_control Action_ENABLE c) < 2 ^ 16"
    using n by (simp add: gw_control_def gw_emit_def issued_def)
  ultimately show ?thesis using stream_ids_distinct [OF _ c(2) demo_enable] c by blast
qed

theorem new_symbols_subscribed_witness:
  "\<exists>cfg c c'. demo_config = Inr cfg \<and> gw_create demo_gateway_lib demo_iteration default_settings cfg = Inr c \<and>
     gw_on_symbols demo_gateway_lib (\<lambda>i. 0) [''X'', ''Y''] c = (c', None) \<and> 1 \<le> length (gw_market_data c')"
proof -
  obtain cfg c where c: "demo_config = Inr cfg" "gw_create demo_gateway_lib demo_iteration default_settings cfg = Inr c"
    "gw_accounts c (gw_master_account c) \<noteq> None" "gw_symbols c = []" "length (gw_market_data c) = 1"
    "length (gw_web_socket c) = 1"
    using demo_gateway by blast
  have add: "sy_add demo_gateway_lib (gw_symbols c) [''X'', ''Y''] = ((1, 0), [''X'', ''Y''])"
    by (simp add: demo_gateway_lib_def c(4))
  have "add_market_data 1 d = (d, None)" if "length (gw_market_data d) = 1" for d :: "(nat, string list) gateway"
    using that by (subst add_market_data.simps) simp
  moreover have "add_web_socket 1 d = (d, None)" if "length (gw_web_socket d) = 1" for d :: "(nat, string list) gateway"
    using that by (subst add_web_socket.simps) simp
  ultimately obtain c' where c': "gw_on_symbols demo_gateway_lib (\<lambda>i. 0) [''X'', ''Y''] c = (c', None)"
    using c(5,6) add by (simp add: gw_on_symbols_def ensure_symbol_slices_def then_on_def Let_def gw_emit_def)
  from new_symbols_subscribed [OF c' add c(3), of 0 0] show ?thesis using c c' by auto
qed

theorem orders_routed_witness:
  "\<exists>(c :: (nat, string list) gateway) sid c' s. accepted demo_gateway_lib ''A1'' c sid c' \<and>
     oe_view ''A1'' c = Some s \<and> sid = oe_stream_id s"
proof -
  obtain cfg c s where "demo_config = Inr cfg" "gw_create demo_gateway_lib demo_iteration default_settings cfg = Inr c"
    and c: "oe_view ''A1'' c = Some s"
    using demo_gateway by blast
  let ?c = "oe_put ''A1'' (s\<lparr>oe_connection_status := CS_READY\<rparr>) c"
  let ?order = "\<lparr>oo_client_order_id = ''1'', oo_symbol = ''X'', oo_side = Side_BUY, oo_order_type = 0\<rparr>"
  have view: "oe_view ''A1'' ?c = Some (s\<lparr>oe_connection_status := CS_READY\<rparr>)"
    by (simp add: oe_view_def oe_put_def update_conv')
  obtain r where "gw_cancel_order ''A1'' ?order ''2'' 0 ?c = Inr r"
    by (simp add: gw_cancel_order_def order_action_def get_order_entry_def view oe_cancel_order_def oe_is_ready_def)
  then have "accepted demo_gateway_lib ''A1'' ?c (fst r) (snd r)"
    unfolding accepted_def by (metis prod.collapse)
  from this orders_routed [OF this] show ?thesis by blast
qed

end
