(* ===== verification/Gateway_Currencies.thy ===== *)
theory Gateway_Currencies
  imports Gateway_Properties
begin

text \<open>
  How the currencies get from the REST stream to the accounts: the REST stream tells the gateway
  the new currencies, the web sockets tell it when the public data is complete (the latch), and
  the gateway passes both on to every drop copy. The state of a drop copy that matters here is
  the currencies that it knows and whether it may download.
\<close>

section \<open>What has been told and what has arrived\<close>

definition drop_state :: "'q drop_copy \<Rightarrow> string list \<times> bool" where
  "drop_state s = (dc_currencies s, dc_can_download s)"

definition drops :: "('q, 'y) gateway \<Rightarrow> (string \<times> string list \<times> bool) list" where
  "drops c = map (\<lambda>(nm, s). (nm, drop_state s)) (gw_drop_copy c)"

definition rest_currencies :: "('q, 'y) gateway \<Rightarrow> string list" where
  "rest_currencies c = told_currencies (rk_out (gw_rest c))"

definition latch_told :: "('q, 'y) gateway \<Rightarrow> bool" where
  "latch_told c \<longleftrightarrow> Handler_Latch \<in> set (rk_out (gw_rest c)) \<or>
     (\<exists>s\<in>set (gw_web_socket c). Handler_Latch \<in> set (wk_out s))"

text \<open>Every drop copy has its account, and there is a master account; nothing fails for the want of one.\<close>

definition accounts_ok :: "('q, 'y) gateway \<Rightarrow> bool" where
  "accounts_ok c \<longleftrightarrow> distinct (map fst (gw_drop_copy c)) \<and>
     (\<forall>nm\<in>set (map fst (gw_drop_copy c)). gw_accounts c nm \<noteq> None) \<and>
     gw_accounts c (gw_master_account c) \<noteq> None"

text \<open>\<open>calm\<close>: the accounts stay, and neither the REST stream nor a web socket tells anything.\<close>

definition calm :: "('q, 'y) gateway \<Rightarrow> ('q, 'y) gateway \<Rightarrow> bool" where
  "calm c d \<longleftrightarrow> gw_master_account d = gw_master_account c \<and>
     (\<forall>nm. gw_accounts c nm \<noteq> None \<longrightarrow> gw_accounts d nm \<noteq> None) \<and> gw_rest d = gw_rest c \<and> latch_told d = latch_told c"

definition still :: "('q, 'y) gateway \<Rightarrow> ('q, 'y) gateway \<Rightarrow> bool" where
  "still c d \<longleftrightarrow> calm c d \<and> drops d = drops c"

lemma calm_refl [simp]: "calm c c" and still_refl [simp]: "still c c"
  by (simp_all add: calm_def still_def)

lemma calm_trans: "calm c d \<Longrightarrow> calm d e \<Longrightarrow> calm c e"
  by (simp add: calm_def)

lemma still_trans: "still c d \<Longrightarrow> still d e \<Longrightarrow> still c e"
  unfolding still_def using calm_trans by fastforce

lemma drop_state_shared [simp]: "drop_state (s\<lparr>dc_shared := sh, dc_account := a\<rparr>) = drop_state s"
  by (simp add: drop_state_def)

text \<open>What the streams that have no part in it do.\<close>

lemma still_puts [simp]:
  "still c (oe_put nm s1 c)" "still c (mk_put i s2 c)" "still c (us_put s3 c)" "still c (ue_put s4 c)"
  "still c (c\<lparr>gw_shared := sh\<rparr>)" "still c (gw_emit call c)" "still c (gw_emit call (c\<lparr>gw_symbols := y\<rparr>))"
  by (simp_all add: still_def calm_def drops_def latch_told_def oe_put_def mk_put_def us_put_def ue_put_def gw_emit_def)

lemma still_new [simp]: "still c (fst (new_market_data c))" "still c (fst (new_web_socket c))"
  by (auto simp: still_def calm_def drops_def latch_told_def new_market_data_def new_web_socket_def wk_start_def wk_emit_def
      wk_create_def Let_def split: sum.split)

lemma bex_update:
  assumes "i < length xs" "P y \<longleftrightarrow> P (xs ! i) \<or> q"
    and "q \<Longrightarrow> P y"
  shows "(\<exists>s\<in>set (xs[i := y]). P s) \<longleftrightarrow> (\<exists>s\<in>set xs. P s) \<or> q"
proof -
  have nth: "(\<exists>s\<in>set zs. P s) \<longleftrightarrow> (\<exists>j<length zs. P (zs ! j))" for zs by (metis in_set_conv_nth)
  show ?thesis unfolding nth using assms by (auto simp: nth_list_update)
qed

text \<open>A web socket that has told \<open>calls\<close>.\<close>

lemma wk_put_told:
  assumes "wk_view i c = Some s" "wk_out t = wk_out s @ calls"
  shows "latch_told (wk_put i t c) \<longleftrightarrow> latch_told c \<or> Handler_Latch \<in> set calls"
    "gw_rest (wk_put i t c) = gw_rest c" "drops (wk_put i t c) = drops c"
    "gw_master_account (wk_put i t c) = gw_master_account c"
    "gw_accounts c nm \<noteq> None \<Longrightarrow> gw_accounts (wk_put i t c) nm \<noteq> None"
proof -
  have i: "i < length (gw_web_socket c)" "wk_out t = wk_out (gw_web_socket c ! i) @ calls"
    using assms wk_view_out [OF assms(1)] by (auto simp: wk_view_def split: option.splits if_splits)
  show "latch_told (wk_put i t c) \<longleftrightarrow> latch_told c \<or> Handler_Latch \<in> set calls"
    using bex_update [OF i(1), of "\<lambda>s. Handler_Latch \<in> set (wk_out s)" t "Handler_Latch \<in> set calls"] i(2)
    by (auto simp: latch_told_def wk_put_def)
qed (use assms(1) in \<open>auto simp: wk_put_def drops_def\<close>)

lemma still_wk: "wk_view i c = Some s \<Longrightarrow> wk_out t = wk_out s @ calls \<Longrightarrow> Handler_Latch \<notin> set calls \<Longrightarrow> still c (wk_put i t c)"
  using wk_put_told [of i c s t calls] by (simp add: still_def calm_def)

lemma wk_out_emit [simp]: "wk_out (wk_emit call s) = wk_out s @ [call]"
  by (simp add: wk_emit_def)

lemma wk_out_emits [simp]: "wk_out (fold (\<lambda>a. wk_emit (f a)) as s) = wk_out s @ map f as"
  by (induction "as" arbitrary: s) simp_all

lemma wk_subscribe_calls: "\<exists>calls. wk_out (wk_subscribe jx symbols s) = wk_out s @ calls \<and> Handler_Latch \<notin> set calls"
  by (auto simp: wk_subscribe_def wk_subscribe_symbols_def wk_subscribe_quote_def wk_subscribe_ticker_def
      wk_subscribe_chart_trades_def Let_def)

lemma still_subscribe: "wk_view i c = Some s \<Longrightarrow> still c (wk_put i (wk_subscribe jx symbols s) c)"
  using wk_subscribe_calls [of jx symbols s] still_wk by blast

lemma still_step: "still c d \<Longrightarrow> (\<And>d. still d (f d)) \<Longrightarrow> still c (f d)"
  using still_trans by blast

lemma still_on_view: "(\<And>s. view c = Some s \<Longrightarrow> still c (put (f s) c)) \<Longrightarrow> still c (on_view view put f c)"
  by (rule on_view_keeps [of view]) simp_all

lemma still_fold: "(\<And>k d. still d (f k d)) \<Longrightarrow> still c (fold f ks c)"
  by (rule fold_keeps [of "still c"]) (auto intro: still_trans)

section \<open>New symbols\<close>

definition has_master :: "('q, 'y) gateway \<Rightarrow> bool" where
  "has_master c \<longleftrightarrow> gw_accounts c (gw_master_account c) \<noteq> None"

lemma still_master: "still c d \<Longrightarrow> has_master c \<Longrightarrow> has_master d"
  by (simp add: still_def calm_def has_master_def)

lemma new_streams_made: "has_master c \<Longrightarrow> snd (new_market_data c) = None" "has_master c \<Longrightarrow> snd (new_web_socket c) = None"
  by (auto simp: has_master_def new_market_data_def new_web_socket_def get_account_def Let_def)

lemma more_market_data_still: "has_master c \<Longrightarrow> still c (fst (add_market_data n c)) \<and> snd (add_market_data n c) = None"
proof (induction n c rule: add_market_data.induct)
  case (1 n c)
  obtain d where d: "new_market_data c = (d, None)" using new_streams_made(1) [OF 1(2)] by (metis prod.collapse)
  then have "still c d" using still_new(1) [of c] by simp
  then show ?case
    using 1(1) [OF _ d [symmetric] refl] still_master [OF _ 1(2)] still_trans
    by (subst (1 2) add_market_data.simps) (auto simp: d)
qed

lemma more_web_sockets_still: "has_master c \<Longrightarrow> still c (fst (add_web_socket n c)) \<and> snd (add_web_socket n c) = None"
proof (induction n c rule: add_web_socket.induct)
  case (1 n c)
  obtain d where d: "new_web_socket c = (d, None)" using new_streams_made(2) [OF 1(2)] by (metis prod.collapse)
  then have "still c d" using still_new(2) [of c] by simp
  then show ?case
    using 1(1) [OF _ d [symmetric] refl] still_master [OF _ 1(2)] still_trans
    by (subst (1 2) add_web_socket.simps) (auto simp: d)
qed

lemma slices_still:
  assumes "has_master c"
  shows "still c (fst (ensure_symbol_slices n c)) \<and> snd (ensure_symbol_slices n c) = None"
proof -
  obtain d where d: "add_market_data n c = (d, None)" "still c d"
    using more_market_data_still [OF assms, of n] by (metis prod.collapse)
  then show ?thesis
    using more_web_sockets_still [OF still_master [OF d(2) assms], of n] still_trans [OF d(2)]
    by (simp add: ensure_symbol_slices_def then_on_def)
qed

lemma symbols_still:
  assumes "has_master c"
  shows "still c (fst (gw_on_symbols gl now symbols c)) \<and> snd (gw_on_symbols gl now symbols c) = None"
proof -
  obtain n k y where add: "sy_add gl (gw_symbols c) symbols = ((n, k), y)" by (metis prod.exhaust)
  let ?c1 = "gw_emit (Symbols_Add symbols) (c\<lparr>gw_symbols := y\<rparr>)"
  have "still c ?c1" by simp
  then obtain d where d: "ensure_symbol_slices n ?c1 = (d, None)" "still c d"
    using slices_still [OF still_master [OF _ assms], of ?c1 n] still_trans by (metis prod.collapse)
  have m: "still e (fold (\<lambda>i. on_view (mk_view i) (mk_put i) (mk_subscribe_slice (now i) (sy_slice gl y i k))) is e)" for e "is"
    by (rule still_fold) (rule still_on_view, simp)
  have w: "still e (fold (\<lambda>i. on_view (wk_view i) (wk_put i) (wk_subscribe (gl_jx gl) (sy_slice gl y i k))) is e)" for e "is"
    by (rule still_fold) (rule still_on_view, rule still_subscribe)
  show ?thesis
    using still_trans [OF still_trans [OF d(2) m] w] by (simp add: gw_on_symbols_def add then_on_def d(1) Let_def)
qed

section \<open>The loop over the drop copies\<close>

lemma map_update_value:
  "distinct (map fst xs) \<Longrightarrow> map_of xs k \<noteq> None \<Longrightarrow>
   map (\<lambda>(n, s). (n, g s)) (AList.update k t xs) =
   map (\<lambda>(n, p). (n, if n = k then g t else p)) (map (\<lambda>(n, s). (n, g s)) xs)"
  by (induction xs) (auto simp: image_iff split: if_splits)

lemma fst_drops: "map fst (drops c) = map fst (gw_drop_copy c)"
  by (simp add: drops_def case_prod_beta comp_def)

lemma drops_member: "p \<in> set (drops c) \<Longrightarrow> \<exists>q\<in>set (gw_drop_copy c). snd p = drop_state (snd q)"
  unfolding drops_def by force

lemma view_drops: "dc_view nm c = Some s \<Longrightarrow> (nm, drop_state s) \<in> set (drops c)"
  unfolding drops_def dc_view_def by (force split: option.splits dest: map_of_SomeD)

lemma accounts_ok_calm: "accounts_ok c \<Longrightarrow> calm c d \<Longrightarrow> map fst (drops d) = map fst (drops c) \<Longrightarrow> accounts_ok d"
  unfolding accounts_ok_def calm_def fst_drops by simp

lemma drop_copy_view:
  assumes "accounts_ok c" "nm \<in> set (map fst (drops c))"
  shows "\<exists>s. dc_view nm c = Some s"
proof -
  have "map_of (gw_drop_copy c) nm \<noteq> None" using assms(2) by (simp add: fst_drops map_of_eq_None_iff)
  moreover have "gw_accounts c nm \<noteq> None" using assms unfolding accounts_ok_def fst_drops by blast
  ultimately show ?thesis by (auto simp: dc_view_def)
qed

lemma dc_put_calm: "dc_view nm c = Some s \<Longrightarrow> calm c (dc_put nm t c)"
  by (simp add: calm_def dc_put_def latch_told_def)

lemma dc_put_drops:
  assumes "accounts_ok c" "dc_view nm c = Some s"
  shows "drops (dc_put nm t c) = map (\<lambda>(n, p). (n, if n = nm then drop_state t else p)) (drops c)"
proof -
  have "map_of (gw_drop_copy c) nm \<noteq> None" using assms(2) by (auto simp: dc_view_def split: option.splits)
  from map_update_value [OF _ this, of drop_state t] show ?thesis
    using assms(1) unfolding drops_def dc_put_def accounts_ok_def by (simp del: map_map)
qed

lemma drops_view:
  assumes "accounts_ok c" "dc_view nm c = Some s" "(nm, p) \<in> set (drops c)"
  shows "p = drop_state s"
proof -
  obtain t a where t: "map_of (gw_drop_copy c) nm = Some t" "s = t\<lparr>dc_shared := gw_shared c, dc_account := a\<rparr>"
    using assms(2) by (auto simp: dc_view_def split: option.splits)
  obtain u where u: "(nm, u) \<in> set (gw_drop_copy c)" "p = drop_state u" using assms(3) by (auto simp: drops_def)
  have "map_of (gw_drop_copy c) nm = Some u" using assms(1) u(1) by (simp add: accounts_ok_def)
  then show ?thesis using t u(2) by simp
qed

lemma each_drop_copy:
  assumes "accounts_ok c" "distinct ks" "set ks \<subseteq> set (map fst (drops c))" "\<And>nm s. drop_state (f nm s) = h (drop_state s)"
    "d = fold (\<lambda>nm. on_view (dc_view nm) (dc_put nm) (f nm)) ks c"
  shows "calm c d \<and> drops d = map (\<lambda>(n, p). (n, if n \<in> set ks then h p else p)) (drops c)"
  using assms(1-3,5)
proof (induction ks arbitrary: c)
  case (Cons k ks)
  obtain s where s: "dc_view k c = Some s"
    using drop_copy_view [OF Cons.prems(1), of k] Cons.prems(3) by auto
  let ?e = "dc_put k (f k s) c"
  have e: "calm c ?e" "drops ?e = map (\<lambda>(n, p). (n, if n = k then h p else p)) (drops c)"
    using dc_put_calm [OF s] dc_put_drops [OF Cons.prems(1) s, of "f k s"] drops_view [OF Cons.prems(1) s]
    by (auto simp: assms(4))
  have names: "map fst (drops ?e) = map fst (drops c)" by (simp add: e(2) comp_def case_prod_beta)
  have "calm ?e d \<and> drops d = map (\<lambda>(n, p). (n, if n \<in> set ks then h p else p)) (drops ?e)"
    by (rule Cons.IH [OF accounts_ok_calm [OF Cons.prems(1) e(1) names]])
      (use Cons.prems s names in \<open>simp_all add: on_view_def\<close>)
  then show ?case using calm_trans [OF e(1)] Cons.prems(2) by (auto simp: e(2))
qed simp

lemma all_drop_copies:
  assumes "accounts_ok c" "\<And>nm s. drop_state (f nm s) = h (drop_state s)"
    "d = fold (\<lambda>nm. on_view (dc_view nm) (dc_put nm) (f nm)) (map fst (gw_drop_copy c)) c"
  shows "calm c d" "drops d = map (\<lambda>(n, p). (n, h p)) (drops c)"
proof -
  have spec: "calm c d \<and> drops d = map (\<lambda>(n, p). (n, if n \<in> set (map fst (gw_drop_copy c)) then h p else p)) (drops c)"
    by (rule each_drop_copy [OF assms(1) _ _ assms(2,3)])
      (use assms(1) in \<open>simp_all add: accounts_ok_def flip: fst_drops\<close>)
  then show "calm c d" by blast
  have "\<And>n p. (n, p) \<in> set (drops c) \<Longrightarrow> n \<in> set (map fst (gw_drop_copy c))" by (force simp flip: fst_drops)
  then show "drops d = map (\<lambda>(n, p). (n, h p)) (drops c)" using spec by auto
qed

section \<open>What has been told arrives\<close>

text \<open>\<open>arrives calls c\<close>: every drop copy knows what has been told, except for what \<open>calls\<close> still have to tell.\<close>

definition arrives :: "web_call list \<Rightarrow> ('q, 'y) gateway \<Rightarrow> bool" where
  "arrives calls c \<longleftrightarrow> accounts_ok c \<and> (\<forall>p\<in>set (drops c).
     fst (snd p) @ told_currencies calls = rest_currencies c \<and>
     (snd (snd p) \<or> Handler_Latch \<in> set calls) = latch_told c)"

lemma accounts_ok_still: "accounts_ok c \<Longrightarrow> still c d \<Longrightarrow> accounts_ok d"
  by (rule accounts_ok_calm) (simp_all add: still_def)

lemma arrives_still: "arrives calls c \<Longrightarrow> still c d \<Longrightarrow> arrives calls d"
  using accounts_ok_still [of c d] by (simp add: arrives_def still_def calm_def rest_currencies_def)

lemma arrives_master: "arrives calls c \<Longrightarrow> has_master c"
  by (simp add: arrives_def accounts_ok_def has_master_def)

lemma drop_state_currencies: "drop_state (dc_on_currencies jx ti cs s) = (fst (drop_state s) @ cs, snd (drop_state s))"
  by (simp add: drop_state_def dc_on_currencies_def Let_def)

lemma drop_state_latch: "drop_state (dc_latch jx ti s) = (fst (drop_state s), True)"
  by (simp add: drop_state_def dc_latch_def Let_def)

lemma arrives_drop_copies:
  assumes "arrives calls c" "\<And>s. drop_state (f s) = h (drop_state s)"
    "\<And>p. fst (h p) @ told_currencies calls' = fst p @ told_currencies calls"
    "\<And>p. (snd (h p) \<or> Handler_Latch \<in> set calls') = (snd p \<or> Handler_Latch \<in> set calls)"
  shows "arrives calls' (gw_drop_copies f c)"
proof -
  let ?d = "gw_drop_copies f c"
  have ok: "accounts_ok c" using assms(1) by (simp add: arrives_def)
  have d: "calm c ?d" "drops ?d = map (\<lambda>(n, p). (n, h p)) (drops c)"
    using all_drop_copies [OF ok, where f = "\<lambda>nm. f" and h = h and d = ?d] assms(2) by (simp_all add: gw_drop_copies_def)
  have "accounts_ok ?d" by (rule accounts_ok_calm [OF ok d(1)]) (simp add: d(2) case_prod_beta comp_def)
  moreover have "rest_currencies ?d = rest_currencies c" "latch_told ?d = latch_told c"
    using d(1) by (simp_all add: calm_def rest_currencies_def)
  moreover have "fst (h p) @ told_currencies calls' = rest_currencies c \<and>
      (snd (h p) \<or> Handler_Latch \<in> set calls') = latch_told c" if "p \<in> snd ` set (drops c)" for p
    using assms(1) that unfolding arrives_def assms(3,4) by fastforce
  ultimately show ?thesis unfolding arrives_def d(2) set_map ball_simps by (simp add: case_prod_beta)
qed

lemma react_arrives:
  assumes "arrives (call # calls) c"
  shows "arrives calls (fst (gw_react gl v call c)) \<and> snd (gw_react gl v call c) = None"
proof (cases call)
  case Handler_Latch
  have "arrives calls (gw_latch gl (rv_trace v) c)"
    unfolding gw_latch_def
    by (rule arrives_drop_copies [OF assms, where h = "\<lambda>p. (fst p, True)"])
      (simp_all add: drop_state_latch Handler_Latch told_currencies_other)
  then show ?thesis by (simp add: gw_react_def Handler_Latch)
next
  case (Handler_Currencies currencies)
  have "arrives calls (gw_on_currencies gl (rv_trace v) currencies c)"
    unfolding gw_on_currencies_def
    by (rule arrives_drop_copies [OF assms, where h = "\<lambda>p. (fst p @ currencies, snd p)"])
      (simp_all add: drop_state_currencies Handler_Currencies)
  then show ?thesis by (simp add: gw_react_def Handler_Currencies)
next
  case (Handler_Symbols symbols)
  have "arrives calls c" using assms by (simp add: arrives_def Handler_Symbols)
  then show ?thesis
    using symbols_still [OF arrives_master [OF assms], of gl "rv_now v" symbols] arrives_still [of calls c]
    by (simp add: gw_react_def Handler_Symbols)
qed (use assms in \<open>simp_all add: gw_react_def arrives_def told_currencies_other\<close>)

lemma react_calls_arrive:
  "arrives calls c \<Longrightarrow> arrives [] (fst (react_calls gl v calls c)) \<and> snd (react_calls gl v calls c) = None"
proof (induction calls arbitrary: c)
  case (Cons call calls)
  obtain d where "gw_react gl v call c = (d, None)" "arrives calls d"
    using react_arrives [OF Cons.prems, of gl v] by (metis prod.collapse)
  then show ?case using Cons.IH by (simp add: then_on_def)
qed simp

lemma rest_arrives:
  assumes "arrives [] c" "rk_own gl (rest_view c) s"
  shows "arrives [] (fst (rest_moved gl v s c)) \<and> snd (rest_moved gl v s c) = None"
proof -
  obtain calls where calls: "rk_out s = rk_out (gw_rest c) @ calls"
    using rk_own_tells [OF assms(2)] by (auto simp: tells_new_def rest_view_def)
  have "arrives calls (rest_put s c)"
    using assms(1) by (auto simp: arrives_def accounts_ok_def rest_put_def drops_def rest_currencies_def latch_told_def calls)
  then show ?thesis using react_calls_arrive by (simp add: rest_moved_def calls)
qed

lemma web_socket_arrives:
  assumes "arrives [] c" "wk_view i c = Some s" "wk_own (gl_x gl) (gl_cx gl) (gl_jx gl) (gl_wl gl) s t"
  shows "arrives [] (fst (wk_moved gl v i t c)) \<and> snd (wk_moved gl v i t c) = None"
proof -
  obtain calls where calls: "wk_out t = wk_out s @ calls" "told_currencies calls = []"
    using wk_own_tells [OF assms(3)] by (auto simp: tells_nothing_def)
  note put = wk_put_told [OF assms(2) calls(1)]
  have names: "map fst (gw_drop_copy (wk_put i t c)) = map fst (gw_drop_copy c)" by (simp add: wk_put_def)
  have "accounts_ok (wk_put i t c)"
    using assms(1) put(5) unfolding arrives_def accounts_ok_def names put(4) by blast
  then have "arrives calls (wk_put i t c)"
    using assms(1) by (auto simp: arrives_def rest_currencies_def put(1-3) calls(2))
  moreover have "drop (length (wk_out (gw_web_socket c ! i))) (wk_out t) = calls"
    using calls(1) wk_view_out [OF assms(2)] by simp
  ultimately show ?thesis using react_calls_arrive by (simp add: wk_moved_def)
qed

section \<open>The steps of the gateway\<close>

lemma arrives_event:
  assumes "arrives [] c" "dc_view nm c = Some s" "drop_state t = drop_state s"
  shows "arrives [] (dc_put nm t c)"
proof -
  have ok: "accounts_ok c" using assms(1) by (simp add: arrives_def)
  have "drops (dc_put nm t c) = drops c"
    unfolding dc_put_drops [OF ok assms(2)] by (rule map_idI) (use drops_view [OF ok assms(2)] assms(3) in auto)
  then have "still c (dc_put nm t c)" using dc_put_calm [OF assms(2)] by (simp add: still_def)
  then show ?thesis by (rule arrives_still [OF assms(1)])
qed

lemma drop_state_same: "same_requests s t \<Longrightarrow> drop_state t = drop_state s"
  by (simp add: same_requests_def drop_state_def)

lemma event_drop_state: "dc_event x cx jx wl s t \<Longrightarrow> drop_state t = drop_state s"
proof (induction rule: dc_event.induct)
  case (step_text s message)
  show ?case by (rule drop_state_same [OF same_text])
next
  case (step_download ti run s)
  then show ?case using download_requests [of x jx ti run s] by (simp add: drop_state_def)
next
  case (step_disconnected s)
  show ?case by (simp add: drop_state_def dc_disconnected_def)
qed (auto intro!: drop_state_same simp: dc_start_def dc_stop_def dc_timer_def dc_on_ready_def dc_login_def dc_latency_def
    split: prod.split)

lemma web_socket_call_arrives:
  "arrives [] c \<Longrightarrow> (\<And>s. wk_own (gl_x gl) (gl_cx gl) (gl_jx gl) (gl_wl gl) s (f s)) \<Longrightarrow>
   arrives [] (fst (gw_web_socket_call gl v f i c))"
  by (cases "wk_view i c") (simp_all add: gw_web_socket_call_def web_socket_arrives)

lemma then_on_ok: "then_on (c, None) f = f c"
  by (simp add: then_on_def)

lemma dispatch_arrives:
  assumes "arrives [] c" "\<And>s. rk_own gl s (tg_rest t s)" "\<And>nm s. drop_state (tg_drop_copy t nm s) = drop_state s"
    "\<And>i s. wk_own (gl_x gl) (gl_cx gl) (gl_jx gl) (gl_wl gl) s (tg_web_socket t i s)"
  shows "arrives [] (fst (gw_dispatch gl v t c))"
proof -
  note step = arrives_still [of "[]"]
  obtain c1 where c1: "rest_moved gl v (tg_rest t (rest_view c)) c = (c1, None)" "arrives [] c1"
    using rest_arrives [OF assms(1,2), of v] by (metis prod.collapse)
  define c2 where "c2 = fold (\<lambda>nm. on_view (oe_view nm) (oe_put nm) (tg_order_entry t nm)) (map fst (gw_order_entry c1)) c1"
  have "still c1 c2" unfolding c2_def by (rule still_fold) (rule still_on_view, simp)
  then have c2: "arrives [] c2" by (rule step [OF c1(2)])
  define c3 where "c3 = fold (\<lambda>nm. on_view (dc_view nm) (dc_put nm) (tg_drop_copy t nm)) (map fst (gw_drop_copy c2)) c2"
  have "arrives [] c3"
    unfolding c3_def
    by (rule fold_keeps [of "arrives []", OF on_view_keeps c2]) (auto intro: arrives_event assms(3))
  then have ws: "arrives [] (fst (each_then (\<lambda>i. gw_web_socket_call gl v (tg_web_socket t i) i) [0..<length (gw_web_socket c3)] c3))"
    by (rule each_then_keeps [rotated]) (rule web_socket_call_arrives [OF _ assms(4)])
  have "arrives [] (on_view ue_view ue_put (tg_udp_events t) (on_view us_view us_put (tg_udp_snapshot t)
      (fold (\<lambda>i. on_view (mk_view i) (mk_put i) (tg_market_data t i)) [0..<length (gw_market_data c4)] c4)))"
    if "arrives [] c4" for c4
  proof -
    have "still d (on_view (mk_view i) (mk_put i) (tg_market_data t i) d)" for i d by (rule still_on_view) simp
    then have mk: "still c4 (fold (\<lambda>i. on_view (mk_view i) (mk_put i) (tg_market_data t i)) [0..<length (gw_market_data c4)] c4)"
      by (rule still_fold)
    have us: "still d (on_view us_view us_put (tg_udp_snapshot t) d)" for d by (rule still_on_view) simp
    have ue: "still d (on_view ue_view ue_put (tg_udp_events t) d)" for d by (rule still_on_view) simp
    show ?thesis by (rule step [OF step [OF step [OF that mk] us] ue])
  qed
  note rest = this
  show ?thesis
    unfolding gw_dispatch_def Let_def c1(1) then_on_ok c2_def [symmetric] c3_def [symmetric]
    by (rule then_on_keeps [where P = "arrives []", OF ws]) (simp_all only: fst_conv rest)
qed

lemma timer_arrives:
  assumes "arrives [] c" "timer_target gl t"
  shows "arrives [] (fst (gw_dispatch gl v t c))"
proof (rule dispatch_arrives [OF assms(1)])
  note t = assms(2) [unfolded timer_target_def]
  show "rk_own gl s (tg_rest t s)" for s using t by (metis rk_own.step_timer)
  show "drop_state (tg_drop_copy t nm s) = drop_state s" for nm s
    using t by (metis event_drop_state dc_event.step_timer)
  show "wk_own (gl_x gl) (gl_cx gl) (gl_jx gl) (gl_wl gl) s (tg_web_socket t i s)" for i s
    using t by (metis wk_own.step_timer)
qed

lemma order_still: "order_action nm f c = Inr (sid, d) \<Longrightarrow> still c d"
  by (auto simp: order_action_def andthen_eq_Inr)

lemma security_list_still: "has_master c \<Longrightarrow> still c (fst (gw_security_list gl v i ti is s c))"
proof -
  assume m: "has_master c"
  obtain t symbols e where loop: "mk_securities (gl_x gl) (gl_fl gl) is [] (mk_emit (Conn_Touch (source_receive_time ti)) s) =
      ((t, symbols), e)" by (metis prod.exhaust)
  have checked: "still c (fst (then_on r (\<lambda>c'. (on_view (mk_view i) (mk_put i) (mk_emit (Download_Check DS_SECURITIES)) c', None))))"
    if "still c (fst r)" for r
    by (rule then_on_keeps [where P = "still c", OF that]) (simp_all add: still_trans [OF _ still_on_view])
  have put: "still c (mk_put i u c)" for u by simp
  have "still c (fst (gw_on_symbols gl (rv_now v) symbols (mk_put i u c)))" for u
    using symbols_still [OF still_master [OF put m]] still_trans [OF put] by blast
  then show ?thesis
    by (cases e) (auto simp: gw_security_list_def loop intro!: checked)
qed

lemma message_still: "has_master c \<Longrightarrow> still c (fst (gw_market_data_message gl v i ti m c))"
  by (cases "mk_view i c"; cases "fx_body m")
    (simp_all add: gw_market_data_message_def security_list_still Let_def case_prod_beta)

lemma read_still:
  assumes "has_master c"
  shows "still c (fst (gw_market_data_read gl v i ti reader buffer c))"
proof -
  obtain n d e where loop: "read_loop (gw_market_data_message gl v i ti) reader 0 buffer c = (n, d, e)"
    by (metis prod.exhaust)
  have "has_master d \<and> still c d"
    using read_loop_keeps [of "\<lambda>d. has_master d \<and> still c d" "gw_market_data_message gl v i ti" c reader 0 buffer] loop
    by (simp add: assms) (meson message_still still_master still_trans)
  then show ?thesis using loop still_trans [OF _ still_on_view [of "mk_view i" d "mk_put i" "mk_emit (Conn_Drain n)"]]
    by (simp add: gw_market_data_read_def split: option.split)
qed

lemma step_arrives: "gw_step gl c d \<Longrightarrow> arrives [] c \<Longrightarrow> arrives [] d"
proof (induction rule: gw_step.induct)
  case (start c v)
  then show ?case unfolding gw_start_def
    by (intro dispatch_arrives) (simp_all add: rk_own.intros wk_own.intros drop_state_def dc_start_def)
next
  case (stop c v)
  then show ?case unfolding gw_stop_def
    by (intro dispatch_arrives) (simp_all add: rk_own.intros wk_own.intros drop_state_def dc_stop_def)
next
  case (subscribe c v symbols)
  obtain new sh where loop: "subscribe_loop symbols [] (gw_shared c) = (new, sh)" by fastforce
  have put: "still c (c\<lparr>gw_shared := sh\<rparr>)" by simp
  show ?case
    using symbols_still [OF still_master [OF put arrives_master [OF subscribe]]] still_trans [OF put] arrives_still [OF subscribe]
    by (simp add: gw_subscribe_def loop)
next
  case (control c action)
  then show ?case by (cases action) (simp_all add: gw_control_def arrives_still)
next
  case (drop_copy nm c s t)
  show ?case by (rule arrives_event [OF drop_copy(3,1) event_drop_state [OF drop_copy(2)]])
qed (simp_all add: timer_arrives rest_arrives web_socket_arrives arrives_still read_still arrives_master
    gw_create_order_def gw_modify_order_def gw_cancel_order_def gw_cancel_all_orders_def order_still)

lemma run_arrives: "(gw_step gl)\<^sup>*\<^sup>* c d \<Longrightarrow> arrives [] c \<Longrightarrow> arrives [] d"
  by (induction rule: rtranclp_induct) (auto intro: step_arrives)

text \<open>What the REST stream has told are the known currencies, each once.\<close>

definition told_once :: "('q, 'y) gateway \<Rightarrow> bool" where
  "told_once c \<longleftrightarrow> distinct (rest_currencies c) \<and> set (rest_currencies c) = all_currencies (gw_shared c)"

lemma rest_currencies_puts [simp]:
  "rest_currencies (oe_put nm s1 c) = rest_currencies c" "rest_currencies (dc_put nm s2 c) = rest_currencies c"
  "rest_currencies (wk_put i s3 c) = rest_currencies c" "rest_currencies (mk_put i s4 c) = rest_currencies c"
  "rest_currencies (us_put s5 c) = rest_currencies c" "rest_currencies (ue_put s6 c) = rest_currencies c"
  "rest_currencies (c\<lparr>gw_shared := sh\<rparr>) = rest_currencies c" "rest_currencies (c\<lparr>gw_symbols := y\<rparr>) = rest_currencies c"
  "rest_currencies (gw_emit call c) = rest_currencies c"
  "rest_currencies (fst (new_market_data c)) = rest_currencies c" "rest_currencies (fst (new_web_socket c)) = rest_currencies c"
  "rest_currencies (rest_put r c) = told_currencies (rk_out r)"
  by (simp_all add: rest_currencies_def oe_put_def dc_put_def wk_put_def mk_put_def rest_put_def us_put_def ue_put_def
      gw_emit_def new_market_data_def new_web_socket_def Let_def split: sum.split)

lemma told_once_rest:
  assumes "told_once c" "tells_new x (rest_view c) r"
  shows "told_once (rest_put r c)"
proof -
  obtain calls where "rk_out r = rk_out (gw_rest c) @ calls" "distinct (told_currencies calls)"
    "set (told_currencies calls) \<inter> all_currencies (gw_shared c) = {}"
    "all_currencies (rk_shared r) = all_currencies (gw_shared c) \<union> set (told_currencies calls)"
    using assms(2) by (auto simp: tells_new_def rest_view_def)
  then show ?thesis using assms(1) by (auto simp: told_once_def) (auto simp: rest_currencies_def)
qed

lemma told_once_puts:
  assumes "told_once c"
  shows "oe_view nm c = Some s1 \<Longrightarrow> oe_fixed s1 t1 \<Longrightarrow> told_once (oe_put nm t1 c)"
    "dc_view nm c = Some s2 \<Longrightarrow> same_shared s2 t2 \<Longrightarrow> told_once (dc_put nm t2 c)"
    "wk_view i c = Some s3 \<Longrightarrow> tells_nothing s3 t3 \<Longrightarrow> told_once (wk_put i t3 c)"
    "mk_view i c = Some s4 \<Longrightarrow> all_currencies (mk_shared t4) = all_currencies (mk_shared s4) \<Longrightarrow> told_once (mk_put i t4 c)"
    "us_view c = Some s5 \<Longrightarrow> us_fixed x s5 t5 \<Longrightarrow> told_once (us_put t5 c)"
    "ue_view c = Some s6 \<Longrightarrow> ue_fixed x s6 t6 \<Longrightarrow> told_once (ue_put t6 c)"
    "all_currencies sh = all_currencies (gw_shared c) \<Longrightarrow> told_once (c\<lparr>gw_shared := sh\<rparr>)"
    "told_once (gw_emit call c)" "told_once (c\<lparr>gw_symbols := y\<rparr>)"
    "told_once (fst (new_market_data c))" "told_once (fst (new_web_socket c))"
  using assms
  by (simp_all add: told_once_def oe_fixed_def same_shared_def tells_nothing_def us_fixed_def ue_fixed_def view_shared)

interpretation once: gateway_invariant gl "\<lambda>new c. told_once c" for gl
proof unfold_locales
  fix c :: "('a, 'b) gateway" and nm i
  show "told_once c \<Longrightarrow> oe_view nm c = Some s \<Longrightarrow> oe_fixed s t \<Longrightarrow> told_once (oe_put nm t c)" for s t
    by (rule told_once_puts(1))
  show "told_once c \<Longrightarrow> dc_view nm c = Some s \<Longrightarrow> same_shared s t \<Longrightarrow> told_once (dc_put nm t c)" for s t
    by (rule told_once_puts(2))
  show "told_once c \<Longrightarrow> wk_view i c = Some s \<Longrightarrow> tells_nothing s t \<Longrightarrow> told_once (wk_put i t c)" for s t
    by (rule told_once_puts(3))
  show "told_once c \<Longrightarrow> mk_view i c = Some s \<Longrightarrow> mk_fixed s t \<Longrightarrow> told_once (mk_put i t c)" for s t
    by (rule told_once_puts(4)) (simp_all add: mk_fixed_def)
  show "told_once c \<Longrightarrow> mk_view i c = Some s \<Longrightarrow> all_currencies (mk_shared t) = all_currencies (mk_shared s) \<Longrightarrow>
      told_once (mk_put i t c)" for s t
    by (rule told_once_puts(4))
  show "told_once c \<Longrightarrow> us_view c = Some s \<Longrightarrow> us_fixed x s t \<Longrightarrow> told_once (us_put t c)" for s t x
    by (rule told_once_puts(5))
  show "told_once c \<Longrightarrow> ue_view c = Some s \<Longrightarrow> ue_fixed x s t \<Longrightarrow> told_once (ue_put t c)" for s t x
    by (rule told_once_puts(6))
qed (simp_all add: told_once_puts told_once_rest)

section \<open>The property\<close>

lemma shared_create_currencies: "shared_create st = Inr sh \<Longrightarrow> all_currencies sh = {}"
  by (auto simp: shared_create_def andthen_eq_Inr)

lemma gw_create_arrives:
  assumes "iteration_ok it" "gw_create gl it st cfg = Inr c"
  shows "arrives [] c" "told_once c"
proof -
  obtain accounts a id1 id2 drop_copy and sh :: "'a shared" where parts: "create_accounts cfg = Inr accounts" "gw_shared c = sh"
    "map_of accounts (gw_master_account c) = Some a"
    "create_streams (\<lambda>i a. dc_create i a sh) id1 (iterate (it_accounts it) accounts) = (id2, drop_copy)"
    "gw_accounts c = map_of accounts" "gw_rest c = rk_create 1 sh" "gw_drop_copy c = iterate (it_drop_copy it) drop_copy"
    "\<And>s. s \<in> set (gw_web_socket c) \<Longrightarrow> wk_out s = []" "all_currencies sh = {}"
    using assms(2) by (rule gw_create_parts) (auto simp: wk_create_out shared_create_currencies)
  have names: "distinct (map fst (iterate (it_accounts it) accounts))"
    using iterate_perm [of "it_accounts it" accounts] create_accounts_distinct [OF parts(1)] assms(1)
    by (metis iteration_ok_def mset_eq_imp_distinct_iff mset_map)
  have keys: "map fst drop_copy = map fst (iterate (it_accounts it) accounts)" using create_streams_spec [OF parts(4)] by blast
  have perm: "mset (gw_drop_copy c) = mset drop_copy"
    unfolding parts(7) using assms(1) names keys by (intro iterate_perm) (simp_all add: iteration_ok_def)
  then have "mset (map fst (gw_drop_copy c)) = mset (map fst (iterate (it_accounts it) accounts))" by (simp flip: keys)
  then have dc: "distinct (map fst (gw_drop_copy c))" "set (map fst (gw_drop_copy c)) = set (map fst (iterate (it_accounts it) accounts))"
    using names mset_eq_imp_distinct_iff mset_eq_setD by blast+
  have "gw_accounts c nm \<noteq> None" if "nm \<in> set (map fst (iterate (it_accounts it) accounts))" for nm
  proof -
    have "nm \<in> fst ` set accounts" using that entries_of_sub unfolding iterate_def by fastforce
    then show ?thesis by (simp add: parts(5) map_of_eq_None_iff)
  qed
  then have ok: "accounts_ok c" unfolding accounts_ok_def dc(2) by (simp add: dc(1) parts(3,5))
  have fresh: "snd p = ([], False)" if "p \<in> set (drops c)" for p
  proof -
    from drops_member [OF that] obtain q where "q \<in> set (gw_drop_copy c)" "snd p = drop_state (snd q)" by blast
    then show ?thesis using create_streams_made [OF parts(4), of q] mset_eq_setD [OF perm] by (auto simp: drop_state_def dc_create_def)
  qed
  have none: "rest_currencies c = []" "\<not> latch_told c"
    using parts(6,8) by (auto simp: rest_currencies_def latch_told_def rk_create_def)
  show "arrives [] c" by (auto simp: arrives_def ok none dest!: fresh)
  show "told_once c" by (simp add: told_once_def none parts(2,9))
qed

text \<open>
  C20: in a running gateway every drop copy knows exactly the currencies that the REST stream has
  learnt, each once and in the order in which it learnt them, and it may download exactly when
  the public data is complete; then, once its connection is ready, the requests of its session
  ask for each of these currencies exactly once, and before that for none.
\<close>

theorem currencies_reach_drop_copies:
  assumes "iteration_ok it" "gw_create gl it st cfg = Inr c0" "(gw_step gl)\<^sup>*\<^sup>* c0 c" "dc_view nm c = Some s"
  shows "dc_currencies s = rest_currencies c \<and> distinct (rest_currencies c) \<and>
    set (rest_currencies c) = all_currencies (gw_shared c) \<and> dc_can_download s = latch_told c \<and>
    (\<exists>bs. currency_requests s = concat (map (batch_texts (gl_jx gl)) bs) \<and>
       (if dc_ready s \<and> latch_told c then concat (map snd bs) = rest_currencies c else bs = []))"
proof -
  have arrived: "arrives [] c" by (rule run_arrives [OF assms(3) gw_create_arrives(1) [OF assms(1,2)]])
  have once: "told_once c" by (rule once.run_inv [OF assms(3) gw_create_arrives(2) [OF assms(1,2)]])
  have state: "dc_currencies s = rest_currencies c" "dc_can_download s = latch_told c"
    using arrived view_drops [OF assms(4)] by (auto simp: arrives_def drop_state_def)
  have "dc_reach gl s"
    by (rule streams_ok_views(2) [OF reachable.run_inv [OF assms(3) gw_create_ok(1) [OF assms(2)]] assms(4)])
  then have "batches_ok (gl_jx gl) s" unfolding dc_reach_def using batches_reach by blast
  then show ?thesis using once unfolding batches_ok_def told_once_def state by blast
qed

text \<open>The gateway with one account, after the REST stream has got an answer with two currencies.\<close>

definition demo_reaction :: reaction where
  "demo_reaction = \<lparr>rv_trace = mk_demo_trace, rv_now = (\<lambda>i. 0)\<rparr>"

definition demo_answered :: "(nat, string list) gateway \<Rightarrow> (nat, string list) gateway" where
  "demo_answered c = fst (rest_moved demo_gateway_lib demo_reaction
     (fst (rk_currencies_ack rest_demo_lib rest_demo_response (rest_view c))) c)"

lemma demo_drop_copy:
  assumes "demo_config = Inr cfg" "gw_create demo_gateway_lib demo_iteration default_settings cfg = Inr c"
  shows "\<exists>s. dc_view ''A1'' (demo_answered c) = Some s \<and> dc_currencies s = [''BTC'', ''ETH'']"
proof -
  have answer: "rk_currencies_ack rest_demo_lib rest_demo_response r = (rk_emit Commit_Currencies (rk_currencies [''BTC'', ''ETH'', ''BTC''] r), None)"
    for r :: "nat rest"
    by (simp add: rk_currencies_ack_eq redirected_def good_answer_def rest_demo_lib_def rest_demo_response_def)
  have c: "\<exists>a s. gw_drop_copy c = [(''A1'', s)] \<and> dc_currencies s = [] \<and> gw_accounts c ''A1'' = Some a \<and>
      rk_out (gw_rest c) = [] \<and> all_currencies (gw_shared c) = {} \<and> \<not> dc_ready s"
    using assms
    by (auto simp: demo_config_def config_create_def config_item_def assoc_emplace_def gw_create_def create_master_account_def
      create_accounts_def gw_create_account_def get_access_key_def get_access_secret_def config_find_def account_create_def
      crypto_create_def shared_create_def get_multicast_def default_settings_def iterate_def entries_of_def
      List.map_filter_def demo_iteration_def demo_gateway_lib_def get_account_def dc_create_def rk_create_def Let_def)
  then obtain a s where c': "gw_drop_copy c = [(''A1'', s)]" "dc_currencies s = []" "gw_accounts c ''A1'' = Some a"
      "rk_out (gw_rest c) = []" "all_currencies (gw_shared c) = {}" "\<not> dc_ready s" by blast
  show ?thesis
    by (simp add: demo_answered_def answer rest_moved_def rk_currencies_def rk_emit_def rest_view_def c' rest_put_def gw_react_def
        then_on_def gw_on_currencies_def gw_drop_copies_def on_view_def dc_view_def dc_put_def dc_on_currencies_def Let_def)
qed

theorem currencies_reach_drop_copies_witness:
  "\<exists>cfg c s. demo_config = Inr cfg \<and> gw_create demo_gateway_lib demo_iteration default_settings cfg = Inr c \<and>
     dc_view ''A1'' (demo_answered c) = Some s \<and> dc_currencies s = [''BTC'', ''ETH''] \<and>
     all_currencies (gw_shared (demo_answered c)) = {''BTC'', ''ETH''}"
proof -
  obtain cfg c where c: "demo_config = Inr cfg" "gw_create demo_gateway_lib demo_iteration default_settings cfg = Inr c"
    using demo_gateway by blast
  obtain s where s: "dc_view ''A1'' (demo_answered c) = Some s" "dc_currencies s = [''BTC'', ''ETH'']"
    using demo_drop_copy [OF c] by blast
  have "iteration_ok demo_iteration" by (simp add: iteration_ok_def visits_all_def demo_iteration_def)
  moreover have "(gw_step demo_gateway_lib)\<^sup>*\<^sup>* c (demo_answered c)"
    unfolding demo_answered_def
    by (rule r_into_rtranclp, rule gw_step.rest)
      (use rk_own.step_currencies [of demo_gateway_lib "rest_view c" rest_demo_response] in \<open>simp add: demo_gateway_lib_def\<close>)
  ultimately have "dc_currencies s = rest_currencies (demo_answered c) \<and>
      set (rest_currencies (demo_answered c)) = all_currencies (gw_shared (demo_answered c))"
    using currencies_reach_drop_copies [OF _ c(2) _ s(1)] by blast
  then have "all_currencies (gw_shared (demo_answered c)) = {''BTC'', ''ETH''}" using s(2) by (metis empty_set list.simps(15))
  then show ?thesis using c s by blast
qed

end
