(* ===== verification/Gateway_Multicast.thy ===== *)
theory Gateway_Multicast
  imports Gateway_Properties
begin

text \<open>
  The multicast streams in the running gateway. They share the cache of the instruments with each
  other and with the REST stream, in whatever order these learn an instrument: the cache only
  grows, so that what a multicast stream has published stays right.
\<close>

lemma grows_live: "grows x sh sh' \<Longrightarrow> live_symbol sh nm \<Longrightarrow> live_symbol sh' nm"
  unfolding live_symbol_def grows_def inst_key_def by (fastforce split: option.splits)

lemma inv_shared:
  assumes "grows x sh sh'"
  shows "ue_inv (s1\<lparr>ue_shared := sh\<rparr>) \<Longrightarrow> ue_inv (s1\<lparr>ue_shared := sh'\<rparr>)"
    "us_inv (s2\<lparr>us_shared := sh\<rparr>) \<Longrightarrow> us_inv (s2\<lparr>us_shared := sh'\<rparr>)"
proof -
  have "ue_same (s1\<lparr>ue_shared := sh\<rparr>) (s1\<lparr>ue_shared := sh'\<rparr>)" "us_same (s2\<lparr>us_shared := sh\<rparr>) (s2\<lparr>us_shared := sh'\<rparr>)"
    using assms grows_live [OF assms] by (simp_all add: ue_same_def us_same_def grows_def)
  then show "ue_inv (s1\<lparr>ue_shared := sh\<rparr>) \<Longrightarrow> ue_inv (s1\<lparr>ue_shared := sh'\<rparr>)"
    "us_inv (s2\<lparr>us_shared := sh\<rparr>) \<Longrightarrow> us_inv (s2\<lparr>us_shared := sh'\<rparr>)"
    by (auto intro: ue_inv_step [where new = "[]"] us_inv_step [where new = "[]"])
qed

text \<open>\<open>multicast_ok x sh c\<close>: the cache has grown since \<open>sh\<close>, and what has been published is well-formed.\<close>

definition multicast_ok :: "externals \<Rightarrow> 'q shared \<Rightarrow> ('q, 'y) gateway \<Rightarrow> bool" where
  "multicast_ok x sh c \<longleftrightarrow> grows x sh (gw_shared c) \<and>
     (\<forall>s. ue_view c = Some s \<longrightarrow> ue_inv s) \<and> (\<forall>s. us_view c = Some s \<longrightarrow> us_inv s)"

lemma multicast_ok_grows:
  assumes "multicast_ok x sh c" "grows x (gw_shared c) (gw_shared d)"
    "gw_udp_events d = gw_udp_events c" "gw_udp_snapshot d = gw_udp_snapshot c"
  shows "multicast_ok x sh d"
  unfolding multicast_ok_def
proof (intro conjI allI impI)
  show "grows x sh (gw_shared d)" using assms(1,2) grows_trans by (auto simp: multicast_ok_def)
  show "ue_inv s" if "ue_view d = Some s" for s
    using that assms inv_shared(1) [OF assms(2)] by (auto simp: multicast_ok_def ue_view_def)
  show "us_inv s" if "us_view d = Some s" for s
    using that assms inv_shared(2) [OF assms(2)] by (auto simp: multicast_ok_def us_view_def)
qed

lemma put_streams [simp]:
  "gw_udp_events (oe_put nm s1 c) = gw_udp_events c" "gw_udp_snapshot (oe_put nm s1 c) = gw_udp_snapshot c"
  "gw_udp_events (dc_put nm s2 c) = gw_udp_events c" "gw_udp_snapshot (dc_put nm s2 c) = gw_udp_snapshot c"
  "gw_udp_events (wk_put i s3 c) = gw_udp_events c" "gw_udp_snapshot (wk_put i s3 c) = gw_udp_snapshot c"
  "gw_udp_events (mk_put i s4 c) = gw_udp_events c" "gw_udp_snapshot (mk_put i s4 c) = gw_udp_snapshot c"
  "gw_udp_events (rest_put s5 c) = gw_udp_events c" "gw_udp_snapshot (rest_put s5 c) = gw_udp_snapshot c"
  "gw_udp_events (gw_emit call c) = gw_udp_events c" "gw_udp_snapshot (gw_emit call c) = gw_udp_snapshot c"
  "gw_udp_events (fst (new_market_data c)) = gw_udp_events c" "gw_udp_snapshot (fst (new_market_data c)) = gw_udp_snapshot c"
  "gw_udp_events (fst (new_web_socket c)) = gw_udp_events c" "gw_udp_snapshot (fst (new_web_socket c)) = gw_udp_snapshot c"
  by (simp_all add: oe_put_def dc_put_def wk_put_def mk_put_def rest_put_def gw_emit_def
      new_market_data_def new_web_socket_def Let_def split: sum.split)

lemma multicast_ok_events:
  assumes "multicast_ok x sh c" "ue_view c = Some s" "ue_fixed x s t"
  shows "multicast_ok x sh (ue_put t c)"
proof -
  have t: "grows x (gw_shared c) (ue_shared t)" "ue_inv t"
    using assms by (auto simp: multicast_ok_def ue_fixed_def dest: view_shared)
  have "us_inv (u\<lparr>us_shared := ue_shared t\<rparr>)" if "gw_udp_snapshot c = Some u" for u
    using assms(1) that inv_shared(2) [OF t(1)] by (simp add: multicast_ok_def us_view_def)
  then show ?thesis
    using assms(1) t grows_trans [OF _ t(1)] by (auto simp: multicast_ok_def ue_view_def us_view_def ue_put_def)
qed

lemma multicast_ok_snapshot:
  assumes "multicast_ok x sh c" "us_view c = Some s" "us_fixed x s t"
  shows "multicast_ok x sh (us_put t c)"
proof -
  have t: "grows x (gw_shared c) (us_shared t)" "us_inv t"
    using assms by (auto simp: multicast_ok_def us_fixed_def dest: view_shared)
  have "ue_inv (u\<lparr>ue_shared := us_shared t\<rparr>)" if "gw_udp_events c = Some u" for u
    using assms(1) that inv_shared(1) [OF t(1)] by (simp add: multicast_ok_def ue_view_def)
  then show ?thesis
    using assms(1) t grows_trans [OF _ t(1)] by (auto simp: multicast_ok_def ue_view_def us_view_def us_put_def)
qed

interpretation multicast: gateway_invariant gl "\<lambda>new c. multicast_ok (gl_x gl) sh c" for gl sh
proof unfold_locales
  fix c :: "('a, 'b) gateway" and nm i
  let ?ok = "multicast_ok (gl_x gl) sh"
  show "?ok c \<Longrightarrow> oe_view nm c = Some s \<Longrightarrow> oe_fixed s t \<Longrightarrow> ?ok (oe_put nm t c)" for s t
    by (erule multicast_ok_grows) (auto simp: oe_fixed_def grows_same dest: view_shared)
  show "?ok c \<Longrightarrow> dc_view nm c = Some s \<Longrightarrow> same_shared s t \<Longrightarrow> ?ok (dc_put nm t c)" for s t
    by (erule multicast_ok_grows) (auto simp: same_shared_def dest: view_shared)
  show "?ok c \<Longrightarrow> wk_view i c = Some s \<Longrightarrow> tells_nothing s t \<Longrightarrow> ?ok (wk_put i t c)" for s t
    by (erule multicast_ok_grows) (auto simp: tells_nothing_def dest: view_shared)
  show "?ok c \<Longrightarrow> mk_view i c = Some s \<Longrightarrow> mk_fixed s t \<Longrightarrow> ?ok (mk_put i t c)" for s t
    by (erule multicast_ok_grows) (auto simp: mk_fixed_def grows_same dest: view_shared)
  show "?ok c \<Longrightarrow> mk_view i c = Some s \<Longrightarrow> grows (gl_x gl) (mk_shared s) (mk_shared t) \<Longrightarrow> ?ok (mk_put i t c)" for s t
    by (erule multicast_ok_grows) (auto dest: view_shared)
  show "?ok c \<Longrightarrow> tells_new (gl_x gl) (rest_view c) r \<Longrightarrow> ?ok (rest_put r c)" for r
    by (erule multicast_ok_grows) (auto simp: tells_new_def rest_view_def)
  show "?ok c \<Longrightarrow> grows (gl_x gl) (gw_shared c) sh' \<Longrightarrow> ?ok (c\<lparr>gw_shared := sh'\<rparr>)" for sh'
    by (erule multicast_ok_grows) simp_all
  show "?ok c \<Longrightarrow> us_view c = Some s \<Longrightarrow> us_fixed (gl_x gl) s t \<Longrightarrow> ?ok (us_put t c)" for s t
    by (rule multicast_ok_snapshot)
  show "?ok c \<Longrightarrow> ue_view c = Some s \<Longrightarrow> ue_fixed (gl_x gl) s t \<Longrightarrow> ?ok (ue_put t c)" for s t
    by (rule multicast_ok_events)
  show "?ok c \<Longrightarrow> ?ok (gw_emit (Symbols_Add symbols) (c\<lparr>gw_symbols := y\<rparr>))" for symbols y
    by (erule multicast_ok_grows) simp_all
  show "?ok c \<Longrightarrow> ?ok (gw_emit (Gateway_State b) c)" for b
    by (erule multicast_ok_grows) simp_all
  show "?ok c \<Longrightarrow> ?ok (fst (new_market_data c))"
    by (erule multicast_ok_grows) simp_all
  show "?ok c \<Longrightarrow> ?ok (fst (new_web_socket c))"
    by (erule multicast_ok_grows) simp_all
qed

lemma gw_create_multicast:
  assumes "gw_create gl it st cfg = Inr c"
  shows "multicast_ok x (gw_shared c) c" "instruments (gw_shared c) = Map.empty" "sh_settings (gw_shared c) = st"
proof -
  have "multicast_ok x (gw_shared c) c \<and> instruments (gw_shared c) = Map.empty \<and> sh_settings (gw_shared c) = st"
    using assms
  proof (rule gw_create_parts)
    fix id2 and sh :: "'a shared"
    assume sh: "shared_create st = Inr sh" "gw_shared c = sh"
      and c: "gw_udp_snapshot c = (if sh_multicast sh then Some (us_create (id2 + 3) sh) else None)"
        "gw_udp_events c = (if sh_multicast sh then Some (ue_create (id2 + 4) sh) else None)"
    have "instruments sh = Map.empty \<and> sh_settings sh = st"
      using sh(1) by (auto simp: shared_create_def andthen_eq_Inr)
    moreover have "multicast_ok x sh c"
      using c by (auto simp: multicast_ok_def sh(2) ue_view_def us_view_def ue_inv_def us_inv_def ue_create_def
          us_create_def Let_def split: if_splits)
    ultimately show ?thesis by (simp add: sh(2))
  qed
  then show "multicast_ok x (gw_shared c) c" "instruments (gw_shared c) = Map.empty" "sh_settings (gw_shared c) = st"
    by blast+
qed

lemma run_multicast:
  assumes "gw_create gl it st cfg = Inr c0" "(gw_step gl)\<^sup>*\<^sup>* c0 c"
  shows "multicast_ok (gl_x gl) (gw_shared c0) c"
  by (rule multicast.run_inv [OF assms(2) gw_create_multicast(1) [OF assms(1)]])

lemma run_instruments:
  assumes "gw_create gl it st cfg = Inr c0" "(gw_step gl)\<^sup>*\<^sup>* c0 c" "instruments (gw_shared c) i = Some inst"
  shows "inst_ok (gl_x gl) inst"
  using run_multicast [OF assms(1,2)] gw_create_multicast(2) [OF assms(1)] assms(3)
  by (simp add: multicast_ok_def grows_def)


text \<open>
  C4: an instrument that any stream of a running gateway has learnt stays as it is, whatever
  instruments the multicast streams and the REST stream receive afterwards under the same
  identifier: its symbol, its contract size, the multiplier, which is that of the contract size,
  and the flag that tells whether the server discards it. Only the state of its book changes.
\<close>

theorem instruments_stay:
  assumes "gw_create gl it st cfg = Inr c0" "(gw_step gl)\<^sup>*\<^sup>* c0 c" "instruments (gw_shared c) i = Some inst"
    "(gw_step gl)\<^sup>*\<^sup>* c c'"
  shows "inst_multiplier inst = compute_contracts_multiplier (gl_x gl) (inst_contract_size inst) \<and>
    inst_discard inst = discard_symbol (gl_x gl) (inst_symbol inst) \<and>
    (\<exists>inst'. instruments (gw_shared c') i = Some inst' \<and> inst_symbol inst' = inst_symbol inst \<and>
       inst_contract_size inst' = inst_contract_size inst \<and> inst_multiplier inst' = inst_multiplier inst \<and>
       inst_discard inst' = inst_discard inst)"
proof -
  have "multicast_ok (gl_x gl) (gw_shared c) c"
    using run_multicast [OF assms(1,2)] by (simp add: multicast_ok_def)
  then have "multicast_ok (gl_x gl) (gw_shared c) c'" by (rule multicast.run_inv [OF assms(4)])
  then have "map_option inst_key (instruments (gw_shared c') i) = Some (inst_key inst)"
    using assms(3) by (auto simp: multicast_ok_def grows_def split: option.splits)
  then obtain inst' where "instruments (gw_shared c') i = Some inst'" "inst_key inst' = inst_key inst"
    by (cases "instruments (gw_shared c') i") simp_all
  moreover have "inst_ok (gl_x gl) inst" by (rule run_instruments [OF assms(1-3)])
  ultimately show ?thesis by (simp add: inst_ok_def inst_key_def)
qed

section \<open>A gateway with multicast\<close>

text \<open>A codec for an instrument and a summary without trades, and a datagram that holds both.\<close>

definition feed_instrument :: sbe_instrument where
  "feed_instrument = \<lparr>in_instrument_id = 7, in_instrument_state = IS_open, in_kind = 0,
     in_instrument_type = 0, in_option_type = 0, in_settlement_period = 0, in_settlement_period_count = 0,
     in_base_currency = ''BTC'', in_quote_currency = ''USD'', in_counter_currency = ''USD'',
     in_settlement_currency = ''BTC'', in_size_currency = ''USD'', in_creation_timestamp_ms = 0,
     in_expiration_timestamp_ms = 0, in_strike_price = 0, in_contract_size = f_one, in_min_trade_amount = f_one,
     in_tick_size = f_one, in_maker_commission = 0, in_taker_commission = 0, in_block_trade_commission = 0,
     in_max_liquidation_commission = 0, in_max_leverage = f_one, in_instrument_name = ''BTC-PERPETUAL'', in_rfq = YesNo_no\<rparr>"

definition feed_trades :: sbe_trades where
  "feed_trades = \<lparr>tr_instrument_id = 7, tr_trades_list = []\<rparr>"

definition feed_codec :: sbe_codec where
  "feed_codec = \<lparr>header_length = 1,
     header_template_id = (\<lambda>b. case b of [] \<Rightarrow> None | x # xs \<Rightarrow> Some (1000 + unat x)),
     decode = (\<lambda>t b. if t = T_Instrument then Some (Instrument feed_instrument)
                     else if t = T_Trades then Some (Trades feed_trades) else None),
     computeLength = (\<lambda>t ns. 0), yes_no_value = (\<lambda>v. if v = YesNo_no then 0 else 1)\<rparr>"

definition feed_enc :: "sbe_message \<Rightarrow> byte list" where
  "feed_enc m = (if m = Trades feed_trades then [2] else [0])"

lemma feed_encodes: "encodes feed_codec feed_enc (Instrument feed_instrument)" "encodes feed_codec feed_enc (Trades feed_trades)"
  by (auto simp: encodes_def feed_codec_def feed_enc_def template_of_id_def compute_length_def)

definition feed_frame :: frame where
  "feed_frame = \<lparr>packet_length = 10, channel_id = 1, sequence_number = 1\<rparr>"

definition feed_datagram :: "byte list" where
  "feed_datagram = frame_bytes feed_frame @ concat (map feed_enc [Instrument feed_instrument, Trades feed_trades])"

definition feed_settings :: settings where
  "feed_settings = default_settings\<lparr>multicast_local_interface := ''lo'', multicast_channel_ids := [''1''],
     multicast_config_file := ''file''\<rparr>"

definition feed_lib :: "(nat, string list) gateway_lib" where
  "feed_lib = demo_gateway_lib\<lparr>gl_codec := feed_codec\<rparr>"

definition feed_config :: "(unit, unit, unit) config result" where
  "feed_config = config_create (\<lambda>r. []) () feed_settings
     [CI_Account \<lparr>cf_name = ''A1'', cf_login = ''key'', cf_secret = ''secret'', cf_master = True\<rparr>]"

definition feed_time :: trace_info where
  "feed_time = \<lparr>source_receive_time = 5, origin_create_time = 0, origin_create_time_utc = 0\<rparr>"

lemma feed_gateway:
  "\<exists>cfg c s. feed_config = Inr cfg \<and> gw_create feed_lib demo_iteration feed_settings cfg = Inr c \<and>
     ue_view c = Some s \<and> ue_channel s = Map.empty \<and> ue_publish_trade_summary s \<and> instruments (ue_shared s) = Map.empty \<and>
     ue_last_trades s = Map.empty"
  by (simp add: feed_config_def config_create_def config_item_def assoc_emplace_def gw_create_def create_master_account_def
      create_accounts_def gw_create_account_def get_access_key_def get_access_secret_def config_find_def account_create_def
      crypto_create_def shared_create_def get_multicast_def feed_settings_def default_settings_def iterate_def entries_of_def
      List.map_filter_def demo_iteration_def feed_lib_def demo_gateway_lib_def get_account_def ue_view_def ue_create_def Let_def)

lemma feed_read:
  assumes "ue_channel s = Map.empty" "ue_publish_trade_summary s" "instruments (ue_shared s) = Map.empty"
    "ue_last_trades s = Map.empty"
  obtains s' inst t where "ue_read plain_externals feed_codec plain_sequencer feed_time [feed_datagram] s = Some (Inr s')"
    "instruments (ue_shared s') 7 = Some inst" "inst_symbol inst = ''BTC-PERPETUAL''"
    "Out_TradeSummary t \<in> set (ue_out s')" "ts_symbol t = ''BTC-PERPETUAL''"
proof -
  let ?s = "ue_notify plain_externals CS_READY (s\<lparr>ue_last_update_time := source_receive_time feed_time\<rparr>)"
  have n: "ue_channel ?s = Map.empty" "ue_publish_trade_summary ?s" "ue_shared ?s = ue_shared s" "ue_last_trades ?s = Map.empty"
    using assms by (simp_all add: ue_notify_def ue_on_connection_status_def ue_emit_def)
  obtain s1 where s1: "ue_on_frame ?s feed_frame = (True, s1)" "ue_shared s1 = ue_shared s"
      "ue_publish_trade_summary s1" "ue_last_trades s1 = Map.empty"
    by (simp add: ue_on_frame_def n get_channel_def receive_frame_def channel_frame_def channel_init_def feed_frame_def)
  let ?inst = "create_instrument ''BTC-PERPETUAL'' f_one (compute_contracts_multiplier plain_externals f_one) False 0"
  let ?s2 = "ue_instrument plain_externals plain_sequencer feed_instrument s1"
  have i: "instruments (ue_shared ?s2) 7 = Some ?inst" "ue_publish_trade_summary ?s2" "ue_last_trades ?s2 = Map.empty"
    using assms s1
    by (simp_all add: ue_instrument_def Let_def feed_instrument_def get_instrument_name_def maybe_create_instrument_def
        plain_externals_def plain_sequencer_def)
  let ?s3 = "ue_trades feed_trades feed_frame ?s2"
  have "dispatch feed_codec (ue_handler plain_externals feed_codec plain_sequencer) feed_datagram ?s = Some (Inr (True, ?s3))"
    unfolding feed_datagram_def by (subst dispatch_encodes) (simp_all add: feed_encodes ue_handler_def s1 ue_on_message_def)
  moreover have "feed_datagram \<noteq> []" by (simp add: feed_datagram_def feed_enc_def)
  ultimately have "ue_read plain_externals feed_codec plain_sequencer feed_time [feed_datagram] s = Some (Inr ?s3)"
    by (simp add: ue_read_def)
  moreover have "instruments (ue_shared ?s3) 7 = Some ?inst" "Out_TradeSummary (ue_trade_summary ?s2 feed_trades ?inst) \<in> set (ue_out ?s3)"
    using i by (simp_all add: ue_trades_eq feed_trades_def test_sequence_def create_instrument_def)
  moreover have "inst_symbol ?inst = ''BTC-PERPETUAL''" "ts_symbol (ue_trade_summary ?s2 feed_trades ?inst) = ''BTC-PERPETUAL''"
    by (simp_all add: create_instrument_def ue_trade_summary_def)
  ultimately show ?thesis by (intro that)
qed

lemma feed_run:
  obtains cfg c s s' inst t where "feed_config = Inr cfg" "gw_create feed_lib demo_iteration feed_settings cfg = Inr c"
    "(gw_step feed_lib)\<^sup>*\<^sup>* c (ue_put s' c)" "ue_view (ue_put s' c) = Some s'"
    "instruments (gw_shared (ue_put s' c)) 7 = Some inst" "inst_symbol inst = ''BTC-PERPETUAL''"
    "Out_TradeSummary t \<in> set (ue_out s')" "ts_symbol t = ''BTC-PERPETUAL''"
proof -
  obtain cfg c s where c: "feed_config = Inr cfg" "gw_create feed_lib demo_iteration feed_settings cfg = Inr c"
    "ue_view c = Some s" "ue_channel s = Map.empty" "ue_publish_trade_summary s" "instruments (ue_shared s) = Map.empty"
    "ue_last_trades s = Map.empty"
    using feed_gateway by blast
  obtain s' inst t where s': "ue_read plain_externals feed_codec plain_sequencer feed_time [feed_datagram] s = Some (Inr s')"
    "instruments (ue_shared s') 7 = Some inst" "inst_symbol inst = ''BTC-PERPETUAL''"
    "Out_TradeSummary t \<in> set (ue_out s')" "ts_symbol t = ''BTC-PERPETUAL''"
    using c(4-7) by (rule feed_read)
  have "(gw_step feed_lib)\<^sup>*\<^sup>* c (ue_put s' c)"
    by (rule r_into_rtranclp, rule gw_step.udp_events [OF c(3), of _ feed_time "[feed_datagram]"])
      (simp add: feed_lib_def demo_gateway_lib_def s'(1))
  moreover have "ue_view (ue_put s' c) = Some s'" using c(3) by (auto simp: ue_view_def ue_put_def)
  moreover have "instruments (gw_shared (ue_put s' c)) 7 = Some inst" using s'(2) by (simp add: ue_put_def)
  ultimately show ?thesis using that c(1,2) s' by blast
qed


theorem instruments_stay_witness:
  "\<exists>cfg c c' inst. feed_config = Inr cfg \<and> gw_create feed_lib demo_iteration feed_settings cfg = Inr c \<and>
     (gw_step feed_lib)\<^sup>*\<^sup>* c c' \<and> instruments (gw_shared c') 7 = Some inst \<and> inst_symbol inst = ''BTC-PERPETUAL'' \<and>
     (\<exists>inst'. instruments (gw_shared (gw_control Action_ENABLE c')) 7 = Some inst' \<and> inst_symbol inst' = ''BTC-PERPETUAL'')"
proof (rule feed_run)
  fix cfg c s s' inst t
  assume c: "feed_config = Inr cfg" "gw_create feed_lib demo_iteration feed_settings cfg = Inr c"
    "(gw_step feed_lib)\<^sup>*\<^sup>* c (ue_put s' c)" "instruments (gw_shared (ue_put s' c)) 7 = Some inst"
    "inst_symbol inst = ''BTC-PERPETUAL''"
  have "(gw_step feed_lib)\<^sup>*\<^sup>* (ue_put s' c) (gw_control Action_ENABLE (ue_put s' c))"
    by (rule r_into_rtranclp) (rule gw_step.control)
  from instruments_stay [OF c(2-4) this]
  obtain inst' where "instruments (gw_shared (gw_control Action_ENABLE (ue_put s' c))) 7 = Some inst'"
    "inst_symbol inst' = ''BTC-PERPETUAL''"
    unfolding c(5) by blast
  then show ?thesis by (intro exI conjI) (rule c | assumption)+
qed

end
