(* ===== verification/Gateway_Metrics.thy ===== *)
theory Gateway_Metrics
  imports Gateway_Properties
begin

text \<open>
  The metrics of the gateway: the names of the streams, the counters, profiles and latencies that
  each stream creates under its name, and those that are written when the gateway is asked for
  them (\<open>operator()(metrics::Writer &)\<close> of \<open>gateway/controller.cpp\<close> and of every stream). A metric is
  identified by the name of its stream and the name of its function; its value belongs to the
  framework.
\<close>

datatype metric_type = COUNTER | PROFILE | LATENCY

type_synonym metric = "string \<times> string \<times> metric_type"

definition metrics_of :: "string \<Rightarrow> metric_type \<Rightarrow> string list \<Rightarrow> metric list" where
  "metrics_of nm t fs = map (\<lambda>f. (nm, f, t)) fs"

section \<open>Names\<close>

definition stream_name :: "uint16 \<Rightarrow> string \<Rightarrow> string" where
  "stream_name i nm = show_nat (unat i) @ '':'' @ nm"

definition account_stream_name :: "uint16 \<Rightarrow> string \<Rightarrow> string \<Rightarrow> string" where
  "account_stream_name i nm a = show_nat (unat i) @ '':'' @ nm @ '':'' @ a"

definition rk_name :: "'q rest \<Rightarrow> string" where
  "rk_name s = stream_name (rk_stream_id s) ''rest''"

definition oe_name :: "'q order_entry \<Rightarrow> string" where
  "oe_name s = account_stream_name (oe_stream_id s) ''om'' (ac_name (oe_account s))"

definition dc_name :: "'q drop_copy \<Rightarrow> string" where
  "dc_name s = account_stream_name (dc_stream_id s) ''ex'' (ac_name (dc_account s))"

definition wk_name :: "'q web_socket \<Rightarrow> string" where
  "wk_name s = stream_name (wk_stream_id s) ''ws''"

definition mk_name :: "'q market_data \<Rightarrow> string" where
  "mk_name s = stream_name (mk_stream_id s) ''md''"

definition us_name :: "'q udp_snapshot \<Rightarrow> string" where
  "us_name s = stream_name (us_stream_id s) ''udps''"

definition ue_name :: "'q udp_events \<Rightarrow> string" where
  "ue_name s = stream_name (ue_stream_id s) ''udpe''"

section \<open>Metrics of the streams\<close>

definition rk_write :: "'q rest \<Rightarrow> metric list" where
  "rk_write s = metrics_of (rk_name s) COUNTER [''disconnect''] @
     metrics_of (rk_name s) PROFILE [''currencies'', ''currencies_ack'', ''instruments'', ''instruments_ack'',
       ''chart_data'', ''chart_data_ack''] @
     metrics_of (rk_name s) LATENCY [''ping'']"

definition oe_created :: "'q order_entry \<Rightarrow> metric list" where
  "oe_created s = metrics_of (oe_name s) COUNTER [''disconnect''] @
     metrics_of (oe_name s) PROFILE [''parse'', ''position_report'', ''execution_report'', ''order_cancel_reject'',
       ''reject'', ''order_mass_cancel_report''] @
     metrics_of (oe_name s) LATENCY [''ping'']"

definition oe_write :: "'q order_entry \<Rightarrow> metric list" where
  "oe_write s = metrics_of (oe_name s) COUNTER [''disconnect''] @
     metrics_of (oe_name s) PROFILE [''parse'', ''execution_report'', ''order_cancel_reject'', ''reject'',
       ''order_mass_cancel_report''] @
     metrics_of (oe_name s) LATENCY [''ping'']"

definition dc_write :: "'q drop_copy \<Rightarrow> metric list" where
  "dc_write s = metrics_of (dc_name s) COUNTER [''disconnect''] @
     metrics_of (dc_name s) PROFILE [''parse'', ''auth''] @
     metrics_of (dc_name s) LATENCY [''ping'', ''heartbeat'']"

definition wk_write :: "'q web_socket \<Rightarrow> metric list" where
  "wk_write s = metrics_of (wk_name s) COUNTER [''disconnect''] @
     metrics_of (wk_name s) PROFILE [''parse'', ''auth'', ''currencies'', ''instruments'', ''quote'', ''ticker'',
       ''chart_trades''] @
     metrics_of (wk_name s) LATENCY [''ping'', ''heartbeat'']"

definition mk_write :: "'q market_data \<Rightarrow> metric list" where
  "mk_write s = metrics_of (mk_name s) COUNTER [''disconnect''] @
     metrics_of (mk_name s) PROFILE [''parse'', ''security_list'', ''security_status'',
       ''market_data_incremental_refresh'', ''market_data_request_reject'',
       ''market_data_snapshot_full_refresh'', ''market_data_request''] @
     metrics_of (mk_name s) LATENCY [''ping'']"

definition us_write :: "'q udp_snapshot \<Rightarrow> metric list" where
  "us_write s = metrics_of (us_name s) COUNTER [''disconnect''] @ metrics_of (us_name s) PROFILE [''parse'']"

definition ue_write :: "'q udp_events \<Rightarrow> metric list" where
  "ue_write s = metrics_of (ue_name s) COUNTER [''disconnect''] @ metrics_of (ue_name s) PROFILE [''parse'']"

text \<open>The traversal is the one of \<open>dispatch_helper\<close>.\<close>

definition gw_write :: "('q, 'y) gateway \<Rightarrow> metric list" where
  "gw_write c = rk_write (gw_rest c) @ concat (map (oe_write \<circ> snd) (gw_order_entry c)) @
     concat (map (dc_write \<circ> snd) (gw_drop_copy c)) @ concat (map wk_write (gw_web_socket c)) @
     concat (map mk_write (gw_market_data c)) @
     (case gw_udp_snapshot c of Some s \<Rightarrow> us_write s | None \<Rightarrow> []) @
     (case gw_udp_events c of Some s \<Rightarrow> ue_write s | None \<Rightarrow> [])"

section \<open>Facts\<close>

definition metric_key :: "metric \<Rightarrow> string \<times> string" where
  "metric_key = (\<lambda>(nm, f, t). (nm, f))"

text \<open>The identifier that a name starts with.\<close>

definition name_id :: "string \<Rightarrow> nat" where
  "name_id nm = read_nat_from 0 (takeWhile (\<lambda>c. c \<noteq> CHR '':'') nm)"

lemma name_id_names [simp]:
  "name_id (stream_name i nm) = unat i" "name_id (account_stream_name i nm a) = unat i"
proof -
  have "CHR '':'' \<notin> set (show_nat n)" for n
  proof
    assume "CHR '':'' \<in> set (show_nat n)"
    then obtain d where "d < 10" "CHR '':'' = digit d" using show_nat_digits by blast
    from arg_cong [OF this(2), of "of_char :: char \<Rightarrow> nat"] \<open>d < 10\<close> show False by simp
  qed
  then have "takeWhile (\<lambda>c. c \<noteq> CHR '':'') (show_nat n @ CHR '':'' # s) = show_nat n" for n s
    by (subst takeWhile_append2) auto
  then show "name_id (stream_name i nm) = unat i" "name_id (account_stream_name i nm a) = unat i"
    by (simp_all add: name_id_def stream_name_def account_stream_name_def read_show_nat)
qed

text \<open>The metrics of one stream are different, and their group starts with its identifier.\<close>

definition group_ok :: "uint16 \<Rightarrow> metric list \<Rightarrow> bool" where
  "group_ok i ms \<longleftrightarrow> distinct (map metric_key ms) \<and> (\<forall>m\<in>set ms. name_id (fst m) = unat i)"

lemma group_ok_writes [simp]:
  "group_ok (rk_stream_id s1) (rk_write s1)" "group_ok (oe_stream_id s2) (oe_write s2)"
  "group_ok (dc_stream_id s3) (dc_write s3)" "group_ok (wk_stream_id s4) (wk_write s4)"
  "group_ok (mk_stream_id s5) (mk_write s5)" "group_ok (us_stream_id s6) (us_write s6)"
  "group_ok (ue_stream_id s7) (ue_write s7)"
  by (auto simp: group_ok_def metric_key_def metrics_of_def rk_write_def oe_write_def dc_write_def wk_write_def
      mk_write_def us_write_def ue_write_def rk_name_def oe_name_def dc_name_def wk_name_def mk_name_def us_name_def
      ue_name_def)

lemma groups_distinct:
  assumes "list_all2 group_ok is mss" and "distinct is"
  shows "distinct (map metric_key (concat mss))"
  using assms
proof (induction rule: list_all2_induct)
  case (Cons i "is" ms mss)
  have "name_id (fst m) \<noteq> unat i" if "m \<in> set (concat mss)" for m
  proof -
    from that obtain k where k: "k < length mss" "m \<in> set (mss ! k)"
      by (auto simp: in_set_conv_nth [of _ mss])
    with Cons(2) have "name_id (fst m) = unat (is ! k)" "k < length is"
      by (auto simp: list_all2_conv_all_nth group_ok_def)
    with Cons(4) show ?thesis by (metis distinct.simps(2) nth_mem word_unat_eq_iff)
  qed
  with Cons show ?case
    by (force simp: group_ok_def metric_key_def)
qed simp

definition gw_groups :: "('q, 'y) gateway \<Rightarrow> metric list list" where
  "gw_groups c = rk_write (gw_rest c) # map (oe_write \<circ> snd) (gw_order_entry c) @
     map (dc_write \<circ> snd) (gw_drop_copy c) @ map wk_write (gw_web_socket c) @ map mk_write (gw_market_data c) @
     map us_write (case gw_udp_snapshot c of Some s \<Rightarrow> [s] | None \<Rightarrow> []) @
     map ue_write (case gw_udp_events c of Some s \<Rightarrow> [s] | None \<Rightarrow> [])"

lemma gw_write_groups: "gw_write c = concat (gw_groups c)"
  by (simp add: gw_write_def gw_groups_def split: option.split)

lemma gw_groups_ok: "list_all2 group_ok (gw_ids c) (gw_groups c)"
  unfolding gw_ids_def gw_groups_def
  by (auto intro!: list_all2_appendI simp: list_all2_map1 list_all2_map2 list_all2_same)

section \<open>Properties\<close>

text \<open>
  C40: no two metrics that a running gateway writes have the same stream and function, whatever
  the names of the accounts are, as long as fewer than 65536 stream identifiers have been taken.
\<close>

theorem metrics_distinct:
  assumes "iteration_ok it" "gw_create gl it st cfg = Inr c0" "(gw_step gl)\<^sup>*\<^sup>* c0 c" "issued c < 2 ^ 16"
  shows "distinct (map metric_key (gw_write c))"
  unfolding gw_write_groups
  using groups_distinct [OF gw_groups_ok] gw_ids_distinct [OF assms] by blast

text \<open>The profile of the position reports is created but not written.\<close>

lemma position_report_not_written:
  "set (oe_write s) = set (oe_created s) - {(oe_name s, ''position_report'', PROFILE)}"
  by (auto simp: oe_write_def oe_created_def metrics_of_def)

theorem metrics_distinct_witness:
  "\<exists>cfg c. demo_config = Inr cfg \<and> gw_create demo_gateway_lib demo_iteration default_settings cfg = Inr c \<and>
     distinct (map metric_key (gw_write (gw_control Action_ENABLE c)))"
proof -
  obtain cfg c where c: "demo_config = Inr cfg" "gw_create demo_gateway_lib demo_iteration default_settings cfg = Inr c"
    and n: "issued c = 7"
    using demo_gateway by blast
  have "iteration_ok demo_iteration" by (simp add: iteration_ok_def visits_all_def demo_iteration_def)
  moreover have "issued (gw_control Action_ENABLE c) < 2 ^ 16"
    using n by (simp add: gw_control_def gw_emit_def issued_def)
  ultimately show ?thesis using metrics_distinct [OF _ c(2) demo_enable] c by blast
qed

end
