(* ===== verification/Gateway_Connections.thy ===== *)
theory Gateway_Connections
  imports Gateway_Metrics
begin

text \<open>
  The connections of the streams: what \<open>create_connection\<close>, \<open>create_connection_factory\<close> and
  \<open>create_connection_manager\<close> of \<open>gateway/order_entry.cpp\<close>, \<open>gateway/market_data.cpp\<close>,
  \<open>gateway/drop_copy.cpp\<close>, \<open>gateway/web_socket.cpp\<close> and \<open>gateway/rest.cpp\<close> hand over to the
  framework. The objects that the framework makes of it are the parameters of the streams. An
  address is its text, and a field that the code initialises with \<open>{}\<close> is empty or zero.
\<close>

text \<open>The flags that are used, by group and name (\<open>flags/*.json\<close> and those of the server).\<close>

record connection_settings =
  fix_uri :: string
  ws_uri :: string
  ws_host :: string
  ws_ping_freq :: nanoseconds
  rest_uri :: string
  rest_host :: string
  rest_proxy :: string
  rest_ping_freq :: nanoseconds
  rest_ping_path :: string
  rest_request_timeout :: nanoseconds
  misc_test_local_interface :: string
  misc_decode_buffer_size :: nat
  misc_encode_buffer_size :: nat
  net_tls_validate_certificate :: bool
  net_connection_timeout :: nanoseconds
  net_disconnect_on_idle_timeout :: nanoseconds

definition package_name :: string where
  "package_name = ''roq-deribit''"

section \<open>FIX\<close>

text \<open>\<open>io::net::ConnectionFactory::Config\<close> and \<open>io::net::ConnectionManager::Config\<close>.\<close>

record factory_config =
  nf_interface :: string
  nf_uris :: "string list"
  nf_validate_certificate :: bool

record manager_config =
  nm_connection_timeout :: nanoseconds
  nm_disconnect_on_idle_timeout :: nanoseconds
  nm_always_reconnect :: bool

definition oe_create_connection_factory :: "connection_settings \<Rightarrow> factory_config" where
  "oe_create_connection_factory st =
     \<lparr>nf_interface = misc_test_local_interface st, nf_uris = [fix_uri st],
      nf_validate_certificate = net_tls_validate_certificate st\<rparr>"

definition oe_create_connection_manager :: "connection_settings \<Rightarrow> manager_config" where
  "oe_create_connection_manager st =
     \<lparr>nm_connection_timeout = net_connection_timeout st, nm_disconnect_on_idle_timeout = 0, nm_always_reconnect = True\<rparr>"

definition mk_create_connection_factory :: "connection_settings \<Rightarrow> factory_config" where
  "mk_create_connection_factory st =
     \<lparr>nf_interface = misc_test_local_interface st, nf_uris = [fix_uri st],
      nf_validate_certificate = net_tls_validate_certificate st\<rparr>"

definition mk_create_connection_manager :: "connection_settings \<Rightarrow> manager_config" where
  "mk_create_connection_manager st =
     \<lparr>nm_connection_timeout = net_connection_timeout st,
      nm_disconnect_on_idle_timeout = net_disconnect_on_idle_timeout st, nm_always_reconnect = True\<rparr>"

section \<open>Web sockets\<close>

text \<open>\<open>web::socket::Client::Config\<close>, and the query that the callback gives for the first request.\<close>

record socket_config =
  wc_interface :: string
  wc_uris :: "string list"
  wc_host :: string
  wc_validate_certificate :: bool
  wc_connection_timeout :: nanoseconds
  wc_disconnect_on_idle_timeout :: nanoseconds
  wc_always_reconnect :: bool
  wc_proxy :: string
  wc_user_agent :: string
  wc_request_timeout :: nanoseconds
  wc_ping_frequency :: nanoseconds
  wc_decode_buffer_size :: nat
  wc_encode_buffer_size :: nat
  wc_query :: string

definition dc_create_connection :: "connection_settings \<Rightarrow> socket_config" where
  "dc_create_connection st =
     \<lparr>wc_interface = misc_test_local_interface st, wc_uris = [ws_uri st], wc_host = ws_host st,
      wc_validate_certificate = net_tls_validate_certificate st,
      wc_connection_timeout = net_connection_timeout st, wc_disconnect_on_idle_timeout = 0,
      wc_always_reconnect = True, wc_proxy = [], wc_user_agent = package_name, wc_request_timeout = 0,
      wc_ping_frequency = ws_ping_freq st, wc_decode_buffer_size = misc_decode_buffer_size st,
      wc_encode_buffer_size = misc_encode_buffer_size st, wc_query = []\<rparr>"

definition wk_create_connection :: "connection_settings \<Rightarrow> socket_config" where
  "wk_create_connection st =
     \<lparr>wc_interface = misc_test_local_interface st, wc_uris = [ws_uri st], wc_host = ws_host st,
      wc_validate_certificate = net_tls_validate_certificate st,
      wc_connection_timeout = net_connection_timeout st,
      wc_disconnect_on_idle_timeout = net_disconnect_on_idle_timeout st,
      wc_always_reconnect = True, wc_proxy = [], wc_user_agent = package_name, wc_request_timeout = 0,
      wc_ping_frequency = ws_ping_freq st, wc_decode_buffer_size = misc_decode_buffer_size st,
      wc_encode_buffer_size = misc_encode_buffer_size st, wc_query = []\<rparr>"

section \<open>REST\<close>

text \<open>\<open>web::rest::Client::Config\<close>.\<close>

datatype http_connection = KEEP_ALIVE

record rest_config =
  rc_interface :: string
  rc_proxy :: string
  rc_uris :: "string list"
  rc_host :: string
  rc_validate_certificate :: bool
  rc_connection_timeout :: nanoseconds
  rc_disconnect_on_idle_timeout :: nanoseconds
  rc_connection :: http_connection
  rc_allow_pipelining :: bool
  rc_request_timeout :: nanoseconds
  rc_suspend_on_retry_after :: nanoseconds
  rc_query :: string
  rc_user_agent :: string
  rc_ping_frequency :: nanoseconds
  rc_ping_path :: string
  rc_decode_buffer_size :: nat
  rc_encode_buffer_size :: nat

definition rk_create_connection :: "connection_settings \<Rightarrow> rest_config" where
  "rk_create_connection st =
     \<lparr>rc_interface = [], rc_proxy = rest_proxy st, rc_uris = [rest_uri st], rc_host = rest_host st,
      rc_validate_certificate = net_tls_validate_certificate st, rc_connection_timeout = 0,
      rc_disconnect_on_idle_timeout = 0, rc_connection = KEEP_ALIVE, rc_allow_pipelining = True,
      rc_request_timeout = rest_request_timeout st, rc_suspend_on_retry_after = 0, rc_query = [],
      rc_user_agent = package_name, rc_ping_frequency = rest_ping_freq st, rc_ping_path = rest_ping_path st,
      rc_decode_buffer_size = misc_decode_buffer_size st, rc_encode_buffer_size = misc_encode_buffer_size st\<rparr>"

section \<open>The connections of a gateway\<close>

datatype connection =
  Fix_Connection factory_config manager_config
| Socket_Client socket_config
| Rest_Client rest_config

text \<open>The connections with the names of their streams, those of the accounts and the public ones.\<close>

definition account_connections :: "connection_settings \<Rightarrow> ('q, 'y) gateway \<Rightarrow> (string \<times> connection) list" where
  "account_connections st c =
     map (\<lambda>s. (oe_name s, Fix_Connection (oe_create_connection_factory st) (oe_create_connection_manager st)))
       (map snd (gw_order_entry c)) @
     map (\<lambda>s. (dc_name s, Socket_Client (dc_create_connection st))) (map snd (gw_drop_copy c))"

definition public_connections :: "connection_settings \<Rightarrow> ('q, 'y) gateway \<Rightarrow> (string \<times> connection) list" where
  "public_connections st c =
     (rk_name (gw_rest c), Rest_Client (rk_create_connection st)) #
     map (\<lambda>s. (wk_name s, Socket_Client (wk_create_connection st))) (gw_web_socket c) @
     map (\<lambda>s. (mk_name s, Fix_Connection (mk_create_connection_factory st) (mk_create_connection_manager st)))
       (gw_market_data c)"

fun idle_timeout :: "connection \<Rightarrow> nanoseconds" where
  "idle_timeout (Fix_Connection f m) = nm_disconnect_on_idle_timeout m"
| "idle_timeout (Socket_Client w) = wc_disconnect_on_idle_timeout w"
| "idle_timeout (Rest_Client r) = rc_disconnect_on_idle_timeout r"

fun validates :: "connection \<Rightarrow> bool" where
  "validates (Fix_Connection f m) = nf_validate_certificate f"
| "validates (Socket_Client w) = wc_validate_certificate w"
| "validates (Rest_Client r) = rc_validate_certificate r"

lemmas connection_defs =
  account_connections_def public_connections_def oe_create_connection_factory_def oe_create_connection_manager_def
  mk_create_connection_factory_def mk_create_connection_manager_def dc_create_connection_def
  wk_create_connection_def rk_create_connection_def

text \<open>
  The connections of an account are never closed because they are idle, of the public ones only
  those that stream market data; every connection checks the certificate when it is told to.
\<close>

lemma account_connections_kept:
  "(nm, k) \<in> set (account_connections st c) \<Longrightarrow> idle_timeout k = 0"
  by (auto simp: connection_defs)

lemma public_connections_idle:
  "(nm, k) \<in> set (public_connections st c) \<Longrightarrow>
   idle_timeout k = (if nm = rk_name (gw_rest c) \<and> (\<exists>r. k = Rest_Client r) then 0 else net_disconnect_on_idle_timeout st)"
  by (auto simp: connection_defs)

lemma certificates_validated:
  "(nm, k) \<in> set (account_connections st c @ public_connections st c) \<Longrightarrow> validates k = net_tls_validate_certificate st"
  by (auto simp: connection_defs)

text \<open>In a running gateway no two connections have the same name.\<close>

lemma connection_ids:
  "map (name_id \<circ> fst) (account_connections st c @ public_connections st c) =
   map unat (map (oe_stream_id \<circ> snd) (gw_order_entry c) @ map (dc_stream_id \<circ> snd) (gw_drop_copy c) @
     rk_stream_id (gw_rest c) # map wk_stream_id (gw_web_socket c) @ map mk_stream_id (gw_market_data c))"
  by (simp add: connection_defs oe_name_def dc_name_def rk_name_def wk_name_def mk_name_def)

lemma distinct_reordered: "distinct (r # a @ b @ w @ m @ x @ y) \<Longrightarrow> distinct (a @ b @ r # w @ m)"
  by auto

lemma connections_distinct:
  assumes "iteration_ok it" "gw_create gl it cs cfg = Inr c0" "(gw_step gl)\<^sup>*\<^sup>* c0 c" "issued c < 2 ^ 16"
  shows "distinct (map fst (account_connections st c @ public_connections st c))"
proof -
  have "distinct (map (oe_stream_id \<circ> snd) (gw_order_entry c) @ map (dc_stream_id \<circ> snd) (gw_drop_copy c) @
     rk_stream_id (gw_rest c) # map wk_stream_id (gw_web_socket c) @ map mk_stream_id (gw_market_data c))"
    using gw_ids_distinct [OF assms, THEN conjunct1] unfolding gw_ids_def by (rule distinct_reordered)
  then have "distinct (map (name_id \<circ> fst) (account_connections st c @ public_connections st c))"
    unfolding connection_ids by (subst distinct_map) (auto simp: inj_on_def word_unat_eq_iff)
  then show ?thesis unfolding map_map [symmetric] by (simp only: distinct_map)
qed

end
