(* ===== verification/Strategy.thy ===== *)
theory Strategy
  imports Oms_Types
begin

text \<open>
  The test strategy (\<open>strategy/controller.cpp\<close>): it waits for the gateway, sends one order, waits
  for its answer, cancels the order and stops; a timer drives the states. The dispatcher
  \<open>server::Strategy\<close> belongs to the framework: calls on it are recorded, what it hands over
  during a call is an argument of the operation that makes the call. \<open>strategy_lib\<close> holds the
  number of \<open>OrderType::LIMIT\<close> and the two tests of a request status (\<open>utils/common.hpp\<close>).
\<close>

section \<open>State\<close>

datatype strategy_state =
    SG_UNDEFINED | SG_READY | SG_CREATE_ORDER | SG_WAITING_CREATE | SG_WORKING
  | SG_CANCEL_ORDER | SG_WAITING_CANCEL | SG_DONE

record strategy_create =
  sc_account :: string
  sc_order_id :: uint64
  sc_exchange :: string
  sc_symbol :: string
  sc_side :: side
  sc_max_show_quantity :: double
  sc_order_type :: order_type
  sc_time_in_force :: time_in_force
  sc_quantity :: double
  sc_price :: double
  sc_stop_price :: double
  sc_leverage :: double

record strategy_cancel =
  sx_account :: string
  sx_order_id :: uint64

datatype strategy_call =
    SG_Start | SG_Stop | SG_Dispatch | SG_Yield
  | SG_Create strategy_create | SG_Cancel strategy_cancel

record strategy =
  sg_state :: strategy_state
  sg_next_update :: nanoseconds
  sg_max_order_id :: uint64
  sg_order_id :: uint64
  sg_out :: "strategy_call list"

record strategy_lib =
  sl_limit :: order_type
  sl_maybe_completed :: "request_status \<Rightarrow> bool"
  sl_failed :: "request_status \<Rightarrow> bool"

definition sg_init :: strategy where
  "sg_init = \<lparr>sg_state = SG_UNDEFINED, sg_next_update = 0, sg_max_order_id = 0, sg_order_id = 0,
     sg_out = []\<rparr>"

definition sg_emit :: "strategy_call \<Rightarrow> strategy \<Rightarrow> strategy" where
  "sg_emit c s = s\<lparr>sg_out := sg_out s @ [c]\<rparr>"

section \<open>Constants\<close>

definition yield_frequency :: nanoseconds where
  "yield_frequency = 100000000"

definition dispatch_this_many :: nat where
  "dispatch_this_many = 1000"

definition wait_this_long :: nanoseconds where
  "wait_this_long = 3000000000"

definition sg_account :: string where "sg_account = ''A1''"
definition sg_exchange :: string where "sg_exchange = ''deribit''"
definition sg_symbol :: string where "sg_symbol = ''BTC-PERPETUAL''"
definition sg_quantity :: double where "sg_quantity = f_one"
definition sg_price :: double where "sg_price = 0x40F86A0000000000"

text \<open>The price is 1.52587890625 times two to the power of 16.\<close>

lemma sg_price_value: "f_exp sg_price = 1023 + 16" "(2 ^ 52 + f_frac sg_price) * 2 ^ 16 = 100000 * 2 ^ 52"
  by (simp_all add: sg_price_def f_exp_def f_frac_def f_mag_def)

section \<open>Events\<close>

text \<open>
  An event of the dispatcher or a signal; of the messages the strategy reacts to, with the
  time that \<open>clock::get_system\<close> returns where the handler changes the state.
\<close>

datatype strategy_event =
    SE_HandshakeAck | SE_Control | SE_DownloadBegin | SE_DownloadEnd uint64 | SE_Ready nanoseconds
  | SE_GatewaySettings | SE_StreamStatus | SE_GatewayStatus | SE_ExternalLatency
  | SE_RateLimitsUpdate | SE_RateLimitTrigger | SE_ReferenceData | SE_MarketStatus
  | SE_MarketSegmentStatus | SE_TopOfBook | SE_MarketByPriceUpdate | SE_MarketByOrderUpdate
  | SE_TradeSummary | SE_StatisticsUpdate | SE_TimeSeriesUpdate | SE_CancelAllOrdersAck
  | SE_OrderAck nanoseconds request_type request_status
  | SE_OrderUpdate | SE_TradeUpdate | SE_PositionUpdate | SE_FundsUpdate
  | SE_Signal

definition sg_set_state :: "nanoseconds \<Rightarrow> strategy_state \<Rightarrow> strategy \<Rightarrow> strategy" where
  "sg_set_state now st s = s\<lparr>sg_state := st, sg_next_update := now + wait_this_long\<rparr>"

definition sg_download_end :: "uint64 \<Rightarrow> strategy \<Rightarrow> strategy" where
  "sg_download_end max_order_id s =
     (if sg_max_order_id s < max_order_id then s\<lparr>sg_max_order_id := max_order_id\<rparr> else s)"

definition sg_order_ack ::
    "strategy_lib \<Rightarrow> nanoseconds \<Rightarrow> request_type \<Rightarrow> request_status \<Rightarrow> strategy \<Rightarrow> strategy result" where
  "sg_order_ack x now rt rs s =
     (if \<not> sl_maybe_completed x rs then Inr s
      else if sl_failed x rs then Inr (sg_set_state now SG_DONE s)
      else case rt of
        RequestType_UNDEFINED \<Rightarrow> Inl (Fatal ''Unexpected'')
      | CREATE_ORDER \<Rightarrow> Inr (sg_set_state now SG_WORKING s)
      | MODIFY_ORDER \<Rightarrow> Inl (Fatal ''Unexpected'')
      | CANCEL_ORDER \<Rightarrow> Inr (sg_set_state now SG_DONE s))"

fun sg_handle :: "strategy_lib \<Rightarrow> strategy_event \<Rightarrow> strategy \<Rightarrow> strategy result" where
  "sg_handle x (SE_DownloadEnd m) s = Inr (sg_download_end m s)"
| "sg_handle x (SE_Ready now) s = Inr (sg_set_state now SG_READY s)"
| "sg_handle x (SE_OrderAck now rt rs) s = sg_order_ack x now rt rs s"
| "sg_handle x SE_Signal s = Inr (sg_emit SG_Stop s)"
| "sg_handle x _ s = Inr s"

section \<open>Requests\<close>

text \<open>What \<open>send\<close> does: the events the dispatcher hands over meanwhile, and whether it throws.\<close>

record send_reply =
  sr_events :: "strategy_event list"
  sr_not_ready :: bool

definition sg_send ::
    "strategy_lib \<Rightarrow> strategy_call \<Rightarrow> send_reply \<Rightarrow> strategy \<Rightarrow> strategy result" where
  "sg_send x c r s =
     andthen (foldr_result (sg_handle x) (sr_events r) (sg_emit c s))
       (\<lambda>t. if sr_not_ready r then Inl (Fatal ''NotReady'') else Inr t)"

definition sg_create_order :: "strategy_lib \<Rightarrow> send_reply \<Rightarrow> strategy \<Rightarrow> strategy result" where
  "sg_create_order x r s =
     (let m = sg_max_order_id s + 1;
          create_order = \<lparr>sc_account = sg_account, sc_order_id = m, sc_exchange = sg_exchange,
            sc_symbol = sg_symbol, sc_side = Side_SELL, sc_max_show_quantity = NaN,
            sc_order_type = sl_limit x, sc_time_in_force = TimeInForce_GTC,
            sc_quantity = sg_quantity, sc_price = sg_price, sc_stop_price = NaN,
            sc_leverage = NaN\<rparr>
      in sg_send x (SG_Create create_order) r (s\<lparr>sg_max_order_id := m, sg_order_id := m\<rparr>))"

definition sg_cancel_order :: "strategy_lib \<Rightarrow> send_reply \<Rightarrow> strategy \<Rightarrow> strategy result" where
  "sg_cancel_order x r s =
     sg_send x (SG_Cancel \<lparr>sx_account = sg_account, sx_order_id = sg_order_id s\<rparr>) r s"

text \<open>\<open>clk\<close>: the time when the state is changed, which is read again.\<close>

definition sg_refresh ::
    "strategy_lib \<Rightarrow> nanoseconds \<Rightarrow> nanoseconds \<Rightarrow> send_reply \<Rightarrow> strategy \<Rightarrow> strategy result" where
  "sg_refresh x now clk r s =
     (if now < sg_next_update s then Inr s
      else case sg_state s of
        SG_UNDEFINED \<Rightarrow> Inr s
      | SG_READY \<Rightarrow> Inr (sg_set_state clk SG_CREATE_ORDER s)
      | SG_CREATE_ORDER \<Rightarrow> sg_create_order x r (sg_set_state clk SG_WAITING_CREATE s)
      | SG_WAITING_CREATE \<Rightarrow> Inr (sg_set_state clk SG_DONE s)
      | SG_WORKING \<Rightarrow> Inr (sg_set_state clk SG_CANCEL_ORDER s)
      | SG_CANCEL_ORDER \<Rightarrow> sg_cancel_order x r (sg_set_state clk SG_WAITING_CANCEL s)
      | SG_WAITING_CANCEL \<Rightarrow> Inr (sg_set_state clk SG_DONE s)
      | SG_DONE \<Rightarrow> Inr (sg_emit SG_Stop s))"

section \<open>The loop\<close>

text \<open>
  A call of \<open>dispatch\<close> hands over events and returns whether to go on (\<open>dispatch_reply\<close>). A
  round of the loop reads the clock, refreshes, yields now and then, and calls \<open>dispatch\<close> until
  it returns false or 1000 times. The rounds are a list: the loop has no other end than a
  false \<open>dispatch\<close>, so a list that ends before is a loop that still runs. The result is the
  state, the time of the next yield, and \<open>ok\<close>.
\<close>

type_synonym dispatch_reply = "strategy_event list \<times> bool"

record dispatch_round =
  dr_now :: nanoseconds
  dr_clock :: nanoseconds
  dr_send :: send_reply
  dr_replies :: "dispatch_reply list"

fun sg_poll :: "strategy_lib \<Rightarrow> nat \<Rightarrow> dispatch_reply list \<Rightarrow> strategy \<Rightarrow> (strategy \<times> bool) result" where
  "sg_poll x 0 rs s = Inr (s, True)"
| "sg_poll x (Suc n) [] s = Inr (s, True)"
| "sg_poll x (Suc n) ((es, ok) # rs) s =
     andthen (foldr_result (sg_handle x) es (sg_emit SG_Dispatch s))
       (\<lambda>t. if ok then sg_poll x n rs t else Inr (t, False))"

definition sg_yield :: "nanoseconds \<Rightarrow> strategy \<times> nanoseconds \<Rightarrow> strategy \<times> nanoseconds" where
  "sg_yield now = (\<lambda>(s, next_yield).
     if next_yield < now \<and> yield_frequency > 0 then (sg_emit SG_Yield s, now + yield_frequency)
     else (s, next_yield))"

fun sg_loop ::
    "strategy_lib \<Rightarrow> dispatch_round list \<Rightarrow> strategy \<times> nanoseconds \<Rightarrow>
      (strategy \<times> nanoseconds \<times> bool) result" where
  "sg_loop x [] (s, ny) = Inr (s, ny, True)"
| "sg_loop x (d # ds) (s, ny) =
     andthen (sg_refresh x (dr_now d) (dr_clock d) (dr_send d) s) (\<lambda>t.
       let (t1, ny1) = sg_yield (dr_now d) (t, ny) in
       andthen (sg_poll x dispatch_this_many (dr_replies d) t1) (\<lambda>(t2, ok).
         if ok then sg_loop x ds (t2, ny1) else Inr (t2, ny1, False)))"

definition sg_dispatch :: "strategy_lib \<Rightarrow> dispatch_round list \<Rightarrow> strategy \<Rightarrow> (strategy \<times> nanoseconds \<times> bool) result" where
  "sg_dispatch x ds s = sg_loop x ds (sg_emit SG_Start s, 0)"

section \<open>Orders\<close>

definition created :: "strategy_call list \<Rightarrow> uint64 list" where
  "created cs = concat (map (\<lambda>c. case c of SG_Create co \<Rightarrow> [sc_order_id co] | _ \<Rightarrow> []) cs)"

fun is_ready_event :: "strategy_event \<Rightarrow> bool" where
  "is_ready_event (SE_Ready now) \<longleftrightarrow> True"
| "is_ready_event _ \<longleftrightarrow> False"

fun download_at_most :: "nat \<Rightarrow> strategy_event \<Rightarrow> bool" where
  "download_at_most M (SE_DownloadEnd m) \<longleftrightarrow> unat m \<le> M"
| "download_at_most M _ \<longleftrightarrow> True"

definition readies :: "strategy_event list \<Rightarrow> nat" where
  "readies es = length (filter is_ready_event es)"

definition round_events :: "dispatch_round \<Rightarrow> strategy_event list" where
  "round_events d = sr_events (dr_send d) @ concat (map fst (dr_replies d))"

definition all_events :: "dispatch_round list \<Rightarrow> strategy_event list" where
  "all_events ds = concat (map round_events ds)"

text \<open>An order that is still to be sent.\<close>

definition pending :: "strategy \<Rightarrow> nat" where
  "pending s = (if sg_state s \<in> {SG_READY, SG_CREATE_ORDER} then 1 else 0)"

text \<open>
  What a part of a run with at most \<open>n\<close> Ready events does: it sends the orders \<open>new\<close>. \<open>room\<close>
  is what the counter of the order identifiers needs for not wrapping around.
\<close>

definition room :: "nat \<Rightarrow> nat \<Rightarrow> strategy \<Rightarrow> bool" where
  "room M n s \<longleftrightarrow> max (unat (sg_max_order_id s)) M + pending s + n < 2 ^ 64"

definition issues :: "nat \<Rightarrow> nat \<Rightarrow> strategy \<Rightarrow> strategy \<Rightarrow> bool" where
  "issues M n s t \<longleftrightarrow> (\<exists>new. created (sg_out t) = created (sg_out s) @ new \<and>
     sorted_wrt (<) (sg_max_order_id s # new) \<and>
     (\<forall>i\<in>set (sg_max_order_id s # new). i \<le> sg_max_order_id t) \<and>
     unat (sg_max_order_id t) \<le> max (unat (sg_max_order_id s)) M + length new \<and>
     length new + pending t \<le> pending s + n)"

lemma readies_simps [simp]:
  "readies [] = 0"
  "readies (e # es) = (if is_ready_event e then 1 else 0) + readies es"
  "readies (es @ fs) = readies es + readies fs"
  by (simp_all add: readies_def)

lemma all_events_simps [simp]:
  "all_events [] = []"
  "all_events (d # ds) = round_events d @ all_events ds"
  by (simp_all add: all_events_def)

lemma created_emit [simp]:
  "created [] = []"
  "created (cs @ ds) = created cs @ created ds"
  "created (c # cs) = (case c of SG_Create co \<Rightarrow> [sc_order_id co] | _ \<Rightarrow> []) @ created cs"
  by (simp_all add: created_def)

lemma sg_emit_simps [simp]:
  "sg_out (sg_emit c s) = sg_out s @ [c]" "sg_state (sg_emit c s) = sg_state s"
  "sg_next_update (sg_emit c s) = sg_next_update s"
  "sg_max_order_id (sg_emit c s) = sg_max_order_id s" "sg_order_id (sg_emit c s) = sg_order_id s"
  by (simp_all add: sg_emit_def)

lemma sg_set_state_simps [simp]:
  "sg_out (sg_set_state now st s) = sg_out s" "sg_state (sg_set_state now st s) = st"
  "sg_next_update (sg_set_state now st s) = now + wait_this_long"
  "sg_max_order_id (sg_set_state now st s) = sg_max_order_id s"
  "sg_order_id (sg_set_state now st s) = sg_order_id s"
  by (simp_all add: sg_set_state_def)

lemma issues_room: "issues M n s t \<Longrightarrow> room M (n + k) s \<Longrightarrow> room M k t"
  unfolding issues_def room_def by auto

lemma issues_trans:
  assumes "issues M n s t" and "issues M k t u"
  shows "issues M (n + k) s u"
proof -
  from assms(1) obtain a where a: "created (sg_out t) = created (sg_out s) @ a"
      "sorted_wrt (<) (sg_max_order_id s # a)"
      "\<forall>i\<in>set (sg_max_order_id s # a). i \<le> sg_max_order_id t"
      "unat (sg_max_order_id t) \<le> max (unat (sg_max_order_id s)) M + length a"
      "length a + pending t \<le> pending s + n"
    unfolding issues_def by blast
  from assms(2) obtain b where b: "created (sg_out u) = created (sg_out t) @ b"
      "sorted_wrt (<) (sg_max_order_id t # b)"
      "\<forall>i\<in>set (sg_max_order_id t # b). i \<le> sg_max_order_id u"
      "unat (sg_max_order_id u) \<le> max (unat (sg_max_order_id t)) M + length b"
      "length b + pending u \<le> pending t + k"
    unfolding issues_def by blast
  have "sorted_wrt (<) (sg_max_order_id s # a @ b)"
    using a(2,3) b(2) by (fastforce simp: sorted_wrt_append)
  moreover have "\<forall>i\<in>set (sg_max_order_id s # a @ b). i \<le> sg_max_order_id u"
    using a(3) b(3) by fastforce
  ultimately show ?thesis
    using a(1,4,5) b(1,4,5) unfolding issues_def by (intro exI [of _ "a @ b"]) auto
qed

lemma issues_quiet:
  assumes "created (sg_out t) = created (sg_out s)" and "sg_max_order_id t = sg_max_order_id s"
    and "pending t \<le> pending s + n"
  shows "issues M n s t"
  using assms unfolding issues_def by (intro exI [of _ "[]"]) auto

lemma issues_refl [simp]: "issues M 0 s s"
  by (simp add: issues_quiet)

lemma issues_emit: "(\<And>co. c \<noteq> SG_Create co) \<Longrightarrow> issues M 0 s (sg_emit c s)"
  by (rule issues_quiet) (auto simp: pending_def split: strategy_call.splits)

lemma sg_handle_issues:
  assumes "sg_handle x e s = Inr t" and "download_at_most M e"
  shows "issues M (readies [e]) s t"
proof (cases "\<exists>m. e = SE_DownloadEnd m \<and> sg_max_order_id s < m")
  case True
  then obtain m where "e = SE_DownloadEnd m" "sg_max_order_id s < m" by blast
  with assms show ?thesis
    unfolding issues_def by (intro exI [of _ "[]"]) (auto simp: sg_download_end_def pending_def)
next
  case False
  with assms have "created (sg_out t) = created (sg_out s) \<and> sg_max_order_id t = sg_max_order_id s \<and>
      pending t \<le> pending s + readies [e]"
    by (cases e) (auto simp: sg_download_end_def sg_order_ack_def pending_def
        split: if_splits request_type.splits)
  then show ?thesis by (blast intro: issues_quiet)
qed

lemma sg_handles_issues:
  assumes "foldr_result (sg_handle x) es s = Inr t" and "list_all (download_at_most M) es"
  shows "issues M (readies es) s t"
  using assms
proof (induction es arbitrary: s)
  case Nil
  then show ?case by (simp add: issues_quiet)
next
  case (Cons e es)
  then obtain u where "sg_handle x e s = Inr u" "foldr_result (sg_handle x) es u = Inr t"
    by (auto simp: andthen_eq_Inr)
  with Cons show ?case
    using issues_trans [OF sg_handle_issues [of x e s u M] Cons.IH [of u]] by simp
qed

lemma sg_send_events:
  assumes "sg_send x c r s = Inr t"
  shows "foldr_result (sg_handle x) (sr_events r) (sg_emit c s) = Inr t" "\<not> sr_not_ready r"
  using assms by (auto simp: sg_send_def andthen_eq_Inr split: if_splits)

lemma sg_refresh_issues:
  assumes "sg_refresh x now clk r s = Inr t" and "list_all (download_at_most M) (sr_events r)"
    and "room M (readies (sr_events r)) s"
  shows "issues M (readies (sr_events r)) s t"
proof -
  let ?n = "readies (sr_events r)"
  let ?m = "sg_max_order_id s + 1"
  consider (create) u where "sg_state s = SG_CREATE_ORDER" "\<not> now < sg_next_update s"
      "foldr_result (sg_handle x) (sr_events r) u = Inr t"
      "created (sg_out u) = created (sg_out s) @ [?m]" "sg_max_order_id u = ?m" "pending u = 0"
    | (cancel) u where "sg_state s = SG_CANCEL_ORDER"
      "foldr_result (sg_handle x) (sr_events r) u = Inr t"
      "created (sg_out u) = created (sg_out s)" "sg_max_order_id u = sg_max_order_id s" "pending u = 0"
    | (other) "created (sg_out t) = created (sg_out s)" "sg_max_order_id t = sg_max_order_id s"
      "pending t \<le> pending s"
  proof (cases "now < sg_next_update s \<or> sg_state s \<notin> {SG_CREATE_ORDER, SG_CANCEL_ORDER}")
    case True
    with assms(1) show ?thesis
      by (intro other) (auto simp: sg_refresh_def pending_def split: if_splits strategy_state.splits)
  next
    case False
    then consider "sg_state s = SG_CREATE_ORDER" | "sg_state s = SG_CANCEL_ORDER" by blast
    then show ?thesis
    proof cases
      case 1
      with False assms(1) show ?thesis
        by (intro create [OF _ _ sg_send_events(1)])
          (auto simp: sg_refresh_def sg_create_order_def Let_def pending_def)
    next
      case 2
      with False assms(1) show ?thesis
        by (intro cancel [OF _ sg_send_events(1) [where s = "sg_set_state clk SG_WAITING_CANCEL s"]])
          (auto simp: sg_refresh_def sg_cancel_order_def pending_def)
    qed
  qed
  then show ?thesis
  proof cases
    case create
    then have "pending s = 1" by (simp add: pending_def)
    with assms(3) have "unat ?m = unat (sg_max_order_id s) + 1"
      unfolding room_def by (simp add: unat_word_ariths(1))
    then have "sg_max_order_id s < ?m" by (simp add: word_less_nat_alt)
    then have "issues M 0 s u"
      using create \<open>pending s = 1\<close> \<open>unat ?m = _\<close> unfolding issues_def
      by (intro exI [of _ "[?m]"]) auto
    with create(3) assms(2) show ?thesis
      using issues_trans [OF _ sg_handles_issues, of M 0 s u x "sr_events r" t] by simp
  next
    case cancel
    then have "issues M 0 s u" by (intro issues_quiet) (auto simp: pending_def)
    with cancel(2) assms(2) show ?thesis
      using issues_trans [OF _ sg_handles_issues, of M 0 s u x "sr_events r" t] by simp
  next
    case other
    then show ?thesis by (intro issues_quiet) auto
  qed
qed


lemma sg_poll_issues:
  assumes "sg_poll x n rs s = Inr (t, ok)" and "list_all (download_at_most M) (concat (map fst rs))"
  shows "\<exists>k\<le>readies (concat (map fst rs)). issues M k s t"
  using assms
proof (induction x n rs s rule: sg_poll.induct)
  case (3 x n es ok' rs s)
  then obtain u where u: "foldr_result (sg_handle x) es (sg_emit SG_Dispatch s) = Inr u"
      "(if ok' then sg_poll x n rs u else Inr (u, False)) = Inr (t, ok)"
    by (auto simp: andthen_eq_Inr)
  have su: "issues M (readies es) s u"
    using issues_trans [OF issues_emit sg_handles_issues, OF _ u(1)] 3(3) by simp
  show ?case
  proof (cases ok')
    case True
    with u 3 obtain k where "k \<le> readies (concat (map fst rs))" "issues M k u t" by auto
    with issues_trans [OF su] show ?thesis
      by (intro exI [of _ "readies es + k"]) auto
  next
    case False
    with u su show ?thesis by (intro exI [of _ "readies es"]) auto
  qed
qed (auto intro: exI [of _ 0])

lemma sg_loop_issues:
  assumes "sg_loop x ds (s, ny) = Inr (t, ny', ok)" and "list_all (download_at_most M) (all_events ds)"
    and "room M (readies (all_events ds)) s"
  shows "\<exists>k\<le>readies (all_events ds). issues M k s t"
  using assms
proof (induction ds arbitrary: s ny)
  case Nil
  then show ?case by simp
next
  case (Cons d ds)
  obtain u where u: "sg_refresh x (dr_now d) (dr_clock d) (dr_send d) s = Inr u"
    using Cons.prems(1) by (auto simp: andthen_eq_Inr)
  obtain v ny1 where v: "sg_yield (dr_now d) (u, ny) = (v, ny1)" by (meson surj_pair)
  obtain w ok1 where w: "sg_poll x dispatch_this_many (dr_replies d) v = Inr (w, ok1)"
      "(if ok1 then sg_loop x ds (w, ny1) else Inr (w, ny1, False)) = Inr (t, ny', ok)"
    using Cons.prems(1) u v by (auto simp: andthen_eq_Inr)
  let ?a = "readies (sr_events (dr_send d))" and ?b = "readies (concat (map fst (dr_replies d)))"
  have su: "issues M ?a s u"
    using sg_refresh_issues [OF u] Cons.prems(2,3) by (auto simp: round_events_def room_def)
  have "issues M 0 u v" using v by (auto simp: sg_yield_def issues_emit issues_quiet split: if_splits)
  with su have sv: "issues M ?a s v" using issues_trans by fastforce
  obtain k where k: "k \<le> ?b" "issues M k v w"
    using sg_poll_issues [OF w(1), of M] Cons.prems(2) by (auto simp: round_events_def)
  have sw: "issues M (?a + k) s w" using issues_trans [OF sv k(2)] .
  show ?case
  proof (cases ok1)
    case True
    have "room M (readies (all_events ds)) w"
      using issues_room [OF sw] Cons.prems(3) k(1) by (auto simp: room_def round_events_def)
    with True w Cons.prems(2) obtain j where "j \<le> readies (all_events ds)" "issues M j w t"
      using Cons.IH [of w ny1] by auto
    with issues_trans [OF sw] k(1) show ?thesis
      by (intro exI [of _ "?a + k + j"]) (auto simp: round_events_def)
  next
    case False
    with w(2) sw k(1) show ?thesis
      by (intro exI [of _ "?a + k"]) (auto simp: round_events_def)
  qed
qed

section \<open>Time\<close>

text \<open>
  Events that the strategy does not react to by a new state or the end of the process, and a
  round with such events only. \<open>paced g u ds\<close>: from the time \<open>u\<close> on the clock is read at least
  every \<open>g\<close> nanoseconds and does not go back.
\<close>

fun is_quiet :: "strategy_event \<Rightarrow> bool" where
  "is_quiet (SE_Ready now) \<longleftrightarrow> False"
| "is_quiet (SE_OrderAck now rt rs) \<longleftrightarrow> False"
| "is_quiet _ \<longleftrightarrow> True"

definition quiet_round :: "dispatch_round \<Rightarrow> bool" where
  "quiet_round d \<longleftrightarrow> \<not> sr_not_ready (dr_send d) \<and> list_all is_quiet (round_events d) \<and>
     list_all snd (dr_replies d)"

fun paced :: "nanoseconds \<Rightarrow> nanoseconds \<Rightarrow> dispatch_round list \<Rightarrow> bool" where
  "paced g u [] \<longleftrightarrow> True"
| "paced g u (d # ds) \<longleftrightarrow> u \<le> dr_now d \<and> dr_now d \<le> u + g \<and>
     dr_now d \<le> dr_clock d \<and> dr_clock d \<le> dr_now d + g \<and> paced g (dr_now d) ds"

fun last_time :: "nanoseconds \<Rightarrow> dispatch_round list \<Rightarrow> nanoseconds" where
  "last_time u [] = u"
| "last_time u (d # ds) = last_time (dr_now d) ds"

text \<open>The number of changes of the state until the end, and a time by which it is reached.\<close>

fun remaining :: "strategy_state \<Rightarrow> int" where
  "remaining SG_UNDEFINED = 5"
| "remaining SG_READY = 4"
| "remaining SG_CREATE_ORDER = 3"
| "remaining SG_WAITING_CREATE = 2"
| "remaining SG_WORKING = 4"
| "remaining SG_CANCEL_ORDER = 3"
| "remaining SG_WAITING_CANCEL = 2"
| "remaining SG_DONE = 1"

definition deadline :: "nanoseconds \<Rightarrow> nanoseconds \<Rightarrow> strategy \<Rightarrow> nanoseconds" where
  "deadline g u s = max u (sg_next_update s) + remaining (sg_state s) * (wait_this_long + 2 * g)"

definition on_time :: "nanoseconds \<Rightarrow> nanoseconds \<Rightarrow> nanoseconds \<Rightarrow> strategy \<Rightarrow> bool" where
  "on_time g D u s \<longleftrightarrow> SG_Stop \<in> set (sg_out s) \<or> sg_state s \<noteq> SG_UNDEFINED \<and> deadline g u s \<le> D"

lemma sg_handle_quiet:
  "is_quiet e \<Longrightarrow> on_time g D u s \<Longrightarrow> \<exists>t. sg_handle x e s = Inr t \<and> on_time g D u t"
  by (cases e) (auto simp: on_time_def deadline_def sg_download_end_def)

lemma sg_handles_quiet:
  "list_all is_quiet es \<Longrightarrow> on_time g D u s \<Longrightarrow>
    \<exists>t. foldr_result (sg_handle x) es s = Inr t \<and> on_time g D u t"
proof (induction es arbitrary: s)
  case (Cons e es)
  then obtain t where "sg_handle x e s = Inr t" "on_time g D u t"
    using sg_handle_quiet by fastforce
  with Cons show ?case by simp
qed simp

lemma on_time_emit [simp]: "on_time g D u s \<Longrightarrow> on_time g D u (sg_emit c s)"
  by (auto simp: on_time_def deadline_def)

lemma sg_send_quiet:
  assumes "list_all is_quiet (sr_events r)" and "\<not> sr_not_ready r" and "on_time g D u s"
  shows "\<exists>t. sg_send x c r s = Inr t \<and> on_time g D u t"
  using sg_handles_quiet [OF assms(1), of g D u "sg_emit c s" x] assms(2,3)
  by (auto simp: sg_send_def)

lemma sg_refresh_quiet:
  assumes "list_all is_quiet (sr_events r)" and "\<not> sr_not_ready r" and "on_time g D u s"
    and "u \<le> now" "now \<le> u + g" "now \<le> clk" "clk \<le> now + g"
  shows "\<exists>t. sg_refresh x now clk r s = Inr t \<and> on_time g D now t"
proof (cases "now < sg_next_update s")
  case True
  with assms show ?thesis by (auto simp: sg_refresh_def on_time_def deadline_def)
next
  case False
  have moved: "on_time g D now t"
    if "sg_state s \<noteq> SG_UNDEFINED" "sg_state t \<noteq> SG_UNDEFINED" "set (sg_out s) \<subseteq> set (sg_out t)"
      "sg_next_update t = clk + wait_this_long" "remaining (sg_state t) = remaining (sg_state s) - 1" for t
  proof -
    have "deadline g now t = clk + wait_this_long + remaining (sg_state t) * (wait_this_long + 2 * g)"
      using that(4) assms(6) by (simp add: deadline_def wait_this_long_def)
    also have "\<dots> \<le> max u (sg_next_update s) + (remaining (sg_state t) + 1) * (wait_this_long + 2 * g)"
      using assms(5,7) by (simp add: distrib_right)
    also have "\<dots> = deadline g u s" using that(5) by (simp add: deadline_def)
    finally show ?thesis using that(1-3) assms(3) by (auto simp: on_time_def)
  qed
  show ?thesis
  proof (cases "sg_state s")
    case SG_UNDEFINED
    with assms False show ?thesis by (auto simp: sg_refresh_def on_time_def)
  next
    case SG_CREATE_ORDER
    with False assms(1,2) show ?thesis
      by (auto simp: sg_refresh_def sg_create_order_def Let_def intro!: sg_send_quiet moved)
  next
    case SG_CANCEL_ORDER
    with False assms(1,2) show ?thesis
      by (auto simp: sg_refresh_def sg_cancel_order_def intro!: sg_send_quiet moved)
  next
    case SG_DONE
    with False show ?thesis by (auto simp: sg_refresh_def on_time_def)
  qed (use False in \<open>auto simp: sg_refresh_def intro!: moved\<close>)
qed

lemma sg_poll_quiet:
  "list_all is_quiet (concat (map fst rs)) \<Longrightarrow> list_all snd rs \<Longrightarrow> on_time g D u s \<Longrightarrow>
    \<exists>t. sg_poll x n rs s = Inr (t, True) \<and> on_time g D u t"
proof (induction x n rs s rule: sg_poll.induct)
  case (3 x n es ok rs s)
  then obtain t where "foldr_result (sg_handle x) es (sg_emit SG_Dispatch s) = Inr t" "on_time g D u t"
    using sg_handles_quiet [of es g D u "sg_emit SG_Dispatch s" x] by auto
  with 3 show ?case by auto
qed auto

lemma sg_loop_quiet:
  assumes "list_all quiet_round ds" and "paced g u ds" and "on_time g D u s"
  shows "\<exists>t ny'. sg_loop x ds (s, ny) = Inr (t, ny', True) \<and> on_time g D (last_time u ds) t"
  using assms
proof (induction ds arbitrary: s ny u)
  case (Cons d ds)
  from Cons.prems have d: "\<not> sr_not_ready (dr_send d)" "list_all is_quiet (sr_events (dr_send d))"
      "list_all is_quiet (concat (map fst (dr_replies d)))" "list_all snd (dr_replies d)"
    by (auto simp: quiet_round_def round_events_def)
  obtain t where t: "sg_refresh x (dr_now d) (dr_clock d) (dr_send d) s = Inr t" "on_time g D (dr_now d) t"
    using sg_refresh_quiet [OF d(2,1) Cons.prems(3), of "dr_now d" "dr_clock d" x] Cons.prems(2) by auto
  obtain v ny1 where v: "sg_yield (dr_now d) (t, ny) = (v, ny1)" by (meson surj_pair)
  with t have "on_time g D (dr_now d) v" by (auto simp: sg_yield_def split: if_splits)
  with sg_poll_quiet [OF d(3,4)] obtain w where
      w: "sg_poll x dispatch_this_many (dr_replies d) v = Inr (w, True)" "on_time g D (dr_now d) w"
    by blast
  from Cons.IH [OF _ _ w(2), of ny1] Cons.prems t v w(1) show ?case by simp
qed simp

section \<open>Properties\<close>



definition plain_strategy_lib :: strategy_lib where
  "plain_strategy_lib = \<lparr>sl_limit = 2, sl_maybe_completed = (\<lambda>rs. rs \<noteq> RequestStatus_FORWARDED),
     sl_failed = (\<lambda>rs. rs = RequestStatus_REJECTED)\<rparr>"

definition demo_rounds :: "(nanoseconds \<times> dispatch_reply list) list \<Rightarrow> dispatch_round list" where
  "demo_rounds = map (\<lambda>(now, rs). \<lparr>dr_now = now, dr_clock = now,
     dr_send = \<lparr>sr_events = [], sr_not_ready = False\<rparr>, dr_replies = rs\<rparr>)"

definition demo_session :: "dispatch_round list" where
  "demo_session = demo_rounds [(1, [([SE_DownloadEnd 7, SE_Ready 1], True)]), (4000000000, []),
     (8000000000, [([SE_OrderAck 8000000000 CREATE_ORDER RequestStatus_ACCEPTED], True)]),
     (12000000000, []), (16000000000, [([SE_Signal], False)])]"


text \<open>
  C37: a strategy that has become ready and hears nothing any more does not go on for ever:
  when the clock is read at least every \<open>g\<close> nanoseconds, it asks the dispatcher to stop within
  four waiting periods, whatever state it is in.
\<close>

theorem strategy_stops:
  assumes "sg_state s \<noteq> SG_UNDEFINED" and "list_all quiet_round ds" and "paced g u ds" and "0 \<le> g"
    and "max u (sg_next_update s) + 3 * (wait_this_long + 2 * g) < last_time u ds"
  shows "\<exists>t ny'. sg_loop x ds (s, ny) = Inr (t, ny', True) \<and> SG_Stop \<in> set (sg_out t)"
proof -
  let ?D = "deadline g u s"
  have "on_time g ?D u s" using assms(1) by (simp add: on_time_def)
  with sg_loop_quiet [OF assms(2,3)] obtain t ny' where
      t: "sg_loop x ds (s, ny) = Inr (t, ny', True)" "on_time g ?D (last_time u ds) t"
    by blast
  have "SG_Stop \<in> set (sg_out t)"
  proof (rule ccontr)
    assume "SG_Stop \<notin> set (sg_out t)"
    with t(2) have "deadline g (last_time u ds) t \<le> ?D" by (simp add: on_time_def)
    moreover have "last_time u ds + (wait_this_long + 2 * g) \<le> deadline g (last_time u ds) t"
      using assms(4) by (cases "sg_state t") (auto simp: deadline_def wait_this_long_def)
    moreover have "?D \<le> max u (sg_next_update s) + 4 * (wait_this_long + 2 * g)"
      using assms(1,4) by (cases "sg_state s") (auto simp: deadline_def wait_this_long_def)
    ultimately show False using assms(5) by simp
  qed
  with t(1) show ?thesis by blast
qed

theorem strategy_stops_witness:
  "\<exists>t ny'. sg_loop plain_strategy_lib
     (demo_rounds (map (\<lambda>i. (i * 4000000000, [([SE_OrderUpdate], True)])) [1, 2, 3, 4, 5, 6, 7, 8, 9, 10]))
     (sg_set_state 0 SG_WORKING sg_init, 0) = Inr (t, ny', True) \<and> SG_Stop \<in> set (sg_out t)"
  by (rule strategy_stops [where g = 4000000000 and u = 0])
    (simp_all add: demo_rounds_def quiet_round_def round_events_def wait_this_long_def)

end
