(* ===== verification/Bridge.thy ===== *)
theory Bridge
  imports Strategy
begin

text \<open>
  The controller of the bridges (\<open>bridge/controller.cpp\<close>; \<open>fix_bridge/controller.cpp\<close> is the same
  text in another namespace). Neither is compiled into a program at present. It is an earlier form
  of the test strategy: a handler of the events of a client, without the identifier of the user,
  on a dispatcher that is created for a bridge and a user. The calls on the dispatcher are those
  of theory \<open>Strategy\<close>, and the controller is shown to do what the strategy does.
\<close>

section \<open>State\<close>

datatype bridge_state =
    BG_UNDEFINED | BG_READY | BG_CREATE_ORDER | BG_WAITING_CREATE | BG_WORKING
  | BG_CANCEL_ORDER | BG_WAITING_CANCEL | BG_DONE

record bridge =
  bg_bridge :: string
  bg_user :: string
  bg_state :: bridge_state
  bg_next_update :: nanoseconds
  bg_max_order_id :: uint64
  bg_order_id :: uint64
  bg_out :: "strategy_call list"

text \<open>\<open>create_dispatcher\<close> hands over the names of the bridge and of the user.\<close>

definition bg_init :: bridge where
  "bg_init = \<lparr>bg_bridge = ''fix'', bg_user = ''trader'', bg_state = BG_UNDEFINED, bg_next_update = 0,
     bg_max_order_id = 0, bg_order_id = 0, bg_out = []\<rparr>"

definition bg_emit :: "strategy_call \<Rightarrow> bridge \<Rightarrow> bridge" where
  "bg_emit c s = s\<lparr>bg_out := bg_out s @ [c]\<rparr>"

section \<open>Constants\<close>

definition bg_yield_frequency :: nanoseconds where
  "bg_yield_frequency = 100000000"

definition bg_dispatch_this_many :: nat where
  "bg_dispatch_this_many = 1000"

definition bg_wait_this_long :: nanoseconds where
  "bg_wait_this_long = 3000000000"

definition bg_account :: string where "bg_account = ''A1''"
definition bg_exchange :: string where "bg_exchange = ''deribit''"
definition bg_symbol :: string where "bg_symbol = ''BTC-PERPETUAL''"
definition bg_quantity :: double where "bg_quantity = f_one"
definition bg_price :: double where "bg_price = 0x40F86A0000000000"

section \<open>Events\<close>

datatype bridge_event =
    BE_DownloadBegin | BE_DownloadEnd uint64 | BE_Ready nanoseconds | BE_GatewaySettings
  | BE_StreamStatus | BE_GatewayStatus | BE_ReferenceData | BE_MarketStatus | BE_TopOfBook
  | BE_MarketByPriceUpdate | BE_OrderAck nanoseconds request_type request_status | BE_OrderUpdate
  | BE_Signal

definition bg_set_state :: "nanoseconds \<Rightarrow> bridge_state \<Rightarrow> bridge \<Rightarrow> bridge" where
  "bg_set_state now st s = s\<lparr>bg_state := st, bg_next_update := now + bg_wait_this_long\<rparr>"

definition bg_download_end :: "uint64 \<Rightarrow> bridge \<Rightarrow> bridge" where
  "bg_download_end max_order_id s =
     (if bg_max_order_id s < max_order_id then s\<lparr>bg_max_order_id := max_order_id\<rparr> else s)"

definition bg_order_ack ::
    "strategy_lib \<Rightarrow> nanoseconds \<Rightarrow> request_type \<Rightarrow> request_status \<Rightarrow> bridge \<Rightarrow> bridge result" where
  "bg_order_ack x now rt rs s =
     (if \<not> sl_maybe_completed x rs then Inr s
      else if sl_failed x rs then Inr (bg_set_state now BG_DONE s)
      else case rt of
        RequestType_UNDEFINED \<Rightarrow> Inl (Fatal ''Unexpected'')
      | CREATE_ORDER \<Rightarrow> Inr (bg_set_state now BG_WORKING s)
      | MODIFY_ORDER \<Rightarrow> Inl (Fatal ''Unexpected'')
      | CANCEL_ORDER \<Rightarrow> Inr (bg_set_state now BG_DONE s))"

fun bg_handle :: "strategy_lib \<Rightarrow> bridge_event \<Rightarrow> bridge \<Rightarrow> bridge result" where
  "bg_handle x (BE_DownloadEnd m) s = Inr (bg_download_end m s)"
| "bg_handle x (BE_Ready now) s = Inr (bg_set_state now BG_READY s)"
| "bg_handle x (BE_OrderAck now rt rs) s = bg_order_ack x now rt rs s"
| "bg_handle x BE_Signal s = Inr (bg_emit SG_Stop s)"
| "bg_handle x _ s = Inr s"

section \<open>Requests\<close>

record bridge_reply =
  br_events :: "bridge_event list"
  br_not_ready :: bool

definition bg_send ::
    "strategy_lib \<Rightarrow> strategy_call \<Rightarrow> bridge_reply \<Rightarrow> bridge \<Rightarrow> bridge result" where
  "bg_send x c r s =
     andthen (foldr_result (bg_handle x) (br_events r) (bg_emit c s))
       (\<lambda>t. if br_not_ready r then Inl (Fatal ''NotReady'') else Inr t)"

definition bg_create_order :: "strategy_lib \<Rightarrow> bridge_reply \<Rightarrow> bridge \<Rightarrow> bridge result" where
  "bg_create_order x r s =
     (let m = bg_max_order_id s + 1;
          create_order = \<lparr>sc_account = bg_account, sc_order_id = m, sc_exchange = bg_exchange,
            sc_symbol = bg_symbol, sc_side = Side_SELL, sc_max_show_quantity = NaN,
            sc_order_type = sl_limit x, sc_time_in_force = TimeInForce_GTC,
            sc_quantity = bg_quantity, sc_price = bg_price, sc_stop_price = NaN, sc_leverage = NaN\<rparr>
      in bg_send x (SG_Create create_order) r (s\<lparr>bg_max_order_id := m, bg_order_id := m\<rparr>))"

definition bg_cancel_order :: "strategy_lib \<Rightarrow> bridge_reply \<Rightarrow> bridge \<Rightarrow> bridge result" where
  "bg_cancel_order x r s =
     bg_send x (SG_Cancel \<lparr>sx_account = bg_account, sx_order_id = bg_order_id s\<rparr>) r s"

definition bg_refresh ::
    "strategy_lib \<Rightarrow> nanoseconds \<Rightarrow> nanoseconds \<Rightarrow> bridge_reply \<Rightarrow> bridge \<Rightarrow> bridge result" where
  "bg_refresh x now clk r s =
     (if now < bg_next_update s then Inr s
      else case bg_state s of
        BG_UNDEFINED \<Rightarrow> Inr s
      | BG_READY \<Rightarrow> Inr (bg_set_state clk BG_CREATE_ORDER s)
      | BG_CREATE_ORDER \<Rightarrow> bg_create_order x r (bg_set_state clk BG_WAITING_CREATE s)
      | BG_WAITING_CREATE \<Rightarrow> Inr (bg_set_state clk BG_DONE s)
      | BG_WORKING \<Rightarrow> Inr (bg_set_state clk BG_CANCEL_ORDER s)
      | BG_CANCEL_ORDER \<Rightarrow> bg_cancel_order x r (bg_set_state clk BG_WAITING_CANCEL s)
      | BG_WAITING_CANCEL \<Rightarrow> Inr (bg_set_state clk BG_DONE s)
      | BG_DONE \<Rightarrow> Inr (bg_emit SG_Stop s))"

section \<open>The loop\<close>

record bridge_round =
  bd_now :: nanoseconds
  bd_clock :: nanoseconds
  bd_send :: bridge_reply
  bd_replies :: "(bridge_event list \<times> bool) list"

fun bg_poll :: "strategy_lib \<Rightarrow> nat \<Rightarrow> (bridge_event list \<times> bool) list \<Rightarrow> bridge \<Rightarrow> (bridge \<times> bool) result" where
  "bg_poll x 0 rs s = Inr (s, True)"
| "bg_poll x (Suc n) [] s = Inr (s, True)"
| "bg_poll x (Suc n) ((es, ok) # rs) s =
     andthen (foldr_result (bg_handle x) es (bg_emit SG_Dispatch s))
       (\<lambda>t. if ok then bg_poll x n rs t else Inr (t, False))"

definition bg_yield :: "nanoseconds \<Rightarrow> bridge \<times> nanoseconds \<Rightarrow> bridge \<times> nanoseconds" where
  "bg_yield now = (\<lambda>(s, next_yield).
     if next_yield < now \<and> bg_yield_frequency > 0 then (bg_emit SG_Yield s, now + bg_yield_frequency)
     else (s, next_yield))"

fun bg_loop ::
    "strategy_lib \<Rightarrow> bridge_round list \<Rightarrow> bridge \<times> nanoseconds \<Rightarrow> (bridge \<times> nanoseconds \<times> bool) result" where
  "bg_loop x [] (s, ny) = Inr (s, ny, True)"
| "bg_loop x (d # ds) (s, ny) =
     andthen (bg_refresh x (bd_now d) (bd_clock d) (bd_send d) s) (\<lambda>t.
       let (t1, ny1) = bg_yield (bd_now d) (t, ny) in
       andthen (bg_poll x bg_dispatch_this_many (bd_replies d) t1) (\<lambda>(t2, ok).
         if ok then bg_loop x ds (t2, ny1) else Inr (t2, ny1, False)))"

definition bg_dispatch :: "strategy_lib \<Rightarrow> bridge_round list \<Rightarrow> bridge \<Rightarrow> (bridge \<times> nanoseconds \<times> bool) result" where
  "bg_dispatch x ds s = bg_loop x ds (bg_emit SG_Start s, 0)"

section \<open>The bridge is a strategy\<close>

text \<open>The strategy that a bridge is, and what it hears.\<close>

fun state_of :: "bridge_state \<Rightarrow> strategy_state" where
  "state_of BG_UNDEFINED = SG_UNDEFINED" | "state_of BG_READY = SG_READY"
| "state_of BG_CREATE_ORDER = SG_CREATE_ORDER" | "state_of BG_WAITING_CREATE = SG_WAITING_CREATE"
| "state_of BG_WORKING = SG_WORKING" | "state_of BG_CANCEL_ORDER = SG_CANCEL_ORDER"
| "state_of BG_WAITING_CANCEL = SG_WAITING_CANCEL" | "state_of BG_DONE = SG_DONE"

definition strategy_of :: "bridge \<Rightarrow> strategy" where
  "strategy_of s = \<lparr>sg_state = state_of (bg_state s), sg_next_update = bg_next_update s,
     sg_max_order_id = bg_max_order_id s, sg_order_id = bg_order_id s, sg_out = bg_out s\<rparr>"

fun event_of :: "bridge_event \<Rightarrow> strategy_event" where
  "event_of BE_DownloadBegin = SE_DownloadBegin" | "event_of (BE_DownloadEnd m) = SE_DownloadEnd m"
| "event_of (BE_Ready now) = SE_Ready now" | "event_of BE_GatewaySettings = SE_GatewaySettings"
| "event_of BE_StreamStatus = SE_StreamStatus" | "event_of BE_GatewayStatus = SE_GatewayStatus"
| "event_of BE_ReferenceData = SE_ReferenceData" | "event_of BE_MarketStatus = SE_MarketStatus"
| "event_of BE_TopOfBook = SE_TopOfBook" | "event_of BE_MarketByPriceUpdate = SE_MarketByPriceUpdate"
| "event_of (BE_OrderAck now rt rs) = SE_OrderAck now rt rs" | "event_of BE_OrderUpdate = SE_OrderUpdate"
| "event_of BE_Signal = SE_Signal"

definition reply_of :: "bridge_reply \<Rightarrow> send_reply" where
  "reply_of r = \<lparr>sr_events = map event_of (br_events r), sr_not_ready = br_not_ready r\<rparr>"

definition round_of :: "bridge_round \<Rightarrow> dispatch_round" where
  "round_of d = \<lparr>dr_now = bd_now d, dr_clock = bd_clock d, dr_send = reply_of (bd_send d),
     dr_replies = map (apfst (map event_of)) (bd_replies d)\<rparr>"

definition map_result :: "('a \<Rightarrow> 'b) \<Rightarrow> 'a result \<Rightarrow> 'b result" where
  "map_result f r = andthen r (\<lambda>x. Inr (f x))"

lemma map_result_simps [simp]: "map_result f (Inl e) = Inl e" "map_result f (Inr x) = Inr (f x)"
  by (simp_all add: map_result_def)

lemma andthen_map: "map_result f (andthen r g) = andthen r (\<lambda>x. map_result f (g x))"
  by (cases r) simp_all

lemma map_andthen: "andthen (map_result f r) g = andthen r (\<lambda>x. g (f x))"
  by (cases r) simp_all

lemma foldr_result_map:
  assumes "\<And>e s. map_result f (h e s) = k (a e) (f s)"
  shows "map_result f (foldr_result h es s) = foldr_result k (map a es) (f s)"
  by (induction es arbitrary: s) (simp_all add: andthen_map assms [symmetric] map_andthen)

lemma strategy_of_steps [simp]:
  "strategy_of (bg_emit c s) = sg_emit c (strategy_of s)"
  "strategy_of (bg_set_state now st s) = sg_set_state now (state_of st) (strategy_of s)"
  "strategy_of (bg_download_end m s) = sg_download_end m (strategy_of s)"
  "strategy_of bg_init = sg_init"
  by (simp_all add: strategy_of_def bg_emit_def sg_emit_def bg_set_state_def sg_set_state_def bg_download_end_def
      sg_download_end_def bg_init_def sg_init_def bg_wait_this_long_def wait_this_long_def)

lemma bg_handle_refines: "map_result strategy_of (bg_handle x e s) = sg_handle x (event_of e) (strategy_of s)"
  by (cases e) (simp_all add: bg_order_ack_def sg_order_ack_def split: request_type.split)

lemma bg_handles_refines:
  "foldr_result (sg_handle x) (map event_of es) (sg_emit c (strategy_of s)) =
   map_result strategy_of (foldr_result (bg_handle x) es (bg_emit c s))"
  using foldr_result_map [of strategy_of "bg_handle x" "sg_handle x" event_of, OF bg_handle_refines] by simp

lemma bg_send_refines: "map_result strategy_of (bg_send x c r s) = sg_send x c (reply_of r) (strategy_of s)"
  by (cases "br_not_ready r")
    (simp_all add: bg_send_def sg_send_def reply_of_def andthen_map map_andthen bg_handles_refines)

lemma bg_constants [simp]:
  "bg_account = sg_account" "bg_exchange = sg_exchange" "bg_symbol = sg_symbol" "bg_quantity = sg_quantity"
  "bg_price = sg_price" "bg_yield_frequency = yield_frequency" "bg_dispatch_this_many = dispatch_this_many"
  by (simp_all add: bg_account_def sg_account_def bg_exchange_def sg_exchange_def bg_symbol_def sg_symbol_def
      bg_quantity_def sg_quantity_def bg_price_def sg_price_def bg_yield_frequency_def yield_frequency_def
      bg_dispatch_this_many_def dispatch_this_many_def)

lemma strategy_of_fields [simp]:
  "sg_next_update (strategy_of s) = bg_next_update s" "sg_state (strategy_of s) = state_of (bg_state s)"
  "sg_max_order_id (strategy_of s) = bg_max_order_id s" "sg_order_id (strategy_of s) = bg_order_id s"
  "strategy_of (s\<lparr>bg_max_order_id := m, bg_order_id := n\<rparr>) = strategy_of s\<lparr>sg_max_order_id := m, sg_order_id := n\<rparr>"
  by (simp_all add: strategy_of_def)

lemma bg_requests_refine:
  "map_result strategy_of (bg_create_order x r s) = sg_create_order x (reply_of r) (strategy_of s)"
  "map_result strategy_of (bg_cancel_order x r s) = sg_cancel_order x (reply_of r) (strategy_of s)"
  by (simp_all add: bg_create_order_def sg_create_order_def bg_cancel_order_def sg_cancel_order_def Let_def bg_send_refines)

lemma bg_refresh_refines:
  "map_result strategy_of (bg_refresh x now clk r s) = sg_refresh x now clk (reply_of r) (strategy_of s)"
  by (cases "bg_state s") (simp_all add: bg_refresh_def sg_refresh_def bg_requests_refine)

lemma bg_yield_refines: "apfst strategy_of (bg_yield now (s, ny)) = sg_yield now (strategy_of s, ny)"
  by (simp add: bg_yield_def sg_yield_def)

lemma bg_poll_refines:
  "map_result (apfst strategy_of) (bg_poll x n rs s) = sg_poll x n (map (apfst (map event_of)) rs) (strategy_of s)"
proof (induction x n rs s rule: bg_poll.induct)
  case (3 x n es ok rs s)
  then show ?case by (cases ok) (simp_all add: andthen_map map_andthen bg_handles_refines)
qed simp_all

text \<open>
  The loop of the bridge is the loop of the strategy: whatever the dispatcher hands over, both end
  in the same way and make the same calls. So the bridge, too, sends at most one order for each
  Ready event, with identifiers that increase.
\<close>

theorem bridge_refines_strategy:
  "map_result (apfst strategy_of) (bg_loop x ds (s, ny)) = sg_loop x (map round_of ds) (strategy_of s, ny)"
proof (induction ds arbitrary: s ny)
  case (Cons d ds)
  have round: "dr_now (round_of d) = bd_now d" "dr_clock (round_of d) = bd_clock d" "dr_send (round_of d) = reply_of (bd_send d)"
    "dr_replies (round_of d) = map (apfst (map event_of)) (bd_replies d)" by (simp_all add: round_of_def)
  show ?case
  proof (cases "bg_refresh x (bd_now d) (bd_clock d) (bd_send d) s")
    case (Inl e)
    with bg_refresh_refines [of x "bd_now d" "bd_clock d" "bd_send d" s, symmetric] show ?thesis by (simp add: round)
  next
    case (Inr t)
    then have t: "sg_refresh x (bd_now d) (bd_clock d) (reply_of (bd_send d)) (strategy_of s) = Inr (strategy_of t)"
      using bg_refresh_refines [of x "bd_now d" "bd_clock d" "bd_send d" s] by simp
    obtain u nu where u: "bg_yield (bd_now d) (t, ny) = (u, nu)" by fastforce
    then have u': "sg_yield (bd_now d) (strategy_of t, ny) = (strategy_of u, nu)"
      using bg_yield_refines [of "bd_now d" t ny] by simp
    show ?thesis
    proof (cases "bg_poll x dispatch_this_many (bd_replies d) u")
      case (Inl e)
      with bg_poll_refines [of x dispatch_this_many "bd_replies d" u, symmetric] \<open>bg_refresh _ _ _ _ _ = _\<close> t u u'
      show ?thesis by (simp add: round)
    next
      case (Inr r)
      obtain v ok where r: "r = (v, ok)" by fastforce
      with Inr bg_poll_refines [of x dispatch_this_many "bd_replies d" u, symmetric] \<open>bg_refresh _ _ _ _ _ = _\<close> t u u'
      show ?thesis by (simp add: round Cons.IH)
    qed
  qed
qed simp

corollary bridge_orders:
  assumes "bg_loop x ds (s, ny) = Inr (t, ny', ok)" "list_all (download_at_most M) (all_events (map round_of ds))"
    "room M (readies (all_events (map round_of ds))) (strategy_of s)"
  shows "sorted_wrt (<) (created (bg_out s)) \<and> (\<forall>i\<in>set (created (bg_out s)). i \<le> bg_max_order_id s) \<longrightarrow>
    sorted_wrt (<) (created (bg_out t))"
proof -
  have "sg_loop x (map round_of ds) (strategy_of s, ny) = Inr (strategy_of t, ny', ok)"
    using bridge_refines_strategy [of x ds s ny] assms(1) by simp
  from sg_loop_issues [OF this assms(2,3)]
  obtain new where "created (bg_out t) = created (bg_out s) @ new" "sorted_wrt (<) (bg_max_order_id s # new)"
    unfolding issues_def by (auto simp: strategy_of_def)
  then show ?thesis by (fastforce simp: sorted_wrt_append)
qed

end
