(* ===== verification/Sbe_Text.thy ===== *)
theory Sbe_Text
  imports Sbe_Parser
begin

text \<open>
  The printed form of the multicast messages (the formatters in \<open>protocol/sbe/utils.hpp\<close> and in
  \<open>protocol/sbe/frame.hpp\<close>). All formats have one shape: an object \<open>{name=value, name=value}\<close>, with
  quoted texts and bracketed lists of objects as values. A formatter builds the tree of its
  message, \<open>show_tree\<close> prints it. How numbers, durations and the names of enumerations are printed
  belongs to the libraries: the record \<open>text_lib\<close>. The formatters rewind a message before they read
  its lists; here a message is a value, so nothing has to be rewound.
\<close>

section \<open>Trees\<close>

datatype tree =
    Atom string
  | Quoted string
  | Obj "(string \<times> tree) list"
  | Objs "(string \<times> tree) list list"

fun show_tree :: "tree \<Rightarrow> string"
  and show_fields :: "(string \<times> tree) list \<Rightarrow> string"
  and show_more :: "(string \<times> tree) list \<Rightarrow> string"
  and show_objs :: "(string \<times> tree) list list \<Rightarrow> string"
  and show_more_objs :: "(string \<times> tree) list list \<Rightarrow> string" where
  "show_tree (Atom s) = s"
| "show_tree (Quoted s) = ''\"'' @ s @ ''\"''"
| "show_tree (Obj fs) = ''{'' @ show_fields fs @ ''}''"
| "show_tree (Objs os) = ''['' @ show_objs os @ '']''"
| "show_fields [] = []"
| "show_fields ((k, t) # fs) = k @ ''='' @ show_tree t @ show_more fs"
| "show_more [] = []"
| "show_more ((k, t) # fs) = '', '' @ k @ ''='' @ show_tree t @ show_more fs"
| "show_objs [] = []"
| "show_objs (fs # os) = ''{'' @ show_fields fs @ ''}'' @ show_more_objs os"
| "show_more_objs [] = []"
| "show_more_objs (fs # os) = '', {'' @ show_fields fs @ ''}'' @ show_more_objs os"

section \<open>Formatters\<close>

record text_lib =
  tl_double :: "double \<Rightarrow> string"
  tl_milliseconds :: "uint64 \<Rightarrow> string"
  tl_book_side :: "book_side \<Rightarrow> string"
  tl_book_change :: "raw_enum \<Rightarrow> string"
  tl_direction :: "direction \<Rightarrow> string"
  tl_tick_direction :: "raw_enum \<Rightarrow> string"
  tl_liquidation :: "liquidation \<Rightarrow> string"
  tl_instrument_state :: "sbe_instrument_state \<Rightarrow> string"
  tl_instrument_kind :: "raw_enum \<Rightarrow> string"
  tl_instrument_type :: "raw_enum \<Rightarrow> string"
  tl_option_type :: "raw_enum \<Rightarrow> string"
  tl_period :: "raw_enum \<Rightarrow> string"
  tl_rfq_direction :: "raw_enum \<Rightarrow> string"

definition word_atom :: "'w::len word \<Rightarrow> tree" where
  "word_atom w = Atom (show_nat (unat w))"

text \<open>\<open>static_cast<bool>(roq::map(value))\<close>, printed by \<open>fmt\<close>.\<close>

definition yes_no_atom :: "yes_no \<Rightarrow> tree" where
  "yes_no_atom v = Atom (if map_yes_no v = Some True then ''true'' else ''false'')"

definition book_change_fields :: "text_lib \<Rightarrow> book_change \<Rightarrow> (string \<times> tree) list" where
  "book_change_fields x v =
     [(''side'', Atom (tl_book_side x (bc_side v))), (''change'', Atom (tl_book_change x (bc_change v))),
      (''price'', Atom (tl_double x (bc_price v))), (''amount'', Atom (tl_double x (bc_amount v)))]"

definition combo_leg_fields :: "combo_leg \<Rightarrow> (string \<times> tree) list" where
  "combo_leg_fields v =
     [(''instrumentId'', word_atom (cl_leg_instrument_id v)), (''legSize'', Atom (show_int (cl_leg_size v)))]"

definition tick_step_fields :: "text_lib \<Rightarrow> tick_step \<Rightarrow> (string \<times> tree) list" where
  "tick_step_fields x v =
     [(''abovePrice'', Atom (tl_double x (sp_above_price v))), (''tickSize'', Atom (tl_double x (sp_tick_size v)))]"

definition book_level_fields :: "text_lib \<Rightarrow> book_level \<Rightarrow> (string \<times> tree) list" where
  "book_level_fields x v =
     [(''side'', Atom (tl_book_side x (bc_side v))), (''price'', Atom (tl_double x (bc_price v))),
      (''amount'', Atom (tl_double x (bc_amount v)))]"

definition trade_fields :: "text_lib \<Rightarrow> sbe_trade \<Rightarrow> (string \<times> tree) list" where
  "trade_fields x v =
     [(''direction'', Atom (tl_direction x (st_direction v))),
      (''price'', Atom (tl_double x (st_price v))),
      (''amount'', Atom (tl_double x (st_amount v))),
      (''timestampMs'', Atom (tl_milliseconds x (st_timestamp_ms v))),
      (''markPrice'', Atom (tl_double x (st_mark_price v))),
      (''indexPrice'', Atom (tl_double x (st_index_price v))),
      (''tradeSeq'', word_atom (st_trade_seq v)),
      (''tradeId'', word_atom (st_trade_id v)),
      (''tickDirection'', Atom (tl_tick_direction x (st_tick_direction v))),
      (''liquidation'', Atom (tl_liquidation x (st_liquidation v))),
      (''iv'', Atom (tl_double x (st_iv v))),
      (''blockTradeId'', word_atom (st_block_trade_id v)),
      (''comboTradeId'', word_atom (st_combo_trade_id v))]"

definition book_tree :: "text_lib \<Rightarrow> sbe_book \<Rightarrow> tree" where
  "book_tree x v = Obj
     [(''instrumentId'', word_atom (bk_instrument_id v)),
      (''timestampMs'', Atom (tl_milliseconds x (bk_timestamp_ms v))),
      (''prevChangeId'', word_atom (bk_prev_change_id v)),
      (''changeId'', word_atom (bk_change_id v)),
      (''isLast'', yes_no_atom (bk_is_last v)),
      (''changesList'', Objs (map (book_change_fields x) (bk_changes_list v)))]"

definition combo_legs_tree :: "sbe_combo_legs \<Rightarrow> tree" where
  "combo_legs_tree v = Obj
     [(''instrumentId'', word_atom (cl_instrument_id v)),
      (''legsList'', Objs (map combo_leg_fields (cl_legs_list v)))]"

text \<open>The fields of the two messages about instruments up to the currencies, and the others.\<close>

definition instrument_tree :: "text_lib \<Rightarrow> sbe_instrument \<Rightarrow> tree" where
  "instrument_tree x v = Obj
     [(''instrumentId'', word_atom (in_instrument_id v)),
      (''instrumentState'', Atom (tl_instrument_state x (in_instrument_state v))),
      (''kind'', Atom (tl_instrument_kind x (in_kind v))),
      (''instrumentType'', Atom (tl_instrument_type x (in_instrument_type v))),
      (''optionType'', Atom (tl_option_type x (in_option_type v))),
      (''rfq'', yes_no_atom (in_rfq v)),
      (''settlementPeriod'', Atom (tl_period x (in_settlement_period v))),
      (''settlementPeriodCount'', word_atom (in_settlement_period_count v)),
      (''baseCurrency'', Quoted (in_base_currency v)),
      (''quoteCurrency'', Quoted (in_quote_currency v)),
      (''counterCurrency'', Quoted (in_counter_currency v)),
      (''settlementCurrency'', Quoted (in_settlement_currency v)),
      (''sizeCurrency'', Quoted (in_size_currency v)),
      (''creationTimestampMs'', Atom (tl_milliseconds x (in_creation_timestamp_ms v))),
      (''expirationTimestampMs'', Atom (tl_milliseconds x (in_expiration_timestamp_ms v))),
      (''strikePrice'', Atom (tl_double x (in_strike_price v))),
      (''contractSize'', Atom (tl_double x (in_contract_size v))),
      (''minTradeAmount'', Atom (tl_double x (in_min_trade_amount v))),
      (''tickSize'', Atom (tl_double x (in_tick_size v))),
      (''makerCommission'', Atom (tl_double x (in_maker_commission v))),
      (''takerCommission'', Atom (tl_double x (in_taker_commission v))),
      (''blockTradeCommission'', Atom (tl_double x (in_block_trade_commission v))),
      (''maxLiquidationCommission'', Atom (tl_double x (in_max_liquidation_commission v))),
      (''maxLeverage'', Atom (tl_double x (in_max_leverage v))),
      (''instrumentName'', Quoted (get_instrument_name v))]"

definition instrument_v2_tree :: "text_lib \<Rightarrow> sbe_instrument_v2 \<Rightarrow> tree" where
  "instrument_v2_tree x v = Obj
     [(''instrumentId'', word_atom (in_instrument_id v)),
      (''instrumentState'', Atom (tl_instrument_state x (in_instrument_state v))),
      (''kind'', Atom (tl_instrument_kind x (in_kind v))),
      (''instrumentType'', Atom (tl_instrument_type x (in_instrument_type v))),
      (''optionType'', Atom (tl_option_type x (in_option_type v))),
      (''settlementPeriod'', Atom (tl_period x (in_settlement_period v))),
      (''settlementPeriodCount'', word_atom (in_settlement_period_count v)),
      (''baseCurrency'', Quoted (in_base_currency v)),
      (''quoteCurrency'', Quoted (in_quote_currency v)),
      (''counterCurrency'', Quoted (in_counter_currency v)),
      (''settlementCurrency'', Quoted (in_settlement_currency v)),
      (''sizeCurrency'', Quoted (in_size_currency v)),
      (''creationTimestampMs'', Atom (tl_milliseconds x (in_creation_timestamp_ms v))),
      (''expirationTimestampMs'', Atom (tl_milliseconds x (in_expiration_timestamp_ms v))),
      (''strikePrice'', Atom (tl_double x (in_strike_price v))),
      (''contractSize'', Atom (tl_double x (in_contract_size v))),
      (''minTradeAmount'', Atom (tl_double x (in_min_trade_amount v))),
      (''tickSize'', Atom (tl_double x (in_tick_size v))),
      (''makerCommission'', Atom (tl_double x (in_maker_commission v))),
      (''takerCommission'', Atom (tl_double x (in_taker_commission v))),
      (''blockTradeCommission'', Atom (tl_double x (in_block_trade_commission v))),
      (''maxLiquidationCommission'', Atom (tl_double x (in_max_liquidation_commission v))),
      (''maxLeverage'', Atom (tl_double x (in_max_leverage v))),
      (''tickStepsList'', Objs (map (tick_step_fields x) (in_tick_steps_list v))),
      (''instrumentName'', Quoted (get_instrument_name v))]"

definition ticker_tree :: "text_lib \<Rightarrow> sbe_ticker \<Rightarrow> tree" where
  "ticker_tree x v = Obj
     [(''instrumentId'', word_atom (tk_instrument_id v)),
      (''instrumentState'', Atom (tl_instrument_state x (tk_instrument_state v))),
      (''timestampMs'', Atom (tl_milliseconds x (tk_timestamp_ms v))),
      (''openInterest'', Atom (tl_double x (tk_open_interest v))),
      (''minSellPrice'', Atom (tl_double x (tk_min_sell_price v))),
      (''maxBuyPrice'', Atom (tl_double x (tk_max_buy_price v))),
      (''lastPrice'', Atom (tl_double x (tk_last_price v))),
      (''indexPrice'', Atom (tl_double x (tk_index_price v))),
      (''markPrice'', Atom (tl_double x (tk_mark_price v))),
      (''bestBidPrice'', Atom (tl_double x (tk_best_bid_price v))),
      (''bestBidAmount'', Atom (tl_double x (tk_best_bid_amount v))),
      (''bestAskPrice'', Atom (tl_double x (tk_best_ask_price v))),
      (''bestAskAmount'', Atom (tl_double x (tk_best_ask_amount v))),
      (''currentFunding'', Atom (tl_double x (tk_current_funding v))),
      (''funding8h'', Atom (tl_double x (tk_funding_8h v))),
      (''estimatedDeliveryPrice'', Atom (tl_double x (tk_estimated_delivery_price v))),
      (''deliveryPrice'', Atom (tl_double x (tk_delivery_price v))),
      (''settlementPrice'', Atom (tl_double x (tk_settlement_price v)))]"

definition price_index_tree :: "text_lib \<Rightarrow> sbe_price_index \<Rightarrow> tree" where
  "price_index_tree x v = Obj
     [(''indexName'', Quoted (px_index_name v)), (''price'', Atom (tl_double x (px_price v))),
      (''timestampMs'', Atom (tl_milliseconds x (px_timestamp_ms v)))]"

definition rfq_tree :: "text_lib \<Rightarrow> sbe_rfq \<Rightarrow> tree" where
  "rfq_tree x v = Obj
     [(''instrumentId'', word_atom (rq_instrument_id v)),
      (''state'', yes_no_atom (rq_state v)),
      (''side'', Atom (tl_rfq_direction x (rq_side v))),
      (''amount'', Atom (tl_double x (rq_amount v))),
      (''timestampMs'', Atom (tl_milliseconds x (rq_timestamp_ms v)))]"

definition snapshot_tree :: "text_lib \<Rightarrow> sbe_snapshot \<Rightarrow> tree" where
  "snapshot_tree x v = Obj
     [(''instrumentId'', word_atom (sn_instrument_id v)),
      (''timestampMs'', Atom (tl_milliseconds x (sn_timestamp_ms v))),
      (''changeId'', word_atom (sn_change_id v)),
      (''isBookComplete'', yes_no_atom (sn_is_book_complete v)),
      (''isLastInBook'', yes_no_atom (sn_is_last_in_book v)),
      (''levelsList'', Objs (map (book_level_fields x) (sn_levels_list v)))]"

definition snapshot_start_tree :: "uint32 \<Rightarrow> tree" where
  "snapshot_start_tree d = Obj [(''snapshotDelay'', word_atom d)]"

definition trades_tree :: "text_lib \<Rightarrow> sbe_trades \<Rightarrow> tree" where
  "trades_tree x v = Obj
     [(''instrumentId'', word_atom (tr_instrument_id v)),
      (''tradesList'', Objs (map (trade_fields x) (tr_trades_list v)))]"

definition message_tree :: "text_lib \<Rightarrow> sbe_message \<Rightarrow> tree" where
  "message_tree x m = (case m of
     Instrument v \<Rightarrow> instrument_tree x v
   | Book v \<Rightarrow> book_tree x v
   | Trades v \<Rightarrow> trades_tree x v
   | Ticker v \<Rightarrow> ticker_tree x v
   | Snapshot v \<Rightarrow> snapshot_tree x v
   | SnapshotStart d \<Rightarrow> snapshot_start_tree d
   | SnapshotEnd \<Rightarrow> Obj []
   | ComboLegs v \<Rightarrow> combo_legs_tree v
   | PriceIndex v \<Rightarrow> price_index_tree x v
   | Rfq v \<Rightarrow> rfq_tree x v
   | InstrumentV2 v \<Rightarrow> instrument_v2_tree x v)"

definition message_name :: "sbe_message \<Rightarrow> string" where
  "message_name m = (case m of
     Book v \<Rightarrow> ''book''
   | ComboLegs v \<Rightarrow> ''combo_legs''
   | Instrument v \<Rightarrow> ''instrument''
   | InstrumentV2 v \<Rightarrow> ''instrument_v2''
   | PriceIndex v \<Rightarrow> ''price_index''
   | Rfq v \<Rightarrow> ''rfq''
   | Snapshot v \<Rightarrow> ''snapshot''
   | SnapshotEnd \<Rightarrow> ''snapshot_end''
   | SnapshotStart d \<Rightarrow> ''snapshot_start''
   | Ticker v \<Rightarrow> ''ticker''
   | Trades v \<Rightarrow> ''trades'')"

section \<open>Reading a text back\<close>

definition special :: "char set" where
  "special = {CHR ''{'', CHR ''}'', CHR ''['', CHR '']'', CHR '','', CHR ''='', CHR ''\"''}"

definition plain :: "string \<Rightarrow> bool" where
  "plain s \<longleftrightarrow> set s \<inter> special = {}"

fun wf_tree :: "tree \<Rightarrow> bool"
  and wf_fields :: "(string \<times> tree) list \<Rightarrow> bool"
  and wf_objs :: "(string \<times> tree) list list \<Rightarrow> bool" where
  "wf_tree (Atom s) \<longleftrightarrow> plain s"
| "wf_tree (Quoted s) \<longleftrightarrow> CHR ''\"'' \<notin> set s"
| "wf_tree (Obj fs) \<longleftrightarrow> wf_fields fs"
| "wf_tree (Objs os) \<longleftrightarrow> wf_objs os"
| "wf_fields [] \<longleftrightarrow> True"
| "wf_fields ((k, t) # fs) \<longleftrightarrow> plain k \<and> wf_tree t \<and> wf_fields fs"
| "wf_objs [] \<longleftrightarrow> True"
| "wf_objs (fs # os) \<longleftrightarrow> wf_fields fs \<and> wf_objs os"

text \<open>What may follow a value.\<close>

definition follows :: "string \<Rightarrow> bool" where
  "follows r \<longleftrightarrow> r \<noteq> [] \<and> (hd r = CHR '','' \<or> hd r = CHR ''}'')"

lemma follows_simps [simp]:
  "follows (CHR '','' # r)" "follows (CHR ''}'' # r)"
  by (simp_all add: follows_def)

lemma follows_special: "follows r \<Longrightarrow> r \<noteq> [] \<and> hd r \<in> special"
  by (auto simp: follows_def special_def)

lemma prefix_unique:
  assumes "s @ r = s' @ q" "set s \<inter> S = {}" "set s' \<inter> S = {}" "r \<noteq> [] \<and> hd r \<in> S" "q \<noteq> [] \<and> hd q \<in> S"
  shows "s = s' \<and> r = q"
  using assms
proof (induction s arbitrary: s')
  case Nil
  then show ?case by (cases s') auto
next
  case (Cons c s)
  then obtain s'' where "s' = c # s''" by (cases s') auto
  with Cons show ?case by auto
qed

lemma plain_unique:
  "s @ r = s' @ q \<Longrightarrow> plain s \<Longrightarrow> plain s' \<Longrightarrow> r \<noteq> [] \<and> hd r \<in> special \<Longrightarrow> q \<noteq> [] \<and> hd q \<in> special \<Longrightarrow> s = s' \<and> r = q"
  unfolding plain_def by (rule prefix_unique)

lemma plain_start: "plain s \<Longrightarrow> s @ r = c # q \<Longrightarrow> c \<in> special \<Longrightarrow> s = [] \<and> r = c # q"
  by (cases s) (auto simp: plain_def)

lemma show_Cons [simp]:
  "show_fields (g # fs) = fst g @ ''='' @ show_tree (snd g) @ show_more fs"
  "show_more (g # fs) = '', '' @ fst g @ ''='' @ show_tree (snd g) @ show_more fs"
  "wf_fields (g # fs) \<longleftrightarrow> plain (fst g) \<and> wf_tree (snd g) \<and> wf_fields fs"
  by (cases g; simp)+

lemma follows_more [simp]: "follows (show_more fs @ CHR ''}'' # r)"
  by (cases fs) auto

lemma quoted_unique:
  "s @ CHR ''\"'' # r = s' @ CHR ''\"'' # q \<Longrightarrow> CHR ''\"'' \<notin> set s \<Longrightarrow> CHR ''\"'' \<notin> set s' \<Longrightarrow> s = s' \<and> r = q"
  by (drule prefix_unique [where S = "{CHR ''\"''}"]) auto

lemma show_tree_start:
  "wf_tree t \<Longrightarrow> follows r \<Longrightarrow> show_tree t @ r = c # q \<Longrightarrow> c = CHR ''{'' \<Longrightarrow> \<exists>fs. t = Obj fs"
  "wf_tree t \<Longrightarrow> follows r \<Longrightarrow> show_tree t @ r = c # q \<Longrightarrow> c = CHR ''['' \<Longrightarrow> \<exists>os. t = Objs os"
  "wf_tree t \<Longrightarrow> follows r \<Longrightarrow> show_tree t @ r = c # q \<Longrightarrow> c = CHR ''\"'' \<Longrightarrow> \<exists>s. t = Quoted s"
  by (cases t; auto simp: follows_def dest!: plain_start; auto simp: special_def)+

lemma show_unique:
  "wf_tree t \<Longrightarrow> wf_tree u \<Longrightarrow> follows r \<Longrightarrow> follows q \<Longrightarrow> show_tree t @ r = show_tree u @ q \<Longrightarrow> t = u \<and> r = q"
  "wf_fields fs \<Longrightarrow> wf_fields gs \<Longrightarrow> show_fields fs @ CHR ''}'' # r = show_fields gs @ CHR ''}'' # q \<Longrightarrow> fs = gs \<and> r = q"
  "wf_fields fs \<Longrightarrow> wf_fields gs \<Longrightarrow> show_more fs @ CHR ''}'' # r = show_more gs @ CHR ''}'' # q \<Longrightarrow> fs = gs \<and> r = q"
  "wf_objs os \<Longrightarrow> wf_objs ps \<Longrightarrow> show_objs os @ CHR '']'' # r = show_objs ps @ CHR '']'' # q \<Longrightarrow> os = ps \<and> r = q"
  "wf_objs os \<Longrightarrow> wf_objs ps \<Longrightarrow> show_more_objs os @ CHR '']'' # r = show_more_objs ps @ CHR '']'' # q \<Longrightarrow> os = ps \<and> r = q"
proof (induction t and fs and fs and os and os arbitrary: u r q and gs r q and gs r q and ps r q and ps r q
    rule: show_tree_show_fields_show_more_show_objs_show_more_objs.induct)
  case (1 s)
  show ?case
  proof (cases u)
    case (Atom s')
    with 1 show ?thesis using plain_unique [of s r s' q] by (auto dest: follows_special)
  qed (use 1 in \<open>auto simp: follows_def special_def dest!: plain_start\<close>)
next
  case (2 s)
  then have "show_tree u @ q = CHR ''\"'' # s @ CHR ''\"'' # r" by simp
  with 2 obtain s' where "u = Quoted s'" using show_tree_start(3) [of u q] by metis
  with 2 show ?case using quoted_unique [of s r s' q] by auto
next
  case (3 fs)
  then have "show_tree u @ q = CHR ''{'' # show_fields fs @ CHR ''}'' # r" by simp
  with 3 obtain gs where "u = Obj gs" using show_tree_start(1) [of u q] by metis
  with 3(1) [of gs r q] 3(2,3,6) show ?case by simp
next
  case (4 os)
  then have "show_tree u @ q = CHR ''['' # show_objs os @ CHR '']'' # r" by simp
  with 4 obtain ps where "u = Objs ps" using show_tree_start(2) [of u q] by metis
  with 4(1) [of ps r q] 4(2,3,6) show ?case by simp
next
  case 5
  show ?case
  proof (cases gs)
    case (Cons g gs')
    with 5 have "plain (fst g)" "fst g @ CHR ''='' # show_tree (snd g) @ show_more gs' @ CHR ''}'' # q = CHR ''}'' # r"
      by simp_all
    from plain_start [OF this] show ?thesis by (simp add: special_def)
  qed (use 5 in simp)
next
  case (6 k t fs)
  show ?case
  proof (cases gs)
    case Nil
    with 6 have "plain k" "k @ CHR ''='' # show_tree t @ show_more fs @ CHR ''}'' # r = CHR ''}'' # q"
      by simp_all
    from plain_start [OF this] show ?thesis by (simp add: special_def)
  next
    case (Cons g gs')
    let ?r = "show_more fs @ CHR ''}'' # r" and ?q = "show_more gs' @ CHR ''}'' # q"
    have wf: "plain k" "wf_tree t" "wf_fields fs" "plain (fst g)" "wf_tree (snd g)" "wf_fields gs'"
      using 6(3,4) Cons by simp_all
    have "k @ CHR ''='' # show_tree t @ ?r = fst g @ CHR ''='' # show_tree (snd g) @ ?q"
      using 6(5) Cons by simp
    from plain_unique [OF this wf(1,4)] have k: "k = fst g" "show_tree t @ ?r = show_tree (snd g) @ ?q"
      by (simp_all add: special_def)
    from 6(1) [OF wf(2,5) _ _ k(2)] have t: "t = snd g" "?r = ?q" by simp_all
    from 6(2) [OF wf(3,6) t(2)] show ?thesis using Cons k(1) t(1) by simp
  qed
next
  case 7
  then show ?case by (cases gs) auto
next
  case (8 k t fs)
  show ?case
  proof (cases gs)
    case Nil
    with 8(5) show ?thesis by simp
  next
    case (Cons g gs')
    let ?r = "show_more fs @ CHR ''}'' # r" and ?q = "show_more gs' @ CHR ''}'' # q"
    have wf: "plain k" "wf_tree t" "wf_fields fs" "plain (fst g)" "wf_tree (snd g)" "wf_fields gs'"
      using 8(3,4) Cons by simp_all
    have "k @ CHR ''='' # show_tree t @ ?r = fst g @ CHR ''='' # show_tree (snd g) @ ?q"
      using 8(5) Cons by simp
    from plain_unique [OF this wf(1,4)] have k: "k = fst g" "show_tree t @ ?r = show_tree (snd g) @ ?q"
      by (simp_all add: special_def)
    from 8(1) [OF wf(2,5) _ _ k(2)] have t: "t = snd g" "?r = ?q" by simp_all
    from 8(2) [OF wf(3,6) t(2)] show ?thesis using Cons k(1) t(1) by simp
  qed
next
  case 9
  then show ?case by (cases ps) auto
next
  case (10 fs os)
  show ?case
  proof (cases ps)
    case (Cons gs ps')
    have "show_fields fs @ CHR ''}'' # show_more_objs os @ CHR '']'' # r =
        show_fields gs @ CHR ''}'' # show_more_objs ps' @ CHR '']'' # q"
      using 10(5) Cons by simp
    from 10(1) [OF _ _ this] have "fs = gs" "show_more_objs os @ CHR '']'' # r = show_more_objs ps' @ CHR '']'' # q"
      using 10(3,4) Cons by simp_all
    with 10(2) [OF _ _ this(2)] 10(3,4) Cons show ?thesis by simp
  qed (use 10(5) in simp)
next
  case 11
  then show ?case by (cases ps) auto
next
  case (12 fs os)
  show ?case
  proof (cases ps)
    case (Cons gs ps')
    have "show_fields fs @ CHR ''}'' # show_more_objs os @ CHR '']'' # r =
        show_fields gs @ CHR ''}'' # show_more_objs ps' @ CHR '']'' # q"
      using 12(5) Cons by simp
    from 12(1) [OF _ _ this] have "fs = gs" "show_more_objs os @ CHR '']'' # r = show_more_objs ps' @ CHR '']'' # q"
      using 12(3,4) Cons by simp_all
    with 12(2) [OF _ _ this(2)] 12(3,4) Cons show ?thesis by simp
  qed (use 12(5) in simp)
qed

section \<open>Messages from their texts\<close>

text \<open>
  What is assumed of the libraries: different values have different texts, without the
  characters that structure an object.
\<close>

definition prints :: "('a \<Rightarrow> string) \<Rightarrow> bool" where
  "prints f \<longleftrightarrow> inj f \<and> (\<forall>v. plain (f v))"

definition text_lib_ok :: "text_lib \<Rightarrow> bool" where
  "text_lib_ok x \<longleftrightarrow> prints (tl_double x) \<and> prints (tl_milliseconds x) \<and> prints (tl_book_side x) \<and>
     prints (tl_book_change x) \<and> prints (tl_direction x) \<and> prints (tl_tick_direction x) \<and>
     prints (tl_liquidation x) \<and> prints (tl_instrument_state x) \<and> prints (tl_instrument_kind x) \<and>
     prints (tl_instrument_type x) \<and> prints (tl_option_type x) \<and> prints (tl_period x) \<and>
     prints (tl_rfq_direction x)"

text \<open>The printed flag does not distinguish the NULL value from no.\<close>

definition flag :: "yes_no \<Rightarrow> yes_no" where
  "flag v = (if v = YesNo_yes then YesNo_yes else YesNo_no)"

definition normal :: "sbe_message \<Rightarrow> sbe_message" where
  "normal m = (case m of
     Instrument v \<Rightarrow> Instrument (v\<lparr>in_rfq := flag (in_rfq v)\<rparr>)
   | Book v \<Rightarrow> Book (v\<lparr>bk_is_last := flag (bk_is_last v)\<rparr>)
   | Snapshot v \<Rightarrow> Snapshot (v\<lparr>sn_is_book_complete := flag (sn_is_book_complete v),
       sn_is_last_in_book := flag (sn_is_last_in_book v)\<rparr>)
   | Rfq v \<Rightarrow> Rfq (v\<lparr>rq_state := flag (rq_state v)\<rparr>)
   | _ \<Rightarrow> m)"

text \<open>The texts that are printed in quotes.\<close>

definition quoted_texts :: "sbe_message \<Rightarrow> string list" where
  "quoted_texts m = (case m of
     Instrument v \<Rightarrow> [in_base_currency v, in_quote_currency v, in_counter_currency v, in_settlement_currency v,
       in_size_currency v, in_instrument_name v]
   | InstrumentV2 v \<Rightarrow> [in_base_currency v, in_quote_currency v, in_counter_currency v, in_settlement_currency v,
       in_size_currency v, in_instrument_name v]
   | PriceIndex v \<Rightarrow> [px_index_name v]
   | _ \<Rightarrow> [])"

definition printable :: "sbe_message \<Rightarrow> bool" where
  "printable m \<longleftrightarrow> (\<forall>s\<in>set (quoted_texts m). CHR ''\"'' \<notin> set s)"

lemma printsD [simp]: "prints f \<Longrightarrow> f v = f w \<longleftrightarrow> v = w" "prints f \<Longrightarrow> plain (f v)"
  by (auto simp: prints_def dest: injD)

lemma digit_plain: "d < 10 \<Longrightarrow> digit d \<notin> special"
proof
  assume "d < 10" "digit d \<in> special"
  then have "of_char (digit d) \<in> (of_char ` special :: nat set)" by blast
  with \<open>d < 10\<close> show False by (auto simp: special_def)
qed

lemma plain_show_nat [simp]: "plain (show_nat n)"
  unfolding plain_def using show_nat_digits digit_plain by blast

lemma plain_show_int [simp]: "plain (show_int i)"
  using plain_show_nat by (auto simp: show_int_def plain_def special_def)

lemma show_nat_eq [simp]: "show_nat m = show_nat n \<longleftrightarrow> m = n"
  using show_nat_inj by blast

lemma show_nat_no_sign: "show_nat n \<noteq> CHR ''-'' # s"
proof
  assume "show_nat n = CHR ''-'' # s"
  then obtain d where d: "d < 10" "CHR ''-'' = digit d" using show_nat_digits [of "CHR ''-''" n] by auto
  from arg_cong [OF d(2), of "of_char :: char \<Rightarrow> nat"] d(1) show False by simp
qed

lemma show_int_eq [simp]: "show_int i = show_int j \<longleftrightarrow> i = j"
  using show_nat_no_sign show_nat_no_sign [symmetric] by (auto simp: show_int_def)

lemma word_atom_simps [simp]: "word_atom v = word_atom w \<longleftrightarrow> v = w" "wf_tree (word_atom w)"
  by (simp_all add: word_atom_def word_unat_eq_iff)

lemma yes_no_atom_simps [simp]: "yes_no_atom v = yes_no_atom w \<longleftrightarrow> flag v = flag w" "wf_tree (yes_no_atom v)"
  by (cases v; cases w; simp add: yes_no_atom_def flag_def map_yes_no_def plain_def special_def)+

lemma wf_objs_map: "wf_objs (map f vs) \<longleftrightarrow> (\<forall>v\<in>set vs. wf_fields (f v))"
  by (induction vs) auto

lemma plain_Cons [simp]: "plain []" "plain (c # s) \<longleftrightarrow> c \<notin> special \<and> plain s"
  by (auto simp: plain_def)

lemma wf_items:
  assumes "text_lib_ok x"
  shows "wf_fields (book_change_fields x a)" "wf_fields (combo_leg_fields b)" "wf_fields (tick_step_fields x c)"
    "wf_fields (book_level_fields x d)" "wf_fields (trade_fields x e)"
  using assms
  by (simp_all add: book_change_fields_def combo_leg_fields_def tick_step_fields_def book_level_fields_def
      trade_fields_def text_lib_ok_def) (simp_all add: special_def)

lemma wf_message_tree:
  assumes "text_lib_ok x" "printable m"
  shows "wf_tree (message_tree x m)"
  using assms wf_items [OF assms(1)]
  by (cases m; simp add: message_tree_def book_tree_def combo_legs_tree_def instrument_tree_def instrument_v2_tree_def
      ticker_tree_def price_index_tree_def rfq_tree_def snapshot_tree_def snapshot_start_tree_def trades_tree_def
      wf_objs_map printable_def quoted_texts_def get_instrument_name_def text_lib_ok_def; simp add: special_def)

lemma items_inj:
  assumes "text_lib_ok x"
  shows "inj (book_change_fields x)" "inj combo_leg_fields" "inj (tick_step_fields x)" "inj (book_level_fields x)"
    "inj (trade_fields x)"
  using assms
  by (auto intro!: injI simp: book_change_fields_def combo_leg_fields_def tick_step_fields_def book_level_fields_def
      trade_fields_def text_lib_ok_def)

text \<open>A printed message determines the message, up to the flags.\<close>

lemmas message_trees = book_tree_def combo_legs_tree_def instrument_tree_def instrument_v2_tree_def ticker_tree_def
  price_index_tree_def rfq_tree_def snapshot_tree_def snapshot_start_tree_def trades_tree_def

lemma message_tree_inj:
  assumes "text_lib_ok x" "message_name m = message_name m'" "message_tree x m = message_tree x m'"
  shows "normal m = normal m'"
proof -
  note inj = items_inj [OF assms(1), THEN inj_map_eq_map]
  note x = assms(1) [unfolded text_lib_ok_def]
  show ?thesis
    using assms(2,3)
  proof (cases m)
    case (Instrument v)
    with assms(2) obtain w where "m' = Instrument w" by (cases m') (simp_all add: message_name_def)
    with Instrument assms(3) x show ?thesis
      by (cases v; cases w) (simp add: message_tree_def instrument_tree_def normal_def get_instrument_name_def)
  next
    case (Book v)
    with assms(2) obtain w where "m' = Book w" by (cases m') (simp_all add: message_name_def)
    with Book assms(3) x show ?thesis
      by (cases v; cases w) (simp add: message_tree_def book_tree_def normal_def inj)
  next
    case (Trades v)
    with assms(2) obtain w where "m' = Trades w" by (cases m') (simp_all add: message_name_def)
    with Trades assms(3) x show ?thesis
      by (cases v; cases w) (simp add: message_tree_def trades_tree_def normal_def inj)
  next
    case (Ticker v)
    with assms(2) obtain w where "m' = Ticker w" by (cases m') (simp_all add: message_name_def)
    with Ticker assms(3) x show ?thesis
      by (cases v; cases w) (simp add: message_tree_def ticker_tree_def normal_def)
  next
    case (Snapshot v)
    with assms(2) obtain w where "m' = Snapshot w" by (cases m') (simp_all add: message_name_def)
    with Snapshot assms(3) x show ?thesis
      by (cases v; cases w) (simp add: message_tree_def snapshot_tree_def normal_def inj)
  next
    case (SnapshotStart d)
    with assms(2) obtain w where "m' = SnapshotStart w" by (cases m') (simp_all add: message_name_def)
    with SnapshotStart assms(3) show ?thesis
      by (simp add: message_tree_def snapshot_start_tree_def normal_def)
  next
    case SnapshotEnd
    with assms(2) show ?thesis by (cases m') (simp_all add: message_name_def normal_def)
  next
    case (ComboLegs v)
    with assms(2) obtain w where "m' = ComboLegs w" by (cases m') (simp_all add: message_name_def)
    with ComboLegs assms(3) show ?thesis
      by (cases v; cases w) (simp add: message_tree_def combo_legs_tree_def normal_def inj)
  next
    case (PriceIndex v)
    with assms(2) obtain w where "m' = PriceIndex w" by (cases m') (simp_all add: message_name_def)
    with PriceIndex assms(3) x show ?thesis
      by (cases v; cases w) (simp add: message_tree_def price_index_tree_def normal_def)
  next
    case (Rfq v)
    with assms(2) obtain w where "m' = Rfq w" by (cases m') (simp_all add: message_name_def)
    with Rfq assms(3) x show ?thesis
      by (cases v; cases w) (simp add: message_tree_def rfq_tree_def normal_def)
  next
    case (InstrumentV2 v)
    with assms(2) obtain w where "m' = InstrumentV2 w" by (cases m') (simp_all add: message_name_def)
    with InstrumentV2 assms(3) x show ?thesis
      by (cases v; cases w) (simp add: message_tree_def instrument_v2_tree_def normal_def get_instrument_name_def inj)
  qed
qed

lemma plain_message_name [simp]: "plain (message_name m)"
  by (cases m; simp add: message_name_def; simp add: special_def)

end
