(* ===== verification/Dump.thy ===== *)
theory Dump
  imports Sbe_Text
begin

text \<open>
  The dump tool (\<open>dump/controller.cpp\<close>): it prints the messages of every datagram of a capture
  file. The reader of the file belongs to the framework; \<open>dump_packet\<close> is what it calls for a
  datagram. The state is the text printed so far. The texts of a time stamp, an address and the
  bytes are arguments.
\<close>

record dump_lib =
  dl_text :: text_lib
  dl_timestamp :: "nanoseconds \<Rightarrow> string"
  dl_hex :: "byte list \<Rightarrow> string"

definition dump_line :: "text_lib \<Rightarrow> frame \<Rightarrow> sbe_message \<Rightarrow> string" where
  "dump_line x f m =
     '', channel_id='' @ show_nat (unat (channel_id f)) @ '', sequence_number='' @ show_nat (unat (sequence_number f)) @
     '', '' @ message_name m @ ''='' @ show_tree (message_tree x m)"

definition dump_handler :: "text_lib \<Rightarrow> string sbe_handler" where
  "dump_handler x = \<lparr>on_frame = (\<lambda>s f. (True, s)), on_message = (\<lambda>s m f. Inr (s @ dump_line x f m))\<rparr>"

definition dump_packet ::
    "sbe_codec \<Rightarrow> dump_lib \<Rightarrow> bool \<Rightarrow> nanoseconds \<Rightarrow> string \<Rightarrow> uint16 \<Rightarrow> byte list \<Rightarrow> string \<Rightarrow> (bool \<times> string) result option" where
  "dump_packet c dl print_payload timestamp address port payload s =
     (let s1 = (if print_payload then s @ ''payload='' @ dl_hex dl payload @ ''\<newline>'' else s);
          s2 = s1 @ ''message={timestamp='' @ dl_timestamp dl timestamp @ '', address='' @ address @
            '', port='' @ show_nat (unat port)
      in map_option (\<lambda>r. andthen r (\<lambda>(ok, s3). Inr (False, s3 @ ''}\<newline>'')))
           (dispatch c (dump_handler (dl_text dl)) payload s2))"

section \<open>Datagrams as trees\<close>

definition line_items :: "text_lib \<Rightarrow> frame \<times> sbe_message \<Rightarrow> (string \<times> tree) list" where
  "line_items x = (\<lambda>(f, m). [(''channel_id'', word_atom (channel_id f)), (''sequence_number'', word_atom (sequence_number f)),
     (message_name m, message_tree x m)])"

definition head_items :: "dump_lib \<Rightarrow> nanoseconds \<Rightarrow> string \<Rightarrow> uint16 \<Rightarrow> (string \<times> tree) list" where
  "head_items dl timestamp address port =
     [(''timestamp'', Atom (dl_timestamp dl timestamp)), (''address'', Atom address), (''port'', word_atom port)]"

lemma length_items: "length (line_items x fm) = 3" "length (head_items dl ts a p) = 3"
  by (cases fm) (simp_all add: line_items_def head_items_def)

lemma split_items: "length a = length b \<Longrightarrow> a @ c = b @ d \<Longrightarrow> a = b" "length a = length b \<Longrightarrow> a @ c = b @ d \<Longrightarrow> c = d"
  by simp_all

lemma show_more_append [simp]: "show_more (a @ b) = show_more a @ show_more b"
  by (induction a) simp_all

lemma dump_line_items: "dump_line x f m = show_more (line_items x (f, m))"
  by (simp add: dump_line_def line_items_def word_atom_def)

lemma show_head: "show_fields (head_items dl ts a p @ fs) =
    ''timestamp='' @ dl_timestamp dl ts @ '', address='' @ a @ '', port='' @ show_nat (unat p) @ show_more fs"
  by (simp add: head_items_def word_atom_def)

text \<open>Whatever the bytes are, what has been printed for a datagram is the start of an object.\<close>

definition dumped :: "text_lib \<Rightarrow> string \<Rightarrow> string \<Rightarrow> bool" where
  "dumped x start s \<longleftrightarrow> (\<exists>fms. s = start @ show_more (concat (map (line_items x) fms)))"

interpretation dumping: sbe_stream "dump_handler x" "dumped x start"
proof unfold_locales
  show "dumped x start s \<Longrightarrow> dumped x start (snd (on_frame (dump_handler x) s f))" for s f
    by (simp add: dump_handler_def)
  show "dumped x start s'" if "dumped x start s" "on_message (dump_handler x) s m f = Inr s'" for s s' m f
  proof -
    from that(1) obtain fms where "s = start @ show_more (concat (map (line_items x) fms))"
      by (auto simp: dumped_def)
    with that(2) have "s' = start @ show_more (concat (map (line_items x) (fms @ [(f, m)])))"
      by (auto simp: dump_handler_def dump_line_items)
    then show ?thesis unfolding dumped_def by blast
  qed
qed

lemma dump_packet_object:
  assumes "dump_packet c dl pp ts a p payload s = Some (Inr (r, t))"
  shows "\<not> r \<and> (\<exists>fms. t = s @ (if pp then ''payload='' @ dl_hex dl payload @ ''\<newline>'' else []) @
    ''message='' @ show_tree (Obj (head_items dl ts a p @ concat (map (line_items (dl_text dl)) fms))) @ ''\<newline>'')"
proof -
  let ?start = "(if pp then s @ ''payload='' @ dl_hex dl payload @ ''\<newline>'' else s) @
    ''message={timestamp='' @ dl_timestamp dl ts @ '', address='' @ a @ '', port='' @ show_nat (unat p)"
  from assms obtain ok s3 where d: "dispatch c (dump_handler (dl_text dl)) payload ?start = Some (Inr (ok, s3))"
      "\<not> r" "t = s3 @ ''}\<newline>''"
    by (auto simp: dump_packet_def Let_def andthen_eq_Inr split: if_splits)
  have "dumped (dl_text dl) ?start ?start" unfolding dumped_def by (rule exI [of _ "[]"]) simp
  from dumping.dispatch_keeps [OF d(1) this] obtain fms where
      "s3 = ?start @ show_more (concat (map (line_items (dl_text dl)) fms))"
    by (auto simp: dumped_def)
  with d(2,3) show ?thesis by (intro conjI exI [of _ fms]) (simp_all add: show_head)
qed

lemma dump_messages:
  "foldr_result (\<lambda>m s. on_message (dump_handler x) s m f) ms s =
     Inr (s @ show_more (concat (map (\<lambda>m. line_items x (f, m)) ms)))"
  by (induction ms arbitrary: s) (simp_all add: dump_handler_def dump_line_items)

lemma dump_encoded:
  assumes "\<forall>m\<in>set ms. encodes c enc m"
  shows "dump_packet c dl pp ts a p (frame_bytes f @ concat (map enc ms)) s = Some (Inr (False, s @
    (if pp then ''payload='' @ dl_hex dl (frame_bytes f @ concat (map enc ms)) @ ''\<newline>'' else []) @ ''message='' @
    show_tree (Obj (head_items dl ts a p @ concat (map (\<lambda>m. line_items (dl_text dl) (f, m)) ms))) @ ''\<newline>''))"
proof -
  have "dispatch c (dump_handler x) (frame_bytes f @ concat (map enc ms)) t =
      Some (Inr (True, t @ show_more (concat (map (\<lambda>m. line_items x (f, m)) ms))))" for x t
    using dispatch_packet_encoded [OF assms, of "dump_handler x" f t]
    by (simp add: dispatch_def parse_helper_frame_bytes dump_messages) (simp add: dump_handler_def)
  then show ?thesis by (simp add: dump_packet_def Let_def show_head)
qed

section \<open>Properties\<close>

lemma lines_unique:
  assumes "text_lib_ok x"
    and "concat (map (\<lambda>m. line_items x (f, m)) ms) = concat (map (\<lambda>m. line_items x (f', m)) ms')"
  shows "map normal ms = map normal ms' \<and>
    (ms \<noteq> [] \<longrightarrow> channel_id f = channel_id f' \<and> sequence_number f = sequence_number f')"
  using assms(2)
proof (induction ms arbitrary: ms')
  case Nil
  then show ?case by (cases ms') (simp_all add: line_items_def)
next
  case (Cons m ms)
  then obtain m' ms'' where ms': "ms' = m' # ms''" by (cases ms') (simp_all add: line_items_def)
  with Cons.prems have "line_items x (f, m) @ concat (map (\<lambda>m. line_items x (f, m)) ms) =
      line_items x (f', m') @ concat (map (\<lambda>m. line_items x (f', m)) ms'')" by simp
  note eq = this
  have "length (line_items x (f, m)) = length (line_items x (f', m'))" by (simp only: length_items)
  note lines = split_items [OF this eq]
  from lines(1) have m: "message_name m = message_name m'" "message_tree x m = message_tree x m'"
    and f: "channel_id f = channel_id f' \<and> sequence_number f = sequence_number f'"
    by (simp_all add: line_items_def)
  have "map normal ms = map normal ms''" using Cons.IH [OF lines(2)] by (rule conjunct1)
  moreover have "normal m = normal m'" by (rule message_tree_inj [OF assms(1) m])
  ultimately have "map normal (m # ms) = map normal ms'" unfolding ms' by simp
  with f show ?case by blast
qed

lemma wf_fields_append [simp]: "wf_fields (a @ b) \<longleftrightarrow> wf_fields a \<and> wf_fields b"
  by (induction a) auto

lemma wf_lines:
  "text_lib_ok x \<Longrightarrow> \<forall>m\<in>set ms. printable m \<Longrightarrow> wf_fields (concat (map (\<lambda>m. line_items x (f, m)) ms))"
  by (induction ms) (simp_all add: line_items_def wf_message_tree special_def)


section \<open>A concrete dump\<close>

text \<open>A library that prints every value as a number.\<close>

definition book_side_number :: "book_side \<Rightarrow> nat" where
  "book_side_number v = (case v of BookSide_ask \<Rightarrow> 0 | BookSide_bid \<Rightarrow> 1 | BookSide_NULL_VALUE \<Rightarrow> 255)"

definition direction_number :: "direction \<Rightarrow> nat" where
  "direction_number v = (case v of Direction_buy \<Rightarrow> 0 | Direction_sell \<Rightarrow> 1 | Direction_NULL_VALUE \<Rightarrow> 255)"

definition liquidation_number :: "liquidation \<Rightarrow> nat" where
  "liquidation_number v = (case v of Liquidation_none \<Rightarrow> 0 | Liquidation_maker \<Rightarrow> 1 | Liquidation_taker \<Rightarrow> 2
     | Liquidation_both \<Rightarrow> 3 | Liquidation_NULL_VALUE \<Rightarrow> 255)"

definition state_number :: "sbe_instrument_state \<Rightarrow> nat" where
  "state_number v = (case v of IS_created \<Rightarrow> 0 | IS_open \<Rightarrow> 1 | IS_closed \<Rightarrow> 2 | IS_settled \<Rightarrow> 3 | IS_inactive \<Rightarrow> 4
     | IS_started \<Rightarrow> 5 | IS_deactivated \<Rightarrow> 6 | IS_NULL_VALUE \<Rightarrow> 255)"

definition print_word :: "'w::len word \<Rightarrow> string" where
  "print_word w = show_nat (unat w)"

definition demo_text_lib :: text_lib where
  "demo_text_lib = \<lparr>tl_double = print_word, tl_milliseconds = (\<lambda>v. print_word v @ ''ms''),
     tl_book_side = show_nat \<circ> book_side_number, tl_book_change = print_word, tl_direction = show_nat \<circ> direction_number,
     tl_tick_direction = print_word, tl_liquidation = show_nat \<circ> liquidation_number,
     tl_instrument_state = show_nat \<circ> state_number, tl_instrument_kind = print_word, tl_instrument_type = print_word,
     tl_option_type = print_word, tl_period = print_word, tl_rfq_direction = print_word\<rparr>"

lemma print_word_eq [simp]: "print_word v = print_word w \<longleftrightarrow> v = w" "plain (print_word v)"
  by (simp_all add: print_word_def word_unat_eq_iff)

lemma demo_text_lib_ok: "text_lib_ok demo_text_lib"
proof -
  have "inj book_side_number" "inj direction_number" "inj liquidation_number" "inj state_number"
    by (auto intro!: injI simp: book_side_number_def direction_number_def liquidation_number_def state_number_def
        split: book_side.splits direction.splits liquidation.splits sbe_instrument_state.splits)
  moreover have "plain (s @ ''ms'')" if "plain s" for s using that by (auto simp: plain_def special_def)
  ultimately show ?thesis
    by (simp add: text_lib_ok_def prints_def demo_text_lib_def inj_def)
qed

definition demo_dump_lib :: dump_lib where
  "demo_dump_lib = \<lparr>dl_text = demo_text_lib, dl_timestamp = show_int, dl_hex = (\<lambda>bs. [])\<rparr>"


end
