(* ===== verification/Multicast_Config.thy ===== *)
theory Multicast_Config
  imports Shared "HOL-Library.Multiset"
begin

text \<open>
  The addresses of the multicast feed: the configuration file (\<open>protocol/sbe/config.cpp\<close>), the
  receivers of the two multicast streams that join the groups (\<open>create_receiver\<close> in
  \<open>gateway/udp_events.cpp\<close> and \<open>gateway/udp_snapshot.cpp\<close>), and the tool that prints a filter for
  the same traffic (\<open>filter/controller.cpp\<close>).

  The file system and the JSON library are the record \<open>json_doc_lib\<close>. A member that a document
  does not have is a null document, and only a document that has no members at all makes
  \<open>jd_member\<close> fail, as \<open>operator[]\<close> of the library does; \<open>jd_items\<close> are the members in the order of
  the library. The connections are kept in an unordered map: \<open>order\<close> is the order in which it is
  traversed.
\<close>

section \<open>Configuration\<close>

record 'j json_doc_lib =
  jd_open :: "string \<Rightarrow> string option"
  jd_parse :: "string \<Rightarrow> 'j option"
  jd_member :: "'j \<Rightarrow> string \<Rightarrow> 'j option"
  jd_items :: "'j \<Rightarrow> (string \<times> 'j) list"
  jd_uint16 :: "'j \<Rightarrow> uint16 option"
  jd_string :: "'j \<Rightarrow> string option"

record sbe_connection =
  cn_currency_product :: string
  cn_address :: string

record sbe_config =
  cf_ports :: "uint16 \<times> uint16"
  cf_connections :: "(string \<times> sbe_connection) list"

definition or_throw :: "'a option \<Rightarrow> 'a result" where
  "or_throw v = (case v of None \<Rightarrow> Inl DecodeError | Some a \<Rightarrow> Inr a)"

definition open_document :: "'j json_doc_lib \<Rightarrow> string \<Rightarrow> 'j result" where
  "open_document x path = (case jd_open x path of
     None \<Rightarrow> Inl (RuntimeError (''Unable to open path=\"'' @ path @ ''\"''))
   | Some content \<Rightarrow> or_throw (jd_parse x content))"

definition create_ports :: "'j json_doc_lib \<Rightarrow> string \<Rightarrow> (uint16 \<times> uint16) result" where
  "create_ports x path =
     (if path = [] then Inr (0, 0)
      else andthen (open_document x path) (\<lambda>doc.
           andthen (or_throw (jd_member x doc ''ports'')) (\<lambda>ports.
           andthen (or_throw (jd_member x ports ''events'')) (\<lambda>events.
           andthen (or_throw (jd_uint16 x events)) (\<lambda>events_port.
           andthen (or_throw (jd_member x ports ''snapshot'')) (\<lambda>snapshot.
           andthen (or_throw (jd_uint16 x snapshot)) (\<lambda>snapshot_port.
             Inr (events_port, snapshot_port))))))))"

definition member_string :: "'j json_doc_lib \<Rightarrow> 'j \<Rightarrow> string \<Rightarrow> string result" where
  "member_string x item k = andthen (or_throw (jd_member x item k)) (\<lambda>v. or_throw (jd_string x v))"

text \<open>One channel of the file: \<open>emplace\<close> keeps an entry that is already there.\<close>

definition add_connection ::
    "'j json_doc_lib \<Rightarrow> string list \<Rightarrow> string \<times> 'j \<Rightarrow> (string \<times> sbe_connection) list \<Rightarrow>
     (string \<times> sbe_connection) list result" where
  "add_connection x channel_ids = (\<lambda>(channel_id, item) r.
     if channel_id \<notin> set channel_ids then Inr r
     else andthen (member_string x item ''currency_product'') (\<lambda>currency_product.
          andthen (member_string x item ''address'') (\<lambda>address.
            Inr (if channel_id \<in> fst ` set r then r
                 else r @ [(channel_id, \<lparr>cn_currency_product = currency_product, cn_address = address\<rparr>)]))))"

definition create_connections ::
    "'j json_doc_lib \<Rightarrow> string \<Rightarrow> string list \<Rightarrow> (string \<times> sbe_connection) list result" where
  "create_connections x path channel_ids =
     (if path = [] then Inr []
      else andthen (open_document x path) (\<lambda>doc.
           andthen (or_throw (jd_member x doc ''channels'')) (\<lambda>channels.
             foldr_result (add_connection x channel_ids) (jd_items x channels) [])))"

definition sbe_config_create :: "'j json_doc_lib \<Rightarrow> string \<Rightarrow> string list \<Rightarrow> sbe_config result" where
  "sbe_config_create x path channel_ids =
     andthen (create_ports x path) (\<lambda>ports.
     andthen (create_connections x path channel_ids) (\<lambda>connections.
       Inr \<lparr>cf_ports = ports, cf_connections = connections\<rparr>))"

definition events_port :: "sbe_config \<Rightarrow> uint16" where
  "events_port c = fst (cf_ports c)"

definition snapshot_port :: "sbe_config \<Rightarrow> uint16" where
  "snapshot_port c = snd (cf_ports c)"

type_synonym traversal = "(string \<times> sbe_connection) list \<Rightarrow> (string \<times> sbe_connection) list"

definition get_connections :: "traversal \<Rightarrow> (sbe_connection \<Rightarrow> 'a \<Rightarrow> 'a) \<Rightarrow> sbe_config \<Rightarrow> 'a \<Rightarrow> 'a" where
  "get_connections order callback c = fold (\<lambda>(k, connection). callback connection) (order (cf_connections c))"

definition create_sbe_config :: "'j json_doc_lib \<Rightarrow> settings \<Rightarrow> sbe_config result" where
  "create_sbe_config x s = sbe_config_create x (multicast_config_file s) (multicast_channel_ids s)"

section \<open>Receivers\<close>

text \<open>The calls on the framework, and the addresses as the texts that are resolved.\<close>

datatype receiver_call = Create_Udp_Receiver uint16 | Add_Membership string string

definition create_receiver :: "uint16 \<Rightarrow> settings \<Rightarrow> traversal \<Rightarrow> sbe_config \<Rightarrow> receiver_call list" where
  "create_receiver port s order c =
     get_connections order (\<lambda>connection calls. calls @ [Add_Membership (cn_address connection) (multicast_local_interface s)])
       c [Create_Udp_Receiver port]"

definition ue_create_receiver :: "settings \<Rightarrow> traversal \<Rightarrow> sbe_config \<Rightarrow> receiver_call list" where
  "ue_create_receiver s order c = create_receiver (events_port c) s order c"

definition us_create_receiver :: "settings \<Rightarrow> traversal \<Rightarrow> sbe_config \<Rightarrow> receiver_call list" where
  "us_create_receiver s order c = create_receiver (snapshot_port c) s order c"

section \<open>The filter tool\<close>

definition filter_create :: "string \<Rightarrow> unit result" where
  "filter_create ty = (if ty \<noteq> ''tcpdump'' then Inl (Fatal ''Unexpected: type'') else Inr ())"

definition filter_hosts :: "string list \<Rightarrow> string" where
  "filter_hosts hosts = concat (map (\<lambda>i. ''host '' @ hosts ! i @ (if i \<noteq> length hosts - 1 then '' or '' else []))
     [0..<length hosts])"

definition filter_dispatch ::
    "'j json_doc_lib \<Rightarrow> traversal \<Rightarrow> string \<Rightarrow> string list \<Rightarrow> string result" where
  "filter_dispatch x order config_file channel_ids =
     andthen (sbe_config_create x config_file channel_ids) (\<lambda>config.
       let hosts = get_connections order (\<lambda>connection fs. fs @ [cn_address connection]) config []
       in Inr (''(port '' @ show_nat (unat (events_port config)) @ '' or port '' @
            show_nat (unat (snapshot_port config)) @ '') and ('' @ filter_hosts hosts @ '')''))"

definition filter_main ::
    "'j json_doc_lib \<Rightarrow> traversal \<Rightarrow> string \<Rightarrow> string \<Rightarrow> string list \<Rightarrow> string result" where
  "filter_main x order ty config_file channel_ids =
     andthen (filter_create ty) (\<lambda>u. filter_dispatch x order config_file channel_ids)"

section \<open>Facts\<close>

lemma or_throw_Inr [simp]: "or_throw v = Inr a \<longleftrightarrow> v = Some a"
  by (simp add: or_throw_def split: option.split)

text \<open>The addresses a traversal visits, and the groups among the calls on a receiver.\<close>

definition addresses :: "(string \<times> sbe_connection) list \<Rightarrow> string list" where
  "addresses = map (cn_address \<circ> snd)"

fun groups :: "receiver_call list \<Rightarrow> string list" where
  "groups [] = []"
| "groups (Add_Membership a l # cs) = a # groups cs"
| "groups (Create_Udp_Receiver p # cs) = groups cs"

lemma groups_append [simp]: "groups (as @ bs) = groups as @ groups bs"
  by (induction as rule: groups.induct) simp_all

lemma fold_connections:
  "fold (\<lambda>(k, connection) r. r @ [f connection]) cs r = r @ map (f \<circ> snd) cs"
  by (induction cs arbitrary: r) auto

lemma create_receiver_calls:
  "create_receiver port s order c =
     Create_Udp_Receiver port # map (\<lambda>a. Add_Membership a (multicast_local_interface s)) (addresses (order (cf_connections c)))"
  by (simp add: create_receiver_def get_connections_def fold_connections addresses_def)

lemma groups_memberships [simp]: "groups (map (\<lambda>a. Add_Membership a l) as) = as"
  by (induction as) simp_all

lemma filter_hosts_join: "filter_hosts hosts = join_text '' or '' (map ((@) ''host '') hosts)"
proof (induction hosts rule: induct_list012)
  case (3 x y zs)
  have "filter_hosts (x # y # zs) = ''host '' @ x @ '' or '' @ filter_hosts (y # zs)"
    by (simp add: filter_hosts_def upt_conv_Cons map_Suc_upt [symmetric] comp_def del: upt_Suc)
  with 3 show ?case by simp
qed (simp_all add: filter_hosts_def)

text \<open>
  The loop over the channels: the keys of the result are the configured channels of the file,
  each with the address of an entry of the file.
\<close>

definition described :: "'j json_doc_lib \<Rightarrow> (string \<times> 'j) list \<Rightarrow> string \<times> sbe_connection \<Rightarrow> bool" where
  "described x items c \<longleftrightarrow> (\<exists>item. (fst c, item) \<in> set items \<and>
     member_string x item ''address'' = Inr (cn_address (snd c)))"

lemma described_mono: "described x items c \<Longrightarrow> set items \<subseteq> set items' \<Longrightarrow> described x items' c"
  unfolding described_def by blast

lemma add_connection_cases:
  assumes "add_connection x ids (k, item) r = Inr u"
  obtains (old) "u = r" "k \<in> set ids \<longrightarrow> k \<in> fst ` set r"
    | (new) cn where "u = r @ [(k, cn)]" "k \<in> set ids" "k \<notin> fst ` set r"
        "member_string x item ''address'' = Inr (cn_address cn)"
proof (cases "k \<in> set ids \<and> k \<notin> fst ` set r")
  case True
  with assms obtain a b where "member_string x item ''address'' = Inr b"
      "u = r @ [(k, \<lparr>cn_currency_product = a, cn_address = b\<rparr>)]"
    by (auto simp: add_connection_def andthen_eq_Inr)
  with True show ?thesis by (intro new) auto
next
  case False
  with assms show ?thesis by (intro old) (auto simp: add_connection_def andthen_eq_Inr split: if_splits)
qed

lemma add_connections:
  assumes "foldr_result (add_connection x ids) items r = Inr t"
  shows "fst ` set t = fst ` set r \<union> (fst ` set items \<inter> set ids)" (is ?keys)
    and "distinct (map fst r) \<Longrightarrow> distinct (map fst t)" (is "_ \<Longrightarrow> ?distinct")
    and "\<forall>c\<in>set r. described x all c \<Longrightarrow> set items \<subseteq> set all \<Longrightarrow> \<forall>c\<in>set t. described x all c"
      (is "_ \<Longrightarrow> _ \<Longrightarrow> ?described")
proof -
  have "?keys \<and> (distinct (map fst r) \<longrightarrow> ?distinct) \<and>
      ((\<forall>c\<in>set r. described x all c) \<longrightarrow> set items \<subseteq> set all \<longrightarrow> ?described)"
    using assms
  proof (induction items arbitrary: r)
    case Nil
    then show ?case by simp
  next
    case (Cons i items)
    obtain k item where i: "i = (k, item)" by (cases i)
    from Cons.prems obtain u where u: "add_connection x ids (k, item) r = Inr u"
        "foldr_result (add_connection x ids) items u = Inr t"
      by (auto simp: andthen_eq_Inr i)
    from Cons.IH [OF u(2)] have IH: "fst ` set t = fst ` set u \<union> (fst ` set items \<inter> set ids)"
        "distinct (map fst u) \<Longrightarrow> distinct (map fst t)"
        "\<forall>c\<in>set u. described x all c \<Longrightarrow> set items \<subseteq> set all \<Longrightarrow> \<forall>c\<in>set t. described x all c"
      by simp_all
    from u(1) show ?case
    proof (cases rule: add_connection_cases)
      case old
      then have "fst ` set r \<union> (fst ` set (i # items) \<inter> set ids) = fst ` set u \<union> (fst ` set items \<inter> set ids)"
        using i by auto
      with IH old(1) show ?thesis by simp
    next
      case (new cn)
      have "fst ` set r \<union> (fst ` set (i # items) \<inter> set ids) = fst ` set u \<union> (fst ` set items \<inter> set ids)"
        using new i by auto
      moreover have "distinct (map fst u)" if "distinct (map fst r)"
        using that new by simp
      moreover have "\<forall>c\<in>set u. described x all c" if "\<forall>c\<in>set r. described x all c" "set (i # items) \<subseteq> set all"
        using that new i by (auto simp: described_def)
      moreover have "set items \<subseteq> set all" if "set (i # items) \<subseteq> set all" using that by simp
      ultimately show ?thesis using IH by (intro conjI impI) simp_all
    qed
  qed
  then show ?keys "distinct (map fst r) \<Longrightarrow> ?distinct"
    "\<forall>c\<in>set r. described x all c \<Longrightarrow> set items \<subseteq> set all \<Longrightarrow> ?described"
    by blast+
qed

lemma sbe_config_channels:
  assumes "sbe_config_create x path ids = Inr c" and "path \<noteq> []"
  obtains doc channels where "open_document x path = Inr doc" "jd_member x doc ''channels'' = Some channels"
    "fst ` set (cf_connections c) = fst ` set (jd_items x channels) \<inter> set ids"
    "distinct (map fst (cf_connections c))"
    "\<forall>e\<in>set (cf_connections c). described x (jd_items x channels) e"
proof -
  from assms obtain doc channels where doc: "open_document x path = Inr doc"
      "jd_member x doc ''channels'' = Some channels"
      "foldr_result (add_connection x ids) (jd_items x channels) [] = Inr (cf_connections c)"
    by (auto simp: sbe_config_create_def create_connections_def andthen_eq_Inr split: if_splits)
  show ?thesis
    using add_connections(1,2) [OF doc(3)] add_connections(3) [OF doc(3), of "jd_items x channels"]
    by (intro that [OF doc(1,2)]) simp_all
qed

section \<open>Properties\<close>

text \<open>Every address comes from an item of the file whose channel is configured.\<close>

lemma address_described:
  assumes "\<forall>e\<in>set cs. described x items e" "fst ` set cs = fst ` set items \<inter> set ids" "a \<in> set (addresses cs)"
  shows "\<exists>k item. (k, item) \<in> set items \<and> k \<in> set ids \<and> member_string x item ''address'' = Inr a"
proof -
  from assms(3) obtain e where e: "e \<in> set cs" "a = cn_address (snd e)" by (auto simp: addresses_def)
  from e(1) have "fst e \<in> fst ` set cs" by (rule imageI)
  then have "fst e \<in> set ids" unfolding assms(2) by simp
  moreover from bspec [OF assms(1) e(1)] obtain item where "(fst e, item) \<in> set items"
      "member_string x item ''address'' = Inr (cn_address (snd e))"
    unfolding described_def by (elim exE conjE) (rule that)
  ultimately show ?thesis using e(2) by (intro exI [of _ "fst e"] exI [of _ item]) simp
qed


section \<open>A concrete file\<close>

datatype demo_json = DJ_Null | DJ_Number uint16 | DJ_Text string | DJ_Object "(string \<times> demo_json) list"

fun demo_member :: "demo_json \<Rightarrow> string \<Rightarrow> demo_json option" where
  "demo_member DJ_Null k = Some DJ_Null"
| "demo_member (DJ_Object ms) k = Some (case map_of ms k of None \<Rightarrow> DJ_Null | Some v \<Rightarrow> v)"
| "demo_member _ k = None"

definition demo_channel :: "string \<Rightarrow> string \<Rightarrow> demo_json" where
  "demo_channel p a = DJ_Object [(''currency_product'', DJ_Text p), (''address'', DJ_Text a)]"

definition demo_channels :: "(string \<times> demo_json) list" where
  "demo_channels = [(''57'', demo_channel ''BTC-futures'' ''239.1.1.1''), (''60'', demo_channel ''ETH-futures'' ''239.1.1.2''),
     (''61'', demo_channel ''ETH-options'' ''239.1.1.3'')]"

definition demo_document :: demo_json where
  "demo_document = DJ_Object [(''ports'', DJ_Object [(''events'', DJ_Number 6100), (''snapshot'', DJ_Number 6200)]),
     (''channels'', DJ_Object demo_channels)]"

definition demo_doc_lib :: "demo_json json_doc_lib" where
  "demo_doc_lib = \<lparr>jd_open = (\<lambda>path. if path = ''config.json'' then Some [] else None),
     jd_parse = (\<lambda>content. Some demo_document), jd_member = demo_member,
     jd_items = (\<lambda>j. case j of DJ_Object ms \<Rightarrow> ms | _ \<Rightarrow> []),
     jd_uint16 = (\<lambda>j. case j of DJ_Number n \<Rightarrow> Some n | _ \<Rightarrow> None),
     jd_string = (\<lambda>j. case j of DJ_Text s \<Rightarrow> Some s | _ \<Rightarrow> None)\<rparr>"

definition demo_config :: sbe_config where
  "demo_config = \<lparr>cf_ports = (6100, 6200), cf_connections =
     [(''57'', \<lparr>cn_currency_product = ''BTC-futures'', cn_address = ''239.1.1.1''\<rparr>),
      (''61'', \<lparr>cn_currency_product = ''ETH-options'', cn_address = ''239.1.1.3''\<rparr>)]\<rparr>"

lemma demo_config_created: "sbe_config_create demo_doc_lib ''config.json'' [''61'', ''57'', ''99''] = Inr demo_config"
  by code_simp

text \<open>The filter of the same file, and the error of a file that cannot be opened.\<close>

lemma demo_filter:
  "filter_dispatch demo_doc_lib order [] ids =
     Inr (''(port '' @ show_nat 0 @ '' or port '' @ show_nat 0 @ '') and ('' @ filter_hosts (addresses (order [])) @ '')'')"
  "filter_dispatch demo_doc_lib order ''other.json'' ids = Inl (RuntimeError ''Unable to open path=\"other.json\"'')"
  by (simp_all add: filter_dispatch_def sbe_config_create_def create_ports_def create_connections_def
      get_connections_def fold_connections events_port_def snapshot_port_def addresses_def open_document_def
      demo_doc_lib_def)


end
